(* ===== verification/Prelude.thy ===== *)
theory Prelude
  imports Complex_Main "HOL-Library.Finite_Map" "HOL-Library.Multiset"
    "HOL-Library.List_Lexorder" "HOL-Library.Char_ord" "HOL-Library.Word"
begin

text \<open>
  What the other theories share: Go's errors and panics as values, the parts of Go's
  \<open>strings\<close>, \<open>strconv\<close> and \<open>sort\<close> packages the program calls, the iteration order of Go
  maps, and the generic lemmas about them.

  A Go string is a sequence of bytes, so it is an Isabelle \<open>string\<close> (a list of 8-bit
  characters). A Go map is a finite map; where the program ranges over one, the order is
  not determined by the language and is an argument of the definition.
\<close>

named_theorems result_simps \<open>how errors pass through a sequence of calls\<close>
named_theorems str_simps \<open>Go string functions\<close>

section \<open>Errors and panics\<close>

text \<open>
  An \<open>error\<close> value of Go is its text and, since the program asks for it with
  \<open>errors.Cause\<close>, \<open>IsNotFound\<close> and \<open>IsAlreadyExists\<close>, what caused it. A run-time panic
  (an index out of range, a nil dereference, a failed type assertion) is not an error
  value: it ends the program, so it is a second kind of fault.
\<close>

datatype cause = ErrMissing | NotFound | AlreadyExists | OtherCause

datatype goerror = GoError (errorText: string) (errorCause: cause)

datatype fault = Error goerror | Panic string

type_synonym 'a ret = "goerror + 'a"
type_synonym 'a result = "fault + 'a"

definition errorf :: "string \<Rightarrow> goerror" where
  "errorf s = GoError s OtherCause"

fun bindR :: "'e + 'a \<Rightarrow> ('a \<Rightarrow> 'e + 'b) \<Rightarrow> 'e + 'b" where
  "bindR (Inl e) f = Inl e"
| "bindR (Inr v) f = f v"

definition liftR :: "'a ret \<Rightarrow> 'a result" where
  "liftR r = map_sum Error id r"

lemma liftR_simps [simp]: "liftR (Inl e) = Inl (Error e)" "liftR (Inr v) = Inr v"
  by (simp_all add: liftR_def)

lemma liftR_eq_Inr [simp]: "liftR r = Inr v \<longleftrightarrow> r = Inr v"
  by (cases r) auto

lemma liftR_not_Panic [simp]: "liftR r \<noteq> Inl (Panic p)"
  by (cases r) auto

lemma bindR_assoc [result_simps]: "bindR (bindR r f) g = bindR r (\<lambda>x. bindR (f x) g)"
  by (cases r) auto

lemma bindR_eq_Inr [result_simps]:
  "bindR r f = Inr y \<longleftrightarrow> (\<exists>x. r = Inr x \<and> f x = Inr y)"
  by (cases r) auto

lemma bindR_eq_Inl [result_simps]:
  "bindR r f = Inl e \<longleftrightarrow> r = Inl e \<or> (\<exists>x. r = Inr x \<and> f x = Inl e)"
  by (cases r) auto

text \<open>
  A loop that appends what each round returns and leaves at the first fault:
  \<open>for _, x := range xs { ys, err := f(x); if err != nil { return err }; out = append(out, ys...) }\<close>.
\<close>

fun concatR :: "('a \<Rightarrow> 'e + 'b list) \<Rightarrow> 'a list \<Rightarrow> 'e + 'b list" where
  "concatR f [] = Inr []"
| "concatR f (x # xs) = bindR (f x) (\<lambda>ys. bindR (concatR f xs) (\<lambda>zs. Inr (ys @ zs)))"

lemma concatR_total:
  assumes "\<And>x. x \<in> set xs \<Longrightarrow> f x = Inr (g x)"
  shows "concatR f xs = Inr (concat (map g xs))"
  using assms by (induction xs) auto

lemma concatR_cong [fundef_cong]:
  assumes "xs = ys" "\<And>x. x \<in> set ys \<Longrightarrow> f x = g x"
  shows "concatR f xs = concatR g ys"
  using assms(2) unfolding assms(1) by (induction ys) auto

lemma concatR_Inr_mem:
  assumes "concatR f xs = Inr ys" and "y \<in> set ys"
  shows "\<exists>x zs. x \<in> set xs \<and> f x = Inr zs \<and> y \<in> set zs"
  using assms by (induction xs arbitrary: ys) (fastforce simp: result_simps)+

lemma concatR_Inr_each:
  "concatR f xs = Inr ys \<Longrightarrow> x \<in> set xs \<Longrightarrow> \<exists>zs. f x = Inr zs \<and> set zs \<subseteq> set ys"
  by (induction xs arbitrary: ys) (fastforce simp: result_simps)+

text \<open>\<open>for i, x := range xs\<close>: the elements with their indices.\<close>

definition indexed :: "'a list \<Rightarrow> (nat \<times> 'a) list" where
  "indexed xs = zip [0..<length xs] xs"

lemma set_indexed: "(i, x) \<in> set (indexed xs) \<longleftrightarrow> i < length xs \<and> x = xs ! i"
  by (force simp: indexed_def in_set_zip)

lemma indexed_Nil [simp]: "indexed [] = []"
  by (simp add: indexed_def)

section \<open>Go maps\<close>

text \<open>
  \<open>enumerates ks m\<close>: \<open>ks\<close> is an order in which \<open>for k := range m\<close> may visit the keys.
\<close>

definition enumerates :: "'k list \<Rightarrow> ('k, 'v) fmap \<Rightarrow> bool" where
  "enumerates ks m \<longleftrightarrow> distinct ks \<and> set ks = fset (fmdom m)"

definition ranges_map :: "(('k, 'v) fmap \<Rightarrow> 'k list) \<Rightarrow> bool" where
  "ranges_map ord \<longleftrightarrow> (\<forall>m. enumerates (ord m) m)"

lemma fset_fmdom_iff: "k \<in> fset (fmdom m) \<longleftrightarrow> fmlookup m k \<noteq> None"
  by (metis fmdom'_notD fmdom'_notI fmdom'_alt_def)

lemma ranges_map_sorted [intro, simp]:
  "ranges_map (\<lambda>m :: ('k::linorder, 'v) fmap. sorted_list_of_set (fset (fmdom m)))"
  by (simp add: ranges_map_def enumerates_def)

lemma fmupd_eq_iff [simp]: "fmupd k v m = fmupd k w m \<longleftrightarrow> v = w"
  by (metis fmupd_lookup option.inject)

lemma fmupd_not_empty [simp]: "fmupd k v m \<noteq> fmempty" "fmempty \<noteq> fmupd k v m"
  by (metis fmempty_lookup fmupd_lookup option.distinct(1))+

lemma enumerates_mem: "enumerates ks m \<Longrightarrow> k \<in> set ks \<longleftrightarrow> fmlookup m k \<noteq> None"
  by (metis enumerates_def fset_fmdom_iff)

text \<open>Filling a map from a list of pairs: the last value of a key is kept.\<close>

lemma foldl_fmupd_lookup:
  "fmlookup (foldl (\<lambda>m (k, v). fmupd k v m) m0 kvs) x =
   (case map_of (rev kvs) x of None \<Rightarrow> fmlookup m0 x | Some v \<Rightarrow> Some v)"
  by (induction kvs arbitrary: m0) (auto simp: map_add_def split: option.splits)

text \<open>An order to range in, for evaluation on concrete maps.\<close>

definition sorted_keys :: "('k::linorder, 'v) fmap \<Rightarrow> 'k list" where
  "sorted_keys m = sorted_list_of_set (fset (fmdom m))"

lemma ranges_sorted_keys [simp]: "ranges_map sorted_keys"
  unfolding sorted_keys_def by simp

lemma enumerates_sorted_keys [simp]: "enumerates (sorted_keys m) m"
  by (simp add: sorted_keys_def enumerates_def)

lemma ranges_rev_sorted_keys [simp]: "ranges_map (\<lambda>m. rev (sorted_keys m))"
  using ranges_sorted_keys by (simp add: ranges_map_def enumerates_def)

end
