(* ===== verification/GoStrings.thy ===== *)
theory GoStrings
  imports Prelude
begin

text \<open>
  The functions of Go's \<open>strings\<close>, \<open>bytes\<close> and \<open>strconv\<close> packages that the program
  calls, on byte strings. Each one is the behaviour the package documents, for the
  arguments the program passes: separators and replaced texts are single bytes everywhere
  but in \<open>strings.Contains\<close> and \<open>bytes.Index\<close>.
\<close>

section \<open>Split and Join\<close>

text \<open>\<open>strings.Split(s, sep)\<close> for a separator of one byte: never the empty list.\<close>

fun split1 :: "char \<Rightarrow> string \<Rightarrow> string list" where
  "split1 c [] = [[]]"
| "split1 c (x # xs) =
     (if x = c then [] # split1 c xs
      else case split1 c xs of [] \<Rightarrow> [[x]] | y # ys \<Rightarrow> (x # y) # ys)"

fun joinS :: "string \<Rightarrow> string list \<Rightarrow> string" where
  "joinS sep [] = []"
| "joinS sep [x] = x"
| "joinS sep (x # y # ys) = x @ sep @ joinS sep (y # ys)"

lemma split1_nonempty [simp]: "split1 c s \<noteq> []"
  by (induction s) (auto split: list.splits)

lemma split1_cons:
  "x \<noteq> c \<Longrightarrow> split1 c (x # xs) = (x # hd (split1 c xs)) # tl (split1 c xs)"
  by (cases "split1 c xs") auto

lemma split1_no_sep: "c \<notin> set s \<Longrightarrow> split1 c s = [s]"
  by (induction s) auto

lemma split1_append_sep:
  "c \<notin> set x \<Longrightarrow> split1 c (x @ c # s) = x # split1 c s"
  by (induction x) auto

lemma split1_append: "split1 c (x @ c # s) = split1 c x @ split1 c s"
  by (induction x) (auto split: list.splits)

lemma split1_parts: "x \<in> set (split1 c s) \<Longrightarrow> c \<notin> set x"
  by (induction s arbitrary: x) (auto split: list.splits if_splits)

lemma joinS_cons: "xs \<noteq> [] \<Longrightarrow> joinS sep (x # xs) = x @ sep @ joinS sep xs"
  by (cases xs) auto

lemma join_split1 [str_simps]: "joinS [c] (split1 c s) = s"
proof (induction s)
  case Nil
  then show ?case by simp
next
  case (Cons x s)
  obtain y ys where "split1 c s = y # ys" by (cases "split1 c s") auto
  with Cons show ?case by (cases ys) (auto simp: joinS_cons)
qed

lemma split_join1 [str_simps]:
  "xs \<noteq> [] \<Longrightarrow> (\<And>x. x \<in> set xs \<Longrightarrow> c \<notin> set x) \<Longrightarrow> split1 c (joinS [c] xs) = xs"
proof (induction xs)
  case (Cons x xs)
  then show ?case
    by (cases "xs = []") (auto simp: joinS_cons split1_append_sep split1_no_sep)
qed simp

text \<open>\<open>strings.SplitN(s, sep, 2)\<close>: at most one cut, at the first separator.\<close>

fun splitN2 :: "char \<Rightarrow> string \<Rightarrow> string list" where
  "splitN2 c [] = [[]]"
| "splitN2 c (x # xs) =
     (if x = c then [[], xs]
      else case splitN2 c xs of [] \<Rightarrow> [[x]] | y # ys \<Rightarrow> (x # y) # ys)"

lemma splitN2_append: "c \<notin> set x \<Longrightarrow> splitN2 c (x @ c # s) = [x, s]"
  by (induction x) auto

lemma splitN2_no_sep: "c \<notin> set s \<Longrightarrow> splitN2 c s = [s]"
  by (induction s) auto

section \<open>Prefixes, suffixes, search\<close>

fun hasPrefix :: "string \<Rightarrow> string \<Rightarrow> bool" where
  "hasPrefix [] s = True"
| "hasPrefix (p # ps) [] = False"
| "hasPrefix (p # ps) (x # xs) = (p = x \<and> hasPrefix ps xs)"

lemma hasPrefix_append: "hasPrefix p s \<longleftrightarrow> (\<exists>t. s = p @ t)"
  by (induction p s rule: hasPrefix.induct) auto

lemma hasPrefix_self [simp]: "hasPrefix p (p @ s)"
  by (auto simp: hasPrefix_append)

definition hasSuffix :: "string \<Rightarrow> string \<Rightarrow> bool" where
  "hasSuffix p s = hasPrefix (rev p) (rev s)"

lemma hasSuffix_append: "hasSuffix p s \<longleftrightarrow> (\<exists>t. s = t @ p)"
  by (metis hasPrefix_append hasSuffix_def rev_append rev_rev_ident)

lemma hasSuffix_self [simp]: "hasSuffix p (s @ p)"
  by (auto simp: hasSuffix_append)

definition trimSuffix :: "string \<Rightarrow> string \<Rightarrow> string" where
  "trimSuffix p s = (if hasSuffix p s then take (length s - length p) s else s)"

lemma trimSuffix_append [simp]: "trimSuffix p (s @ p) = s"
  by (simp add: trimSuffix_def)

text \<open>\<open>bytes.Index(s, sub)\<close> and \<open>strings.Contains(s, sub)\<close>; \<open>None\<close> stands for -1.\<close>

fun indexOf :: "string \<Rightarrow> string \<Rightarrow> nat option" where
  "indexOf sub [] = (if sub = [] then Some 0 else None)"
| "indexOf sub (x # xs) =
     (if hasPrefix sub (x # xs) then Some 0 else map_option Suc (indexOf sub xs))"

definition containsS :: "string \<Rightarrow> string \<Rightarrow> bool" where
  "containsS s sub = (indexOf sub s \<noteq> None)"

lemma indexOf_SomeD:
  "indexOf sub s = Some i \<Longrightarrow> \<exists>t. s = take i s @ sub @ t \<and> i + length sub \<le> length s"
proof (induction sub s arbitrary: i rule: indexOf.induct)
  case (2 sub x xs)
  show ?case
  proof (cases "hasPrefix sub (x # xs)")
    case True
    then obtain t where t: "x # xs = sub @ t" by (auto simp: hasPrefix_append)
    from True 2(2) have "i = 0" by auto
    moreover from t have "length sub \<le> length (x # xs)" by simp
    ultimately show ?thesis using t by auto
  next
    case False
    with 2(2) obtain j where j: "indexOf sub xs = Some j" "i = Suc j" by auto
    from 2(1)[OF False j(1)] j(2) show ?thesis by auto
  qed
qed (auto split: if_splits)

lemma indexOf_None: "indexOf sub s = None \<longleftrightarrow> (\<nexists>a b. s = a @ sub @ b)"
proof (induction sub s rule: indexOf.induct)
  case (1 sub)
  then show ?case by auto
next
  case (2 sub x xs)
  show ?case
  proof (cases "hasPrefix sub (x # xs)")
    case True
    then show ?thesis by (auto simp: hasPrefix_append) (metis append_Nil)
  next
    case False
    then have "(\<exists>a b. x # xs = a @ sub @ b) \<longleftrightarrow> (\<exists>a b. xs = a @ sub @ b)"
      by (metis (no_types, opaque_lifting) append_Cons append_eq_Cons_conv hasPrefix_append)
    with False 2 show ?thesis by simp
  qed
qed

lemma indexOf_append:
  "(\<And>i. i < length a \<Longrightarrow> \<not> hasPrefix sub (drop i (a @ sub @ b))) \<Longrightarrow>
   indexOf sub (a @ sub @ b) = Some (length a)"
proof (induction a)
  case Nil
  have "hasPrefix sub (sub @ b)" by simp
  then show ?case by (cases "sub @ b") (auto simp del: hasPrefix_self)
next
  case (Cons x a)
  from Cons.prems[of 0] have "\<not> hasPrefix sub (x # a @ sub @ b)" by simp
  moreover have "indexOf sub (a @ sub @ b) = Some (length a)"
    by (rule Cons.IH) (use Cons.prems[of "Suc i" for i] in simp)
  ultimately show ?case by simp
qed

lemma containsS_iff: "containsS s sub \<longleftrightarrow> (\<exists>a b. s = a @ sub @ b)"
  by (auto simp: containsS_def indexOf_None)

section \<open>Replacing and trimming\<close>

text \<open>\<open>strings.ReplaceAll(s, old, new)\<close> for an \<open>old\<close> of one byte.\<close>

definition replaceAll :: "char \<Rightarrow> string \<Rightarrow> string \<Rightarrow> string" where
  "replaceAll old new s = concat (map (\<lambda>c. if c = old then new else [c]) s)"

lemma replaceAll_Nil [simp]: "replaceAll a r [] = []"
  by (simp add: replaceAll_def)

lemma replaceAll_Cons: "replaceAll a r (c # s) = (if c = a then r else [c]) @ replaceAll a r s"
  by (simp add: replaceAll_def)

lemma replaceAll_append [str_simps]:
  "replaceAll a r (s @ t) = replaceAll a r s @ replaceAll a r t"
  by (simp add: replaceAll_def)

lemma replaceAll_id: "a \<notin> set s \<Longrightarrow> replaceAll a r s = s"
  by (induction s) (auto simp: replaceAll_Cons)

lemma set_replaceAll1:
  "set (replaceAll a [b] s) = (if a \<in> set s then insert b (set s - {a}) else set s)"
  by (auto simp: replaceAll_def)

lemma length_replaceAll1 [simp]: "length (replaceAll a [b] s) = length s"
  by (induction s) (auto simp: replaceAll_Cons)

text \<open>\<open>strings.Trim(s, cutset)\<close>, \<open>strings.TrimRight(s, cutset)\<close> and \<open>bytes.TrimSpace\<close>
  (ASCII white space).\<close>

definition trimRight :: "char list \<Rightarrow> string \<Rightarrow> string" where
  "trimRight cs s = rev (dropWhile (\<lambda>c. c \<in> set cs) (rev s))"

definition trimS :: "char list \<Rightarrow> string \<Rightarrow> string" where
  "trimS cs s = trimRight cs (dropWhile (\<lambda>c. c \<in> set cs) s)"

definition white :: "char list" where
  "white = [CHR 0x20, CHR 0x09, CHR 0x0A, CHR 0x0B, CHR 0x0C, CHR 0x0D]"

definition trimSpace :: "string \<Rightarrow> string" where
  "trimSpace s = trimS white s"

lemma trimS_Nil_iff: "trimS cs s = [] \<longleftrightarrow> set s \<subseteq> set cs"
proof -
  have "trimS cs s = [] \<longleftrightarrow> (\<forall>x\<in>set (dropWhile (\<lambda>c. c \<in> set cs) s). x \<in> set cs)"
    by (simp add: trimS_def trimRight_def dropWhile_eq_Nil_conv)
  also have "\<dots> \<longleftrightarrow> set s \<subseteq> set cs"
    by (induction s) auto
  finally show ?thesis .
qed

section \<open>Lower case\<close>

text \<open>
  \<open>strings.ToLower\<close> works byte by byte on an ASCII string and goes through the Unicode
  tables otherwise; the tables are the argument \<open>uni\<close>.
\<close>

definition is_ascii :: "string \<Rightarrow> bool" where
  "is_ascii s = list_all (\<lambda>c. of_char c < (128::nat)) s"

definition lower_char :: "char \<Rightarrow> char" where
  "lower_char c =
     (if (65::nat) \<le> of_char c \<and> of_char c \<le> (90::nat)
      then char_of (of_char c + (32::nat)) else c)"

definition toLower :: "(string \<Rightarrow> string) \<Rightarrow> string \<Rightarrow> string" where
  "toLower uni s = (if is_ascii s then map lower_char s else uni s)"

lemma lower_char_range:
  "(65::nat) \<le> of_char c \<Longrightarrow> of_char c \<le> (90::nat) \<Longrightarrow>
   of_char (lower_char c) = of_char c + (32::nat)"
  by (simp add: lower_char_def take_bit_eq_mod)

lemma lower_char_code:
  "of_char (lower_char c) = (let n = of_char c :: nat in if 65 \<le> n \<and> n \<le> 90 then n + 32 else n)"
  by (simp add: lower_char_def Let_def take_bit_eq_mod)

lemma lower_char_eq_iff:
  assumes "of_char d < (97::nat)"
  shows "lower_char c = d \<longleftrightarrow> c = d \<and> \<not> (65 \<le> (of_char c::nat) \<and> of_char c \<le> (90::nat))"
proof -
  have "lower_char c = d \<longleftrightarrow> (of_char (lower_char c) :: nat) = of_char d"
    by simp
  with assms show ?thesis
    by (auto simp: lower_char_code Let_def lower_char_def)
qed

end
