(* ===== verification/GoConv.thy ===== *)
theory GoConv
  imports GoStrings
begin

text \<open>
  Go's \<open>strconv\<close> conversions (\<open>Itoa\<close>, \<open>FormatInt\<close>, \<open>Atoi\<close>, \<open>ParseBool\<close>) and the
  iteration of \<open>for i, r := range s\<close> over the UTF-8 runes of a string.
\<close>

section \<open>Decimal numbers\<close>

definition digit_char :: "nat \<Rightarrow> char" where
  "digit_char n = char_of (48 + n)"

definition is_digit :: "char \<Rightarrow> bool" where
  "is_digit c = ((48::nat) \<le> of_char c \<and> of_char c \<le> (57::nat))"

definition digit_val :: "char \<Rightarrow> nat" where
  "digit_val c = of_char c - 48"

fun showNat :: "nat \<Rightarrow> string" where
  "showNat n = (if n < 10 then [digit_char n] else showNat (n div 10) @ [digit_char (n mod 10)])"

declare showNat.simps [simp del]

definition readNat :: "string \<Rightarrow> nat" where
  "readNat s = foldl (\<lambda>n c. 10 * n + digit_val c) 0 s"

text \<open>\<open>strconv.Itoa(i)\<close> and \<open>strconv.FormatInt(i, 10)\<close>.\<close>

definition itoa :: "int \<Rightarrow> string" where
  "itoa i = (if i < 0 then CHR ''-'' # showNat (nat (- i)) else showNat (nat i))"

text \<open>
  \<open>strconv.Atoi(s)\<close>: an optional sign and at least one digit, and nothing else; the value
  must fit Go's 64-bit \<open>int\<close>.
\<close>

definition atoi :: "string \<Rightarrow> int ret" where
  "atoi s =
     (let (neg, ds) = (case s of [] \<Rightarrow> (False, [])
                        | c # cs \<Rightarrow> if c = CHR ''-'' then (True, cs)
                                    else if c = CHR ''+'' then (False, cs) else (False, s));
          v = (if neg then - int (readNat ds) else int (readNat ds))
      in if ds = [] \<or> \<not> list_all is_digit ds
         then Inl (errorf (''strconv.Atoi: parsing '' @ s @ '': invalid syntax''))
         else if v < - (2 ^ 63) \<or> 2 ^ 63 \<le> v
         then Inl (errorf (''strconv.Atoi: parsing '' @ s @ '': value out of range''))
         else Inr v)"

lemma digit_val_char [simp]: "n < 10 \<Longrightarrow> digit_val (digit_char n) = n"
  by (simp add: digit_val_def digit_char_def take_bit_eq_mod)

lemma is_digit_char [simp]: "n < 10 \<Longrightarrow> is_digit (digit_char n)"
  by (simp add: is_digit_def digit_char_def take_bit_eq_mod)

lemma showNat_digits: "list_all is_digit (showNat n) \<and> showNat n \<noteq> []"
proof (induction n rule: showNat.induct)
  case (1 n)
  then show ?case by (cases "n < 10") (simp_all add: showNat.simps[of n])
qed

lemma readNat_snoc: "readNat (s @ [c]) = 10 * readNat s + digit_val c"
  by (simp add: readNat_def)

lemma readNat_showNat [simp]: "readNat (showNat n) = n"
proof (induction n rule: showNat.induct)
  case (1 n)
  show ?case
  proof (cases "n < 10")
    case True
    then show ?thesis by (simp add: showNat.simps[of n] readNat_def)
  next
    case False
    with 1 show ?thesis by (simp add: showNat.simps[of n] readNat_snoc)
  qed
qed

lemma showNat_no_sign: "hd (showNat n) \<noteq> CHR ''-''" "hd (showNat n) \<noteq> CHR ''+''"
  using showNat_digits[of n] by (cases "showNat n"; force simp: is_digit_def)+

lemma atoi_itoa [simp]:
  assumes "- (2 ^ 63) \<le> i" and "i < 2 ^ 63"
  shows "atoi (itoa i) = Inr i"
proof (cases "i < 0")
  case True
  then show ?thesis
    using assms showNat_digits[of "nat (- i)"] by (simp add: atoi_def itoa_def)
next
  case False
  obtain c cs where c: "showNat (nat i) = c # cs"
    using showNat_digits[of "nat i"] by (cases "showNat (nat i)") auto
  have "c \<noteq> CHR ''-''" "c \<noteq> CHR ''+''" using showNat_no_sign[of "nat i"] c by auto
  moreover have "readNat (c # cs) = nat i" using c readNat_showNat[of "nat i"] by simp
  ultimately show ?thesis
    using False assms showNat_digits[of "nat i"] c by (simp add: atoi_def itoa_def)
qed

text \<open>\<open>strconv.ParseBool\<close>; the error case returns false beside the error.\<close>

definition parseBool :: "string \<Rightarrow> bool ret" where
  "parseBool s =
     (if s \<in> {''1'', ''t'', ''T'', ''true'', ''TRUE'', ''True''} then Inr True
      else if s \<in> {''0'', ''f'', ''F'', ''false'', ''FALSE'', ''False''} then Inr False
      else Inl (errorf (''strconv.ParseBool: parsing '' @ s @ '': invalid syntax'')))"

section \<open>Runes\<close>

text \<open>
  \<open>cont lo hi bs\<close>: the first byte of \<open>bs\<close> exists and lies in the range. \<open>rune_len\<close> is the
  number of bytes of the well-formed UTF-8 sequence at the front, 0 when there is none (Go
  then takes one byte and yields U+FFFD).
\<close>

definition in_range :: "nat \<Rightarrow> nat \<Rightarrow> char \<Rightarrow> bool" where
  "in_range lo hi c = (lo \<le> of_char c \<and> of_char c \<le> hi)"

fun conts :: "nat \<Rightarrow> string \<Rightarrow> bool" where
  "conts 0 s = True"
| "conts (Suc n) [] = False"
| "conts (Suc n) (c # s) = (in_range 128 191 c \<and> conts n s)"

definition cont1 :: "nat \<Rightarrow> nat \<Rightarrow> nat \<Rightarrow> string \<Rightarrow> bool" where
  "cont1 lo hi n s = (case s of [] \<Rightarrow> False | c # cs \<Rightarrow> in_range lo hi c \<and> conts n cs)"

definition rune_len :: "string \<Rightarrow> nat" where
  "rune_len s = (case s of [] \<Rightarrow> 0 | b # bs \<Rightarrow>
     (let n = of_char b :: nat in
      if n < 128 then 1
      else if n < 194 then 0
      else if n < 224 then (if conts 1 bs then 2 else 0)
      else if n = 224 then (if cont1 160 191 1 bs then 3 else 0)
      else if n = 237 then (if cont1 128 159 1 bs then 3 else 0)
      else if n < 240 then (if conts 2 bs then 3 else 0)
      else if n = 240 then (if cont1 144 191 2 bs then 4 else 0)
      else if n < 244 then (if conts 3 bs then 4 else 0)
      else if n = 244 then (if cont1 128 143 2 bs then 4 else 0)
      else 0))"

text \<open>
  \<open>runes i s\<close>: the pairs (byte index, \<open>string(r)\<close>) that \<open>for i, r := range s\<close> visits,
  from byte \<open>i\<close> on.
\<close>

function runes :: "nat \<Rightarrow> string \<Rightarrow> (nat \<times> string) list" where
  "runes i [] = []"
| "runes i (b # bs) =
     (let n = rune_len (b # bs) in
      if n = 0 then (i, map char_of [239, 191, 189 :: nat]) # runes (Suc i) bs
      else (i, take n (b # bs)) # runes (i + n) (drop n (b # bs)))"
  by pat_completeness auto
termination
  by (relation "measure (\<lambda>(i, s). length s)") auto

lemma runes_ascii:
  "is_ascii s \<Longrightarrow> runes i s = map (\<lambda>(j, c). (i + j, [c])) (indexed s)"
proof (induction s arbitrary: i)
  case (Cons b s)
  then have "rune_len (b # s) = 1" by (simp add: rune_len_def is_ascii_def)
  moreover have "indexed (b # s) = (0, b) # map (\<lambda>(j, c). (Suc j, c)) (indexed s)"
    by (simp add: indexed_def map_Suc_upt[symmetric] zip_map1 upt_conv_Cons del: upt_Suc)
  moreover have "is_ascii s" using Cons.prems by (simp add: is_ascii_def)
  ultimately show ?case by (simp add: Cons.IH Let_def case_prod_beta comp_def)
qed simp

end
