(* ===== verification/Json.thy ===== *)
theory Json
  imports GoConv
begin

text \<open>
  The JSON values that Kubernetes resources are made of, walking them by a path of field
  names, and the reference meaning of JSON pointers (RFC 6901) and of the add, remove and
  replace operations of JSON patches (RFC 6902). The program under \<open>src/\<close> only produces
  patches; the meaning given here is what its results are measured against.
\<close>

section \<open>Values\<close>

text \<open>
  A decoded document: \<open>map[string]interface{}\<close> is \<open>JObject\<close>, \<open>[]interface{}\<close> is
  \<open>JArray\<close>, the integer types are \<open>JInt\<close>, \<open>float64\<close> is \<open>JFloat\<close> (a rational, since every
  finite float is one) and nil is \<open>JNull\<close>. \<open>reflect.DeepEqual\<close> on them is equality.
\<close>

datatype json =
    JNull
  | JBool bool
  | JInt int
  | JFloat rat
  | JString string
  | JArray "json list"
  | JObject "(string, json) fmap"

type_synonym jobject = "(string, json) fmap"

text \<open>A Go assertion to \<open>map[string]interface{}\<close>, \<open>[]interface{}\<close> or \<open>string\<close> with \<open>, ok\<close>.\<close>

fun asObject :: "json \<Rightarrow> jobject option" where
  "asObject (JObject m) = Some m"
| "asObject _ = None"

fun asArray :: "json \<Rightarrow> json list option" where
  "asArray (JArray xs) = Some xs"
| "asArray _ = None"

fun asString :: "json \<Rightarrow> string option" where
  "asString (JString s) = Some s"
| "asString _ = None"

fun asBool :: "json \<Rightarrow> bool option" where
  "asBool (JBool b) = Some b"
| "asBool _ = None"

lemma asBool_Some [simp]: "asBool v = Some b \<longleftrightarrow> v = JBool b" by (cases v) auto
lemma asObject_Some [simp]: "asObject v = Some m \<longleftrightarrow> v = JObject m" by (cases v) auto
lemma asArray_Some [simp]: "asArray v = Some xs \<longleftrightarrow> v = JArray xs" by (cases v) auto
lemma asString_Some [simp]: "asString v = Some s \<longleftrightarrow> v = JString s" by (cases v) auto

text \<open>Following a path of field names through nested objects.\<close>

datatype found = Found json | Missing | Blocked

fun follow :: "json \<Rightarrow> string list \<Rightarrow> found" where
  "follow v [] = Found v"
| "follow (JObject m) (k # ks) =
     (case fmlookup m k of None \<Rightarrow> Missing | Some v \<Rightarrow> follow v ks)"
| "follow JNull (k # ks) = Missing"
| "follow _ (k # ks) = Blocked"

lemma follow_Cons_Found:
  "follow v (k # ks) = Found w \<longleftrightarrow>
     (\<exists>m x. v = JObject m \<and> fmlookup m k = Some x \<and> follow x ks = Found w)"
  by (cases v) (auto split: option.splits)

section \<open>JSON pointers\<close>

definition escapeToken :: "string \<Rightarrow> string" where
  "escapeToken s = replaceAll CHR ''/'' ''~1'' (replaceAll CHR ''~'' ''~0'' s)"

fun unescapeToken :: "string \<Rightarrow> string" where
  "unescapeToken (a # b # s) =
     (if a = CHR ''~'' \<and> b = CHR ''1'' then CHR ''/'' # unescapeToken s
      else if a = CHR ''~'' \<and> b = CHR ''0'' then CHR ''~'' # unescapeToken s
      else a # unescapeToken (b # s))"
| "unescapeToken s = s"

definition pointer :: "string list \<Rightarrow> string" where
  "pointer ks = concat (map (\<lambda>k. CHR ''/'' # escapeToken k) ks)"

text \<open>The tokens of a pointer; \<open>None\<close> when it is neither empty nor starts with a slash.\<close>

definition pointer_tokens :: "string \<Rightarrow> string list option" where
  "pointer_tokens s =
     (case s of [] \<Rightarrow> Some []
      | c # cs \<Rightarrow> if c = CHR ''/'' then Some (map unescapeToken (split1 CHR ''/'' cs)) else None)"

lemma escapeToken_Nil [simp]: "escapeToken [] = []"
  by (simp add: escapeToken_def)

lemma escapeToken_Cons:
  "escapeToken (c # s) =
     (if c = CHR ''~'' then ''~0'' else if c = CHR ''/'' then ''~1'' else [c]) @ escapeToken s"
  by (simp add: escapeToken_def replaceAll_Cons)

lemma escapeToken_no_slash: "CHR ''/'' \<notin> set (escapeToken s)"
  by (induction s) (auto simp: escapeToken_Cons)

lemma escapeToken_id: "CHR ''/'' \<notin> set s \<Longrightarrow> CHR ''~'' \<notin> set s \<Longrightarrow> escapeToken s = s"
  by (induction s) (auto simp: escapeToken_Cons)

lemma unescapeToken_plain: "a \<noteq> CHR ''~'' \<Longrightarrow> unescapeToken (a # s) = a # unescapeToken s"
  by (cases s) auto

lemma unescape_escape [simp]: "unescapeToken (escapeToken s) = s"
  by (induction s) (auto simp: escapeToken_Cons unescapeToken_plain)

lemma pointer_Cons: "pointer (k # ks) = CHR ''/'' # escapeToken k @ pointer ks"
  by (simp add: pointer_def)

lemma pointer_Nil [simp]: "pointer [] = []"
  by (simp add: pointer_def)

lemma pointer_snoc: "pointer (ks @ [k]) = pointer ks @ CHR ''/'' # escapeToken k"
  by (simp add: pointer_def)

lemma split_pointer:
  "CHR ''/'' \<notin> set x \<Longrightarrow>
   split1 CHR ''/'' (x @ pointer ks) = x # map escapeToken ks"
proof (induction ks arbitrary: x)
  case Nil
  then show ?case by (simp add: split1_no_sep)
next
  case (Cons k ks)
  then show ?case
    using Cons.IH[OF escapeToken_no_slash]
    by (simp add: pointer_Cons split1_append_sep)
qed

lemma pointer_tokens_pointer [simp]: "pointer_tokens (pointer ks) = Some ks"
proof (cases ks)
  case (Cons k ks')
  then show ?thesis
    by (simp add: pointer_tokens_def pointer_Cons split_pointer escapeToken_no_slash comp_def)
qed (simp add: pointer_tokens_def)

lemma pointer_inj: "pointer xs = pointer ys \<longleftrightarrow> xs = ys"
  by (metis option.inject pointer_tokens_pointer)

section \<open>Applying a patch\<close>

text \<open>
  \<open>array_index xs k\<close>: the element a reference token names, for a token of digits in range.
  \<open>remove_at\<close>, \<open>replace_at\<close> and \<open>add_at\<close> are \<open>None\<close> where the operation is an error.
  Adding to an object inserts or replaces the member; adding to an array inserts before the
  index or, for \<open>-\<close> or the length, at the end.
\<close>

definition array_index :: "'a list \<Rightarrow> string \<Rightarrow> nat option" where
  "array_index xs k =
     (if k \<noteq> [] \<and> list_all is_digit k \<and> readNat k < length xs then Some (readNat k) else None)"

fun remove_at :: "string list \<Rightarrow> json \<Rightarrow> json option" where
  "remove_at [k] (JObject m) =
     (if fmlookup m k = None then None else Some (JObject (fmdrop k m)))"
| "remove_at (k # ks) (JObject m) =
     (case fmlookup m k of None \<Rightarrow> None
      | Some v \<Rightarrow> map_option (\<lambda>v'. JObject (fmupd k v' m)) (remove_at ks v))"
| "remove_at [k] (JArray xs) =
     map_option (\<lambda>i. JArray (take i xs @ drop (Suc i) xs)) (array_index xs k)"
| "remove_at (k # ks) (JArray xs) =
     (case array_index xs k of None \<Rightarrow> None
      | Some i \<Rightarrow> map_option (\<lambda>v'. JArray (xs[i := v'])) (remove_at ks (xs ! i)))"
| "remove_at _ _ = None"

fun replace_at :: "string list \<Rightarrow> json \<Rightarrow> json \<Rightarrow> json option" where
  "replace_at [] w v = Some w"
| "replace_at (k # ks) w (JObject m) =
     (case fmlookup m k of None \<Rightarrow> None
      | Some v \<Rightarrow> map_option (\<lambda>v'. JObject (fmupd k v' m)) (replace_at ks w v))"
| "replace_at (k # ks) w (JArray xs) =
     (case array_index xs k of None \<Rightarrow> None
      | Some i \<Rightarrow> map_option (\<lambda>v'. JArray (xs[i := v'])) (replace_at ks w (xs ! i)))"
| "replace_at _ _ _ = None"

fun add_at :: "string list \<Rightarrow> json \<Rightarrow> json \<Rightarrow> json option" where
  "add_at [] w v = Some w"
| "add_at [k] w (JObject m) = Some (JObject (fmupd k w m))"
| "add_at (k # ks) w (JObject m) =
     (case fmlookup m k of None \<Rightarrow> None
      | Some v \<Rightarrow> map_option (\<lambda>v'. JObject (fmupd k v' m)) (add_at ks w v))"
| "add_at [k] w (JArray xs) =
     (if k = ''-'' then Some (JArray (xs @ [w]))
      else if k \<noteq> [] \<and> list_all is_digit k \<and> readNat k \<le> length xs
      then Some (JArray (take (readNat k) xs @ w # drop (readNat k) xs)) else None)"
| "add_at (k # ks) w (JArray xs) =
     (case array_index xs k of None \<Rightarrow> None
      | Some i \<Rightarrow> map_option (\<lambda>v'. JArray (xs[i := v'])) (add_at ks w (xs ! i)))"
| "add_at _ _ _ = None"

datatype patch_step = Add string json | Remove string | Replace string json

fun apply_step :: "patch_step \<Rightarrow> json \<Rightarrow> json option" where
  "apply_step (Add p w) v = Option.bind (pointer_tokens p) (\<lambda>ks. add_at ks w v)"
| "apply_step (Remove p) v = Option.bind (pointer_tokens p) (\<lambda>ks. remove_at ks v)"
| "apply_step (Replace p w) v = Option.bind (pointer_tokens p) (\<lambda>ks. replace_at ks w v)"

fun apply_steps :: "patch_step list \<Rightarrow> json \<Rightarrow> json option" where
  "apply_steps [] v = Some v"
| "apply_steps (p # ps) v = Option.bind (apply_step p v) (apply_steps ps)"

lemma apply_steps_append:
  "apply_steps (ps @ qs) v = Option.bind (apply_steps ps v) (apply_steps qs)"
  by (induction ps arbitrary: v) (auto split: bind_splits)

text \<open>Removing an existing field succeeds, takes the field away and leaves every path
  that does not run through it as it was.\<close>

lemma remove_at_Found:
  "follow v ks = Found w \<Longrightarrow> ks \<noteq> [] \<Longrightarrow> \<exists>v'. remove_at ks v = Some v'"
proof (induction ks arbitrary: v)
  case (Cons k ks)
  then obtain m x where x: "v = JObject m" "fmlookup m k = Some x" "follow x ks = Found w"
    by (auto simp: follow_Cons_Found)
  show ?case
  proof (cases ks)
    case (Cons k' ks')
    with Cons.IH[of x] x obtain v' where "remove_at ks x = Some v'" by auto
    with Cons x show ?thesis by simp
  qed (use x in simp)
qed simp

lemma remove_at_gone:
  "remove_at ks v = Some v' \<Longrightarrow> follow v ks = Found w \<Longrightarrow> follow v' ks = Missing"
  by (induction ks v arbitrary: v' rule: remove_at.induct) (auto split: if_splits option.splits)

lemma remove_at_other:
  assumes "remove_at ks v = Some v'" and "follow v ks = Found w" and "take (length ks) qs \<noteq> ks"
  shows "(\<exists>n. qs = take n ks) \<or> follow v' qs = follow v qs"
  using assms
proof (induction ks v arbitrary: v' qs rule: remove_at.induct)
  case (1 k m)
  then show ?case by (cases qs) (auto split: if_splits)
next
  case (2 k k' ks m)
  then obtain x x' where x: "fmlookup m k = Some x" "remove_at (k' # ks) x = Some x'"
    and v': "v' = JObject (fmupd k x' m)" and f: "follow x (k' # ks) = Found w"
    by (auto split: option.splits)
  show ?case
  proof (cases qs)
    case Nil
    then show ?thesis by (auto intro: exI[of _ 0])
  next
    case (Cons q qs')
    show ?thesis
    proof (cases "q = k")
      case True
      with Cons 2(4) have "take (length (k' # ks)) qs' \<noteq> k' # ks" by simp
      from 2(1)[OF x f this] show ?thesis
      proof
        assume "\<exists>n. qs' = take n (k' # ks)"
        then obtain n where "qs' = take n (k' # ks)" by blast
        with True Cons have "qs = take (Suc n) (k # k' # ks)" by simp
        then show ?thesis by blast
      qed (use True Cons x v' in simp)
    qed (use Cons x v' in simp)
  qed
qed auto

section \<open>Applying a patch leniently\<close>

text \<open>
  The applier of the program asks its patch package for two deviations from RFC 6902:
  removing what is missing is no error (\<open>AllowMissingPathOnRemove\<close>), and adding below a
  missing member creates the objects on the way (\<open>EnsurePathExistsOnAdd\<close>). The second is
  defined here for paths through objects; inside an array the strict meaning is kept.
\<close>

fun nest :: "string list \<Rightarrow> json \<Rightarrow> json" where
  "nest [] w = w"
| "nest (k # ks) w = JObject (fmupd k (nest ks w) fmempty)"

fun add_lenient :: "string list \<Rightarrow> json \<Rightarrow> json \<Rightarrow> json option" where
  "add_lenient [] w v = Some w"
| "add_lenient (k # ks) w (JObject m) =
     (if ks = [] then Some (JObject (fmupd k w m))
      else (case fmlookup m k of
          None \<Rightarrow> Some (JObject (fmupd k (nest ks w) m))
        | Some v \<Rightarrow> map_option (\<lambda>v'. JObject (fmupd k v' m)) (add_lenient ks w v)))"
| "add_lenient (k # ks) w v = add_at (k # ks) w v"

definition remove_lenient :: "string list \<Rightarrow> json \<Rightarrow> json option" where
  "remove_lenient ks v = (if follow v ks = Missing then Some v else remove_at ks v)"

fun lenient_step :: "patch_step \<Rightarrow> json \<Rightarrow> json option" where
  "lenient_step (Add p w) v = Option.bind (pointer_tokens p) (\<lambda>ks. add_lenient ks w v)"
| "lenient_step (Remove p) v = Option.bind (pointer_tokens p) (\<lambda>ks. remove_lenient ks v)"
| "lenient_step (Replace p w) v = Option.bind (pointer_tokens p) (\<lambda>ks. replace_at ks w v)"

fun lenient_steps :: "patch_step list \<Rightarrow> json \<Rightarrow> json option" where
  "lenient_steps [] v = Some v"
| "lenient_steps (p # ps) v = Option.bind (lenient_step p v) (lenient_steps ps)"

text \<open>What applies strictly applies leniently, with the same result.\<close>

lemma add_at_lenient: "add_at ks w v = Some v' \<Longrightarrow> add_lenient ks w v = Some v'"
  by (induction ks w v arbitrary: v' rule: add_at.induct) (auto split: option.splits)

lemma remove_at_not_Missing: "follow v ks = Missing \<Longrightarrow> remove_at ks v = None"
  by (induction ks v rule: remove_at.induct) (auto split: option.splits)

lemma strict_lenient_step: "apply_step p v = Some v' \<Longrightarrow> lenient_step p v = Some v'"
  by (cases p) (auto simp: remove_lenient_def bind_eq_Some_conv add_at_lenient remove_at_not_Missing)

lemma strict_lenient: "apply_steps ps v = Some v' \<Longrightarrow> lenient_steps ps v = Some v'"
  by (induction ps arbitrary: v) (auto simp: bind_eq_Some_conv strict_lenient_step)

end
