(* ===== verification/JsonText.thy ===== *)
theory JsonText
  imports Json
begin

text \<open>
  JSON text. The program writes patches as text with \<open>fmt.Sprintf\<close> and has them decoded;
  to say what the decoder makes of such a text, this theory reads the JSON texts built from
  objects, arrays, strings with the one-letter escapes, integers within the exact range of
  a float64, and the three literals. \<open>json_parse\<close> is \<open>None\<close> outside that part of the
  grammar (\<open>\u\<close> escapes, fractions, malformed text), where nothing is claimed.
\<close>

section \<open>Tokens\<close>

datatype token =
    TLBrace | TRBrace | TLBrack | TRBrack | TColon | TComma
  | TStr string | TWord string

text \<open>What the reader is inside of: nothing, a string, an escape in a string, a bare word.\<close>

datatype lexmode = LNone | LStr string | LEsc string | LWord string

definition punct :: "char \<Rightarrow> token option" where
  "punct c =
     (if c = CHR ''{'' then Some TLBrace else if c = CHR ''}'' then Some TRBrace
      else if c = CHR ''['' then Some TLBrack else if c = CHR '']'' then Some TRBrack
      else if c = CHR '':'' then Some TColon else if c = CHR '','' then Some TComma else None)"

definition word_char :: "char \<Rightarrow> bool" where
  "word_char c = (is_digit c \<or> c = CHR ''-'' \<or> ((97::nat) \<le> of_char c \<and> of_char c \<le> (122::nat)))"

definition lex_start :: "char \<Rightarrow> (token list \<times> lexmode) option" where
  "lex_start c =
     (if c \<in> {CHR 0x20, CHR 0x0A, CHR 0x09, CHR 0x0D} then Some ([], LNone)
      else if c = CHR 0x22 then Some ([], LStr [])
      else if word_char c then Some ([], LWord [c])
      else map_option (\<lambda>t. ([t], LNone)) (punct c))"

definition escape_char :: "char \<Rightarrow> char option" where
  "escape_char c =
     (if c \<in> {CHR 0x22, CHR 0x5C, CHR ''/''} then Some c
      else if c = CHR ''n'' then Some CHR 0x0A else if c = CHR ''t'' then Some CHR 0x09
      else if c = CHR ''r'' then Some CHR 0x0D else if c = CHR ''b'' then Some CHR 0x08
      else if c = CHR ''f'' then Some CHR 0x0C else None)"

text \<open>A byte that stands for itself inside a string: no control character, quote or
  backslash.\<close>

definition plain_char :: "char \<Rightarrow> bool" where
  "plain_char c = ((32::nat) \<le> of_char c \<and> of_char c < (127::nat) \<and> c \<noteq> CHR 0x22 \<and> c \<noteq> CHR 0x5C)"

definition plain :: "string \<Rightarrow> bool" where
  "plain s = list_all plain_char s"

fun lex_step :: "lexmode \<Rightarrow> char \<Rightarrow> (token list \<times> lexmode) option" where
  "lex_step LNone c = lex_start c"
| "lex_step (LStr a) c =
     (if c = CHR 0x22 then Some ([TStr a], LNone)
      else if c = CHR 0x5C then Some ([], LEsc a)
      else if plain_char c then Some ([], LStr (a @ [c])) else None)"
| "lex_step (LEsc a) c = map_option (\<lambda>d. ([], LStr (a @ [d]))) (escape_char c)"
| "lex_step (LWord a) c =
     (if word_char c then Some ([], LWord (a @ [c]))
      else map_option (\<lambda>(ts, m). (TWord a # ts, m)) (lex_start c))"

fun lexes :: "lexmode \<Rightarrow> string \<Rightarrow> token list option" where
  "lexes LNone [] = Some []"
| "lexes (LWord a) [] = Some [TWord a]"
| "lexes _ [] = None"
| "lexes m (c # s) =
     (case lex_step m c of None \<Rightarrow> None
      | Some (ts, m') \<Rightarrow> map_option ((@) ts) (lexes m' s))"

lemma plain_simps [simp]:
  "plain []" "plain (c # s) \<longleftrightarrow> plain_char c \<and> plain s" "plain (s @ t) \<longleftrightarrow> plain s \<and> plain t"
  by (auto simp: plain_def)

lemma map_option_append [simp]:
  "map_option ((@) []) x = x"
  "map_option ((@) a) (map_option ((@) b) x) = map_option ((@) (a @ b)) x"
  by (cases x; simp)+

lemma lex_plain: "plain p \<Longrightarrow> lexes (LStr a) (p @ s) = lexes (LStr (a @ p)) s"
  by (induction p arbitrary: a) (auto simp: plain_char_def)

lemma lex_string: "plain p \<Longrightarrow> lexes (LStr []) (p @ CHR 0x22 # s) = map_option ((#) (TStr p)) (lexes LNone s)"
  by (simp add: lex_plain) (auto simp: map_option_case split: option.splits)

text \<open>A fixed piece of text in front of an unknown rest is read on its own.\<close>

fun lex_run :: "lexmode \<Rightarrow> string \<Rightarrow> (token list \<times> lexmode) option" where
  "lex_run m [] = Some ([], m)"
| "lex_run m (c # s) =
     (case lex_step m c of None \<Rightarrow> None
      | Some (ts, m') \<Rightarrow> map_option (\<lambda>(us, m''). (ts @ us, m'')) (lex_run m' s))"

lemma lex_append:
  "lex_run m p = Some (ts, m') \<Longrightarrow> lexes m (p @ s) = map_option ((@) ts) (lexes m' s)"
proof (induction p arbitrary: m ts)
  case (Cons c p)
  then show ?case
    by (cases m) (fastforce split: option.splits prod.splits simp del: lex_step.simps)+
qed simp

section \<open>Values\<close>

definition parse_word :: "string \<Rightarrow> json option" where
  "parse_word w =
     (if w = ''null'' then Some JNull
      else if w = ''true'' then Some (JBool True)
      else if w = ''false'' then Some (JBool False)
      else case atoi w of Inl _ \<Rightarrow> None
           | Inr i \<Rightarrow> if \<bar>i\<bar> \<le> 2 ^ 53 \<and> itoa i = w then Some (JFloat (of_int i)) else None)"

text \<open>Duplicate members: the last one wins, as in \<open>encoding/json\<close>.\<close>

definition object_of :: "(string \<times> json) list \<Rightarrow> json" where
  "object_of kvs = JObject (fold (\<lambda>(k, v) m. fmupd k v m) kvs fmempty)"

fun pvalue :: "nat \<Rightarrow> token list \<Rightarrow> (json \<times> token list) option"
  and pmembers :: "nat \<Rightarrow> token list \<Rightarrow> ((string \<times> json) list \<times> token list) option"
  and pelems :: "nat \<Rightarrow> token list \<Rightarrow> (json list \<times> token list) option" where
  "pvalue 0 ts = None"
| "pvalue (Suc n) ts =
     (case ts of
        TStr s # us \<Rightarrow> Some (JString s, us)
      | TWord w # us \<Rightarrow> map_option (\<lambda>v. (v, us)) (parse_word w)
      | TLBrace # us \<Rightarrow>
          (case us of TRBrace # ws \<Rightarrow> Some (object_of [], ws)
           | _ \<Rightarrow> map_option (\<lambda>(kvs, ws). (object_of kvs, ws)) (pmembers n us))
      | TLBrack # us \<Rightarrow>
          (case us of TRBrack # ws \<Rightarrow> Some (JArray [], ws)
           | _ \<Rightarrow> map_option (\<lambda>(vs, ws). (JArray vs, ws)) (pelems n us))
      | _ \<Rightarrow> None)"
| "pmembers 0 ts = None"
| "pmembers (Suc n) ts =
     (case ts of
        TStr k # TColon # us \<Rightarrow>
          (case pvalue n us of
             Some (v, TComma # ws) \<Rightarrow> map_option (\<lambda>(kvs, xs). ((k, v) # kvs, xs)) (pmembers n ws)
           | Some (v, TRBrace # ws) \<Rightarrow> Some ([(k, v)], ws)
           | _ \<Rightarrow> None)
      | _ \<Rightarrow> None)"
| "pelems 0 ts = None"
| "pelems (Suc n) ts =
     (case pvalue n ts of
        Some (v, TComma # us) \<Rightarrow> map_option (\<lambda>(vs, ws). (v # vs, ws)) (pelems n us)
      | Some (v, TRBrack # us) \<Rightarrow> Some ([v], us)
      | _ \<Rightarrow> None)"

text \<open>
  The fuel is twice the number of tokens: every token but a separator starts at most a
  value and the list it stands in.
\<close>

definition json_parse :: "string \<Rightarrow> json option" where
  "json_parse s = (case lexes LNone s of None \<Rightarrow> None | Some ts \<Rightarrow>
     (case pvalue (2 * length ts + 2) ts of Some (v, []) \<Rightarrow> Some v | _ \<Rightarrow> None))"

text \<open>More fuel never changes what was read.\<close>

lemma parse_fuel_mono:
  "(\<forall>m\<ge>n. pvalue n ts = Some r \<longrightarrow> pvalue m ts = Some r) \<and>
   (\<forall>m\<ge>n. pmembers n ts = Some r' \<longrightarrow> pmembers m ts = Some r') \<and>
   (\<forall>m\<ge>n. pelems n ts = Some r'' \<longrightarrow> pelems m ts = Some r'')"
proof (induction n arbitrary: ts r r' r'')
  case (Suc n)
  have pv: "pvalue n ts = Some r \<Longrightarrow> n \<le> m \<Longrightarrow> pvalue m ts = Some r"
    and pm: "pmembers n ts = Some r' \<Longrightarrow> n \<le> m \<Longrightarrow> pmembers m ts = Some r'"
    and pe: "pelems n ts = Some r'' \<Longrightarrow> n \<le> m \<Longrightarrow> pelems m ts = Some r''" for m ts r r' r''
    using Suc.IH by blast+
  have "pvalue (Suc k) ts = Some r" if "n \<le> k" "pvalue (Suc n) ts = Some r" for k
    using that by (auto split: list.splits token.splits dest!: pm[of _ _ k] pe[of _ _ k])
  moreover have "pmembers (Suc k) ts = Some r'" if "n \<le> k" "pmembers (Suc n) ts = Some r'" for k
    using that(2)
    by (auto split: list.splits token.splits option.splits
        dest!: pv[OF _ that(1)] pm[OF _ that(1)])
  moreover have "pelems (Suc k) ts = Some r''" if "n \<le> k" "pelems (Suc n) ts = Some r''" for k
    using that(2)
    by (auto split: list.splits token.splits option.splits
        dest!: pv[OF _ that(1)] pe[OF _ that(1)])
  moreover have "(\<forall>m\<ge>Suc n. P m) \<longleftrightarrow> (\<forall>k\<ge>n. P (Suc k))" for P
    by (metis Suc_le_D Suc_le_mono)
  ultimately show ?case by (simp only:) blast
qed simp

end
