(* ===== verification/KubeLib.thy ===== *)
theory KubeLib
  imports JsonText
begin

text \<open>
  The third-party packages the transformation code is written against: the
  \<open>unstructured\<close> accessors of \<open>k8s.io/apimachinery\<close>, the typed API structs JSON is decoded
  into, and the JSON patch package \<open>evanphx/json-patch\<close>. None of that code is part of the
  repository, so it is a parameter: a record \<open>kube_lib\<close> of functions that every definition
  using it takes as its first argument, with the documented behaviour a theorem relies on
  as a named law. \<open>ref_lib\<close>, at the end, is a concrete instance on which the laws hold.
\<close>

section \<open>Data at the boundary\<close>

text \<open>
  An operation of a JSON patch is observed through four methods only: \<open>Kind()\<close>,
  \<open>Path()\<close>, \<open>From()\<close> and \<open>ValueInterface()\<close>. An operation is modelled by their results.
\<close>

record operation =
  opKind :: string
  opPath :: "string ret"
  opFrom :: "string ret"
  opValue :: "json ret"

type_synonym patch = "operation list"

text \<open>An \<open>unstructured.Unstructured\<close> is its \<open>Object\<close> map, which may be nil.\<close>

type_synonym unstructured = "jobject option"

definition content :: "unstructured \<Rightarrow> jobject" where
  "content u = (case u of None \<Rightarrow> fmempty | Some m \<Rightarrow> m)"

record groupKind =
  gkGroup :: string
  gkKind :: string

record ownerRef =
  refKind :: string
  refName :: string
  refUID :: string

text \<open>
  Of a pod spec the program reads the claim name of each volume (\<open>None\<close>: the volume is not
  a claim) and the image of each container. The typed kinds are the structs JSON is decoded
  into.
\<close>

record podSpec =
  podVolumes :: "string option list"
  podContainers :: "string list"
  podInitContainers :: "string list"

datatype workload_kind = CronJob | Pod | DaemonSet | Deployment | Job | ReplicaSet | StatefulSet

record roleBinding =
  rbNamespace :: string
  rbSubjects :: "(string \<times> string) list" \<comment> \<open>kind and namespace of each subject\<close>

section \<open>The functions\<close>

record kube_lib =
  getAPIVersion :: "unstructured \<Rightarrow> string"
  getKind :: "unstructured \<Rightarrow> string"
  getName :: "unstructured \<Rightarrow> string"
  getNamespace :: "unstructured \<Rightarrow> string"
  groupKindOf :: "unstructured \<Rightarrow> groupKind"
  getAnnotations :: "unstructured \<Rightarrow> (string, string) fmap"
  getOwnerReferences :: "unstructured \<Rightarrow> ownerRef list"
  nestedFieldNoCopy :: "jobject \<Rightarrow> string list \<Rightarrow> json option ret"
  nestedString :: "jobject \<Rightarrow> string list \<Rightarrow> string option ret"
  nestedBool :: "jobject \<Rightarrow> string list \<Rightarrow> bool option ret"
  nestedSlice :: "jobject \<Rightarrow> string list \<Rightarrow> json list option ret"
  nestedMap :: "jobject \<Rightarrow> string list \<Rightarrow> jobject option ret"
  asWorkload :: "workload_kind \<Rightarrow> unstructured \<Rightarrow> podSpec ret"
  asReplicationController :: "unstructured \<Rightarrow> podSpec option ret"
  asClaimTemplates :: "unstructured \<Rightarrow> string list ret"
  asRoleBinding :: "unstructured \<Rightarrow> roleBinding ret"
  asPodTemplate :: "json \<Rightarrow> podSpec ret"
  unmarshalObject :: "string \<Rightarrow> jobject ret"
  decodePatch :: "string \<Rightarrow> patch ret"
  missingErr :: "string \<Rightarrow> goerror"
  parseGroupKind :: "string \<Rightarrow> groupKind"
  isDNS1123Subdomain :: "string \<Rightarrow> string list"

text \<open>
  \<open>asWorkload\<close> and its kin stand for \<open>obj.MarshalJSON()\<close> followed by \<open>json.Unmarshal\<close> into
  the typed struct, whose two errors the program returns alike. A found value of the nested
  accessors is \<open>Some\<close>; \<open>None\<close> is \<open>found = false\<close>.
\<close>

section \<open>Laws\<close>

text \<open>
  \<open>NestedFieldNoCopy\<close> returns the field at the path, not-found where the path ends early,
  and an error where it runs into a value that is no object.
\<close>

definition nested_law :: "kube_lib \<Rightarrow> bool" where
  "nested_law L \<longleftrightarrow> (\<forall>m ks.
     case follow (JObject m) ks of
       Found v \<Rightarrow> nestedFieldNoCopy L m ks = Inr (Some v)
     | Missing \<Rightarrow> nestedFieldNoCopy L m ks = Inr None
     | Blocked \<Rightarrow> (\<exists>e. nestedFieldNoCopy L m ks = Inl e))"

text \<open>
  The typed accessors (\<open>NestedString\<close>, \<open>NestedBool\<close>, \<open>NestedMap\<close>) do the same, and return an error
  for a field of another type. \<open>view\<close> is the type assertion they make.
\<close>

definition typed_law :: "(json \<Rightarrow> 'a option) \<Rightarrow> (jobject \<Rightarrow> string list \<Rightarrow> 'a option ret) \<Rightarrow> bool" where
  "typed_law view acc \<longleftrightarrow> (\<forall>m ks.
     case follow (JObject m) ks of
       Found v \<Rightarrow> (case view v of Some x \<Rightarrow> acc m ks = Inr (Some x) | None \<Rightarrow> (\<exists>e. acc m ks = Inl e))
     | Missing \<Rightarrow> acc m ks = Inr None
     | Blocked \<Rightarrow> (\<exists>e. acc m ks = Inl e))"

lemma typed_law_at:
  "typed_law view acc \<Longrightarrow> (case follow (JObject m) ks of
       Found v \<Rightarrow> (case view v of Some x \<Rightarrow> acc m ks = Inr (Some x) | None \<Rightarrow> (\<exists>e. acc m ks = Inl e))
     | Missing \<Rightarrow> acc m ks = Inr None
     | Blocked \<Rightarrow> (\<exists>e. acc m ks = Inl e))"
  unfolding typed_law_def by (elim allE)

lemma typed_law_Found:
  "typed_law view acc \<Longrightarrow> follow (JObject m) ks = Found v \<Longrightarrow> view v = Some x \<Longrightarrow> acc m ks = Inr (Some x)"
  using typed_law_at[of view acc m ks] by simp

lemma typed_law_Missing:
  "typed_law view acc \<Longrightarrow> follow (JObject m) ks = Missing \<Longrightarrow> acc m ks = Inr None"
  using typed_law_at[of view acc m ks] by simp

text \<open>
  \<open>DecodePatch\<close> reads the text of an array of objects as the operations they are. A missing
  member is reported with \<open>ErrMissing\<close> as the cause.
\<close>

definition member_string :: "(string \<Rightarrow> goerror) \<Rightarrow> string \<Rightarrow> jobject \<Rightarrow> string ret" where
  "member_string err k m = (case fmlookup m k of Some (JString s) \<Rightarrow> Inr s | _ \<Rightarrow> Inl (err k))"

definition op_of :: "(string \<Rightarrow> goerror) \<Rightarrow> jobject \<Rightarrow> operation" where
  "op_of err m = \<lparr>opKind = (case fmlookup m ''op'' of Some (JString s) \<Rightarrow> s | _ \<Rightarrow> ''unknown''),
     opPath = member_string err ''path'' m,
     opFrom = member_string err ''from'' m,
     opValue = (case fmlookup m ''value'' of Some v \<Rightarrow> Inr v | None \<Rightarrow> Inl (err ''value''))\<rparr>"

text \<open>The members the law speaks about: \<open>op\<close> and \<open>path\<close> are strings, the value is not null.\<close>

definition op_object :: "jobject \<Rightarrow> bool" where
  "op_object m \<longleftrightarrow> (\<exists>k. fmlookup m ''op'' = Some (JString k)) \<and>
     (\<exists>p. fmlookup m ''path'' = Some (JString p)) \<and>
     (fmlookup m ''from'' = None) \<and> fmlookup m ''value'' \<noteq> Some JNull"

definition decode_law :: "kube_lib \<Rightarrow> bool" where
  "decode_law L \<longleftrightarrow>
     (\<forall>k. errorCause (missingErr L k) = ErrMissing) \<and>
     (\<forall>t ms. json_parse t = Some (JArray (map JObject ms)) \<longrightarrow> list_all op_object ms \<longrightarrow>
        decodePatch L t = Inr (map (op_of (missingErr L)) ms))"

text \<open>A DNS-1123 subdomain consists of lower-case letters, digits, dashes and dots.\<close>

definition dns_char :: "char \<Rightarrow> bool" where
  "dns_char c = (is_digit c \<or> ((97::nat) \<le> of_char c \<and> of_char c \<le> (122::nat)) \<or> c = CHR ''-'' \<or> c = CHR ''.'')"

definition dns_law :: "kube_lib \<Rightarrow> bool" where
  "dns_law L \<longleftrightarrow> (\<forall>s. isDNS1123Subdomain L s = [] \<longrightarrow> s \<noteq> [] \<and> list_all dns_char s)"

lemma dns_plain: "list_all dns_char s \<Longrightarrow> plain s"
  by (auto simp: plain_def dns_char_def plain_char_def is_digit_def list_all_iff)

section \<open>Patch texts\<close>

text \<open>The one-operation texts the program builds with \<open>fmt.Sprintf\<close>.\<close>

definition removeOp :: "kube_lib \<Rightarrow> string \<Rightarrow> operation" where
  "removeOp L p = \<lparr>opKind = ''remove'', opPath = Inr p, opFrom = Inl (missingErr L ''from''),
     opValue = Inl (missingErr L ''value'')\<rparr>"

definition valueOp :: "kube_lib \<Rightarrow> string \<Rightarrow> string \<Rightarrow> json \<Rightarrow> operation" where
  "valueOp L k p v = \<lparr>opKind = k, opPath = Inr p, opFrom = Inl (missingErr L ''from''),
     opValue = Inr v\<rparr>"

text \<open>What an operation of these kinds does to a document.\<close>

definition step_of :: "operation \<Rightarrow> patch_step option" where
  "step_of o1 = (case opPath o1 of Inl _ \<Rightarrow> None | Inr p \<Rightarrow>
     (if opKind o1 = ''remove'' then Some (Remove p)
      else if opKind o1 = ''add'' then (case opValue o1 of Inr v \<Rightarrow> Some (Add p v) | _ \<Rightarrow> None)
      else if opKind o1 = ''replace'' then (case opValue o1 of Inr v \<Rightarrow> Some (Replace p v) | _ \<Rightarrow> None)
      else None))"

definition steps_of :: "patch \<Rightarrow> patch_step list option" where
  "steps_of ps = those (map step_of ps)"

lemma step_of_removeOp [simp]: "step_of (removeOp L p) = Some (Remove p)"
  by (simp add: step_of_def removeOp_def)

lemma step_of_valueOp [simp]:
  "step_of (valueOp L ''add'' p v) = Some (Add p v)"
  "step_of (valueOp L ''replace'' p v) = Some (Replace p v)"
  by (simp_all add: step_of_def valueOp_def)

lemma op_fields [simp]:
  "opKind (removeOp L p) = ''remove''" "opPath (removeOp L p) = Inr p"
  "opKind (valueOp L k p v) = k" "opPath (valueOp L k p v) = Inr p"
  "opValue (valueOp L k p v) = Inr v"
  by (simp_all add: removeOp_def valueOp_def)

end
