(* ===== verification/PatchText.thy ===== *)
theory PatchText
  imports KubeLib
begin

text \<open>
  The JSON patch texts the program assembles with \<open>fmt.Sprintf\<close>, and what
  \<open>jsonpatch.DecodePatch\<close> returns for them under \<open>decode_law\<close>: one operation, as long as
  the inserted path and value need no JSON escape. Also the concrete instance \<open>ref_lib\<close> of
  the library parameter.
\<close>

section \<open>Templates\<close>

definition nl :: string where
  "nl = [CHR 0x0A]"

text \<open>\<open>opRemove\<close> and \<open>opReplace\<close> (also \<open>updateImageString\<close>, which is the same text).\<close>

definition opRemove :: "string \<Rightarrow> string" where
  "opRemove p = ''['' @ nl @ ''{\"op\": \"remove\", \"path\": \"'' @ p @ ''\"}'' @ nl @ '']''"

definition opReplace :: "string \<Rightarrow> string \<Rightarrow> string" where
  "opReplace p v = ''['' @ nl @ ''{\"op\": \"replace\", \"path\": \"'' @ p @
     ''\", \"value\": \"'' @ v @ ''\"}'' @ nl @ '']''"

definition suspendText :: string where
  "suspendText = ''[{\"op\": \"add\", \"path\": \"/spec/suspend\", \"value\": true}]''"

section \<open>Decoding them\<close>

lemmas lex_defs = lex_start_def word_char_def is_digit_def punct_def plain_char_def

lemma lexes_opRemove:
  assumes "plain p"
  shows "lexes LNone (opRemove p) =
    Some [TLBrack, TLBrace, TStr ''op'', TColon, TStr ''remove'', TComma, TStr ''path'', TColon,
      TStr p, TRBrace, TRBrack]"
proof -
  have "lex_run LNone (''['' @ nl @ ''{\"op\": \"remove\", \"path\": \"'') =
    Some ([TLBrack, TLBrace, TStr ''op'', TColon, TStr ''remove'', TComma, TStr ''path'', TColon], LStr [])"
    by code_simp
  moreover have "lexes (LStr p) (''\"}'' @ nl @ '']'') = Some [TStr p, TRBrace, TRBrack]"
    by (simp add: nl_def lex_defs)
  ultimately show ?thesis
    using lex_append[of LNone "''['' @ nl @ ''{\"op\": \"remove\", \"path\": \"''"]
      lex_plain[OF assms, of "[]"]
    by (simp add: opRemove_def)
qed

lemma lexes_opReplace:
  assumes "plain p" and "plain v"
  shows "lexes LNone (opReplace p v) =
    Some [TLBrack, TLBrace, TStr ''op'', TColon, TStr ''replace'', TComma, TStr ''path'', TColon,
      TStr p, TComma, TStr ''value'', TColon, TStr v, TRBrace, TRBrack]"
proof -
  have "lex_run LNone (''['' @ nl @ ''{\"op\": \"replace\", \"path\": \"'') =
    Some ([TLBrack, TLBrace, TStr ''op'', TColon, TStr ''replace'', TComma, TStr ''path'', TColon], LStr [])"
    by code_simp
  moreover have "lexes (LStr p) (''\", \"value\": \"'' @ s) =
    map_option ((@) [TStr p, TComma, TStr ''value'', TColon]) (lexes (LStr []) s)" for s
    by (simp add: lex_defs)
  moreover have "lexes (LStr v) (''\"}'' @ nl @ '']'') = Some [TStr v, TRBrace, TRBrack]"
    by (simp add: nl_def lex_defs)
  ultimately show ?thesis
    using lex_append[of LNone "''['' @ nl @ ''{\"op\": \"replace\", \"path\": \"''"]
      lex_plain[OF assms(1), of "[]"] lex_plain[OF assms(2), of "[]"]
    by (simp add: opReplace_def del: lexes.simps)
qed

text \<open>The decoded operations.\<close>

lemma decode_law_ops:
  "decode_law L \<Longrightarrow> json_parse t = Some (JArray (map JObject ms)) \<Longrightarrow> list_all op_object ms \<Longrightarrow>
   decodePatch L t = Inr (map (op_of (missingErr L)) ms)"
  by (simp add: decode_law_def)

lemma decode_opRemove:
  assumes "decode_law L" and "plain p"
  shows "decodePatch L (opRemove p) = Inr [removeOp L p]"
proof -
  let ?m = "fmap_of_list [(''path'', JString p), (''op'', JString ''remove'')]"
  have "json_parse (opRemove p) = Some (JArray (map JObject [?m]))"
    by (simp add: json_parse_def lexes_opRemove[OF assms(2)] eval_nat_numeral object_of_def)
  from decode_law_ops[OF assms(1) this] show ?thesis
    by (simp add: op_object_def op_of_def removeOp_def member_string_def)
qed

lemma decode_opReplace:
  assumes "decode_law L" and "plain p" and "plain v"
  shows "decodePatch L (opReplace p v) = Inr [valueOp L ''replace'' p (JString v)]"
proof -
  let ?m = "fmap_of_list [(''value'', JString v), (''path'', JString p), (''op'', JString ''replace'')]"
  have "json_parse (opReplace p v) = Some (JArray (map JObject [?m]))"
    by (simp add: json_parse_def lexes_opReplace[OF assms(2,3)] eval_nat_numeral object_of_def)
  from decode_law_ops[OF assms(1) this] show ?thesis
    by (simp add: op_object_def op_of_def valueOp_def member_string_def)
qed

lemma json_suspendText:
  "json_parse suspendText = Some (JArray [JObject (fmap_of_list
     [(''value'', JBool True), (''path'', JString ''/spec/suspend''), (''op'', JString ''add'')])])"
proof -
  have "lexes LNone suspendText = Some [TLBrack, TLBrace, TStr ''op'', TColon, TStr ''add'', TComma,
      TStr ''path'', TColon, TStr ''/spec/suspend'', TComma, TStr ''value'', TColon, TWord ''true'',
      TRBrace, TRBrack]"
    by code_simp
  then show ?thesis
    by (simp add: json_parse_def eval_nat_numeral object_of_def parse_word_def)
qed

lemma decode_suspendText:
  assumes "decode_law L"
  shows "decodePatch L suspendText = Inr [valueOp L ''add'' ''/spec/suspend'' (JBool True)]"
proof -
  let ?m = "fmap_of_list [(''value'', JBool True), (''path'', JString ''/spec/suspend''), (''op'', JString ''add'')]"
  from decode_law_ops[OF assms, of suspendText "[?m]"] json_suspendText show ?thesis
    by (simp add: op_object_def op_of_def valueOp_def member_string_def)
qed

section \<open>Lists of operations\<close>

text \<open>
  The texts \<open>addAnnotations\<close> and \<open>removeAnnotations\<close> assemble: items, each on a line of its
  own, separated by commas. An item with a value is an \<open>add\<close>, one without a \<open>remove\<close>.
\<close>

fun itemText :: "string \<times> string option \<Rightarrow> string" where
  "itemText (p, Some v) = nl @ ''{\"op\": \"add\", \"path\": \"'' @ p @ ''\", \"value\": \"'' @ v @ ''\"}''"
| "itemText (p, None) = nl @ ''{\"op\": \"remove\", \"path\": \"'' @ p @ ''\"}''"

definition itemsText :: "(string \<times> string option) list \<Rightarrow> string" where
  "itemsText its = ''['' @ joinS '','' (map itemText its) @ '']''"

fun plain_item :: "string \<times> string option \<Rightarrow> bool" where
  "plain_item (p, v) = (plain p \<and> (case v of None \<Rightarrow> True | Some w \<Rightarrow> plain w))"

fun itemTokens :: "string \<times> string option \<Rightarrow> token list" where
  "itemTokens (p, Some v) = [TLBrace, TStr ''op'', TColon, TStr ''add'', TComma, TStr ''path'', TColon,
      TStr p, TComma, TStr ''value'', TColon, TStr v, TRBrace]"
| "itemTokens (p, None) = [TLBrace, TStr ''op'', TColon, TStr ''remove'', TComma, TStr ''path'', TColon,
      TStr p, TRBrace]"

fun itemObject :: "string \<times> string option \<Rightarrow> jobject" where
  "itemObject (p, Some v) = fmap_of_list [(''value'', JString v), (''path'', JString p), (''op'', JString ''add'')]"
| "itemObject (p, None) = fmap_of_list [(''path'', JString p), (''op'', JString ''remove'')]"

fun itemOp :: "kube_lib \<Rightarrow> string \<times> string option \<Rightarrow> operation" where
  "itemOp L (p, Some v) = valueOp L ''add'' p (JString v)"
| "itemOp L (p, None) = removeOp L p"

lemma lexes_itemText:
  assumes "plain_item it"
  shows "lexes LNone (itemText it @ s) = map_option ((@) (itemTokens it)) (lexes LNone s)"
proof -
  obtain p v where it: "it = (p, v)" by (cases it)
  have *: "lex_run LNone (nl @ ''{\"op\": \"add\", \"path\": \"'') =
    Some ([TLBrace, TStr ''op'', TColon, TStr ''add'', TComma, TStr ''path'', TColon], LStr [])"
    "lex_run LNone (nl @ ''{\"op\": \"remove\", \"path\": \"'') =
    Some ([TLBrace, TStr ''op'', TColon, TStr ''remove'', TComma, TStr ''path'', TColon], LStr [])"
    by code_simp+
  have **: "lexes (LStr q) (''\", \"value\": \"'' @ t) =
      map_option ((@) [TStr q, TComma, TStr ''value'', TColon]) (lexes (LStr []) t)"
    "lexes (LStr q) (''\"}'' @ t) = map_option ((@) [TStr q, TRBrace]) (lexes LNone t)" for q t
    by (simp_all add: lex_defs)
  note step = lex_append[OF *(1)] lex_append[OF *(2)] ** lex_plain[of p "[]"]
  show ?thesis
  proof (cases v)
    case None
    with assms it show ?thesis using step by (simp del: lexes.simps)
  next
    case (Some w)
    with assms it show ?thesis using step lex_plain[of w "[]"] by (simp del: lexes.simps)
  qed
qed

text \<open>The tokens and the value of a whole list.\<close>

fun itemsTokens :: "(string \<times> string option) list \<Rightarrow> token list" where
  "itemsTokens [] = []"
| "itemsTokens [it] = itemTokens it"
| "itemsTokens (it # its) = itemTokens it @ TComma # itemsTokens its"

lemma lexes_items:
  "list_all plain_item its \<Longrightarrow>
   lexes LNone (joinS '','' (map itemText its) @ '']'') = Some (itemsTokens its @ [TRBrack])"
proof (induction its rule: itemsTokens.induct)
  case 1
  then show ?case by (simp add: lex_defs)
next
  case (2 it)
  then show ?case by (simp add: lexes_itemText) (simp add: lex_defs)
next
  case (3 it it' its)
  have "lexes LNone ('','' @ s) = map_option ((@) [TComma]) (lexes LNone s)" for s
    by (simp add: lex_defs)
  with 3 show ?case by (simp add: lexes_itemText del: lexes.simps itemTokens.simps)
qed

lemma pvalue_item: "pvalue (m + 6) (itemTokens it @ ts) = Some (JObject (itemObject it), ts)"
proof -
  obtain p v where "it = (p, v)" by (cases it)
  then show ?thesis by (cases v) (simp_all add: eval_nat_numeral object_of_def)
qed

lemma pelems_items:
  "its \<noteq> [] \<Longrightarrow> pelems (length its + 6) (itemsTokens its @ [TRBrack]) =
   Some (map (JObject \<circ> itemObject) its, [])"
proof (induction its rule: itemsTokens.induct)
  case (2 it)
  have "length [it] + 6 = Suc (0 + 6)" by simp
  then show ?case using pvalue_item[of 0 it "[TRBrack]"]
    by (simp only: pelems.simps itemsTokens.simps) simp
next
  case (3 it it' its)
  have "pvalue (length (it' # its) + 6) (itemTokens it @ TComma # ts) = Some (JObject (itemObject it), TComma # ts)" for ts
    by (rule pvalue_item)
  moreover have "length (it # it' # its) + 6 = Suc (length (it' # its) + 6)" by simp
  ultimately show ?case using 3
    by (simp only: pelems.simps itemsTokens.simps append.simps append_assoc) simp
qed simp

lemma length_itemsTokens: "its \<noteq> [] \<Longrightarrow> length its + 6 \<le> 2 * length (itemsTokens its)"
proof (induction its rule: itemsTokens.induct)
  case (2 it)
  then show ?case by (cases it rule: itemTokens.cases) auto
next
  case (3 it it' its)
  then show ?case by simp
qed simp

lemma hd_itemsTokens: "its \<noteq> [] \<Longrightarrow> \<exists>ts. itemsTokens its = TLBrace # ts"
proof -
  have "\<exists>us. itemTokens it = TLBrace # us" for it
    by (cases it rule: itemTokens.cases) auto
  then show "its \<noteq> [] \<Longrightarrow> \<exists>ts. itemsTokens its = TLBrace # ts"
    by (induction its rule: itemsTokens.induct) (metis append_Cons itemsTokens.simps)+
qed

lemma json_itemsText:
  assumes "list_all plain_item its"
  shows "json_parse (itemsText its) = Some (JArray (map (JObject \<circ> itemObject) its))"
proof -
  have lx: "lexes LNone (itemsText its) = Some (TLBrack # itemsTokens its @ [TRBrack])"
    using lexes_items[OF assms] by (simp add: itemsText_def lex_defs)
  show ?thesis
  proof (cases "its = []")
    case True
    with lx show ?thesis by (simp add: json_parse_def eval_nat_numeral)
  next
    case False
    let ?ts = "itemsTokens its @ [TRBrack]"
    have "length its + 6 \<le> 2 * length (TLBrack # ?ts) + 1"
      using length_itemsTokens[OF False] by simp
    with pelems_items[OF False] parse_fuel_mono
    have "pelems (2 * length (TLBrack # ?ts) + 1) ?ts = Some (map (JObject \<circ> itemObject) its, [])"
      by blast
    with lx hd_itemsTokens[OF False] show ?thesis
      by (auto simp: json_parse_def simp del: pelems.simps)
  qed
qed

lemma decode_items:
  assumes "decode_law L" and "list_all plain_item its"
  shows "decodePatch L (itemsText its) = Inr (map (itemOp L) its)"
proof -
  have "op_object (itemObject it)" for it
    by (cases it rule: itemObject.cases) (simp_all add: op_object_def)
  then have "list_all op_object (map itemObject its)" by (simp add: list_all_iff)
  from decode_law_ops[OF assms(1) _ this] json_itemsText[OF assms(2)]
  have "decodePatch L (itemsText its) = Inr (map (op_of (missingErr L) \<circ> itemObject) its)"
    by (simp add: comp_def)
  also have "op_of (missingErr L) (itemObject it) = itemOp L it" for it
    by (cases it rule: itemObject.cases)
      (simp_all add: op_of_def valueOp_def removeOp_def member_string_def)
  then have "op_of (missingErr L) \<circ> itemObject = itemOp L" by (simp add: fun_eq_iff)
  finally show ?thesis by simp
qed

end
