(* ===== verification/RefLib.thy ===== *)
theory RefLib
  imports PatchText
begin

text \<open>
  A concrete instance of the library parameter, computed from the document itself. The
  laws of \<open>KubeLib\<close> hold on it, so a theorem that assumes them can be applied: the
  witnesses use it. Nothing is proved about the program from this instance alone.
\<close>

definition ref_get :: "jobject \<Rightarrow> string list \<Rightarrow> json option ret" where
  "ref_get m ks = (case follow (JObject m) ks of
     Found v \<Rightarrow> Inr (Some v) | Missing \<Rightarrow> Inr None | Blocked \<Rightarrow> Inl (errorf ''accessor error''))"

text \<open>The typed accessors fail on a value of another type.\<close>

definition ref_typed :: "(json \<Rightarrow> 'a option) \<Rightarrow> jobject \<Rightarrow> string list \<Rightarrow> 'a option ret" where
  "ref_typed view m ks = bindR (ref_get m ks) (\<lambda>r. case r of None \<Rightarrow> Inr None
     | Some v \<Rightarrow> (case view v of None \<Rightarrow> Inl (errorf ''accessor error: wrong type'') | Some x \<Rightarrow> Inr (Some x)))"

definition ref_str :: "json \<Rightarrow> string list \<Rightarrow> string" where
  "ref_str v ks = (case follow v ks of Found (JString s) \<Rightarrow> s | _ \<Rightarrow> [])"

definition ref_list :: "json \<Rightarrow> string list \<Rightarrow> json list" where
  "ref_list v ks = (case follow v ks of Found (JArray xs) \<Rightarrow> xs | _ \<Rightarrow> [])"

definition doc :: "unstructured \<Rightarrow> json" where
  "doc u = JObject (content u)"

definition ref_groupKind :: "unstructured \<Rightarrow> groupKind" where
  "ref_groupKind u =
     (let parts = splitN2 CHR ''/'' (ref_str (doc u) [''apiVersion'']) in
      \<lparr>gkGroup = (if length parts = 2 then hd parts else []), gkKind = ref_str (doc u) [''kind'']\<rparr>)"

definition ref_annotations :: "unstructured \<Rightarrow> (string, string) fmap" where
  "ref_annotations u = (case follow (doc u) [''metadata'', ''annotations''] of
     Found (JObject m) \<Rightarrow> fmmap (\<lambda>v. case v of JString s \<Rightarrow> s | _ \<Rightarrow> []) m | _ \<Rightarrow> fmempty)"

definition ref_owners :: "unstructured \<Rightarrow> ownerRef list" where
  "ref_owners u = map (\<lambda>v. \<lparr>refKind = ref_str v [''kind''], refName = ref_str v [''name''],
     refUID = ref_str v [''uid'']\<rparr>) (ref_list (doc u) [''metadata'', ''ownerReferences''])"

definition ref_podSpec :: "json \<Rightarrow> string list \<Rightarrow> podSpec" where
  "ref_podSpec v ks =
     \<lparr>podVolumes = map (\<lambda>w. case follow w [''persistentVolumeClaim'', ''claimName''] of
          Found (JString s) \<Rightarrow> Some s | _ \<Rightarrow> None) (ref_list v (ks @ [''volumes''])),
      podContainers = map (\<lambda>w. ref_str w [''image'']) (ref_list v (ks @ [''containers''])),
      podInitContainers = map (\<lambda>w. ref_str w [''image'']) (ref_list v (ks @ [''initContainers'']))\<rparr>"

definition spec_path :: "workload_kind \<Rightarrow> string list" where
  "spec_path k = (case k of Pod \<Rightarrow> [''spec'']
     | CronJob \<Rightarrow> [''spec'', ''jobTemplate'', ''spec'', ''template'', ''spec'']
     | _ \<Rightarrow> [''spec'', ''template'', ''spec''])"

definition ref_missing :: "string \<Rightarrow> goerror" where
  "ref_missing k = GoError (''operation missing '' @ k @ '' field'') ErrMissing"

fun objects_of :: "json list \<Rightarrow> jobject list option" where
  "objects_of [] = Some []"
| "objects_of (v # vs) = (case v of JObject m \<Rightarrow> map_option ((#) m) (objects_of vs) | _ \<Rightarrow> None)"

definition ref_decode :: "string \<Rightarrow> patch ret" where
  "ref_decode t = (case json_parse t of
     Some (JArray vs) \<Rightarrow> (case objects_of vs of Some ms \<Rightarrow> Inr (map (op_of ref_missing) ms)
        | None \<Rightarrow> Inl (errorf ''json: cannot unmarshal''))
   | _ \<Rightarrow> Inl (errorf ''json: invalid patch''))"

definition ref_parseGroupKind :: "string \<Rightarrow> groupKind" where
  "ref_parseGroupKind s = (let parts = splitN2 CHR ''.'' s in
     \<lparr>gkGroup = (if length parts = 2 then parts ! 1 else []), gkKind = hd parts\<rparr>)"

definition ref_lib :: kube_lib where
  "ref_lib = \<lparr>getAPIVersion = (\<lambda>u. ref_str (doc u) [''apiVersion'']),
     getKind = (\<lambda>u. ref_str (doc u) [''kind'']),
     getName = (\<lambda>u. ref_str (doc u) [''metadata'', ''name'']),
     getNamespace = (\<lambda>u. ref_str (doc u) [''metadata'', ''namespace'']),
     groupKindOf = ref_groupKind,
     getAnnotations = ref_annotations,
     getOwnerReferences = ref_owners,
     nestedFieldNoCopy = ref_get,
     nestedString = ref_typed asString,
     nestedBool = ref_typed asBool,
     nestedSlice = ref_typed asArray,
     nestedMap = ref_typed asObject,
     asWorkload = (\<lambda>k u. Inr (ref_podSpec (doc u) (spec_path k))),
     asReplicationController = (\<lambda>u. Inr (case follow (doc u) [''spec'', ''template''] of
        Found (JObject _) \<Rightarrow> Some (ref_podSpec (doc u) [''spec'', ''template'', ''spec'']) | _ \<Rightarrow> None)),
     asClaimTemplates = (\<lambda>u. Inr (map (\<lambda>v. ref_str v [''metadata'', ''name''])
        (ref_list (doc u) [''spec'', ''volumeClaimTemplates'']))),
     asRoleBinding = (\<lambda>u. Inr \<lparr>rbNamespace = ref_str (doc u) [''metadata'', ''namespace''],
        rbSubjects = map (\<lambda>v. (ref_str v [''kind''], ref_str v [''namespace''])) (ref_list (doc u) [''subjects''])\<rparr>),
     asPodTemplate = (\<lambda>v. Inr (ref_podSpec v [''spec''])),
     unmarshalObject = (\<lambda>t. case json_parse t of Some (JObject m) \<Rightarrow> Inr m | _ \<Rightarrow> Inl (errorf ''json: invalid object'')),
     decodePatch = ref_decode,
     missingErr = ref_missing,
     parseGroupKind = ref_parseGroupKind,
     isDNS1123Subdomain = (\<lambda>s. if s \<noteq> [] \<and> list_all dns_char s then [] else [''invalid subdomain''])\<rparr>"

lemma objects_of_map [simp]: "objects_of (map JObject ms) = Some ms"
  by (induction ms) auto

lemma ref_nested_law [simp]: "nested_law ref_lib"
  by (auto simp: nested_law_def ref_lib_def ref_get_def split: found.split)

lemma ref_typed_law [simp]: "typed_law view (ref_typed view)"
  by (auto simp: typed_law_def ref_typed_def ref_get_def split: found.split option.split)

lemma ref_decode_law [simp]: "decode_law ref_lib"
  by (simp add: decode_law_def ref_lib_def ref_decode_def ref_missing_def)

lemma ref_dns_law [simp]: "dns_law ref_lib"
  by (auto simp: dns_law_def ref_lib_def)

text \<open>The fields of \<open>ref_lib\<close>, for evaluation on concrete documents.\<close>

lemma ref_lib_simps [simp]:
  "getAPIVersion ref_lib u = ref_str (doc u) [''apiVersion'']"
  "getKind ref_lib u = ref_str (doc u) [''kind'']"
  "getName ref_lib u = ref_str (doc u) [''metadata'', ''name'']"
  "getNamespace ref_lib u = ref_str (doc u) [''metadata'', ''namespace'']"
  "groupKindOf ref_lib u = ref_groupKind u"
  "getAnnotations ref_lib u = ref_annotations u"
  "getOwnerReferences ref_lib u = ref_owners u"
  "nestedFieldNoCopy ref_lib = ref_get"
  "nestedString ref_lib = ref_typed asString"
  "nestedBool ref_lib = ref_typed asBool"
  "nestedSlice ref_lib = ref_typed asArray"
  "nestedMap ref_lib = ref_typed asObject"
  "asWorkload ref_lib k u = Inr (ref_podSpec (doc u) (spec_path k))"
  "asPodTemplate ref_lib v = Inr (ref_podSpec v [''spec''])"
  "parseGroupKind ref_lib s = ref_parseGroupKind s"
  "isDNS1123Subdomain ref_lib s = (if s \<noteq> [] \<and> list_all dns_char s then [] else [''invalid subdomain''])"
  "missingErr ref_lib = ref_missing"
  by (simp_all add: ref_lib_def)

lemmas ref_defs = ref_str_def ref_list_def doc_def content_def ref_groupKind_def ref_annotations_def
  ref_owners_def ref_podSpec_def ref_get_def ref_typed_def ref_parseGroupKind_def

end
