(* ===== verification/Ranking.thy ===== *)
theory Ranking
  imports Prelude
begin

text \<open>
  A loop that keeps a current choice and replaces it when the next candidate is better:
  which candidate is left at the end. The interface is a strict weak order; the program's
  instances are the plugin priorities of the runner and the lengths of matching prefixes.
\<close>

definition challenge :: "('a \<Rightarrow> 'a \<Rightarrow> bool) \<Rightarrow> 'a option \<Rightarrow> 'a \<Rightarrow> 'a option" where
  "challenge better cur x = (case cur of None \<Rightarrow> Some x | Some y \<Rightarrow> if better x y then Some x else Some y)"

text \<open>The earliest candidate that no candidate beats.\<close>

definition first_best :: "('a \<Rightarrow> 'a \<Rightarrow> bool) \<Rightarrow> 'a list \<Rightarrow> 'a option" where
  "first_best better xs = List.find (\<lambda>x. \<forall>y\<in>set xs. \<not> better y x) xs"

lemma find_Some_split:
  "List.find P xs = Some x \<longleftrightarrow> (\<exists>us vs. xs = us @ x # vs \<and> P x \<and> (\<forall>u\<in>set us. \<not> P u))"
proof (induction xs)
  case (Cons a xs)
  then show ?case
    by (auto simp: Cons_eq_append_conv intro: exI[of _ "[]"])
      (metis append_Cons set_ConsD)+
qed simp

lemma first_best_mem: "first_best better xs = Some x \<Longrightarrow> x \<in> set xs"
  by (auto simp: first_best_def find_Some_split)

locale ranking =
  fixes better :: "'a \<Rightarrow> 'a \<Rightarrow> bool"
  assumes asym: "better a b \<Longrightarrow> \<not> better b a"
    and negtrans: "\<not> better a b \<Longrightarrow> \<not> better b c \<Longrightarrow> \<not> better a c"
begin

lemma irrefl [simp]: "\<not> better a a"
  using asym by blast

lemma first_best_snoc:
  "first_best better (xs @ [x]) = challenge better (first_best better xs) x"
proof (cases "first_best better xs")
  case None
  have "xs = []"
  proof (rule ccontr)
    assume "xs \<noteq> []"
    have "\<exists>m\<in>set xs. \<forall>y\<in>set xs. \<not> better y m" using \<open>xs \<noteq> []\<close>
    proof (induction xs)
      case (Cons a xs)
      show ?case
      proof (cases "xs = []")
        case False
        with Cons obtain m where m: "m \<in> set xs" "\<forall>y\<in>set xs. \<not> better y m" by blast
        show ?thesis
        proof (cases "better a m")
          case True
          have "\<not> better y a" if "y \<in> set xs" for y
          proof
            assume "better y a"
            then have "\<not> better a y" by (rule asym)
            with m(2) that have "\<not> better a m" using negtrans by blast
            with True show False by contradiction
          qed
          then show ?thesis by simp
        next
          case False
          with m show ?thesis by auto
        qed
      qed simp
    qed simp
    with None show False by (auto simp: first_best_def find_None_iff)
  qed
  with None show ?thesis by (simp add: first_best_def challenge_def)
next
  case (Some m)
  then obtain us vs where xs: "xs = us @ m # vs" and best: "\<forall>y\<in>set xs. \<not> better y m"
    and late: "\<forall>u\<in>set us. \<exists>y\<in>set xs. better y u"
    by (auto simp: first_best_def find_Some_split)
  show ?thesis
  proof (cases "better x m")
    case True
    have "\<forall>u\<in>set xs. better x u" using best True negtrans[of x _ m] by blast
    then have "\<forall>y\<in>set xs. \<not> better y x" using asym by blast
    with \<open>\<forall>u\<in>set xs. better x u\<close> have "first_best better (xs @ [x]) = Some x"
      unfolding first_best_def find_Some_split
      by (intro exI[of _ xs] exI[of _ "[]"]) auto
    with True Some show ?thesis by (simp add: challenge_def)
  next
    case False
    have "first_best better (xs @ [x]) = Some m"
      unfolding first_best_def find_Some_split
      using xs best late False by (intro exI[of _ us] exI[of _ "vs @ [x]"]) auto
    with Some False show ?thesis by (simp add: challenge_def)
  qed
qed

theorem champion_first_best: "foldl (challenge better) None xs = first_best better xs"
  by (induction xs rule: rev_induct) (simp_all add: first_best_snoc, simp add: first_best_def)

lemma first_best_exists: "xs \<noteq> [] \<Longrightarrow> \<exists>x. first_best better xs = Some x"
  by (cases xs rule: rev_cases) (auto simp: first_best_snoc challenge_def split: option.split)

end

end
