(* ===== verification/JsonEdit.thy ===== *)
theory JsonEdit
  imports PatchText
begin

text \<open>
  What a batch of replacements does to a document: the patches of the program that rename
  claims and images replace one string in each of several elements of one array.
\<close>

section \<open>Replacing below a path\<close>

lemma fmupd_same: "fmlookup m k = Some v \<Longrightarrow> fmupd k v m = m"
  by (rule fmap_ext) auto

lemma replace_at_through:
  "follow v ks = Found x \<Longrightarrow>
   replace_at (ks @ rest) w v = Option.bind (replace_at rest w x) (\<lambda>x'. replace_at ks x' v)"
proof (induction ks arbitrary: v)
  case Nil
  then show ?case by (cases "replace_at rest w x") auto
next
  case (Cons k ks)
  then obtain m y where y: "v = JObject m" "fmlookup m k = Some y" "follow y ks = Found x"
    by (auto simp: follow_Cons_Found)
  with Cons.IH[OF y(3)] show ?case by (cases "replace_at rest w x") auto
qed

lemma replace_at_Found:
  "follow v ks = Found x \<Longrightarrow>
   \<exists>v'. replace_at ks y v = Some v' \<and> follow v' ks = Found y \<and> (\<forall>z. replace_at ks z v' = replace_at ks z v)"
proof (induction ks arbitrary: v)
  case (Cons k ks)
  then obtain m u where u: "v = JObject m" "fmlookup m k = Some u" "follow u ks = Found x"
    by (auto simp: follow_Cons_Found)
  from Cons.IH[OF u(3)] obtain u' where "replace_at ks y u = Some u'" "follow u' ks = Found y"
    "\<forall>z. replace_at ks z u' = replace_at ks z u" by blast
  with u show ?case by (auto simp: fmupd_idem)
qed simp

lemma array_index_itoa [simp]: "i < length xs \<Longrightarrow> array_index xs (itoa (int i)) = Some i"
  using showNat_digits[of i] by (simp add: array_index_def itoa_def)

lemma replace_in_array:
  assumes "follow v ks = Found (JArray xs)" and "i < length xs" and "replace_at R w (xs ! i) = Some x'"
  shows "replace_at (ks @ itoa (int i) # R) w v = replace_at ks (JArray (xs[i := x'])) v"
  using assms by (simp add: replace_at_through)

section \<open>Batches\<close>

text \<open>
  \<open>batch K R new n\<close> replaces, for each \<open>i < n\<close> with \<open>new i = Some s\<close>, the string at \<open>R\<close> in
  element \<open>i\<close> of the array at \<open>K\<close>; \<open>edited\<close> is what the elements become.
\<close>

definition batch_at :: "string list \<Rightarrow> string list \<Rightarrow> (nat \<Rightarrow> string option) \<Rightarrow> nat \<Rightarrow> patch_step list" where
  "batch_at K R new i = (case new i of None \<Rightarrow> []
     | Some s \<Rightarrow> [Replace (pointer (K @ itoa (int i) # R)) (JString s)])"

definition batch :: "string list \<Rightarrow> string list \<Rightarrow> (nat \<Rightarrow> string option) \<Rightarrow> nat \<Rightarrow> patch_step list" where
  "batch K R new n = concat (map (batch_at K R new) [0..<n])"

definition edit1 :: "string list \<Rightarrow> string option \<Rightarrow> json \<Rightarrow> json" where
  "edit1 R s x = (case s of None \<Rightarrow> x | Some t \<Rightarrow> the (replace_at R (JString t) x))"

definition edited :: "string list \<Rightarrow> (nat \<Rightarrow> string option) \<Rightarrow> json list \<Rightarrow> json list" where
  "edited R new xs = map (\<lambda>(i, x). edit1 R (new i) x) (indexed xs)"

definition edited_upto :: "string list \<Rightarrow> (nat \<Rightarrow> string option) \<Rightarrow> nat \<Rightarrow> json list \<Rightarrow> json list" where
  "edited_upto R new n xs = map (\<lambda>(i, x). if i < n then edit1 R (new i) x else x) (indexed xs)"

lemma length_edited_upto [simp]: "length (edited_upto R new n xs) = length xs"
  by (simp add: edited_upto_def indexed_def)

lemma nth_edited_upto:
  "i < length xs \<Longrightarrow> edited_upto R new n xs ! i = (if i < n then edit1 R (new i) (xs ! i) else xs ! i)"
  by (simp add: edited_upto_def indexed_def)

lemma edited_upto_Suc:
  "n < length xs \<Longrightarrow> edited_upto R new (Suc n) xs = (edited_upto R new n xs)[n := edit1 R (new n) (xs ! n)]"
  by (rule nth_equalityI) (auto simp: nth_edited_upto nth_list_update)

lemma edited_upto_0 [simp]: "edited_upto R new 0 xs = xs"
  by (rule nth_equalityI) (auto simp: nth_edited_upto)

lemma edited_upto_all: "edited_upto R new (length xs) xs = edited R new xs"
  by (auto simp: edited_upto_def edited_def set_indexed)

lemma nth_edited: "i < length xs \<Longrightarrow> edited R new xs ! i = edit1 R (new i) (xs ! i)"
  by (simp add: edited_def indexed_def)

lemma length_edited [simp]: "length (edited R new xs) = length xs"
  by (simp add: edited_def indexed_def)

lemma batch_Suc: "batch K R new (Suc n) = batch K R new n @ batch_at K R new n"
  by (simp add: batch_def)

lemma apply_batch_upto:
  assumes K: "follow v K = Found (JArray xs)"
    and R: "\<And>i s. i < length xs \<Longrightarrow> new i = Some s \<Longrightarrow> \<exists>x'. replace_at R (JString s) (xs ! i) = Some x'"
  shows "n \<le> length xs \<Longrightarrow> apply_steps (batch K R new n) v = replace_at K (JArray (edited_upto R new n xs)) v"
proof (induction n)
  case 0
  have "replace_at K x v = Some v" if "follow v K = Found x" for x
    using that by (induction K arbitrary: v) (auto simp: follow_Cons_Found fmupd_same)
  with K show ?case by (simp add: batch_def)
next
  case (Suc n)
  from replace_at_Found[OF K, of "JArray (edited_upto R new n xs)"] obtain v' where
    v': "replace_at K (JArray (edited_upto R new n xs)) v = Some v'"
      "follow v' K = Found (JArray (edited_upto R new n xs))"
      "\<forall>z. replace_at K z v' = replace_at K z v" by blast
  have n: "n < length xs" and before: "apply_steps (batch K R new n) v = Some v'"
    using Suc v'(1) by simp_all
  show ?case
  proof (cases "new n")
    case None
    then have "edited_upto R new (Suc n) xs = edited_upto R new n xs"
      using n by (simp add: edited_upto_Suc edit1_def) (metis list_update_id nth_edited_upto less_irrefl)
    with None before v'(1) show ?thesis by (simp add: batch_Suc batch_at_def)
  next
    case (Some s)
    with R n obtain x' where x': "replace_at R (JString s) (xs ! n) = Some x'" by blast
    then have "replace_at (K @ itoa (int n) # R) (JString s) v' =
      replace_at K (JArray ((edited_upto R new n xs)[n := x'])) v'"
      using n by (intro replace_in_array[OF v'(2)]) (simp_all add: nth_edited_upto)
    then show ?thesis using before Some x' n v'(3)
      by (simp add: batch_Suc batch_at_def apply_steps_append edited_upto_Suc edit1_def)
        (simp split: bind_splits)
  qed
qed

lemma apply_batch:
  assumes "follow v K = Found (JArray xs)"
    and "\<And>i s. i < length xs \<Longrightarrow> new i = Some s \<Longrightarrow> \<exists>x'. replace_at R (JString s) (xs ! i) = Some x'"
  shows "apply_steps (batch K R new (length xs)) v = replace_at K (JArray (edited R new xs)) v"
  using apply_batch_upto[OF assms order_refl] by (simp add: edited_upto_all)

text \<open>The batch as operations, one text for each.\<close>

lemma plain_append [simp]: "plain (s @ t) \<longleftrightarrow> plain s \<and> plain t"
  by (auto simp: plain_def)

lemma plain_Cons: "plain (c # s) \<longleftrightarrow> plain_char c \<and> plain s"
  by (simp add: plain_def)

lemma plain_Nil [simp]: "plain []"
  by (simp add: plain_def)

lemma plain_itoa [simp]: "plain (itoa (int i))"
  using showNat_digits[of i]
  by (auto simp: itoa_def plain_def list_all_iff is_digit_def plain_char_def)

lemma decode_batch:
  assumes "decode_law L"
    and "\<And>i s. i < n \<Longrightarrow> new i = Some s \<Longrightarrow> plain (path i) \<and> plain s"
  shows "concatR (\<lambda>i. case new i of None \<Rightarrow> Inr [] | Some s \<Rightarrow> decodePatch L (opReplace (path i) s)) [0..<n] =
    Inr (concat (map (\<lambda>i. case new i of None \<Rightarrow> []
      | Some s \<Rightarrow> [valueOp L ''replace'' (path i) (JString s)]) [0..<n]))"
  using assms by (intro concatR_total) (auto simp: decode_opReplace split: option.split)

lemma steps_of_append: "steps_of (ps @ qs) = (case steps_of ps of None \<Rightarrow> None
   | Some xs \<Rightarrow> map_option ((@) xs) (steps_of qs))"
proof (induction ps)
  case Nil
  then show ?case by (cases "steps_of qs") (simp_all add: steps_of_def)
next
  case (Cons a ps)
  then show ?case
    by (cases "steps_of qs"; cases "step_of a"; cases "steps_of ps") (simp_all add: steps_of_def)
qed

lemma steps_of_batch:
  assumes "\<And>i. path i = pointer (K @ itoa (int i) # R)"
  shows "steps_of (concat (map (\<lambda>i. case new i of None \<Rightarrow> []
      | Some s \<Rightarrow> [valueOp L ''replace'' (path i) (JString s)]) [0..<n])) = Some (batch K R new n)"
proof (induction n)
  case 0
  then show ?case by (simp add: steps_of_def batch_def)
next
  case (Suc n)
  have "steps_of [valueOp L ''replace'' (path n) (JString s)] = Some [Replace (path n) (JString s)]" for s
    by (simp add: steps_of_def)
  moreover have "steps_of [] = Some []" by (simp add: steps_of_def)
  ultimately show ?case using Suc
    by (simp add: batch_Suc batch_at_def steps_of_append assms split: option.split)
qed

lemma escape_itoa [simp]: "escapeToken (itoa (int i)) = itoa (int i)"
  using showNat_digits[of i]
  by (intro escapeToken_id) (auto simp: itoa_def list_all_iff is_digit_def)

lemma concatR_map: "concatR f (map g ys) = concatR (\<lambda>y. f (g y)) ys"
  by (induction ys) auto

lemma indexed_nth: "indexed xs = map (\<lambda>i. (i, xs ! i)) [0..<length xs]"
  by (auto simp: indexed_def intro: nth_equalityI)

lemma concatR_indexed: "concatR f (indexed xs) = concatR (\<lambda>i. f (i, xs ! i)) [0..<length xs]"
  by (simp add: indexed_nth concatR_map)

lemma concatR_Nils [simp]: "concatR (\<lambda>x. Inr []) xs = Inr []"
  by (induction xs) auto

lemma edited_unchanged: "(\<And>i. i < length xs \<Longrightarrow> new i = None) \<Longrightarrow> edited R new xs = xs"
  by (rule nth_equalityI) (auto simp: nth_edited edit1_def)

end
