(* ===== verification/TransformUtil.thy ===== *)
theory TransformUtil
  imports RefLib Ranking JsonEdit
begin

text \<open>
  \<open>transform/util\<close>: the renaming of persistent volume claims
  (\<open>persistentvolumeclaims.go\<close>) and of img registries (\<open>registry.go\<close>).
\<close>

section \<open>Claim renames\<close>

definition PVCPathCronJobString :: "nat \<Rightarrow> string" where
  "PVCPathCronJobString i =
     ''/spec/jobTemplate/spec/template/spec/volumes/'' @ itoa (int i) @ ''/persistentVolumeClaim/claimName''"

definition PVCPathPodString :: "nat \<Rightarrow> string" where
  "PVCPathPodString i = ''/spec/volumes/'' @ itoa (int i) @ ''/persistentVolumeClaim/claimName''"

definition PVCPathGenericString :: "nat \<Rightarrow> string" where
  "PVCPathGenericString i = ''/spec/template/spec/volumes/'' @ itoa (int i) @ ''/persistentVolumeClaim/claimName''"

definition PVCPathTemplateString :: "nat \<Rightarrow> string" where
  "PVCPathTemplateString i = ''/spec/volumeClaimTemplates/'' @ itoa (int i) @ ''/metadata/name''"

text \<open>One pair of the flag. Reading the second part of a pair without a colon is out of range.\<close>

definition invalidRemap :: "string \<Rightarrow> string list \<Rightarrow> goerror" where
  "invalidRemap pair errs = errorf (''Invalid PVC remap: '' @ pair @ '', '' @ joinS '','' errs)"

definition processPair :: "kube_lib \<Rightarrow> string \<Rightarrow> (string \<times> string) result" where
  "processPair L pair =
     (let split = split1 CHR '':'' pair;
          errs0 = isDNS1123Subdomain L (split ! 0)
      in if length errs0 \<noteq> 0 then Inl (Error (invalidRemap pair errs0))
         else if length split \<le> 1 then Inl (Panic ''index out of range'')
         else (let errs1 = isDNS1123Subdomain L (split ! 1) in
           if length errs1 \<noteq> 0 then Inl (Error (invalidRemap pair errs1))
           else Inr (split ! 0, split ! 1)))"

fun processPairs :: "kube_lib \<Rightarrow> (string, string) fmap \<Rightarrow> string list \<Rightarrow> (string, string) fmap result" where
  "processPairs L pvcMap [] = Inr pvcMap"
| "processPairs L pvcMap (pair # pairs) =
     bindR (processPair L pair) (\<lambda>(old, new). processPairs L (fmupd old new pvcMap) pairs)"

definition ProcessPVCMap :: "kube_lib \<Rightarrow> string \<Rightarrow> (string, string) fmap result" where
  "ProcessPVCMap L pvcString = processPairs L fmempty (split1 CHR '','' pvcString)"

text \<open>A volume is the name of its claim, if it has one.\<close>

definition renameOne :: "kube_lib \<Rightarrow> (string, string) fmap \<Rightarrow> (nat \<Rightarrow> string) \<Rightarrow> nat \<times> string option \<Rightarrow> patch ret" where
  "renameOne L pvcRenameMap path iv = (case iv of (i, volume) \<Rightarrow>
     (case volume of None \<Rightarrow> Inr []
      | Some claimName \<Rightarrow> (case fmlookup pvcRenameMap claimName of None \<Rightarrow> Inr []
          | Some pvcName \<Rightarrow> decodePatch L (opReplace (path i) pvcName))))"

definition RenamePVCs :: "kube_lib \<Rightarrow> string option list \<Rightarrow> (string, string) fmap \<Rightarrow> (nat \<Rightarrow> string) \<Rightarrow> patch ret" where
  "RenamePVCs L volumes pvcRenameMap path =
     (if pvcRenameMap \<noteq> fmempty \<and> length volumes > 0
      then concatR (renameOne L pvcRenameMap path) (indexed volumes) else Inr [])"

section \<open>Image registries\<close>

text \<open>The loop from the whole image name down to its first part.\<close>

fun registryLoop :: "(string, string) fmap \<Rightarrow> string list \<Rightarrow> nat \<Rightarrow> string \<times> bool" where
  "registryLoop reps imageParts 0 = ([], False)"
| "registryLoop reps imageParts (Suc i) =
     (case fmlookup reps (joinS ''/'' (take (Suc i) imageParts)) of
        Some rep \<Rightarrow>
          (if Suc i = length imageParts then (rep, True)
           else (rep @ ''/'' @ joinS ''/'' (drop (Suc i) imageParts), True))
      | None \<Rightarrow> registryLoop reps imageParts i)"

definition UpdateImageRegistry :: "(string, string) fmap \<Rightarrow> string \<Rightarrow> string \<times> bool" where
  "UpdateImageRegistry reps oldImageName =
     (let imageParts = split1 CHR ''/'' oldImageName in registryLoop reps imageParts (length imageParts))"

definition UpdateImage :: "kube_lib \<Rightarrow> string \<Rightarrow> string \<Rightarrow> patch ret" where
  "UpdateImage L containerImagePath updatedImagePath = decodePatch L (opReplace containerImagePath updatedImagePath)"

section \<open>The longest registry prefix wins\<close>

text \<open>\<open>p\<close> is a prefix of the image made of whole path components, \<open>s\<close> is what follows it.\<close>

definition image_prefix :: "string \<Rightarrow> string \<Rightarrow> string \<Rightarrow> bool" where
  "image_prefix p s img \<longleftrightarrow> img = p @ s \<and> (s = [] \<or> hd s = CHR ''/'')"

lemma joinS_append: "xs \<noteq> [] \<Longrightarrow> ys \<noteq> [] \<Longrightarrow> joinS sep (xs @ ys) = joinS sep xs @ sep @ joinS sep ys"
proof (induction xs)
  case (Cons x xs)
  then show ?case by (cases "xs = []") (simp_all add: joinS_cons)
qed simp

definition cut_prefix :: "string list \<Rightarrow> nat \<Rightarrow> string" where
  "cut_prefix parts i = joinS ''/'' (take i parts)"

definition cut_suffix :: "string list \<Rightarrow> nat \<Rightarrow> string" where
  "cut_suffix parts i = (if i = length parts then [] else CHR ''/'' # joinS ''/'' (drop i parts))"

lemma cut_whole:
  "0 < i \<Longrightarrow> i \<le> length parts \<Longrightarrow> cut_prefix parts i @ cut_suffix parts i = joinS ''/'' parts"
proof -
  assume i: "0 < i" "i \<le> length parts"
  show ?thesis
  proof (cases "i = length parts")
    case False
    with i have "take i parts \<noteq> []" "drop i parts \<noteq> []" by auto
    from joinS_append[OF this, of "''/''"] False show ?thesis by (simp add: cut_prefix_def cut_suffix_def)
  qed (simp add: cut_prefix_def cut_suffix_def)
qed

lemma image_prefix_cut:
  assumes "image_prefix p s img"
  obtains i where "0 < i" "i \<le> length (split1 CHR ''/'' img)"
    "p = cut_prefix (split1 CHR ''/'' img) i" "s = cut_suffix (split1 CHR ''/'' img) i"
proof (cases s)
  case Nil
  with assms have "img = p" by (simp add: image_prefix_def)
  with Nil show ?thesis
    by (intro that[of "length (split1 CHR ''/'' img)"])
      (simp_all add: cut_prefix_def cut_suffix_def join_split1)
next
  case (Cons c t)
  with assms have im: "img = p @ CHR ''/'' # t" "s = CHR ''/'' # t" by (auto simp: image_prefix_def)
  then show ?thesis
    by (intro that[of "length (split1 CHR ''/'' p)"])
      (simp_all add: cut_prefix_def cut_suffix_def split1_append join_split1)
qed

lemma cut_image_prefix:
  "0 < i \<Longrightarrow> i \<le> length (split1 CHR ''/'' img) \<Longrightarrow>
   image_prefix (cut_prefix (split1 CHR ''/'' img) i) (cut_suffix (split1 CHR ''/'' img) i) img"
  by (simp add: image_prefix_def cut_whole join_split1) (simp add: cut_suffix_def)

lemma registryLoop_cut:
  "i \<le> length parts \<Longrightarrow> registryLoop reps parts i =
   (case List.find (\<lambda>j. fmlookup reps (cut_prefix parts j) \<noteq> None) (rev [1..<Suc i]) of
      None \<Rightarrow> ([], False)
    | Some j \<Rightarrow> (the (fmlookup reps (cut_prefix parts j)) @ cut_suffix parts j, True))"
  by (induction i) (auto simp: cut_prefix_def cut_suffix_def split: option.splits)

lemma cut_prefix_shorter:
  assumes "0 < i" "i < j" "j \<le> length parts"
  shows "length (cut_prefix parts i) < length (cut_prefix parts j)"
proof -
  have "take j parts = take i parts @ take (j - i) (drop i parts)"
    using assms by (metis add_diff_inverse_nat less_imp_not_less take_add)
  moreover have "take i parts \<noteq> []" "take (j - i) (drop i parts) \<noteq> []" using assms by auto
  ultimately show ?thesis using joinS_append[of "take i parts" "take (j - i) (drop i parts)" "''/''"]
    by (simp add: cut_prefix_def)
qed

text \<open>
  An image is rewritten by the longest replaced prefix of whole path components it has:
  that prefix is exchanged and the rest of the name is kept.
\<close>

theorem UpdateImageRegistry_longest:
  assumes "image_prefix p s img" and "fmlookup reps p = Some r"
    and "\<And>q t. image_prefix q t img \<Longrightarrow> length p < length q \<Longrightarrow> fmlookup reps q = None"
  shows "UpdateImageRegistry reps img = (r @ s, True)"
proof -
  let ?parts = "split1 CHR ''/'' img"
  obtain i where i: "0 < i" "i \<le> length ?parts" "p = cut_prefix ?parts i" "s = cut_suffix ?parts i"
    using image_prefix_cut[OF assms(1)] by blast
  have "fmlookup reps (cut_prefix ?parts j) = None" if "i < j" "j \<le> length ?parts" for j
    using assms(3)[OF cut_image_prefix] cut_prefix_shorter[of i j ?parts] i that by simp
  moreover have "rev [1..<Suc (length ?parts)] = rev [Suc i..<Suc (length ?parts)] @ i # rev [1..<i]"
  proof -
    have "[1..<Suc (length ?parts)] = [1..<i] @ [i..<Suc (length ?parts)]"
      using i(1,2) upt_add_eq_append[of 1 i "Suc (length ?parts) - i"] by simp
    also have "[i..<Suc (length ?parts)] = i # [Suc i..<Suc (length ?parts)]"
      using i(2) by (intro upt_conv_Cons) simp
    finally have "[1..<Suc (length ?parts)] = [1..<i] @ i # [Suc i..<Suc (length ?parts)]" .
    then show ?thesis by simp
  qed
  ultimately have "List.find (\<lambda>j. fmlookup reps (cut_prefix ?parts j) \<noteq> None) (rev [1..<Suc (length ?parts)]) = Some i"
    using assms(2) i(3) unfolding find_Some_split
    by (intro exI[of _ "rev [Suc i..<Suc (length ?parts)]"] exI[of _ "rev [1..<i]"]) auto
  then show ?thesis using assms(2) i
    by (simp add: UpdateImageRegistry_def Let_def registryLoop_cut)
qed

text \<open>An image none of whose prefixes is replaced is reported as not updated.\<close>

theorem UpdateImageRegistry_none:
  assumes "\<And>q t. image_prefix q t img \<Longrightarrow> fmlookup reps q = None"
  shows "UpdateImageRegistry reps img = ([], False)"
proof -
  let ?parts = "split1 CHR ''/'' img"
  have "List.find (\<lambda>j. fmlookup reps (cut_prefix ?parts j) \<noteq> None) (rev [1..<Suc (length ?parts)]) = None"
    using assms[OF cut_image_prefix] by (auto simp: find_None_iff)
  then show ?thesis by (simp add: UpdateImageRegistry_def Let_def registryLoop_cut)
qed

section \<open>What the rename flag is parsed to\<close>

lemma dns_no_sep:
  assumes "dns_law L" and "isDNS1123Subdomain L s = []"
  shows "CHR '','' \<notin> set s" and "CHR '':'' \<notin> set s" and "s \<noteq> []"
proof -
  have "s \<noteq> []" "list_all dns_char s" using assms by (auto simp: dns_law_def)
  then show "CHR '','' \<notin> set s" "CHR '':'' \<notin> set s" "s \<noteq> []"
    by (auto simp: list_all_iff dns_char_def is_digit_def)
qed

lemma processPair_show:
  assumes "dns_law L" and "isDNS1123Subdomain L old = []" and "isDNS1123Subdomain L new = []"
  shows "processPair L (old @ CHR '':'' # new) = Inr (old, new)"
  using assms dns_no_sep[OF assms(1)]
  by (simp add: processPair_def Let_def split1_append_sep split1_no_sep)

lemma processPairs_map:
  "(\<And>x. x \<in> set xs \<Longrightarrow> processPair L (f x) = Inr (g x)) \<Longrightarrow>
   processPairs L m (map f xs) = Inr (foldl (\<lambda>m (k, v). fmupd k v m) m (map g xs))"
  by (induction xs arbitrary: m) (auto split: prod.splits)

definition showRenames :: "(string \<times> string) list \<Rightarrow> string" where
  "showRenames kvs = joinS '','' (map (\<lambda>(k, v). k @ CHR '':'' # v) kvs)"

text \<open>
  A flag that lists valid names as \<open>old:new\<close> pairs is parsed to exactly these renames, a
  later pair for the same claim winning.
\<close>

theorem ProcessPVCMap_pairs:
  assumes "dns_law L" and "kvs \<noteq> []"
    and "\<forall>(old, new)\<in>set kvs. isDNS1123Subdomain L old = [] \<and> isDNS1123Subdomain L new = []"
  shows "\<exists>m. ProcessPVCMap L (showRenames kvs) = Inr m \<and> (\<forall>k. fmlookup m k = map_of (rev kvs) k)"
proof -
  have "split1 CHR '','' (showRenames kvs) = map (\<lambda>(k, v). k @ CHR '':'' # v) kvs"
    unfolding showRenames_def using assms dns_no_sep[OF assms(1)]
    by (intro split_join1) fastforce+
  then have "ProcessPVCMap L (showRenames kvs) =
      Inr (foldl (\<lambda>m (k, v). fmupd k v m) fmempty (map id kvs))"
    unfolding ProcessPVCMap_def using assms(3) processPair_show[OF assms(1)]
    by (simp only:) (rule processPairs_map, auto)
  then show ?thesis
    by (auto simp: foldl_fmupd_lookup split: option.split)
qed

text \<open>
  A name without a colon is not rejected with an error: after a valid claim name the
  parser reads past the end of the split and panics.
\<close>

theorem ProcessPVCMap_panics:
  assumes "dns_law L" and "isDNS1123Subdomain L name = []"
  shows "ProcessPVCMap L name = Inl (Panic ''index out of range'')"
  using assms dns_no_sep[OF assms]
  by (simp add: ProcessPVCMap_def processPair_def Let_def split1_no_sep)

text \<open>Whatever is parsed maps valid names to valid names.\<close>

lemma processPair_valid:
  "processPair L s = Inr (k, v) \<Longrightarrow> isDNS1123Subdomain L k = [] \<and> isDNS1123Subdomain L v = []"
  by (auto simp: processPair_def Let_def split: if_splits)

lemma processPairs_valid:
  "processPairs L m ss = Inr m' \<Longrightarrow>
   (\<And>k v. fmlookup m k = Some v \<Longrightarrow> isDNS1123Subdomain L k = [] \<and> isDNS1123Subdomain L v = []) \<Longrightarrow>
   fmlookup m' k = Some v \<Longrightarrow> isDNS1123Subdomain L k = [] \<and> isDNS1123Subdomain L v = []"
proof (induction ss arbitrary: m)
  case (Cons s ss)
  then obtain a b where "processPair L s = Inr (a, b)" "processPairs L (fmupd a b m) ss = Inr m'"
    by (auto simp: result_simps)
  with Cons.IH[OF this(2)] Cons.prems(2,3) processPair_valid[OF this(1)] show ?case
    by (metis fmupd_lookup option.inject)
qed simp

lemma ProcessPVCMap_plain:
  assumes "dns_law L" and "ProcessPVCMap L s = Inr m" and "fmlookup m k = Some v"
  shows "plain v"
proof -
  have "isDNS1123Subdomain L v = []"
    using processPairs_valid[of L fmempty "split1 CHR '','' s" m k v] assms(2,3)
    by (simp add: ProcessPVCMap_def)
  then show ?thesis using assms(1) by (auto simp: dns_law_def intro: dns_plain)
qed

section \<open>What renaming does to the object\<close>

text \<open>The claim name in a volume, and what the renames make of it.\<close>

definition claimOf :: "json \<Rightarrow> string option" where
  "claimOf w = (case follow w [''persistentVolumeClaim'', ''claimName''] of Found (JString s) \<Rightarrow> Some s | _ \<Rightarrow> None)"

definition renamed :: "(string, string) fmap \<Rightarrow> string \<Rightarrow> string" where
  "renamed m c = (case fmlookup m c of None \<Rightarrow> c | Some n \<Rightarrow> n)"

definition newClaim :: "(string, string) fmap \<Rightarrow> string option list \<Rightarrow> nat \<Rightarrow> string option" where
  "newClaim m volumes i = Option.bind (volumes ! i) (fmlookup m)"

lemma renameOne_new:
  "renameOne L m path (i, volumes ! i) = (case newClaim m volumes i of None \<Rightarrow> Inr []
     | Some s \<Rightarrow> decodePatch L (opReplace (path i) s))"
  by (simp add: renameOne_def newClaim_def split: option.split bind_splits)

lemma RenamePVCs_loop:
  "RenamePVCs L volumes m path = concatR (\<lambda>i. case newClaim m volumes i of None \<Rightarrow> Inr []
     | Some s \<Rightarrow> decodePatch L (opReplace (path i) s)) [0..<length volumes]"
proof (cases "m = fmempty")
  case True
  have "newClaim fmempty volumes i = None" for i by (cases "volumes ! i") (auto simp: newClaim_def)
  then show ?thesis using True by (simp add: RenamePVCs_def)
next
  case False
  then show ?thesis by (cases volumes) (simp_all add: RenamePVCs_def concatR_indexed renameOne_new)
qed

lemma claimOf_edit:
  assumes "claimOf x = Some c"
  shows "\<exists>x'. replace_at [''persistentVolumeClaim'', ''claimName''] (JString n) x = Some x' \<and> claimOf x' = Some n"
proof -
  obtain u where "follow x [''persistentVolumeClaim'', ''claimName''] = Found u"
    using assms by (auto simp: claimOf_def split: found.splits)
  from replace_at_Found[OF this, of "JString n"] show ?thesis by (auto simp: claimOf_def)
qed

lemma edited_claims:
  "map claimOf (edited [''persistentVolumeClaim'', ''claimName''] (newClaim m (map claimOf vols)) vols) =
   map (map_option (renamed m) \<circ> claimOf) vols"
proof (rule nth_equalityI)
  fix i
  assume "i < length (map claimOf (edited [''persistentVolumeClaim'', ''claimName'']
    (newClaim m (map claimOf vols)) vols))"
  then have i: "i < length vols" by simp
  show "map claimOf (edited [''persistentVolumeClaim'', ''claimName''] (newClaim m (map claimOf vols)) vols) ! i =
    map (map_option (renamed m) \<circ> claimOf) vols ! i"
  proof (cases "newClaim m (map claimOf vols) i")
    case None
    with i show ?thesis
      by (cases "claimOf (vols ! i)") (simp_all add: nth_edited edit1_def newClaim_def renamed_def)
  next
    case (Some n)
    then obtain c where "claimOf (vols ! i) = Some c" "fmlookup m c = Some n"
      using i by (auto simp: newClaim_def bind_eq_Some_conv)
    with claimOf_edit[OF this(1), of n] Some i show ?thesis
      by (auto simp: nth_edited edit1_def renamed_def)
  qed
qed simp

text \<open>
  C19. Applying the rename patch to the object it was made for succeeds and renames exactly
  the claims: in the array of volumes every claim name the map renames becomes the new name
  and every other volume is as it was, and the document is otherwise unchanged.
\<close>

theorem RenamePVCs_effect:
  assumes "decode_law L" and "\<And>i. path i = pointer (K @ itoa (int i) # [''persistentVolumeClaim'', ''claimName''])"
    and "\<And>i. plain (path i)" and "\<And>c n. fmlookup m c = Some n \<Longrightarrow> plain n"
    and "follow obj K = Found (JArray vols)"
  shows "\<exists>ps st vols'. RenamePVCs L (map claimOf vols) m path = Inr ps \<and> steps_of ps = Some st \<and>
    apply_steps st obj = replace_at K (JArray vols') obj \<and> replace_at K (JArray vols') obj \<noteq> None \<and>
    map claimOf vols' = map (map_option (renamed m) \<circ> claimOf) vols \<and>
    (\<forall>i<length vols. Option.bind (claimOf (vols ! i)) (fmlookup m) = None \<longrightarrow> vols' ! i = vols ! i)"
proof -
  let ?R = "[''persistentVolumeClaim'', ''claimName'']"
  let ?new = "newClaim m (map claimOf vols)"
  let ?vols = "edited ?R ?new vols"
  have "plain s" if "?new i = Some s" for i s
    using that assms(4) by (auto simp: newClaim_def bind_eq_Some_conv)
  then have 1: "RenamePVCs L (map claimOf vols) m path = Inr (concat (map (\<lambda>i. case ?new i of None \<Rightarrow> []
      | Some s \<Rightarrow> [valueOp L ''replace'' (path i) (JString s)]) [0..<length vols]))"
    using decode_batch[OF assms(1), of "length vols" ?new path] assms(3)
    by (simp add: RenamePVCs_loop)
  have 2: "apply_steps (batch K ?R ?new (length vols)) obj = replace_at K (JArray ?vols) obj"
    using claimOf_edit by (intro apply_batch[OF assms(5)]) (fastforce simp: newClaim_def bind_eq_Some_conv)
  have "replace_at K (JArray ?vols) obj \<noteq> None"
    using replace_at_Found[OF assms(5), of "JArray ?vols"] by auto
  moreover have "?vols ! i = vols ! i" if "i < length vols" "Option.bind (claimOf (vols ! i)) (fmlookup m) = None" for i
    using that by (simp add: nth_edited edit1_def newClaim_def)
  ultimately show ?thesis
    using 1 2 steps_of_batch[where path = path and K = K and R = ?R and L = L and new = ?new and n = "length vols"]
      assms(2) edited_claims[of m vols] by blast
qed

lemma pvc_paths:
  "PVCPathCronJobString i = pointer ([''spec'', ''jobTemplate'', ''spec'', ''template'', ''spec'', ''volumes''] @
     itoa (int i) # [''persistentVolumeClaim'', ''claimName''])"
  "PVCPathPodString i = pointer ([''spec'', ''volumes''] @ itoa (int i) # [''persistentVolumeClaim'', ''claimName''])"
  "PVCPathGenericString i = pointer ([''spec'', ''template'', ''spec'', ''volumes''] @
     itoa (int i) # [''persistentVolumeClaim'', ''claimName''])"
  "PVCPathTemplateString i = pointer ([''spec'', ''volumeClaimTemplates''] @ itoa (int i) # [''metadata'', ''name''])"
  by (simp_all add: PVCPathCronJobString_def PVCPathPodString_def PVCPathGenericString_def
      PVCPathTemplateString_def pointer_Cons escapeToken_Cons)

lemma plain_pvc_paths [simp]:
  "plain (PVCPathCronJobString i)" "plain (PVCPathPodString i)" "plain (PVCPathGenericString i)"
  "plain (PVCPathTemplateString i)"
  by (simp_all add: PVCPathCronJobString_def PVCPathPodString_def PVCPathGenericString_def
      PVCPathTemplateString_def plain_Cons plain_char_def)

section \<open>Witnesses\<close>

lemma UpdateImageRegistry_longest_witness:
  "UpdateImageRegistry (fmap_of_list [(''docker.io'', ''a''), (''docker.io/foo'', ''quay.io/bar'')])
     ''docker.io/foo/app:1'' = (''quay.io/bar'' @ ''/app:1'', True)"
proof (rule UpdateImageRegistry_longest)
  show "image_prefix ''docker.io/foo'' ''/app:1'' ''docker.io/foo/app:1''"
    by (simp add: image_prefix_def)
  fix q t
  assume "image_prefix q t ''docker.io/foo/app:1''" and l: "length ''docker.io/foo'' < length q"
  then have "q \<noteq> ''docker.io''" "q \<noteq> ''docker.io/foo''" by auto
  then show "fmlookup (fmap_of_list [(''docker.io'', ''a''), (''docker.io/foo'', ''quay.io/bar'')]) q = None"
    by simp
qed simp

lemma UpdateImageRegistry_none_witness:
  "UpdateImageRegistry (fmap_of_list [(''quay.io'', ''a'')]) ''docker.io/app'' = ([], False)"
  by (rule UpdateImageRegistry_none) (auto simp: image_prefix_def)

lemma ProcessPVCMap_pairs_witness:
  "\<exists>m. ProcessPVCMap ref_lib (showRenames [(''old'', ''new''), (''a.b'', ''c-1'')]) = Inr m \<and>
     (\<forall>k. fmlookup m k = map_of (rev [(''old'', ''new''), (''a.b'', ''c-1'')]) k)"
  by (rule ProcessPVCMap_pairs) (simp_all add: dns_char_def is_digit_def)

lemma ProcessPVCMap_panics_witness:
  "ProcessPVCMap ref_lib ''data'' = Inl (Panic ''index out of range'')"
  by (rule ProcessPVCMap_panics) (simp_all add: dns_char_def is_digit_def)

definition example_volume :: "string \<Rightarrow> json" where
  "example_volume c = JObject (fmap_of_list [(''persistentVolumeClaim'',
     JObject (fmap_of_list [(''claimName'', JString c)]))])"

definition example_pod :: json where
  "example_pod = JObject (fmap_of_list [(''spec'', JObject (fmap_of_list
     [(''volumes'', JArray [example_volume ''old'', JObject fmempty, example_volume ''kept''])]))])"

lemma RenamePVCs_effect_witness:
  "\<exists>ps st vols'. RenamePVCs ref_lib [Some ''old'', None, Some ''kept''] (fmap_of_list [(''old'', ''new'')]) PVCPathPodString = Inr ps \<and>
     steps_of ps = Some st \<and>
     apply_steps st example_pod = replace_at [''spec'', ''volumes''] (JArray vols') example_pod \<and>
     map claimOf vols' = [Some ''new'', None, Some ''kept'']"
proof -
  let ?m = "fmap_of_list [(''old'', ''new'')]"
  let ?vols = "[example_volume ''old'', JObject fmempty, example_volume ''kept'']"
  have "\<And>c n. fmlookup ?m c = Some n \<Longrightarrow> plain n"
    by (auto simp: plain_Cons plain_char_def split: if_splits)
  moreover have "follow example_pod [''spec'', ''volumes''] = Found (JArray ?vols)"
    by (simp add: example_pod_def)
  moreover have "map claimOf ?vols = [Some ''old'', None, Some ''kept'']"
    by (simp add: claimOf_def example_volume_def)
  moreover have "map (map_option (renamed ?m) \<circ> claimOf) ?vols = [Some ''new'', None, Some ''kept'']"
    by (simp add: claimOf_def example_volume_def renamed_def)
  ultimately show ?thesis
    using RenamePVCs_effect[OF ref_decode_law pvc_paths(2) plain_pvc_paths(2), of ?m example_pod ?vols]
    by metis
qed

end
