(* ===== verification/PluginApi.thy ===== *)
theory PluginApi
  imports KubeLib
begin

text \<open>
  \<open>transform/plugin.go\<close> and \<open>transform/errors/errors.go\<close>: what a plugin receives, returns and
  tells about itself, the parsing of its optional flags, and the error type a plugin
  process reports. A plugin is the pair of its two methods. The record \<open>fault\<close> of a run is an
  error it returns or a panic.
\<close>

section \<open>Data\<close>

record pluginRequest =
  reqObject :: unstructured
  reqExtras :: "(string, string) fmap"

record pluginResponse =
  respVersion :: string
  isWhiteOut :: bool
  respPatches :: patch
  respNewResources :: "unstructured list"

record optionalField =
  flagName :: string
  flagHelp :: string
  flagExample :: string

record pluginMetadata =
  pluginName :: string
  pluginVersion :: string
  requestVersion :: "string list"
  responseVersion :: "string list"
  optionalFields :: "optionalField list"

record plugin =
  plugin_run :: "pluginRequest \<Rightarrow> pluginResponse result"
  plugin_metadata :: pluginMetadata

definition V1 :: string where "V1 = ''v1''"
definition RequestVersion :: string where "RequestVersion = V1"
definition ResponseVersion :: string where "ResponseVersion = V1"

definition emptyResponse :: pluginResponse where
  "emptyResponse = \<lparr>respVersion = [], isWhiteOut = False, respPatches = [], respNewResources = []\<rparr>"

section \<open>Optional flags\<close>

definition ParseOptionalFieldSliceVal :: "string \<Rightarrow> string list" where
  "ParseOptionalFieldSliceVal sliceVal = split1 CHR '','' sliceVal"

text \<open>What one \<open>key=value\<close> pair contributes: a second \<open>=\<close> ends the value.\<close>

definition kvPair :: "string \<Rightarrow> string \<times> string" where
  "kvPair pair = (let kvSlice = split1 CHR ''='' pair in
     if length kvSlice = 1 then (kvSlice ! 0, []) else (kvSlice ! 0, kvSlice ! 1))"

definition ParseOptionalFieldMapVal :: "string \<Rightarrow> (string, string) fmap" where
  "ParseOptionalFieldMapVal sliceVal =
     foldl (\<lambda>mapVal kv. case kvPair kv of (k, v) \<Rightarrow> fmupd k v mapVal) fmempty
       (split1 CHR '','' sliceVal)"

section \<open>Plugin errors\<close>

record pluginError =
  errType :: string
  errMessage :: string
  errErrorMessage :: string

definition PluginInvalidInputError :: string where "PluginInvalidInputError = ''PluginInvalidInputError''"
definition PluginRunError :: string where "PluginRunError = ''PluginRunError''"
definition PluginInvalidIOError :: string where "PluginInvalidIOError = ''PluginInvalidIOError''"

text \<open>The dynamic type of an \<open>error\<close> is a \<open>*PluginError\<close> or something else.\<close>

datatype any_error = APluginError pluginError | AnotherError goerror

definition IsInvalidInputError :: "any_error \<Rightarrow> bool" where
  "IsInvalidInputError err = (case err of
     APluginError perr \<Rightarrow> errType perr = PluginInvalidInputError | AnotherError _ \<Rightarrow> False)"

definition IsPluginRunError :: "any_error \<Rightarrow> bool" where
  "IsPluginRunError err = (case err of
     APluginError perr \<Rightarrow> errType perr = PluginRunError | AnotherError _ \<Rightarrow> False)"

definition IsInvalidIOError :: "any_error \<Rightarrow> bool" where
  "IsInvalidIOError err = (case err of
     APluginError perr \<Rightarrow> errType perr = PluginInvalidIOError | AnotherError _ \<Rightarrow> False)"

section \<open>What the parsers give back\<close>

text \<open>\<open>strings.Join\<close> of the pairs, the form a user writes the flag in.\<close>

definition showPairs :: "(string \<times> string) list \<Rightarrow> string" where
  "showPairs kvs = joinS '','' (map (\<lambda>(k, v). k @ ''='' @ v) kvs)"

definition flag_key :: "string \<Rightarrow> bool" where
  "flag_key k \<longleftrightarrow> CHR '','' \<notin> set k \<and> CHR ''='' \<notin> set k"

lemma kvPair_show [str_simps]:
  "CHR ''='' \<notin> set k \<Longrightarrow> CHR ''='' \<notin> set v \<Longrightarrow> kvPair (k @ CHR ''='' # v) = (k, v)"
  by (simp add: kvPair_def split1_append_sep split1_no_sep)

lemma kvPair_second_equals:
  assumes "CHR ''='' \<notin> set k" and "CHR ''='' \<notin> set v"
  shows "kvPair (k @ CHR ''='' # v @ CHR ''='' # rest) = (k, v)"
  using assms by (simp add: kvPair_def split1_append_sep)

lemma split_showPairs:
  assumes "kvs \<noteq> []" and "\<forall>(k, v)\<in>set kvs. flag_key k \<and> flag_key v"
  shows "map kvPair (split1 CHR '','' (showPairs kvs)) = kvs"
proof -
  have "split1 CHR '','' (showPairs kvs) = map (\<lambda>(k, v). k @ ''='' @ v) kvs"
    unfolding showPairs_def using assms by (intro split_join1) (auto simp: flag_key_def)
  then show ?thesis using assms(2)
    by (auto simp: map_idI flag_key_def kvPair_show intro!: map_idI)
qed

lemma ParseOptionalFieldMapVal_pairs:
  "ParseOptionalFieldMapVal s = foldl (\<lambda>m (k, v). fmupd k v m) fmempty (map kvPair (split1 CHR '','' s))"
  by (simp add: ParseOptionalFieldMapVal_def foldl_map)

end
