(* ===== verification/Whiteout.thy ===== *)
theory Whiteout
  imports TransformUtil PluginApi
begin

text \<open>
  \<open>transform/kubernetes/kubernetes.go\<close>, first half: the options of the Kubernetes plugin, how
  they are read from a request (\<open>setOptionalFields\<close>), and which objects are left out of the
  migration (\<open>getWhiteOuts\<close>). The plugin object is mutated by every request, so its state is
  passed through; a nil map or slice of the code behaves as an empty one here.
\<close>

section \<open>Model\<close>

record kubePlugin =
  kAddAnnotations :: "(string, string) fmap"
  kRemoveAnnotations :: "string list"
  kRegistryReplacement :: "(string, string) fmap"
  kDisableWhiteoutOwned :: bool
  kExtraWhiteouts :: "groupKind list"
  kIncludeOnly :: "groupKind list"
  kStripDefaultRBAC :: bool
  kStripDefaultCABundle :: bool
  kPVCRenameMap :: "(string, string) fmap"

definition newKubePlugin :: kubePlugin where
  "newKubePlugin = \<lparr>kAddAnnotations = fmempty, kRemoveAnnotations = [], kRegistryReplacement = fmempty,
     kDisableWhiteoutOwned = False, kExtraWhiteouts = [], kIncludeOnly = [],
     kStripDefaultRBAC = False, kStripDefaultCABundle = False, kPVCRenameMap = fmempty\<rparr>"

definition AddAnnotationsFlag :: string where "AddAnnotationsFlag = ''add-annotations''"
definition RemoveAnnotationsFlag :: string where "RemoveAnnotationsFlag = ''remove-annotations''"
definition RegistryReplacementFlag :: string where "RegistryReplacementFlag = ''registry-replacement''"
definition ExtraWhiteoutsFlag :: string where "ExtraWhiteoutsFlag = ''extra-whiteouts''"
definition IncludeOnlyFlag :: string where "IncludeOnlyFlag = ''include-only''"
definition DisableWhiteoutOwnedFlag :: string where "DisableWhiteoutOwnedFlag = ''disable-whiteout-owned''"
definition StripDefaultRBACFlag :: string where "StripDefaultRBACFlag = ''strip-default-rbac''"
definition StripDefaultCABundleFlag :: string where "StripDefaultCABundleFlag = ''strip-default-cabundle''"
definition PVCRenameMapFlag :: string where "PVCRenameMapFlag = ''pvc-rename-map''"

lemmas flag_defs = AddAnnotationsFlag_def RemoveAnnotationsFlag_def RegistryReplacementFlag_def
  ExtraWhiteoutsFlag_def IncludeOnlyFlag_def DisableWhiteoutOwnedFlag_def StripDefaultRBACFlag_def
  StripDefaultCABundleFlag_def PVCRenameMapFlag_def

text \<open>Reading a Go map: the zero value where the key is absent.\<close>

definition flagVal :: "(string, string) fmap \<Rightarrow> string \<Rightarrow> string" where
  "flagVal extras f = (case fmlookup extras f of None \<Rightarrow> [] | Some v \<Rightarrow> v)"

text \<open>\<open>b, _ = strconv.ParseBool(s)\<close>: false beside an error.\<close>

definition parseBoolOrFalse :: "string \<Rightarrow> bool" where
  "parseBoolOrFalse s = (case parseBool s of Inl _ \<Rightarrow> False | Inr b \<Rightarrow> b)"

definition parseGroupKindSlice :: "kube_lib \<Rightarrow> string list \<Rightarrow> groupKind list" where
  "parseGroupKindSlice L gkStrings = map (parseGroupKind L) gkStrings"

text \<open>
  The options that cannot fail, in the order of the code. \<open>setOptionalFields\<close> returns the
  mutated plugin beside its error; a panic of the claim renames ends it.
\<close>

definition setFlags :: "kube_lib \<Rightarrow> kubePlugin \<Rightarrow> (string, string) fmap \<Rightarrow> kubePlugin" where
  "setFlags L k extras =
    (let k1 = k\<lparr>kStripDefaultRBAC := True, kStripDefaultCABundle := True\<rparr>;
         k2 = (if length (flagVal extras AddAnnotationsFlag) > 0
               then k1\<lparr>kAddAnnotations := ParseOptionalFieldMapVal (flagVal extras AddAnnotationsFlag)\<rparr> else k1);
         k3 = (if length (flagVal extras RemoveAnnotationsFlag) > 0
               then k2\<lparr>kRemoveAnnotations := ParseOptionalFieldSliceVal (flagVal extras RemoveAnnotationsFlag)\<rparr> else k2);
         k4 = (if length (flagVal extras RegistryReplacementFlag) > 0
               then k3\<lparr>kRegistryReplacement := ParseOptionalFieldMapVal (flagVal extras RegistryReplacementFlag)\<rparr> else k3);
         k5 = (if length (flagVal extras ExtraWhiteoutsFlag) > 0
               then k4\<lparr>kExtraWhiteouts := parseGroupKindSlice L (ParseOptionalFieldSliceVal (flagVal extras ExtraWhiteoutsFlag))\<rparr> else k4);
         k6 = (if length (flagVal extras IncludeOnlyFlag) > 0
               then k5\<lparr>kIncludeOnly := parseGroupKindSlice L (ParseOptionalFieldSliceVal (flagVal extras IncludeOnlyFlag))\<rparr> else k5);
         k7 = (if length (flagVal extras DisableWhiteoutOwnedFlag) > 0
               then k6\<lparr>kDisableWhiteoutOwned := parseBoolOrFalse (flagVal extras DisableWhiteoutOwnedFlag)\<rparr> else k6);
         k8 = (if length (flagVal extras StripDefaultRBACFlag) > 0
               then k7\<lparr>kStripDefaultRBAC := parseBoolOrFalse (flagVal extras StripDefaultRBACFlag)\<rparr> else k7)
     in if length (flagVal extras StripDefaultCABundleFlag) > 0
        then k8\<lparr>kStripDefaultCABundle := parseBoolOrFalse (flagVal extras StripDefaultCABundleFlag)\<rparr> else k8)"

definition setOptionalFields :: "kube_lib \<Rightarrow> kubePlugin \<Rightarrow> (string, string) fmap
    \<Rightarrow> (kubePlugin \<times> goerror option) result" where
  "setOptionalFields L k extras =
    (let k' = setFlags L k extras in
     if length (flagVal extras PVCRenameMapFlag) > 0
     then (case ProcessPVCMap L (flagVal extras PVCRenameMapFlag) of
             Inl (Panic w) \<Rightarrow> Inl (Panic w)
           | Inl (Error err) \<Rightarrow> Inr (k', Some err)
           | Inr pvcMap \<Rightarrow> Inr (k'\<lparr>kPVCRenameMap := pvcMap\<rparr>, None))
     else Inr (k', None))"

definition gk :: "string \<Rightarrow> string \<Rightarrow> groupKind" where
  "gk grp kind = \<lparr>gkGroup = grp, gkKind = kind\<rparr>"

definition configMapGK :: groupKind where "configMapGK = gk '''' ''ConfigMap''"
definition cronJobGK :: groupKind where "cronJobGK = gk ''batch'' ''CronJob''"
definition daemonSetGK :: groupKind where "daemonSetGK = gk ''apps'' ''DaemonSet''"
definition deploymentGK :: groupKind where "deploymentGK = gk ''apps'' ''Deployment''"
definition jobGK :: groupKind where "jobGK = gk ''batch'' ''Job''"
definition podGK :: groupKind where "podGK = gk '''' ''Pod''"
definition replicaSetGK :: groupKind where "replicaSetGK = gk ''apps'' ''ReplicaSet''"
definition replicationControllerGK :: groupKind where "replicationControllerGK = gk '''' ''ReplicationController''"
definition roleBindingGK :: groupKind where "roleBindingGK = gk ''rbac.authorization.k8s.io'' ''RoleBinding''"
definition serviceGK :: groupKind where "serviceGK = gk '''' ''Service''"
definition secretGK :: groupKind where "secretGK = gk '''' ''Secret''"
definition serviceAccountGK :: groupKind where "serviceAccountGK = gk '''' ''ServiceAccount''"
definition statefulSetGK :: groupKind where "statefulSetGK = gk ''apps'' ''StatefulSet''"
definition extensionsGroup :: string where "extensionsGroup = ''extensions''"

lemmas gk_defs = gk_def configMapGK_def cronJobGK_def daemonSetGK_def deploymentGK_def jobGK_def podGK_def
  replicaSetGK_def replicationControllerGK_def roleBindingGK_def serviceGK_def secretGK_def
  serviceAccountGK_def statefulSetGK_def

definition gksToWhiteout :: "groupKind list" where
  "gksToWhiteout =
     [gk '''' ''Endpoints'', gk ''discovery.k8s.io'' ''EndpointSlice'', gk '''' ''Event'',
      gk ''events.k8s.io'' ''Event'', gk '''' ''PersistentVolumeClaim'',
      gk ''operators.coreos.com'' ''Subscription'', gk ''operators.coreos.com'' ''InstallPlan'',
      gk ''operators.coreos.com'' ''ClusterServiceVersion'', gk ''operators.coreos.com'' ''CatalogSource'',
      gk ''operators.coreos.com'' ''OperatorGroup'', gk ''operators.coreos.com'' ''OperatorCondition'']"

fun groupKindInList :: "groupKind \<Rightarrow> groupKind list \<Rightarrow> bool" where
  "groupKindInList g [] = False"
| "groupKindInList g (thisGK # rest) = (if g = thisGK then True else groupKindInList g rest)"

definition saAnnotation :: string where
  "saAnnotation = ''kubernetes.io/service-account.name''"

definition getWhiteOuts :: "kube_lib \<Rightarrow> kubePlugin \<Rightarrow> unstructured \<Rightarrow> bool" where
  "getWhiteOuts L k obj =
    (let groupKind = groupKindOf L obj in
     if length (kIncludeOnly k) > 0 \<and> \<not> groupKindInList groupKind (kIncludeOnly k) then True
     else if \<not> length (kIncludeOnly k) > 0 \<and> groupKindInList groupKind gksToWhiteout then True
     else if \<not> length (kIncludeOnly k) > 0 \<and> groupKindInList groupKind (kExtraWhiteouts k) then True
     else if groupKind = secretGK \<and>
       (case nestedString L (content obj) [''type''] of
          Inr (Some secretType) \<Rightarrow>
            (secretType = ''kubernetes.io/service-account-token'' \<or> secretType = ''kubernetes.io/dockercfg'') \<and>
            fmlookup (getAnnotations L obj) saAnnotation \<noteq> None
        | _ \<Rightarrow> False) then True
     else if kDisableWhiteoutOwned k then False
     else if length (getOwnerReferences L obj) > 0 then True
     else if groupKind = serviceAccountGK \<and> getName L obj = ''default'' \<and> kStripDefaultRBAC k then True
     else if groupKind = secretGK \<and> kStripDefaultRBAC k \<and>
       fmlookup (getAnnotations L obj) saAnnotation = Some ''default'' then True
     else if groupKind = configMapGK \<and> getName L obj = ''kube-root-ca.crt'' \<and> kStripDefaultCABundle k then True
     else if gkGroup groupKind = extensionsGroup then True
     else False)"

section \<open>The decision in closed form\<close>

lemma groupKindInList_iff [simp]: "groupKindInList g xs \<longleftrightarrow> g \<in> set xs"
  by (induction xs) auto

text \<open>A secret the cluster generates for a service account.\<close>

definition generated_secret :: "kube_lib \<Rightarrow> unstructured \<Rightarrow> bool" where
  "generated_secret L obj \<longleftrightarrow> groupKindOf L obj = secretGK \<and>
     (\<exists>t\<in>{''kubernetes.io/service-account-token'', ''kubernetes.io/dockercfg''}.
        nestedString L (content obj) [''type''] = Inr (Some t)) \<and>
     fmlookup (getAnnotations L obj) saAnnotation \<noteq> None"

text \<open>An object every namespace of a cluster has.\<close>

definition default_object :: "kube_lib \<Rightarrow> kubePlugin \<Rightarrow> unstructured \<Rightarrow> bool" where
  "default_object L k obj \<longleftrightarrow>
     kStripDefaultRBAC k \<and> groupKindOf L obj = serviceAccountGK \<and> getName L obj = ''default'' \<or>
     kStripDefaultRBAC k \<and> groupKindOf L obj = secretGK \<and>
       fmlookup (getAnnotations L obj) saAnnotation = Some ''default'' \<or>
     kStripDefaultCABundle k \<and> groupKindOf L obj = configMapGK \<and> getName L obj = ''kube-root-ca.crt''"

definition selected_kind :: "kubePlugin \<Rightarrow> groupKind \<Rightarrow> bool" where
  "selected_kind k g \<longleftrightarrow>
     (if kIncludeOnly k \<noteq> [] then g \<in> set (kIncludeOnly k)
      else g \<notin> set gksToWhiteout \<and> g \<notin> set (kExtraWhiteouts k))"

lemma getWhiteOuts_iff:
  "getWhiteOuts L k obj \<longleftrightarrow>
     \<not> selected_kind k (groupKindOf L obj) \<or> generated_secret L obj \<or>
     (\<not> kDisableWhiteoutOwned k \<and>
       (getOwnerReferences L obj \<noteq> [] \<or> default_object L k obj \<or>
        gkGroup (groupKindOf L obj) = extensionsGroup))"
proof -
  have secret: "(groupKindOf L obj = secretGK \<and>
       (case nestedString L (content obj) [''type''] of
          Inr (Some secretType) \<Rightarrow>
            (secretType = ''kubernetes.io/service-account-token'' \<or> secretType = ''kubernetes.io/dockercfg'') \<and>
            fmlookup (getAnnotations L obj) saAnnotation \<noteq> None
        | _ \<Rightarrow> False)) = generated_secret L obj"
    by (auto simp: generated_secret_def split: sum.splits option.splits)
  show ?thesis
    unfolding getWhiteOuts_def Let_def secret selected_kind_def default_object_def by auto
qed

text \<open>
  C6. Which objects the plugin keeps: those of a selected kind that are no generated secret
  and, unless white-outs of owned objects are disabled, have no owner, are no default object
  of a namespace and are not in the group \<open>extensions\<close>.
\<close>

theorem getWhiteOuts_decides:
  "\<not> getWhiteOuts L k obj \<longleftrightarrow>
     selected_kind k (groupKindOf L obj) \<and> \<not> generated_secret L obj \<and>
     \<not> (\<not> kDisableWhiteoutOwned k \<and>
       (0 < length (getOwnerReferences L obj) \<or> default_object L k obj \<or>
        gkGroup (groupKindOf L obj) = extensionsGroup))"
  by (simp add: getWhiteOuts_iff)

text \<open>
  \<open>include-only\<close> replaces the built-in and the extra lists: with it set, an object of
  another kind is always left out, and the extra list has no influence on any object.
\<close>

theorem include_only_overrides:
  assumes "kIncludeOnly k \<noteq> []"
  shows "(groupKindOf L obj \<notin> set (kIncludeOnly k) \<longrightarrow> getWhiteOuts L k obj) \<and>
    getWhiteOuts L (k\<lparr>kExtraWhiteouts := gks\<rparr>) obj = getWhiteOuts L k obj"
  using assms by (simp add: getWhiteOuts_iff selected_kind_def default_object_def)

text \<open>
  With \<open>disable-whiteout-owned\<close> the defaults of a namespace and the group \<open>extensions\<close>
  are kept too, whatever \<open>strip-default-rbac\<close> and \<open>strip-default-cabundle\<close> say: the early
  return comes before those checks.
\<close>

theorem disable_whiteout_owned_keeps_defaults:
  assumes "kDisableWhiteoutOwned k" and "selected_kind k (groupKindOf L obj)" and "\<not> generated_secret L obj"
  shows "\<not> getWhiteOuts L k obj"
  using assms by (simp add: getWhiteOuts_iff)

section \<open>The options of a request\<close>

text \<open>
  Without flags a request sets the two defaults and keeps every other option of the
  plugin as earlier requests left it: options are not reset between requests.
\<close>

theorem setOptionalFields_persist:
  "setOptionalFields L k fmempty = Inr (k\<lparr>kStripDefaultRBAC := True, kStripDefaultCABundle := True\<rparr>, None)"
  by (simp add: setOptionalFields_def setFlags_def flagVal_def Let_def)

text \<open>
  The only error a request's flags can cause is an invalid claim rename; the other options
  are set all the same. A flag that is no boolean counts as false.
\<close>

theorem setOptionalFields_errors:
  assumes "setOptionalFields L k extras = Inr (k', Some err)"
  shows "ProcessPVCMap L (flagVal extras PVCRenameMapFlag) = Inl (Error err) \<and> k' = setFlags L k extras \<and>
    (parseBool (flagVal extras StripDefaultRBACFlag) = Inl e \<and> flagVal extras StripDefaultRBACFlag \<noteq> []
      \<longrightarrow> \<not> kStripDefaultRBAC k')"
proof -
  have 1: "ProcessPVCMap L (flagVal extras PVCRenameMapFlag) = Inl (Error err)" "k' = setFlags L k extras"
    using assms by (auto simp: setOptionalFields_def Let_def split: if_splits sum.splits fault.splits)
  then show ?thesis by (auto simp: setFlags_def Let_def parseBoolOrFalse_def)
qed

text \<open>The claim renames a successful request leaves are plain, when they were before.\<close>

lemma setOptionalFields_renames:
  assumes "dns_law L" and "setOptionalFields L k extras = Inr (k', None)"
    and "\<And>c n. fmlookup (kPVCRenameMap k) c = Some n \<Longrightarrow> plain n"
    and "fmlookup (kPVCRenameMap k') c = Some n"
  shows "plain n"
proof -
  have "kPVCRenameMap (setFlags L k extras) = kPVCRenameMap k" by (simp add: setFlags_def Let_def)
  then show ?thesis
    using assms ProcessPVCMap_plain[OF assms(1)]
    by (auto simp: setOptionalFields_def Let_def split: if_splits sum.splits fault.splits)
qed

section \<open>Witnesses\<close>

definition example_object :: "string \<Rightarrow> string \<Rightarrow> string \<Rightarrow> unstructured" where
  "example_object apiVersion kind name = Some (fmap_of_list [(''apiVersion'', JString apiVersion),
     (''kind'', JString kind), (''metadata'', JObject (fmap_of_list [(''name'', JString name)]))])"

lemma include_only_overrides_witness:
  "getWhiteOuts ref_lib (newKubePlugin\<lparr>kIncludeOnly := [deploymentGK]\<rparr>) (example_object ''v1'' ''Pod'' ''p'')"
proof -
  have "kIncludeOnly (newKubePlugin\<lparr>kIncludeOnly := [deploymentGK]\<rparr>) \<noteq> []" by simp
  moreover have "groupKindOf ref_lib (example_object ''v1'' ''Pod'' ''p'') = podGK"
    by (simp add: ref_groupKind_def example_object_def doc_def content_def ref_str_def podGK_def gk_def Let_def)
  ultimately show ?thesis
    using include_only_overrides[of "newKubePlugin\<lparr>kIncludeOnly := [deploymentGK]\<rparr>" ref_lib
        "example_object ''v1'' ''Pod'' ''p''"]
    by (simp add: gk_defs)
qed

lemma disable_whiteout_owned_keeps_defaults_witness:
  "\<not> getWhiteOuts ref_lib (newKubePlugin\<lparr>kDisableWhiteoutOwned := True, kStripDefaultRBAC := True\<rparr>)
     (example_object ''v1'' ''ServiceAccount'' ''default'')"
proof (rule disable_whiteout_owned_keeps_defaults)
  have g: "groupKindOf ref_lib (example_object ''v1'' ''ServiceAccount'' ''default'') = serviceAccountGK"
    by (simp add: ref_groupKind_def example_object_def doc_def content_def ref_str_def serviceAccountGK_def gk_def Let_def)
  show "selected_kind (newKubePlugin\<lparr>kDisableWhiteoutOwned := True, kStripDefaultRBAC := True\<rparr>)
      (groupKindOf ref_lib (example_object ''v1'' ''ServiceAccount'' ''default''))"
    unfolding g by (simp add: selected_kind_def newKubePlugin_def gksToWhiteout_def gk_defs)
  show "\<not> generated_secret ref_lib (example_object ''v1'' ''ServiceAccount'' ''default'')"
    unfolding generated_secret_def g by (simp add: gk_defs)
qed simp

definition example_extras :: "(string, string) fmap" where
  "example_extras = fmap_of_list [(StripDefaultRBACFlag, ''maybe''), (PVCRenameMapFlag, ''Bad:new'')]"

lemma setOptionalFields_errors_witness:
  "\<exists>k' err. setOptionalFields ref_lib newKubePlugin example_extras = Inr (k', Some err) \<and> \<not> kStripDefaultRBAC k'"
proof -
  have f: "flagVal example_extras StripDefaultRBACFlag = ''maybe''"
    "flagVal example_extras PVCRenameMapFlag = ''Bad:new''"
    by (simp_all add: flagVal_def example_extras_def flag_defs)
  have p: "ProcessPVCMap ref_lib ''Bad:new'' = Inl (Error (invalidRemap ''Bad:new'' [''invalid subdomain'']))"
    by (simp add: ProcessPVCMap_def processPair_def Let_def dns_char_def is_digit_def)
  have "setOptionalFields ref_lib newKubePlugin example_extras =
      Inr (setFlags ref_lib newKubePlugin example_extras, Some (invalidRemap ''Bad:new'' [''invalid subdomain'']))"
    by (simp add: setOptionalFields_def Let_def f p)
  moreover have "\<exists>e. parseBool ''maybe'' = Inl e" by (simp add: parseBool_def)
  ultimately show ?thesis
    using setOptionalFields_errors[of ref_lib newKubePlugin example_extras] by (metis f(1) list.distinct(1))
qed

end
