(* ===== verification/ResourceTypes.thy ===== *)
theory ResourceTypes
  imports RefLib
begin

text \<open>
  \<open>transform/types.go\<close> (patch targets, the type key resources are grouped by, the parsing of
  \<open>apiVersion\<close>), \<open>transform/types/duck_type.go\<close> and \<open>apigroups/builtin.go\<close>.
\<close>

section \<open>Model\<close>

record patchTarget =
  targetGroup :: string
  targetVersion :: string
  targetKind :: string
  targetName :: string
  targetNamespace :: string

record ignoredOperation =
  ignOperation :: operation
  ignPlugin :: string
  ignReason :: string
  ignWinnerPlugin :: string

record transformArtifact =
  artResource :: unstructured
  artHaveWhiteOut :: bool
  artPatches :: patch
  artIgnoredOps :: "ignoredOperation list"
  artTarget :: patchTarget
  artPluginName :: string

record resourceGroup =
  typeKey :: string
  groupResources :: "unstructured list"

text \<open>The loop of \<open>splitAPIVersion\<close> over the runes: \<open>n\<close> is the length of the string in bytes.\<close>

fun splitVersionLoop :: "nat \<Rightarrow> (nat \<times> string) list \<Rightarrow> string \<Rightarrow> string list \<Rightarrow> string list" where
  "splitVersionLoop n [] current result = result"
| "splitVersionLoop n ((i, c) # rs) current result =
     (let (result1, current1) =
        (if c = ''/'' then (if current \<noteq> [] then (result @ [current], []) else (result, current))
         else (result, current @ c));
        result2 = (if i = n - 1 \<and> current1 \<noteq> [] then result1 @ [current1] else result1)
      in splitVersionLoop n rs current1 result2)"

definition splitAPIVersion :: "string \<Rightarrow> string list" where
  "splitAPIVersion apiVersion = splitVersionLoop (length apiVersion) (runes 0 apiVersion) [] []"

text \<open>Indexing the parts panics where there are too few.\<close>

definition parseAPIVersion :: "string \<Rightarrow> (string \<times> string) result" where
  "parseAPIVersion apiVersion =
     (if apiVersion = [] then Inr ([], [])
      else (let parts = splitAPIVersion apiVersion in
        if length parts = 1 then Inr ([], parts ! 0)
        else if length parts < 2 then Inl (Panic ''index out of range'')
        else Inr (parts ! 0, parts ! 1)))"

definition DeriveTargetFromResource :: "kube_lib \<Rightarrow> unstructured \<Rightarrow> patchTarget result" where
  "DeriveTargetFromResource L resource =
     bindR (parseAPIVersion (getAPIVersion L resource)) (\<lambda>(grp, version).
     Inr \<lparr>targetGroup = grp, targetVersion = version, targetKind = getKind L resource,
          targetName = getName L resource, targetNamespace = getNamespace L resource\<rparr>)"

definition GetResourceTypeKey :: "kube_lib \<Rightarrow> unstructured \<Rightarrow> string result" where
  "GetResourceTypeKey L resource =
     (let kind = getKind L resource in
      bindR (parseAPIVersion (getAPIVersion L resource)) (\<lambda>(grp, _).
      if grp = [] then Inr kind else Inr (kind @ ''.'' @ grp)))"

definition IsPodSpecable :: "kube_lib \<Rightarrow> unstructured \<Rightarrow> podSpec option" where
  "IsPodSpecable L u =
     (case fmlookup (content u) ''spec'' of None \<Rightarrow> None
      | Some spec \<Rightarrow> (case asObject spec of None \<Rightarrow> None
        | Some specMap \<Rightarrow> (case fmlookup specMap ''template'' of None \<Rightarrow> None
          | Some templateInterface \<Rightarrow> (case asPodTemplate L templateInterface of
              Inl _ \<Rightarrow> None | Inr template \<Rightarrow> Some template))))"

text \<open>The error of \<open>HasStatusObject\<close> is nil on every path.\<close>

definition HasStatusObject :: "unstructured \<Rightarrow> bool" where
  "HasStatusObject u =
     (case fmlookup (content u) ''status'' of None \<Rightarrow> False
      | Some status \<Rightarrow> (case asObject status of None \<Rightarrow> False | Some _ \<Rightarrow> True))"

definition builtinK8sAPIGroups :: "string list" where
  "builtinK8sAPIGroups =
     ['''', ''apps'', ''batch'', ''autoscaling'', ''policy'', ''networking.k8s.io'',
      ''rbac.authorization.k8s.io'', ''storage.k8s.io'', ''admissionregistration.k8s.io'',
      ''certificates.k8s.io'', ''coordination.k8s.io'', ''discovery.k8s.io'', ''events.k8s.io'',
      ''flowcontrol.apiserver.k8s.io'', ''node.k8s.io'', ''scheduling.k8s.io'', ''apiextensions.k8s.io'',
      ''apiregistration.k8s.io'', ''resource.k8s.io'', ''authentication.k8s.io'', ''authorization.k8s.io'',
      ''extensions'', ''metrics.k8s.io'', ''imagepolicy.k8s.io'', ''internal.apiserver.k8s.io'',
      ''operators.coreos.com'', ''packages.operators.coreos.com'', ''monitoring.coreos.com'']"

definition IsDefaultBuiltinAPIGroup :: "string \<Rightarrow> bool" where
  "IsDefaultBuiltinAPIGroup grp =
     (if grp \<in> set builtinK8sAPIGroups then True
      else if hasSuffix ''.openshift.io'' grp then True else False)"

section \<open>Splitting an apiVersion\<close>

text \<open>The state of the loop, read backwards from what is left of the string.\<close>

lemma splitVersionLoop_ascii:
  assumes "is_ascii s"
  shows "s \<noteq> [] \<Longrightarrow> splitVersionLoop (k + length s) (map (\<lambda>(j, c). (k + j, [c])) (indexed s)) cur res =
    res @ filter (\<lambda>p. p \<noteq> []) ((cur @ hd (split1 CHR ''/'' s)) # tl (split1 CHR ''/'' s))"
  using assms
proof (induction s arbitrary: k cur res)
  case (Cons c s)
  have idx: "map (\<lambda>(j, c). (k + j, [c])) (indexed (c # s)) =
      (k, [c]) # map (\<lambda>(j, c). (Suc k + j, [c])) (indexed s)"
    by (simp add: indexed_def map_Suc_upt[symmetric] zip_map1 upt_conv_Cons case_prod_beta del: upt_Suc)
  show ?case
  proof (cases "s = []")
    case True
    then show ?thesis by (simp add: idx del: upt_Suc) (simp add: indexed_def)
  next
    case False
    have "is_ascii s" using Cons.prems by (simp add: is_ascii_def)
    from Cons.IH[OF False this, of "Suc k"] False
    have IH: "splitVersionLoop (Suc (k + length s)) (map (\<lambda>(j, c). (Suc (k + j), [c])) (indexed s)) cur res =
      res @ filter (\<lambda>p. p \<noteq> []) ((cur @ hd (split1 CHR ''/'' s)) # tl (split1 CHR ''/'' s))" for cur res
      by simp
    have last: "s \<noteq> []" using False by simp
    obtain p ps where "split1 CHR ''/'' s = p # ps" by (cases "split1 CHR ''/'' s") auto
    note last = last this
    show ?thesis
    proof (cases "c = CHR ''/''")
      case True
      with True last show ?thesis unfolding idx by (simp add: IH Let_def)
    next
      case False
      with last show ?thesis unfolding idx by (simp add: IH Let_def)
    qed
  qed
qed simp

text \<open>
  On an ASCII string \<open>splitAPIVersion\<close> returns the non-empty parts between the slashes.
\<close>

theorem splitAPIVersion_parts:
  assumes "is_ascii s"
  shows "splitAPIVersion s = filter (\<lambda>p. p \<noteq> []) (split1 CHR ''/'' s)"
proof (cases "s = []")
  case True
  then show ?thesis by (simp add: splitAPIVersion_def)
next
  case False
  from splitVersionLoop_ascii[OF assms this, of 0 "[]" "[]"]
  show ?thesis
    by (simp add: splitAPIVersion_def runes_ascii[OF assms] hd_Cons_tl split: prod.split)
qed

text \<open>The two forms an \<open>apiVersion\<close> has.\<close>

definition plain_part :: "string \<Rightarrow> bool" where
  "plain_part s \<longleftrightarrow> s \<noteq> [] \<and> is_ascii s \<and> CHR ''/'' \<notin> set s"

lemma parseAPIVersion_core: "plain_part v \<Longrightarrow> parseAPIVersion v = Inr ([], v)"
  by (simp add: parseAPIVersion_def plain_part_def splitAPIVersion_parts split1_no_sep Let_def)

lemma parseAPIVersion_group:
  "plain_part g \<Longrightarrow> plain_part v \<Longrightarrow> parseAPIVersion (g @ CHR ''/'' # v) = Inr (g, v)"
proof -
  assume gv: "plain_part g" "plain_part v"
  have "is_ascii (g @ CHR ''/'' # v)" using gv by (simp add: plain_part_def is_ascii_def)
  with gv show ?thesis
    by (simp add: parseAPIVersion_def plain_part_def splitAPIVersion_parts split1_append_sep split1_no_sep Let_def)
qed

text \<open>
  \<open>parseAPIVersion\<close> reads back what an \<open>apiVersion\<close> is made of, with and without a
  group; a string of slashes only makes it panic.
\<close>

theorem parseAPIVersion_reads:
  assumes "plain_part g" and "plain_part v"
  shows "parseAPIVersion (g @ ''/'' @ v) = Inr (g, v) \<and> parseAPIVersion v = Inr ([], v) \<and>
    parseAPIVersion (replicate (Suc n) CHR ''/'') = Inl (Panic ''index out of range'')"
proof -
  have "split1 CHR ''/'' (replicate m CHR ''/'') = replicate (Suc m) []" for m
    by (induction m) auto
  moreover have "is_ascii (replicate (Suc n) CHR ''/'')" by (simp add: is_ascii_def list_all_iff)
  ultimately have "splitAPIVersion (replicate (Suc n) CHR ''/'') = []"
    by (simp add: splitAPIVersion_parts del: replicate_Suc)
  then have "parseAPIVersion (replicate (Suc n) CHR ''/'') = Inl (Panic ''index out of range'')"
    by (simp add: parseAPIVersion_def Let_def)
  with parseAPIVersion_core[OF assms(2)] parseAPIVersion_group[OF assms] show ?thesis by simp
qed

text \<open>
  The group and kind a type key is made from, for an object with a well-formed \<open>apiVersion\<close>.
\<close>

definition versioned :: "kube_lib \<Rightarrow> unstructured \<Rightarrow> string \<Rightarrow> bool" where
  "versioned L u g \<longleftrightarrow> (\<exists>v. plain_part v \<and>
     (g = [] \<and> getAPIVersion L u = v \<or> plain_part g \<and> getAPIVersion L u = g @ CHR ''/'' # v))"

lemma GetResourceTypeKey_versioned:
  "versioned L u g \<Longrightarrow> GetResourceTypeKey L u = Inr (if g = [] then getKind L u else getKind L u @ CHR ''.'' # g)"
  by (auto simp: versioned_def GetResourceTypeKey_def parseAPIVersion_core parseAPIVersion_group plain_part_def)

text \<open>
  Type keys identify types: when kinds have no dot, two resources have the same key
  exactly when their kinds and groups agree.
\<close>

theorem GetResourceTypeKey_injective:
  assumes "versioned L u g" and "versioned L w h"
    and "CHR ''.'' \<notin> set (getKind L u)" and "CHR ''.'' \<notin> set (getKind L w)"
  shows "GetResourceTypeKey L u = GetResourceTypeKey L w \<longleftrightarrow> getKind L u = getKind L w \<and> g = h"
proof -
  have inj: "a @ CHR ''.'' # x = b @ CHR ''.'' # y \<longleftrightarrow> a = b \<and> x = y"
    if "CHR ''.'' \<notin> set a" "CHR ''.'' \<notin> set b" for a b x y :: string
  proof
    assume "a @ CHR ''.'' # x = b @ CHR ''.'' # y"
    from arg_cong[OF this, of "splitN2 CHR ''.''"] that show "a = b \<and> x = y"
      by (simp add: splitN2_append)
  qed simp
  have "a @ CHR ''.'' # x \<noteq> b" "b \<noteq> a @ CHR ''.'' # x" if "CHR ''.'' \<notin> set b" for a b x :: string
    using that by auto
  then show ?thesis
    using assms inj by (simp add: GetResourceTypeKey_versioned[OF assms(1)] GetResourceTypeKey_versioned[OF assms(2)])
qed

text \<open>A recognised group: listed, or a subdomain of \<open>openshift.io\<close>.\<close>

lemma IsDefaultBuiltinAPIGroup_iff:
  "IsDefaultBuiltinAPIGroup g \<longleftrightarrow> g \<in> set builtinK8sAPIGroups \<or> (\<exists>d. g = d @ ''.openshift.io'')"
  by (simp add: IsDefaultBuiltinAPIGroup_def hasSuffix_append)

section \<open>Witnesses\<close>

lemma splitAPIVersion_parts_witness: "splitAPIVersion ''apps/v1'' = [''apps'', ''v1'']"
proof -
  have "is_ascii ''apps/v1''" by (simp add: is_ascii_def)
  from splitAPIVersion_parts[OF this] show ?thesis by simp
qed

lemma plain_part_examples: "plain_part ''apps''" "plain_part ''v1''"
  by (simp_all add: plain_part_def is_ascii_def)

lemma parseAPIVersion_reads_witness:
  "parseAPIVersion ''apps/v1'' = Inr (''apps'', ''v1'') \<and>
   parseAPIVersion ''/'' = Inl (Panic ''index out of range'')"
  using parseAPIVersion_reads[OF plain_part_examples, of 0] by simp

definition example_typed :: "string \<Rightarrow> string \<Rightarrow> unstructured" where
  "example_typed apiVersion kind =
     Some (fmap_of_list [(''apiVersion'', JString apiVersion), (''kind'', JString kind)])"

lemma example_typed_fields:
  "ref_str (doc (example_typed a k)) [''apiVersion''] = a" "ref_str (doc (example_typed a k)) [''kind''] = k"
  by (simp_all add: example_typed_def ref_str_def doc_def content_def)

lemma GetResourceTypeKey_injective_witness:
  "GetResourceTypeKey ref_lib (example_typed ''v1'' ''Event'') \<noteq>
   GetResourceTypeKey ref_lib (example_typed ''apps/v1'' ''Event'')"
proof -
  have "versioned ref_lib (example_typed ''v1'' ''Event'') []"
    using plain_part_examples by (auto simp: versioned_def example_typed_fields)
  moreover have "versioned ref_lib (example_typed ''apps/v1'' ''Event'') ''apps''"
    using plain_part_examples by (auto simp: versioned_def example_typed_fields intro!: exI[of _ "''v1''"])
  ultimately show ?thesis
    using GetResourceTypeKey_injective[of ref_lib "example_typed ''v1'' ''Event''" "[]"
        "example_typed ''apps/v1'' ''Event''" "''apps''"]
    by (simp add: example_typed_fields)
qed

end
