(* ===== verification/JsonPatchCompare.thy ===== *)
theory JsonPatchCompare
  imports KubeLib
begin

text \<open>
  \<open>transform/internal/jsonpatch/compare.go\<close>: when two patch operations are the same, and
  when two patches are the same up to the order of their operations. \<open>EqualOperation\<close> is
  symmetric and transitive, which is what makes the greedy matching of \<open>Equal\<close> complete.
\<close>

section \<open>Model\<close>

text \<open>The test the code makes on an accessor's error: the member is missing.\<close>

definition isMissing :: "'a ret \<Rightarrow> bool" where
  "isMissing r = (case r of
     Inl e \<Rightarrow> errorCause e = ErrMissing \<or> containsS (errorText e) ''missing value''
   | Inr _ \<Rightarrow> False)"

text \<open>The value beside an error is nil.\<close>

definition valueOr_nil :: "json ret \<Rightarrow> json" where
  "valueOr_nil r = (case r of Inl _ \<Rightarrow> JNull | Inr v \<Rightarrow> v)"

definition EqualOperation :: "operation \<Rightarrow> operation \<Rightarrow> bool" where
  "EqualOperation operation1 operation2 =
    (if opKind operation1 = opKind operation2 then
       (case opPath operation1 of Inl _ \<Rightarrow> False | Inr path1 \<Rightarrow>
       (case opPath operation2 of Inl _ \<Rightarrow> False | Inr path2 \<Rightarrow>
        if path1 \<noteq> path2 then False
        else
          (let rest =
             (let val1 = opValue operation1; val2 = opValue operation2;
                  isMissing1 = isMissing val1; isMissing2 = isMissing val2
              in if isMissing1 \<noteq> isMissing2 then False
                 else if isMissing1 \<and> isMissing2 then True
                 else if \<not> isMissing1 \<and> \<not> isMissing2
                 then valueOr_nil val1 = valueOr_nil val2
                 else False)
           in if opKind operation1 = ''move'' \<or> opKind operation1 = ''copy'' then
                (case opFrom operation1 of Inl _ \<Rightarrow> False | Inr from1 \<Rightarrow>
                (case opFrom operation2 of Inl _ \<Rightarrow> False | Inr from2 \<Rightarrow>
                 if from1 \<noteq> from2 then False else rest))
              else rest)))
     else False)"

text \<open>
  The inner loop of \<open>Equal\<close>: mark the first unused operation of \<open>patch2\<close> that equals
  \<open>o1\<close>; \<open>None\<close> when there is none.
\<close>

fun markFirst :: "operation \<Rightarrow> patch \<Rightarrow> bool list \<Rightarrow> bool list option" where
  "markFirst o1 (o2 # patch2) (u # used) =
     (if \<not> u \<and> EqualOperation o1 o2 then Some (True # used)
      else map_option ((#) u) (markFirst o1 patch2 used))"
| "markFirst o1 _ _ = None"

fun matchAll :: "patch \<Rightarrow> patch \<Rightarrow> bool list \<Rightarrow> bool" where
  "matchAll [] patch2 used = True"
| "matchAll (o1 # patch1) patch2 used =
     (case markFirst o1 patch2 used of None \<Rightarrow> False
      | Some used' \<Rightarrow> matchAll patch1 patch2 used')"

text \<open>The error result of \<open>Equal\<close> is nil on every path.\<close>

definition Equal :: "patch \<Rightarrow> patch \<Rightarrow> bool" where
  "Equal patch1 patch2 =
     (if length patch1 \<noteq> length patch2 then False
      else matchAll patch1 patch2 (replicate (length patch2) False))"

section \<open>EqualOperation is a partial equivalence\<close>

lemma EqualOperation_iff:
  "EqualOperation a b \<longleftrightarrow>
     opKind a = opKind b \<and> (\<exists>p. opPath a = Inr p \<and> opPath b = Inr p) \<and>
     (opKind a \<in> {''move'', ''copy''} \<longrightarrow> (\<exists>f. opFrom a = Inr f \<and> opFrom b = Inr f)) \<and>
     isMissing (opValue a) = isMissing (opValue b) \<and>
     (\<not> isMissing (opValue a) \<longrightarrow> valueOr_nil (opValue a) = valueOr_nil (opValue b))"
  by (auto simp: EqualOperation_def Let_def split: sum.splits)

lemma EqualOperation_sym: "EqualOperation a b \<Longrightarrow> EqualOperation b a"
  by (auto simp: EqualOperation_iff)

lemma EqualOperation_trans: "EqualOperation a b \<Longrightarrow> EqualOperation b c \<Longrightarrow> EqualOperation a c"
  by (auto simp: EqualOperation_iff)

text \<open>Reflexive exactly on operations whose path (and source, for move and copy) is there.\<close>

definition well_formed :: "operation \<Rightarrow> bool" where
  "well_formed o1 \<longleftrightarrow> (\<exists>p. opPath o1 = Inr p) \<and>
     (opKind o1 \<in> {''move'', ''copy''} \<longrightarrow> (\<exists>f. opFrom o1 = Inr f))"

lemma EqualOperation_refl: "EqualOperation a a \<longleftrightarrow> well_formed a"
  by (auto simp: EqualOperation_iff well_formed_def)

section \<open>Greedy matching\<close>

text \<open>
  The interface the matching loop relies on: a test that is symmetric and transitive. For
  such a test, removing any partner of the first element leaves a matchable rest.
\<close>

locale partial_equiv =
  fixes R :: "'a \<Rightarrow> 'a \<Rightarrow> bool"
  assumes psym: "R a b \<Longrightarrow> R b a"
    and ptrans: "R a b \<Longrightarrow> R b c \<Longrightarrow> R a c"
begin

lemma rel_mset_cancel:
  assumes "rel_mset R (add_mset a A) (add_mset b B)" and "R a b"
  shows "rel_mset R A B"
proof -
  from msed_rel_invL[OF assms(1)] obtain b' N where
    b': "add_mset b B = add_mset b' N" "R a b'" "rel_mset R A N" by blast
  show ?thesis
  proof (cases "b = b'")
    case True
    with b' show ?thesis by simp
  next
    case False
    with b'(1) obtain N' where N: "N = add_mset b N'" "B = add_mset b' N'"
      by (metis add_eq_conv_ex)
    from msed_rel_invR[OF b'(3)[unfolded N(1)]] obtain m M where
      M: "A = add_mset m M" "R m b" "rel_mset R M N'" by blast
    have "R m b'" using M(2) assms(2) b'(2) psym ptrans by blast
    with M N show ?thesis by (simp add: rel_mset_Plus)
  qed
qed

lemma rel_mset_symp: "rel_mset R A B \<Longrightarrow> rel_mset R B A"
proof -
  have "conversep R = R" using psym by (auto simp: fun_eq_iff)
  then show "rel_mset R A B \<Longrightarrow> rel_mset R B A"
    by (metis conversep_iff multiset.rel_conversep)
qed

lemma rel_mset_transp:
  assumes "rel_mset R A B" and "rel_mset R B C"
  shows "rel_mset R A C"
proof -
  have "rel_mset (R OO R) A C" using assms by (auto simp: multiset.rel_compp)
  moreover have "R OO R \<le> R" using ptrans by blast
  ultimately show ?thesis by (metis multiset.rel_mono_strong predicate2D)
qed

end

interpretation opeq: partial_equiv EqualOperation
  by unfold_locales (blast intro: EqualOperation_sym EqualOperation_trans)+

text \<open>The operations of \<open>patch2\<close> not used yet.\<close>

definition unused :: "patch \<Rightarrow> bool list \<Rightarrow> patch" where
  "unused p us = map fst (filter (\<lambda>x. \<not> snd x) (zip p us))"

lemma unused_Cons: "unused (o1 # p) (u # us) = (if u then unused p us else o1 # unused p us)"
  by (simp add: unused_def)

lemma unused_all: "unused p (replicate (length p) False) = p"
  by (induction p) (auto simp: unused_Cons unused_def)

lemma markFirst_Some:
  "markFirst o1 p us = Some us' \<Longrightarrow> \<exists>o2. EqualOperation o1 o2 \<and> length us' = length us \<and>
     mset (unused p us) = add_mset o2 (mset (unused p us'))"
proof (induction o1 p us arbitrary: us' rule: markFirst.induct)
  case (1 o1 o2 p u us)
  show ?case
  proof (cases "\<not> u \<and> EqualOperation o1 o2")
    case True
    with 1(2) have "us' = True # us" by simp
    with True show ?thesis by (intro exI[of _ o2]) (simp add: unused_Cons)
  next
    case False
    with 1(2) obtain vs where vs: "markFirst o1 p us = Some vs" "us' = u # vs"
      by (auto split: if_splits)
    from 1(1)[OF False vs(1)] obtain o3 where "EqualOperation o1 o3" "length vs = length us"
      "mset (unused p us) = add_mset o3 (mset (unused p vs))" by blast
    with vs(2) show ?thesis by (intro exI[of _ o3]) (simp add: unused_Cons)
  qed
qed auto

lemma markFirst_None:
  "markFirst o1 p us = None \<Longrightarrow> o2 \<in> set (unused p us) \<Longrightarrow> \<not> EqualOperation o1 o2"
proof (induction o1 p us arbitrary: o2 rule: markFirst.induct)
  case (1 o1 o2 p u us)
  then show ?case by (auto simp: unused_Cons split: if_splits)
qed (auto simp: unused_def)

lemma matchAll_iff:
  "length p1 = length (unused p2 us) \<Longrightarrow>
   matchAll p1 p2 us \<longleftrightarrow> rel_mset EqualOperation (mset p1) (mset (unused p2 us))"
proof (induction p1 arbitrary: us)
  case Nil
  then show ?case by simp
next
  case (Cons o1 p1)
  show ?case
  proof (cases "markFirst o1 p2 us")
    case None
    have "\<not> rel_mset EqualOperation (add_mset o1 (mset p1)) (mset (unused p2 us))"
    proof
      assume "rel_mset EqualOperation (add_mset o1 (mset p1)) (mset (unused p2 us))"
      from msed_rel_invL[OF this] obtain o2 N where
        "mset (unused p2 us) = add_mset o2 N" "EqualOperation o1 o2" by blast
      then show False using markFirst_None[OF None] by (metis set_mset_mset union_single_eq_member)
    qed
    with None show ?thesis by simp
  next
    case (Some us')
    from markFirst_Some[OF Some] obtain o2 where
      o2: "EqualOperation o1 o2" "mset (unused p2 us) = add_mset o2 (mset (unused p2 us'))" by blast
    from arg_cong[OF o2(2), of size] Cons.prems have "length p1 = length (unused p2 us')" by simp
    from Cons.IH[OF this] Some
    have "matchAll (o1 # p1) p2 us \<longleftrightarrow> rel_mset EqualOperation (mset p1) (mset (unused p2 us'))"
      by simp
    also have "\<dots> \<longleftrightarrow> rel_mset EqualOperation (mset (o1 # p1)) (mset (unused p2 us))"
      using o2 by (auto simp: rel_mset_Plus dest: opeq.rel_mset_cancel)
    finally show ?thesis .
  qed
qed

lemma Equal_rel_mset: "Equal p1 p2 \<longleftrightarrow> rel_mset EqualOperation (mset p1) (mset p2)"
proof (cases "length p1 = length p2")
  case True
  then show ?thesis by (simp add: Equal_def matchAll_iff unused_all)
next
  case False
  then show ?thesis using rel_mset_size by (fastforce simp: Equal_def)
qed

text \<open>
  C32. Two patches are equal for \<open>Equal\<close> exactly when their operations can be paired off, in
  any order, so that each pair is equal for \<open>EqualOperation\<close>: the greedy choice of the first
  unused partner never misses a pairing, and a pairing is never invented.
\<close>

theorem Equal_is_matching:
  "Equal patch1 patch2 \<longleftrightarrow> (\<exists>q. mset q = mset patch2 \<and> list_all2 EqualOperation patch1 q)"
proof
  assume "Equal patch1 patch2"
  then have "rel_mset EqualOperation (mset patch1) (mset patch2)" by (simp add: Equal_rel_mset)
  then obtain xs ys where xy: "mset xs = mset patch1" "mset ys = mset patch2" "list_all2 EqualOperation xs ys"
    by (auto simp: rel_mset_def)
  from xy(1) have "mset patch1 = mset xs" by simp
  from list_all2_reorder_left_invariance[OF xy(3) this] obtain q where
    "list_all2 EqualOperation patch1 q" "mset q = mset ys" by blast
  with xy(2) show "\<exists>q. mset q = mset patch2 \<and> list_all2 EqualOperation patch1 q" by auto
next
  assume "\<exists>q. mset q = mset patch2 \<and> list_all2 EqualOperation patch1 q"
  then show "Equal patch1 patch2" by (auto simp: Equal_rel_mset rel_mset_def)
qed

text \<open>
  \<open>Equal\<close> does not depend on the order of the operations in either patch, is symmetric
  and is transitive.
\<close>

theorem Equal_partial_equivalence:
  assumes "mset p = mset p'" and "mset q = mset q'"
  shows "Equal p q = Equal p' q' \<and> (Equal p q \<longrightarrow> Equal q p) \<and> (Equal p q \<and> Equal q r \<longrightarrow> Equal p r)"
  unfolding Equal_rel_mset assms by (blast intro: opeq.rel_mset_symp opeq.rel_mset_transp)

text \<open>The operations of a witness: an addition and a removal at two places.\<close>

definition example_add :: operation where
  "example_add = \<lparr>opKind = ''add'', opPath = Inr ''/a'', opFrom = Inl (errorf ''from''),
     opValue = Inr (JInt 1)\<rparr>"

definition example_remove :: operation where
  "example_remove = \<lparr>opKind = ''remove'', opPath = Inr ''/b'', opFrom = Inl (errorf ''from''),
     opValue = Inl (GoError ''missing value'' ErrMissing)\<rparr>"

lemma Equal_partial_equivalence_witness:
  "Equal [example_add, example_remove] [example_add, example_remove] =
   Equal [example_remove, example_add] [example_add, example_remove]"
proof -
  have "mset [example_add, example_remove] = mset [example_remove, example_add]" by (simp add: add_mset_commute)
  from Equal_partial_equivalence[OF this refl] show ?thesis by blast
qed

end
