(* ===== verification/Runner.thy ===== *)
theory Runner
  imports PluginApi Ranking JsonPatchCompare
begin

text \<open>
  \<open>transform/runner.go\<close>: running the plugins on an object, and resolving the conflicts
  between their patches. For each path one operation survives; the priorities of the plugins
  decide which. The patches are printed by \<open>json.Marshal\<close>, whose treatment of operations is the
  patch package's, so the two printers are arguments.
\<close>

section \<open>Model\<close>

record pluginOperation =
  opPlugin :: string
  opOperation :: operation

record runner =
  pluginPriorities :: "(string, int) fmap"
  optionalFlags :: "(string, string) fmap"

record runnerResponse =
  transformFile :: string
  haveWhiteOut :: bool
  ignoredPatches :: string
  newResources :: "unstructured list"

definition NewRunner :: "(string, int) fmap \<Rightarrow> (string, string) fmap \<Rightarrow> runner" where
  "NewRunner prios flags = \<lparr>pluginPriorities = prios, optionalFlags = flags\<rparr>"

definition PluginOperationsFromPatch :: "string \<Rightarrow> patch \<Rightarrow> pluginOperation list" where
  "PluginOperationsFromPatch name patches = map (\<lambda>op. \<lparr>opPlugin = name, opOperation = op\<rparr>) patches"

definition EqualPluginOperation :: "pluginOperation \<Rightarrow> pluginOperation \<Rightarrow> bool" where
  "EqualPluginOperation op1 op2 =
     (opPlugin op1 = opPlugin op2 \<and> EqualOperation (opOperation op1) (opOperation op2))"

definition EqualPluginOperationList :: "pluginOperation list \<Rightarrow> pluginOperation list \<Rightarrow> bool" where
  "EqualPluginOperationList ops1 ops2 =
     (if length ops1 \<noteq> length ops2 then False
      else list_all (\<lambda>(i, op1). EqualPluginOperation op1 (ops2 ! i)) (indexed ops1))"

text \<open>The plugin of \<open>o\<close> has priority over the plugin of \<open>foundOp\<close>: a lower number.\<close>

definition replaceVal :: "(string, int) fmap \<Rightarrow> pluginOperation \<Rightarrow> pluginOperation \<Rightarrow> bool" where
  "replaceVal prios o1 foundOp =
     (case fmlookup prios (opPlugin o1) of
        None \<Rightarrow> False
      | Some currentPrio \<Rightarrow>
          (case fmlookup prios (opPlugin foundOp) of
             None \<Rightarrow> True | Some previousPrio \<Rightarrow> currentPrio < previousPrio))"

type_synonym selection = "(string, pluginOperation) fmap \<times> pluginOperation list"

text \<open>The value of an operation, unless reading it fails for another reason than its absence.\<close>

definition valueOrMissing :: "json ret \<Rightarrow> json ret" where
  "valueOrMissing r = (if isMissing r then Inr JNull else r)"

definition sanitizeStep :: "(string, int) fmap \<Rightarrow> selection \<Rightarrow> pluginOperation \<Rightarrow> selection ret" where
  "sanitizeStep prios st o1 = (case st of (patchMap, ignored) \<Rightarrow>
     bindR (opPath (opOperation o1)) (\<lambda>key.
     case fmlookup patchMap key of
       Some foundOp \<Rightarrow>
         (let rep = replaceVal prios o1 foundOp;
              equalOp = EqualOperation (opOperation foundOp) (opOperation o1)
          in bindR (valueOrMissing (opValue (opOperation o1))) (\<lambda>val.
             bindR (valueOrMissing (opValue (opOperation foundOp))) (\<lambda>previousVal.
             Inr (if rep then fmupd key o1 patchMap else patchMap,
                  if equalOp then ignored
                  else if rep then ignored @ [foundOp] else ignored @ [o1]))))
     | None \<Rightarrow> Inr (fmupd key o1 patchMap, ignored)))"

fun sanitizeLoop :: "(string, int) fmap \<Rightarrow> selection \<Rightarrow> pluginOperation list \<Rightarrow> selection ret" where
  "sanitizeLoop prios st [] = Inr st"
| "sanitizeLoop prios st (o1 # ops) =
     bindR (sanitizeStep prios st o1) (\<lambda>st'. sanitizeLoop prios st' ops)"

text \<open>\<open>ord\<close> is the order in which \<open>for _, p := range patchMap\<close> visits the paths.\<close>

type_synonym path_order = "(string, pluginOperation) fmap \<Rightarrow> string list"

definition sanitizePatches :: "path_order \<Rightarrow> (string, int) fmap \<Rightarrow> pluginOperation list
    \<Rightarrow> (patch \<times> pluginOperation list) ret" where
  "sanitizePatches ord prios pluginOps =
     bindR (sanitizeLoop prios (fmempty, []) pluginOps) (\<lambda>(patchMap, ignored).
     Inr (map (\<lambda>k. opOperation (the (fmlookup patchMap k))) (ord patchMap), ignored))"

text \<open>The loop over the plugins: a panic of a plugin ends it, an error is collected.\<close>

record runState =
  rsWhiteOut :: bool
  rsHavePatches :: bool
  rsPatches :: "pluginOperation list"
  rsNewResources :: "unstructured list"
  rsErrs :: "goerror list"

definition runStep :: "runner \<Rightarrow> unstructured \<Rightarrow> runState \<Rightarrow> plugin \<Rightarrow> runState result" where
  "runStep r object st p =
     (case plugin_run p \<lparr>reqObject = object, reqExtras = optionalFlags r\<rparr> of
        Inl (Panic w) \<Rightarrow> Inl (Panic w)
      | Inl (Error err) \<Rightarrow> Inr (st\<lparr>rsErrs := rsErrs st @ [err]\<rparr>)
      | Inr resp \<Rightarrow>
          (let st1 = (if isWhiteOut resp then st\<lparr>rsWhiteOut := True\<rparr> else st);
               st2 = (if length (respPatches resp) > 0
                      then st1\<lparr>rsHavePatches := True, rsPatches := rsPatches st1 @
                             PluginOperationsFromPatch (pluginName (plugin_metadata p)) (respPatches resp)\<rparr>
                      else st1)
           in Inr (if length (respNewResources resp) > 0
                   then st2\<lparr>rsNewResources := rsNewResources st2 @ respNewResources resp\<rparr>
                   else st2)))"

fun runLoop :: "runner \<Rightarrow> unstructured \<Rightarrow> runState \<Rightarrow> plugin list \<Rightarrow> runState result" where
  "runLoop r object st [] = Inr st"
| "runLoop r object st (p # ps) =
     bindR (runStep r object st p) (\<lambda>st'. runLoop r object st' ps)"

definition runStart :: runState where
  "runStart = \<lparr>rsWhiteOut = False, rsHavePatches = False, rsPatches = [], rsNewResources = [], rsErrs = []\<rparr>"

text \<open>The printers of a patch and of a list of plugin operations.\<close>

record printers =
  marshalPatch :: "patch \<Rightarrow> string ret"
  marshalIgnored :: "pluginOperation list \<Rightarrow> string ret"

text \<open>
  \<open>Run\<close> returns a response beside its error. When a printer fails, the field it was to
  fill holds the nil bytes the printer returned.
\<close>

definition Run :: "printers \<Rightarrow> path_order \<Rightarrow> runner \<Rightarrow> unstructured \<Rightarrow> plugin list
    \<Rightarrow> (runnerResponse \<times> goerror option) result" where
  "Run J ord r object plugins =
     bindR (runLoop r object runStart plugins) (\<lambda>st.
     let response = \<lparr>transformFile = ''[]'', haveWhiteOut = rsWhiteOut st,
                     ignoredPatches = ''[]'', newResources = rsNewResources st\<rparr>
     in if length (rsErrs st) > 0 then Inr (response, Some (rsErrs st ! 0))
        else if rsWhiteOut st then Inr (response\<lparr>haveWhiteOut := rsWhiteOut st\<rparr>, None)
        else if rsHavePatches st then
          (case sanitizePatches ord (pluginPriorities r) (rsPatches st) of
             Inl err \<Rightarrow> Inr (response, Some err)
           | Inr (patches, ignored) \<Rightarrow>
               (case marshalPatch J patches of
                  Inl err \<Rightarrow> Inr (response\<lparr>transformFile := []\<rparr>, Some err)
                | Inr t \<Rightarrow>
                    (case marshalIgnored J ignored of
                       Inl err \<Rightarrow> Inr (response\<lparr>transformFile := t, ignoredPatches := []\<rparr>, Some err)
                     | Inr i \<Rightarrow> Inr (response\<lparr>transformFile := t, ignoredPatches := i\<rparr>, None))))
        else Inr (response, None))"

section \<open>The priority order\<close>

text \<open>
  Having priority is a strict weak order (plugins without a number come last and tie), so
  the loop over the operations of one path keeps the first best of them.
\<close>

interpretation prio: ranking "replaceVal prios" for prios
  by unfold_locales (auto simp: replaceVal_def split: option.splits)

definition has_path :: "string \<Rightarrow> pluginOperation \<Rightarrow> bool" where
  "has_path k o1 \<longleftrightarrow> opPath (opOperation o1) = Inr k"

lemma sanitizeStep_lookup:
  assumes "sanitizeStep prios (pm, ign) o1 = Inr (pm', ign')"
  shows "fmlookup pm' k =
    (if has_path k o1 then challenge (replaceVal prios) (fmlookup pm k) o1 else fmlookup pm k)"
proof (cases "opPath (opOperation o1)")
  case (Inl e)
  with assms show ?thesis by (simp add: sanitizeStep_def)
next
  case (Inr p)
  show ?thesis
  proof (cases "fmlookup pm p")
    case None
    with assms Inr show ?thesis by (auto simp: sanitizeStep_def has_path_def challenge_def)
  next
    case (Some f)
    with assms Inr have "pm' = (if replaceVal prios o1 f then fmupd p o1 pm else pm)"
      by (simp add: sanitizeStep_def result_simps Let_def)
    with Some Inr show ?thesis by (auto simp: has_path_def challenge_def)
  qed
qed

lemma sanitizeLoop_lookup:
  "sanitizeLoop prios (pm, ign) ops = Inr (pm', ign') \<Longrightarrow>
   fmlookup pm' k = foldl (challenge (replaceVal prios)) (fmlookup pm k) (filter (has_path k) ops)"
proof (induction ops arbitrary: pm ign)
  case (Cons o1 ops)
  then obtain pm1 ign1 where 1: "sanitizeStep prios (pm, ign) o1 = Inr (pm1, ign1)"
    "sanitizeLoop prios (pm1, ign1) ops = Inr (pm', ign')"
    by (auto simp: result_simps)
  from Cons.IH[OF 1(2)] sanitizeStep_lookup[OF 1(1), of k] show ?case by simp
qed simp

lemma sanitizeLoop_winner:
  "sanitizeLoop prios (fmempty, []) ops = Inr (pm, ign) \<Longrightarrow>
   fmlookup pm k = first_best (replaceVal prios) (filter (has_path k) ops)"
  by (simp add: sanitizeLoop_lookup prio.champion_first_best)


section \<open>What the loop keeps\<close>

lemma sanitizeStep_cases:
  assumes "sanitizeStep prios (pm, ign) o1 = Inr (pm', ign')"
  obtains k where "opPath (opOperation o1) = Inr k" "fmlookup pm k = None"
      "pm' = fmupd k o1 pm" "ign' = ign"
  | k f where "opPath (opOperation o1) = Inr k" "fmlookup pm k = Some f"
      "pm' = (if replaceVal prios o1 f then fmupd k o1 pm else pm)"
      "ign' = (if EqualOperation (opOperation f) (opOperation o1) then ign
               else if replaceVal prios o1 f then ign @ [f] else ign @ [o1])"
proof (cases "opPath (opOperation o1)")
  case (Inl e)
  with assms show ?thesis by (simp add: sanitizeStep_def)
next
  case (Inr k)
  show ?thesis
  proof (cases "fmlookup pm k")
    case None
    with assms Inr show ?thesis by (intro that(1)) (auto simp: sanitizeStep_def)
  next
    case (Some f)
    with assms Inr show ?thesis by (intro that(2)[of k f]) (auto simp: sanitizeStep_def result_simps Let_def)
  qed
qed

text \<open>Every operation seen is selected, set aside, or equal to one that is.\<close>

definition accounted :: "selection \<Rightarrow> pluginOperation \<Rightarrow> bool" where
  "accounted st o1 \<longleftrightarrow> (\<exists>o2. (o2 \<in> fmran' (fst st) \<or> o2 \<in> set (snd st)) \<and>
     (o2 = o1 \<or> EqualOperation (opOperation o1) (opOperation o2)))"

lemma accounted_via:
  assumes "accounted st o2" and "o1 = o2 \<or> EqualOperation (opOperation o1) (opOperation o2)"
  shows "accounted st o1"
  using assms EqualOperation_trans unfolding accounted_def by blast

lemma sanitizeStep_accounted:
  assumes step: "sanitizeStep prios (pm, ign) o1 = Inr (pm', ign')"
    and acc: "accounted (pm, ign) o2 \<or> o2 = o1"
  shows "accounted (pm', ign') o2"
  using step
proof (cases rule: sanitizeStep_cases)
  case (1 k)
  have "x \<in> fmran' pm'" if "x \<in> fmran' pm" for x
    using that 1 by (auto simp: fmlookup_ran'_iff) (metis fmupd_lookup option.distinct(1))
  moreover have "o1 \<in> fmran' pm'" using 1 by (auto simp: fmlookup_ran'_iff intro: exI[of _ k])
  ultimately show ?thesis using acc 1(4) by (auto simp: accounted_def)
next
  case (2 k f)
  have others: "x \<in> fmran' pm'" if "x \<in> fmran' pm" "x \<noteq> f" for x
    using that 2 by (auto simp: fmlookup_ran'_iff) (metis option.inject)+
  have f: "accounted (pm', ign') f"
  proof (cases "replaceVal prios o1 f")
    case True
    then have "o1 \<in> fmran' pm'" using 2 by (auto simp: fmlookup_ran'_iff intro: exI[of _ k])
    with True 2(4) show ?thesis by (auto simp: accounted_def)
  next
    case False
    then show ?thesis using 2 by (auto simp: accounted_def fmlookup_ran'_iff)
  qed
  have o1: "accounted (pm', ign') o1"
  proof (cases "EqualOperation (opOperation f) (opOperation o1)")
    case True
    then show ?thesis using f accounted_via EqualOperation_sym by blast
  next
    case False
    then show ?thesis using 2 by (auto simp: accounted_def fmlookup_ran'_iff intro: exI[of _ k])
  qed
  have "accounted (pm', ign') x" if "x \<in> fmran' pm \<or> x \<in> set ign" for x
    using that others f 2(4) by (cases "x = f") (auto simp: accounted_def)
  then have "accounted (pm', ign') o2" if "accounted (pm, ign) o2"
    using that accounted_via[of "(pm', ign')"] unfolding accounted_def[of "(pm, ign)"] fst_conv snd_conv
    by blast
  with acc o1 show ?thesis by blast
qed

lemma sanitizeLoop_accounted:
  "sanitizeLoop prios (pm, ign) ops = Inr st \<Longrightarrow>
   accounted (pm, ign) o1 \<or> o1 \<in> set ops \<Longrightarrow> accounted st o1"
proof (induction ops arbitrary: pm ign)
  case (Cons o2 ops)
  then obtain pm1 ign1 where "sanitizeStep prios (pm, ign) o2 = Inr (pm1, ign1)"
    "sanitizeLoop prios (pm1, ign1) ops = Inr st"
    by (auto simp: result_simps)
  with Cons.IH[of pm1 ign1] Cons.prems(2) sanitizeStep_accounted[of prios pm ign o2 pm1 ign1 o1]
  show ?case by auto
qed simp

text \<open>An operation is set aside only against another of its path that it does not outrank.\<close>

definition beaten :: "(string, int) fmap \<Rightarrow> pluginOperation set \<Rightarrow> pluginOperation \<Rightarrow> bool" where
  "beaten prios S o1 \<longleftrightarrow> (\<exists>w\<in>S. opPath (opOperation w) = opPath (opOperation o1) \<and>
     \<not> EqualOperation (opOperation o1) (opOperation w) \<and> \<not> replaceVal prios o1 w)"

definition sane :: "(string, int) fmap \<Rightarrow> pluginOperation set \<Rightarrow> selection \<Rightarrow> bool" where
  "sane prios S st \<longleftrightarrow>
     (\<forall>k f. fmlookup (fst st) k = Some f \<longrightarrow> f \<in> S \<and> opPath (opOperation f) = Inr k) \<and>
     (\<forall>x\<in>set (snd st). x \<in> S \<and> beaten prios S x)"

lemma sanitizeStep_sane:
  assumes step: "sanitizeStep prios (pm, ign) o1 = Inr (pm', ign')"
    and sane: "sane prios S (pm, ign)" and o1: "o1 \<in> S"
  shows "sane prios S (pm', ign')"
  using step
proof (cases rule: sanitizeStep_cases)
  case (1 k)
  with sane o1 show ?thesis by (auto simp: sane_def)
next
  case (2 k f)
  then have f: "f \<in> S" "opPath (opOperation f) = Inr k" using sane by (auto simp: sane_def)
  have "beaten prios S f" if "replaceVal prios o1 f" "\<not> EqualOperation (opOperation f) (opOperation o1)"
    using that o1 f 2 prio.asym[OF that(1)] by (auto simp: beaten_def)
  moreover have "beaten prios S o1" if "\<not> replaceVal prios o1 f" "\<not> EqualOperation (opOperation f) (opOperation o1)"
    using that o1 f 2 EqualOperation_sym by (auto simp: beaten_def intro!: bexI[of _ f])
  ultimately show ?thesis using sane o1 f 2 by (auto simp: sane_def)
qed

lemma sanitizeLoop_sane:
  "sanitizeLoop prios (pm, ign) ops = Inr st \<Longrightarrow> sane prios S (pm, ign) \<Longrightarrow> set ops \<subseteq> S \<Longrightarrow>
   sane prios S st"
proof (induction ops arbitrary: pm ign)
  case (Cons o2 ops)
  then obtain pm1 ign1 where "sanitizeStep prios (pm, ign) o2 = Inr (pm1, ign1)"
    "sanitizeLoop prios (pm1, ign1) ops = Inr st"
    by (auto simp: result_simps)
  with Cons show ?case using sanitizeStep_sane[of prios pm ign o2 pm1 ign1 S] by auto
qed simp


lemma sane_start: "sane prios S (fmempty, [])"
  by (simp add: sane_def)

lemma sanitizePatches_eq_Inr:
  "sanitizePatches ord prios ops = Inr (ps, ign) \<longleftrightarrow>
   (\<exists>pm. sanitizeLoop prios (fmempty, []) ops = Inr (pm, ign) \<and>
      ps = map (\<lambda>k. opOperation (the (fmlookup pm k))) (ord pm))"
  by (auto simp: sanitizePatches_def result_simps)

text \<open>The paths that are left are those of the operations.\<close>

lemma sanitizeLoop_paths:
  assumes "sanitizeLoop prios (fmempty, []) ops = Inr (pm, ign)"
  shows "fmlookup pm k \<noteq> None \<longleftrightarrow> (\<exists>o1\<in>set ops. opPath (opOperation o1) = Inr k)"
proof
  assume "fmlookup pm k \<noteq> None"
  then obtain f where "first_best (replaceVal prios) (filter (has_path k) ops) = Some f"
    using sanitizeLoop_winner[OF assms, of k] by auto
  from first_best_mem[OF this] show "\<exists>o1\<in>set ops. opPath (opOperation o1) = Inr k"
    by (auto simp: has_path_def)
next
  assume "\<exists>o1\<in>set ops. opPath (opOperation o1) = Inr k"
  then have "filter (has_path k) ops \<noteq> []" by (auto simp: filter_empty_conv has_path_def)
  from prio.first_best_exists[OF this, of prios] sanitizeLoop_winner[OF assms, of k]
  show "fmlookup pm k \<noteq> None" by auto
qed

text \<open>An operation the loop can read: it has a path, and its value is there or missing.\<close>

definition readable :: "pluginOperation \<Rightarrow> bool" where
  "readable o1 \<longleftrightarrow> (\<exists>p. opPath (opOperation o1) = Inr p) \<and>
     (\<exists>v. valueOrMissing (opValue (opOperation o1)) = Inr v)"

lemma sanitizeStep_readable:
  assumes "readable o1" and "\<forall>k f. fmlookup pm k = Some f \<longrightarrow> readable f"
  shows "\<exists>pm' ign'. sanitizeStep prios (pm, ign) o1 = Inr (pm', ign') \<and>
     (\<forall>k f. fmlookup pm' k = Some f \<longrightarrow> readable f)"
proof -
  obtain k v where k: "opPath (opOperation o1) = Inr k" "valueOrMissing (opValue (opOperation o1)) = Inr v"
    using assms(1) by (auto simp: readable_def)
  show ?thesis
  proof (cases "fmlookup pm k")
    case None
    with k assms show ?thesis by (auto simp: sanitizeStep_def)
  next
    case (Some f)
    with assms(2) obtain w where "valueOrMissing (opValue (opOperation f)) = Inr w"
      by (auto simp: readable_def)
    with Some k assms show ?thesis by (auto simp: sanitizeStep_def Let_def)
  qed
qed

lemma sanitizeLoop_readable:
  "\<forall>o1\<in>set ops. readable o1 \<Longrightarrow> \<forall>k f. fmlookup pm k = Some f \<longrightarrow> readable f \<Longrightarrow>
   \<exists>st. sanitizeLoop prios (pm, ign) ops = Inr st"
proof (induction ops arbitrary: pm ign)
  case (Cons o1 ops)
  with sanitizeStep_readable[of o1 pm prios ign] show ?case by fastforce
qed simp

lemma sanitizePatches_readable:
  assumes "\<forall>o1\<in>set ops. readable o1"
  shows "\<exists>ps ign. sanitizePatches ord prios ops = Inr (ps, ign)"
proof -
  from sanitizeLoop_readable[OF assms, of fmempty prios "[]"] obtain pm ign where
    "sanitizeLoop prios (fmempty, []) ops = Inr (pm, ign)" by auto
  then show ?thesis by (auto simp: sanitizePatches_eq_Inr)
qed

section \<open>Properties of sanitizePatches\<close>

text \<open>
  C7. The sanitized patch has exactly one operation for each path the plugins' operations
  have, and it is the earliest operation of that path whose plugin no other plugin of the
  path outranks: this is the declarative meaning of the loop's replacements.
\<close>

theorem sanitizePatches_selects_best:
  assumes "ranges_map ord" and "sanitizePatches ord prios ops = Inr (ps, ign)"
  shows "\<exists>ks. distinct ks \<and> set ks = {k. \<exists>o1\<in>set ops. opPath (opOperation o1) = Inr k} \<and>
    map Some ps =
      map (\<lambda>k. map_option opOperation (first_best (replaceVal prios) (filter (has_path k) ops))) ks"
proof -
  from assms(2) obtain pm where pm: "sanitizeLoop prios (fmempty, []) ops = Inr (pm, ign)"
    and ps: "ps = map (\<lambda>k. opOperation (the (fmlookup pm k))) (ord pm)"
    by (auto simp: sanitizePatches_eq_Inr)
  have e: "enumerates (ord pm) pm" using assms(1) by (simp add: ranges_map_def)
  have "distinct (ord pm)" using e by (simp add: enumerates_def)
  moreover have "set (ord pm) = {k. \<exists>o1\<in>set ops. opPath (opOperation o1) = Inr k}"
    using enumerates_mem[OF e] sanitizeLoop_paths[OF pm] by auto
  moreover have "map Some ps =
      map (\<lambda>k. map_option opOperation (first_best (replaceVal prios) (filter (has_path k) ops))) (ord pm)"
    using enumerates_mem[OF e] sanitizeLoop_winner[OF pm] by (auto simp: ps)
  ultimately show ?thesis by blast
qed

text \<open>
  No operation is lost silently: each is selected, is reported as ignored, or is equal to
  one that is selected or ignored.
\<close>

theorem sanitizePatches_accounts:
  assumes "ranges_map ord" and "sanitizePatches ord prios ops = Inr (ps, ign)" and "o1 \<in> set ops"
  shows "opOperation o1 \<in> set ps \<or> o1 \<in> set ign \<or>
    (\<exists>q \<in> set ps \<union> opOperation ` set ign. EqualOperation (opOperation o1) q)"
proof -
  from assms(2) obtain pm where pm: "sanitizeLoop prios (fmempty, []) ops = Inr (pm, ign)"
    and ps: "ps = map (\<lambda>k. opOperation (the (fmlookup pm k))) (ord pm)"
    by (auto simp: sanitizePatches_eq_Inr)
  have "enumerates (ord pm) pm" using assms(1) by (simp add: ranges_map_def)
  from enumerates_mem[OF this] have sel: "opOperation f \<in> set ps" if "f \<in> fmran' pm" for f
    using that by (force simp: ps fmlookup_ran'_iff)
  have "accounted (pm, ign) o1" using sanitizeLoop_accounted[OF pm] assms(3) by blast
  then show ?thesis using sel by (auto simp: accounted_def)
qed

text \<open>
  An operation is reported as ignored only for a conflict: there is an operation of the
  same path, not equal to it, that its plugin does not outrank. Nothing else is reported.
\<close>

theorem sanitizePatches_ignores_conflicts:
  assumes "sanitizePatches ord prios ops = Inr (ps, ign)" and "x \<in> set ign"
  shows "x \<in> set ops \<and> (\<exists>w\<in>set ops. opPath (opOperation w) = opPath (opOperation x) \<and>
    \<not> EqualOperation (opOperation x) (opOperation w) \<and> \<not> replaceVal prios x w)"
proof -
  from assms(1) obtain pm where "sanitizeLoop prios (fmempty, []) ops = Inr (pm, ign)"
    by (auto simp: sanitizePatches_eq_Inr)
  from sanitizeLoop_sane[OF this sane_start, of "set ops"] assms(2)
  show ?thesis by (auto simp: sane_def beaten_def)
qed

text \<open>
  When every operation has a path and a value that is readable or missing, sanitizing
  cannot fail.
\<close>

theorem sanitizePatches_total:
  assumes "\<forall>o1\<in>set ops. (\<exists>p. opPath (opOperation o1) = Inr p) \<and>
    (isMissing (opValue (opOperation o1)) \<or> (\<exists>v. opValue (opOperation o1) = Inr v))"
  shows "\<exists>ps ign. sanitizePatches ord prios ops = Inr (ps, ign)"
  using assms by (intro sanitizePatches_readable) (auto simp: readable_def valueOrMissing_def)

text \<open>
  The order in which the map of selected operations is ranged over decides the order of
  the operations in the sanitized patch and nothing else.
\<close>

theorem sanitizePatches_order:
  assumes "ranges_map ord" and "ranges_map ord'"
    and "sanitizePatches ord prios ops = Inr (ps, ign)"
    and "sanitizePatches ord' prios ops = Inr (ps', ign')"
  shows "mset ps = mset ps' \<and> ign = ign'"
proof -
  from assms(3,4) obtain pm where
    "ps = map (\<lambda>k. opOperation (the (fmlookup pm k))) (ord pm)"
    "ps' = map (\<lambda>k. opOperation (the (fmlookup pm k))) (ord' pm)" "ign = ign'"
    by (auto simp: sanitizePatches_eq_Inr)
  moreover have "mset (ord pm) = mset (ord' pm)"
    using assms(1,2) by (simp add: ranges_map_def enumerates_def set_eq_iff_mset_eq_distinct[symmetric])
  ultimately show ?thesis by simp
qed

section \<open>The loop over the plugins\<close>

text \<open>What one plugin contributes.\<close>

definition outcome :: "runner \<Rightarrow> unstructured \<Rightarrow> plugin \<Rightarrow> pluginResponse result" where
  "outcome r object p = plugin_run p \<lparr>reqObject = object, reqExtras = optionalFlags r\<rparr>"

definition errs_of :: "runner \<Rightarrow> unstructured \<Rightarrow> plugin \<Rightarrow> goerror list" where
  "errs_of r object p = (case outcome r object p of Inl (Error e) \<Rightarrow> [e] | _ \<Rightarrow> [])"

definition ops_of :: "runner \<Rightarrow> unstructured \<Rightarrow> plugin \<Rightarrow> pluginOperation list" where
  "ops_of r object p = (case outcome r object p of
     Inr resp \<Rightarrow> PluginOperationsFromPatch (pluginName (plugin_metadata p)) (respPatches resp) | _ \<Rightarrow> [])"

definition news_of :: "runner \<Rightarrow> unstructured \<Rightarrow> plugin \<Rightarrow> unstructured list" where
  "news_of r object p = (case outcome r object p of Inr resp \<Rightarrow> respNewResources resp | _ \<Rightarrow> [])"

definition whites :: "runner \<Rightarrow> unstructured \<Rightarrow> plugin \<Rightarrow> bool" where
  "whites r object p = (case outcome r object p of Inr resp \<Rightarrow> isWhiteOut resp | _ \<Rightarrow> False)"

definition panics :: "runner \<Rightarrow> unstructured \<Rightarrow> plugin \<Rightarrow> bool" where
  "panics r object p = (case outcome r object p of Inl (Panic _) \<Rightarrow> True | _ \<Rightarrow> False)"

lemmas contrib_defs = errs_of_def ops_of_def news_of_def whites_def panics_def

lemma PluginOperationsFromPatch_Nil [simp]: "PluginOperationsFromPatch n ps = [] \<longleftrightarrow> ps = []"
  by (simp add: PluginOperationsFromPatch_def)

text \<open>The state after the plugins, in closed form.\<close>

definition collected :: "runner \<Rightarrow> unstructured \<Rightarrow> plugin list \<Rightarrow> runState" where
  "collected r object ps = \<lparr>rsWhiteOut = list_ex (whites r object) ps,
     rsHavePatches = (concat (map (ops_of r object) ps) \<noteq> []),
     rsPatches = concat (map (ops_of r object) ps),
     rsNewResources = concat (map (news_of r object) ps),
     rsErrs = concat (map (errs_of r object) ps)\<rparr>"

lemma runStep_collected:
  assumes "\<not> panics r object p"
  shows "runStep r object (collected r object ps) p = Inr (collected r object (ps @ [p]))"
proof (cases "outcome r object p")
  case (Inl f)
  then obtain e where "f = Error e" using assms by (cases f) (auto simp: contrib_defs)
  with Inl show ?thesis
    by (simp add: runStep_def outcome_def[symmetric] collected_def contrib_defs)
next
  case (Inr resp)
  then show ?thesis
    by (simp add: runStep_def outcome_def[symmetric] collected_def contrib_defs Let_def)
qed

lemma runLoop_collected:
  "\<forall>p\<in>set qs. \<not> panics r object p \<Longrightarrow>
   runLoop r object (collected r object ps) qs = Inr (collected r object (ps @ qs))"
  by (induction qs arbitrary: ps) (simp_all add: runStep_collected)

lemma runStart_collected: "runStart = collected r object []"
  by (simp add: runStart_def collected_def)

lemma runLoop_start:
  "\<forall>p\<in>set ps. \<not> panics r object p \<Longrightarrow> runLoop r object runStart ps = Inr (collected r object ps)"
  using runLoop_collected[of ps r object "[]"] by (simp add: runStart_collected[of r object])

lemma runLoop_fault:
  "runLoop r object st ps = Inl f \<Longrightarrow> \<exists>p\<in>set ps. \<exists>w. outcome r object p = Inl (Panic w) \<and> f = Panic w"
proof (induction ps arbitrary: st)
  case (Cons p ps)
  then consider "runStep r object st p = Inl f" | st' where "runLoop r object st' ps = Inl f"
    by (auto simp: result_simps)
  then show ?case
  proof cases
    case 1
    then show ?thesis
      by (auto simp: runStep_def outcome_def Let_def split: sum.splits fault.splits)
  next
    case 2
    with Cons.IH show ?thesis by auto
  qed
qed simp

section \<open>Properties of Run\<close>

text \<open>
  \<open>Run\<close> panics exactly when a plugin does; everything else, the plugins' errors included,
  is a response.
\<close>

theorem Run_panics_iff:
  "(\<exists>f. Run J ord r object ps = Inl f) \<longleftrightarrow> (\<exists>p\<in>set ps. panics r object p)"
proof
  assume "\<exists>f. Run J ord r object ps = Inl f"
  then obtain f where "runLoop r object runStart ps = Inl f"
    by (auto simp: Run_def Let_def result_simps split: if_splits sum.splits prod.splits)
  from runLoop_fault[OF this] show "\<exists>p\<in>set ps. panics r object p" by (force simp: panics_def)
next
  assume ex: "\<exists>p\<in>set ps. panics r object p"
  have "\<exists>f. runLoop r object st ps = Inl f" for st
    using ex
  proof (induction ps arbitrary: st)
    case (Cons p ps)
    show ?case
    proof (cases "panics r object p")
      case True
      then show ?thesis
        by (auto simp: panics_def outcome_def runStep_def split: sum.splits fault.splits)
    next
      case False
      with Cons show ?thesis by (cases "runStep r object st p") auto
    qed
  qed simp
  then obtain f where "runLoop r object runStart ps = Inl f" by blast
  then show "\<exists>f. Run J ord r object ps = Inl f" by (simp add: Run_def)
qed

text \<open>
  When plugins fail, \<open>Run\<close> still runs all of them and returns the first error with an
  empty transform, whatever patches the others returned; the new resources and the white-out
  flag of the plugins that succeeded stay in the response.
\<close>

theorem Run_first_error:
  assumes "\<forall>p\<in>set ps. \<not> panics r object p" and "concat (map (errs_of r object) ps) = e # es"
  shows "Run J ord r object ps = Inr (\<lparr>transformFile = ''[]'',
    haveWhiteOut = list_ex (whites r object) ps, ignoredPatches = ''[]'',
    newResources = concat (map (news_of r object) ps)\<rparr>, Some e)"
  using assms by (simp add: Run_def runLoop_start Let_def collected_def)

text \<open>
  C13. When no plugin fails, one white-out is enough: the response has no transform and no
  ignored patches, whatever the other plugins returned.
\<close>

theorem Run_whiteout_dominates:
  assumes "\<forall>p\<in>set ps. \<exists>resp. outcome r object p = Inr resp"
    and "p \<in> set ps" and "outcome r object p = Inr resp" and "isWhiteOut resp"
  shows "Run J ord r object ps = Inr (\<lparr>transformFile = ''[]'', haveWhiteOut = True,
    ignoredPatches = ''[]'', newResources = concat (map (news_of r object) ps)\<rparr>, None)"
proof -
  have "\<forall>p\<in>set ps. \<not> panics r object p" using assms(1) by (force simp: panics_def)
  moreover have "concat (map (errs_of r object) ps) = []"
    using assms(1) by (force simp: errs_of_def)
  moreover have "list_ex (whites r object) ps"
    using assms(2-4) by (force simp: list_ex_iff whites_def)
  ultimately show ?thesis by (simp add: Run_def runLoop_start Let_def collected_def)
qed

lemma Run_collects:
  assumes "\<forall>p\<in>set ps. \<exists>resp. outcome r object p = Inr resp \<and> \<not> isWhiteOut resp"
    and "sanitizePatches ord (pluginPriorities r) (concat (map (ops_of r object) ps)) = Inr (qs, ign)"
    and "marshalPatch J qs = Inr t" and "marshalIgnored J ign = Inr i"
  shows "Run J ord r object ps = Inr (\<lparr>
    transformFile = (if concat (map (ops_of r object) ps) = [] then ''[]'' else t), haveWhiteOut = False,
    ignoredPatches = (if concat (map (ops_of r object) ps) = [] then ''[]'' else i),
    newResources = concat (map (news_of r object) ps)\<rparr>, None)"
proof -
  have "\<forall>p\<in>set ps. \<not> panics r object p" using assms(1) by (force simp: panics_def)
  moreover have "concat (map (errs_of r object) ps) = []"
    using assms(1) by (force simp: errs_of_def)
  moreover have "\<not> list_ex (whites r object) ps"
    using assms(1) by (force simp: list_ex_iff whites_def)
  ultimately show ?thesis
    using assms(2-4) by (simp add: Run_def runLoop_start Let_def collected_def del: concat_eq_Nil_conv)
qed

text \<open>
  C29. When no plugin fails or whites the object out, the transform file is the print of the
  sanitized operations of all plugins, in the order of the plugins, and the ignored file the
  print of the ones set aside; with no operations at all both stay empty lists.
\<close>

theorem Run_transforms:
  assumes "\<forall>p\<in>set ps. \<exists>resp. outcome r object p = Inr resp \<and> \<not> isWhiteOut resp"
    and "sanitizePatches ord (pluginPriorities r) (concat (map (ops_of r object) ps)) = Inr (qs, ign)"
    and "marshalPatch J qs = Inr t" and "marshalIgnored J ign = Inr i"
  shows "Run J ord r object ps = Inr (\<lparr>
    transformFile = (if concat (map (ops_of r object) ps) = [] then ''[]'' else t), haveWhiteOut = False,
    ignoredPatches = (if concat (map (ops_of r object) ps) = [] then ''[]'' else i),
    newResources = concat (map (news_of r object) ps)\<rparr>, None)"
  by (rule Run_collects[OF assms])

section \<open>The contract of a plugin that whites out\<close>

text \<open>
  What the plugins of the repository promise: a white-out comes without patches and without
  new resources. Running such a plugin alone, the runner's empty transform loses nothing.
\<close>

locale whiteout_plugin =
  fixes p :: plugin
  assumes bare: "plugin_run p req = Inr resp \<Longrightarrow> isWhiteOut resp \<Longrightarrow>
    respPatches resp = [] \<and> respNewResources resp = []"
begin

lemma no_ops: "whites r object p \<Longrightarrow> ops_of r object p = [] \<and> news_of r object p = []"
  using bare by (auto simp: contrib_defs outcome_def split: sum.splits)

lemma run_alone:
  assumes "Run J ord r object [p] = Inr (resp, None)" and "haveWhiteOut resp"
  shows "resp = \<lparr>transformFile = ''[]'', haveWhiteOut = True, ignoredPatches = ''[]'', newResources = []\<rparr>"
proof -
  have ok: "\<forall>q\<in>set [p]. \<not> panics r object q" using assms(1) Run_panics_iff[of J ord r object "[p]"] by auto
  have "whites r object p"
    using assms unfolding Run_def runLoop_start[OF ok] bindR.simps
    by (auto simp: collected_def Let_def split: if_splits sum.splits prod.splits)
  then show ?thesis
    using assms no_ops[of r object] unfolding Run_def runLoop_start[OF ok] bindR.simps
    by (auto simp: collected_def Let_def split: if_splits)
qed

end

section \<open>Patches whose operations depend on each other\<close>

text \<open>
  A plugin's patch that first adds an object and then a member of it: a valid patch, in its
  order. The sanitized patch has the order of a map iteration.
\<close>

definition dependent_patch :: patch where
  "dependent_patch =
     [\<lparr>opKind = ''add'', opPath = Inr ''/a'', opFrom = Inl (errorf ''from''), opValue = Inr (JObject fmempty)\<rparr>,
      \<lparr>opKind = ''add'', opPath = Inr ''/a/b'', opFrom = Inl (errorf ''from''), opValue = Inr (JInt 1)\<rparr>]"

lemma dependent_sanitized:
  "sanitizePatches sorted_keys fmempty (PluginOperationsFromPatch n dependent_patch) = Inr (dependent_patch, [])"
  "sanitizePatches (\<lambda>m. rev (sorted_keys m)) fmempty (PluginOperationsFromPatch n dependent_patch) =
     Inr (rev dependent_patch, [])"
  by (simp_all add: dependent_patch_def PluginOperationsFromPatch_def sorted_keys_def sanitizePatches_def
      sanitizeStep_def)

text \<open>
  The order of the sanitized patch matters and is not fixed: for one plugin with one
  valid patch and no conflict there are two orders of ranging over the map such that the
  sanitized patch applies to the object in one and fails in the other; with the applier's
  lenient rules both apply, with different results.
\<close>

theorem sanitizePatches_can_break_a_patch:
  "\<exists>ord ord' ps ps'. ranges_map ord \<and> ranges_map ord' \<and>
     sanitizePatches ord fmempty (PluginOperationsFromPatch n dependent_patch) = Inr (ps, []) \<and>
     sanitizePatches ord' fmempty (PluginOperationsFromPatch n dependent_patch) = Inr (ps', []) \<and>
     Option.bind (steps_of ps) (\<lambda>st. apply_steps st (JObject fmempty)) \<noteq> None \<and>
     Option.bind (steps_of ps') (\<lambda>st. apply_steps st (JObject fmempty)) = None \<and>
     Option.bind (steps_of ps) (\<lambda>st. lenient_steps st (JObject fmempty)) \<noteq>
     Option.bind (steps_of ps') (\<lambda>st. lenient_steps st (JObject fmempty))"
proof -
  have "Option.bind (steps_of dependent_patch) (\<lambda>st. apply_steps st (JObject fmempty)) \<noteq> None"
    "Option.bind (steps_of (rev dependent_patch)) (\<lambda>st. apply_steps st (JObject fmempty)) = None"
    "Option.bind (steps_of dependent_patch) (\<lambda>st. lenient_steps st (JObject fmempty)) \<noteq>
     Option.bind (steps_of (rev dependent_patch)) (\<lambda>st. lenient_steps st (JObject fmempty))"
    by (simp_all add: dependent_patch_def steps_of_def step_of_def pointer_tokens_def)
  then show ?thesis
    using dependent_sanitized ranges_sorted_keys ranges_rev_sorted_keys by blast
qed

section \<open>Witnesses\<close>

definition example_op :: "string \<Rightarrow> string \<Rightarrow> int \<Rightarrow> pluginOperation" where
  "example_op name p i = \<lparr>opPlugin = name, opOperation = \<lparr>opKind = ''replace'', opPath = Inr p,
     opFrom = Inl (errorf ''from''), opValue = Inr (JInt i)\<rparr>\<rparr>"

definition example_prios :: "(string, int) fmap" where
  "example_prios = fmap_of_list [(''a'', 2), (''b'', 1)]"

definition example_ops :: "pluginOperation list" where
  "example_ops = [example_op ''a'' ''/x'' 1, example_op ''b'' ''/x'' 2, example_op ''a'' ''/y'' 3]"

lemmas sanitize_defs = sorted_keys_def sanitizePatches_def sanitizeStep_def valueOrMissing_def
  isMissing_def replaceVal_def EqualOperation_def valueOr_nil_def Let_def

lemma example_sanitized:
  "sanitizePatches sorted_keys example_prios example_ops =
   Inr (map opOperation [example_op ''b'' ''/x'' 2, example_op ''a'' ''/y'' 3], [example_op ''a'' ''/x'' 1])"
  by (simp add: example_ops_def example_op_def example_prios_def sanitize_defs)

lemma sanitizePatches_selects_best_witness:
  "\<exists>ks. distinct ks \<and> set ks = {k. \<exists>o1\<in>set example_ops. opPath (opOperation o1) = Inr k} \<and>
    map Some (map opOperation [example_op ''b'' ''/x'' 2, example_op ''a'' ''/y'' 3]) =
    map (\<lambda>k. map_option opOperation (first_best (replaceVal example_prios) (filter (has_path k) example_ops))) ks"
  by (rule sanitizePatches_selects_best[OF ranges_sorted_keys example_sanitized])

lemma sanitizePatches_accounts_witness:
  "let ps = map opOperation [example_op ''b'' ''/x'' 2, example_op ''a'' ''/y'' 3];
       ign = [example_op ''a'' ''/x'' 1]; o1 = example_op ''a'' ''/x'' 1
   in opOperation o1 \<in> set ps \<or> o1 \<in> set ign \<or>
     (\<exists>q \<in> set ps \<union> opOperation ` set ign. EqualOperation (opOperation o1) q)"
  using sanitizePatches_accounts[OF ranges_sorted_keys example_sanitized, of "example_op ''a'' ''/x'' 1"]
  by (simp add: example_ops_def)

lemma sanitizePatches_ignores_conflicts_witness:
  "\<exists>w\<in>set example_ops. \<not> EqualOperation (opOperation (example_op ''a'' ''/x'' 1)) (opOperation w)"
  using sanitizePatches_ignores_conflicts[OF example_sanitized, of "example_op ''a'' ''/x'' 1"] by auto

lemma sanitizePatches_total_witness:
  "\<exists>ps ign. sanitizePatches sorted_keys example_prios example_ops = Inr (ps, ign)"
  by (rule sanitizePatches_total) (simp add: example_ops_def example_op_def)

lemma example_sanitized_rev:
  "sanitizePatches (\<lambda>m. rev (sorted_keys m)) example_prios example_ops =
   Inr (map opOperation [example_op ''a'' ''/y'' 3, example_op ''b'' ''/x'' 2], [example_op ''a'' ''/x'' 1])"
  by (simp add: example_ops_def example_op_def example_prios_def sanitize_defs)

lemma sanitizePatches_order_witness:
  "mset (map opOperation [example_op ''b'' ''/x'' 2, example_op ''a'' ''/y'' 3]) =
   mset (map opOperation [example_op ''a'' ''/y'' 3, example_op ''b'' ''/x'' 2])"
  using sanitizePatches_order[OF ranges_sorted_keys ranges_rev_sorted_keys example_sanitized
      example_sanitized_rev] by (rule conjunct1)

text \<open>A plugin with a fixed outcome.\<close>

definition example_plugin :: "string \<Rightarrow> pluginResponse result \<Rightarrow> plugin" where
  "example_plugin name res = \<lparr>plugin_run = (\<lambda>_. res), plugin_metadata = \<lparr>pluginName = name,
     pluginVersion = ''v1'', requestVersion = [V1], responseVersion = [V1], optionalFields = []\<rparr>\<rparr>"

definition patching :: plugin where
  "patching = example_plugin ''a'' (Inr (emptyResponse\<lparr>respPatches := [opOperation (example_op ''a'' ''/x'' 1)]\<rparr>))"

definition whiting :: plugin where
  "whiting = example_plugin ''b'' (Inr (emptyResponse\<lparr>isWhiteOut := True\<rparr>))"

definition failing :: plugin where
  "failing = example_plugin ''c'' (Inl (Error (errorf ''failed'')))"

definition example_runner :: runner where
  "example_runner = NewRunner example_prios fmempty"

definition example_printers :: printers where
  "example_printers = \<lparr>marshalPatch = (\<lambda>ps. Inr (replicate (length ps) CHR ''n'')),
     marshalIgnored = (\<lambda>ps. Inr (replicate (length ps) CHR ''i''))\<rparr>"

lemmas example_defs = patching_def whiting_def failing_def example_plugin_def outcome_def emptyResponse_def
  contrib_defs example_runner_def NewRunner_def PluginOperationsFromPatch_def

lemma Run_first_error_witness:
  "Run example_printers sorted_keys example_runner None [patching, failing, whiting] =
   Inr (\<lparr>transformFile = ''[]'', haveWhiteOut = True, ignoredPatches = ''[]'', newResources = []\<rparr>,
        Some (errorf ''failed''))"
proof -
  have "\<forall>p\<in>set [patching, failing, whiting]. \<not> panics example_runner None p"
    by (simp add: example_defs)
  moreover have "concat (map (errs_of example_runner None) [patching, failing, whiting]) = errorf ''failed'' # []"
    by (simp add: example_defs)
  ultimately show ?thesis
    using Run_first_error[of "[patching, failing, whiting]" example_runner None "errorf ''failed''" "[]"
        example_printers sorted_keys]
    by (simp add: example_defs)
qed

lemma Run_whiteout_dominates_witness:
  "Run example_printers sorted_keys example_runner None [patching, whiting] =
   Inr (\<lparr>transformFile = ''[]'', haveWhiteOut = True, ignoredPatches = ''[]'', newResources = []\<rparr>, None)"
proof -
  have "\<forall>p\<in>set [patching, whiting]. \<exists>resp. outcome example_runner None p = Inr resp"
    by (simp add: example_defs)
  moreover have "outcome example_runner None whiting = Inr (emptyResponse\<lparr>isWhiteOut := True\<rparr>)"
    by (simp add: example_defs)
  ultimately show ?thesis
    using Run_whiteout_dominates[of "[patching, whiting]" example_runner None whiting
        "emptyResponse\<lparr>isWhiteOut := True\<rparr>" example_printers sorted_keys]
    by (simp add: news_of_def patching_def example_plugin_def outcome_def emptyResponse_def)
qed

lemma Run_transforms_witness:
  "Run example_printers sorted_keys example_runner None [patching] =
   Inr (\<lparr>transformFile = ''n'', haveWhiteOut = False, ignoredPatches = [], newResources = []\<rparr>, None)"
proof -
  have "sanitizePatches sorted_keys (pluginPriorities example_runner)
      (concat (map (ops_of example_runner None) [patching])) = Inr ([opOperation (example_op ''a'' ''/x'' 1)], [])"
    by (simp add: example_defs example_op_def sanitize_defs)
  moreover have "\<forall>p\<in>set [patching]. \<exists>resp. outcome example_runner None p = Inr resp \<and> \<not> isWhiteOut resp"
    by (simp add: example_defs)
  moreover have "marshalPatch example_printers [opOperation (example_op ''a'' ''/x'' 1)] = Inr ''n''"
    "marshalIgnored example_printers [] = Inr []"
    by (simp_all add: example_printers_def)
  ultimately show ?thesis
    using Run_transforms[of "[patching]" example_runner None sorted_keys
        "[opOperation (example_op ''a'' ''/x'' 1)]" "[]" example_printers "''n''" "[]"]
    by (simp add: example_defs)
qed

end
