(* ===== verification/KubeTransform.thy ===== *)
theory KubeTransform
  imports Whiteout ResourceTypes Runner
begin

text \<open>
  \<open>transform/kubernetes/kubernetes.go\<close>, second half: the patch the Kubernetes plugin makes for
  an object that is migrated. Every part is one definition; \<open>getKubernetesTransforms\<close>
  appends them in the order of the code and returns the first fault.
\<close>

section \<open>Stripped fields\<close>

definition fieldsToStrip :: "string list list" where
  "fieldsToStrip =
     [[''metadata'', ''uid''], [''metadata'', ''selfLink''], [''metadata'', ''resourceVersion''],
      [''metadata'', ''creationTimestamp''], [''metadata'', ''generation''], [''metadata'', ''managedFields''],
      [''metadata'', ''annotations'', ''kubectl.kubernetes.io/last-applied-configuration''],
      [''metadata'', ''annotations'', ''batch.kubernetes.io/controller-uid''],
      [''metadata'', ''annotations'', ''controller-uid''],
      [''metadata'', ''labels'', ''batch.kubernetes.io/controller-uid''],
      [''metadata'', ''labels'', ''controller-uid''],
      [''status'']]"

definition escapeJSONPointer :: "string \<Rightarrow> string" where
  "escapeJSONPointer s =
     (let s1 = replaceAll CHR ''~'' ''~0'' s in replaceAll CHR ''/'' ''~1'' s1)"

definition stripField :: "kube_lib \<Rightarrow> jobject \<Rightarrow> string list \<Rightarrow> patch ret" where
  "stripField L obj field =
     bindR (nestedFieldNoCopy L obj field) (\<lambda>r. case r of
       None \<Rightarrow> Inr []
     | Some _ \<Rightarrow> decodePatch L (opRemove (''/'' @ joinS ''/'' (map escapeJSONPointer field))))"

definition stripFields :: "kube_lib \<Rightarrow> unstructured \<Rightarrow> patch ret" where
  "stripFields L obj = concatR (stripField L (content obj)) fieldsToStrip"

section \<open>Annotations\<close>

definition annotationInitial :: "string \<Rightarrow> string \<Rightarrow> string \<Rightarrow> string" where
  "annotationInitial patchJSON key v = patchJSON @ nl @
     ''{\"op\": \"add\", \"path\": \"/metadata/annotations/'' @ key @ ''\", \"value\": \"'' @ v @ ''\"}''"

definition annotationNext :: "string \<Rightarrow> string \<Rightarrow> string \<Rightarrow> string" where
  "annotationNext patchJSON key v = patchJSON @ '','' @ nl @
     ''{\"op\": \"add\", \"path\": \"/metadata/annotations/'' @ key @ ''\", \"value\": \"'' @ v @ ''\"}''"

definition removeAnnotationInitial :: "string \<Rightarrow> string \<Rightarrow> string" where
  "removeAnnotationInitial patchJSON key = patchJSON @ nl @
     ''{\"op\": \"remove\", \"path\": \"/metadata/annotations/'' @ key @ ''\"}''"

definition removeAnnotationNext :: "string \<Rightarrow> string \<Rightarrow> string" where
  "removeAnnotationNext patchJSON key = patchJSON @ '','' @ nl @
     ''{\"op\": \"remove\", \"path\": \"/metadata/annotations/'' @ key @ ''\"}''"

text \<open>\<open>ord\<close> is the order in which the map of annotations is ranged over.\<close>

type_synonym key_order = "(string, string) fmap \<Rightarrow> string list"

definition addAnnotations :: "kube_lib \<Rightarrow> key_order \<Rightarrow> (string, string) fmap \<Rightarrow> patch ret" where
  "addAnnotations L ord anns =
     (let patchJSON = foldl (\<lambda>patchJSON (i, key).
            if i = 0 then annotationInitial patchJSON key (the (fmlookup anns key))
            else annotationNext patchJSON key (the (fmlookup anns key))) ''['' (indexed (ord anns))
      in decodePatch L (patchJSON @ '']''))"

definition removeAnnotations :: "kube_lib \<Rightarrow> string list \<Rightarrow> patch ret" where
  "removeAnnotations L anns =
     (let patchJSON = foldl (\<lambda>patchJSON (i, annotation).
            if i = 0 then removeAnnotationInitial patchJSON annotation
            else removeAnnotationNext patchJSON annotation) ''['' (indexed anns)
      in decodePatch L (patchJSON @ '']''))"

section \<open>Pods, claim templates\<close>

definition removePodFields :: "kube_lib \<Rightarrow> patch ret" where
  "removePodFields L =
     bindR (decodePatch L (opRemove ''/spec/nodeName'')) (\<lambda>p1.
     bindR (decodePatch L (opRemove ''/spec/nodeSelector'')) (\<lambda>p2.
     bindR (decodePatch L (opRemove ''/spec/priority'')) (\<lambda>p3.
     Inr (p1 @ p2 @ p3))))"

definition renameTemplate :: "kube_lib \<Rightarrow> (string, string) fmap \<Rightarrow> (nat \<Rightarrow> string) \<Rightarrow> nat \<times> string \<Rightarrow> patch ret" where
  "renameTemplate L pvcRenameMap path iv = (case iv of (i, name) \<Rightarrow>
     (case fmlookup pvcRenameMap name of None \<Rightarrow> Inr []
      | Some pvcName \<Rightarrow> decodePatch L (opReplace (path i) pvcName)))"

definition renamePVCTemplates :: "kube_lib \<Rightarrow> string list \<Rightarrow> (string, string) fmap \<Rightarrow> (nat \<Rightarrow> string) \<Rightarrow> patch ret" where
  "renamePVCTemplates L volumes pvcRenameMap path =
     (if pvcRenameMap \<noteq> fmempty \<and> length volumes > 0
      then concatR (renameTemplate L pvcRenameMap path) (indexed volumes) else Inr [])"

section \<open>Services\<close>

text \<open>\<open>spec\<close> as a map: the first checks of all four service functions.\<close>

definition specMap :: "unstructured \<Rightarrow> jobject option" where
  "specMap u = Option.bind (fmlookup (content u) ''spec'') asObject"

definition isLoadBalancerService :: "unstructured \<Rightarrow> bool" where
  "isLoadBalancerService u =
     (case specMap u of None \<Rightarrow> False
      | Some spec \<Rightarrow> (case fmlookup spec ''type'' of None \<Rightarrow> False
        | Some serviceType \<Rightarrow> serviceType = JString ''LoadBalancer''))"

definition shouldRemoveServiceClusterIP :: "unstructured \<Rightarrow> bool" where
  "shouldRemoveServiceClusterIP u =
     (case specMap u of None \<Rightarrow> False
      | Some spec \<Rightarrow> (case fmlookup spec ''clusterIP'' of None \<Rightarrow> False
        | Some clusterIP \<Rightarrow> clusterIP \<noteq> JString ''None''))"

definition shouldRemoveServiceClusterIPs :: "unstructured \<Rightarrow> bool" where
  "shouldRemoveServiceClusterIPs u =
     (case specMap u of None \<Rightarrow> False
      | Some spec \<Rightarrow> (case fmlookup spec ''clusterIPs'' of None \<Rightarrow> False
        | Some clusterIPs \<Rightarrow> (case asArray clusterIPs of None \<Rightarrow> True
          | Some xs \<Rightarrow> if length xs = 0 then True else xs ! 0 \<noteq> JString ''None'')))"

text \<open>A conversion of a float to an integer drops the fraction.\<close>

definition truncate :: "rat \<Rightarrow> int" where
  "truncate q = (if q \<ge> 0 then \<lfloor>q\<rfloor> else \<lceil>q\<rceil>)"

text \<open>
  In the string case the code declares a second \<open>nodePortInt\<close>; the one it returns is still 0.
\<close>

fun getNodePortInt :: "json \<Rightarrow> int ret" where
  "getNodePortInt (JInt i) = Inr i"
| "getNodePortInt (JFloat q) = Inr (truncate q)"
| "getNodePortInt (JString s) = bindR (atoi s) (\<lambda>shadowed. Inr 0)"
| "getNodePortInt _ = Inr 0"

text \<open>The node ports the last applied configuration names: by port name, or by number.\<close>

type_synonym explicit_ports = "string set \<times> int set"

definition explicitStep :: "kube_lib \<Rightarrow> explicit_ports \<Rightarrow> json \<Rightarrow> explicit_ports result" where
  "explicitStep L st port = (case st of (names, ints) \<Rightarrow>
     (case asObject port of None \<Rightarrow> Inr st
      | Some p \<Rightarrow>
          bindR (liftR (nestedFieldNoCopy L p [''nodePort''])) (\<lambda>r. case r of
            None \<Rightarrow> Inr st
          | Some nodePort \<Rightarrow>
              bindR (liftR (getNodePortInt nodePort)) (\<lambda>nodePortInt.
              if nodePortInt > 0 then
                (case fmlookup p ''name'' of
                   None \<Rightarrow> Inr (names, insert nodePortInt ints)
                 | Some portName \<Rightarrow> (case asString portName of
                     None \<Rightarrow> Inl (Panic ''interface conversion: not a string'')
                   | Some s \<Rightarrow> Inr (insert s names, ints)))
              else Inr st))))"

fun explicitLoop :: "kube_lib \<Rightarrow> explicit_ports \<Rightarrow> json list \<Rightarrow> explicit_ports result" where
  "explicitLoop L st [] = Inr st"
| "explicitLoop L st (port # ports) = bindR (explicitStep L st port) (\<lambda>st'. explicitLoop L st' ports)"

definition lastAppliedKey :: string where
  "lastAppliedKey = ''kubectl.kubernetes.io/last-applied-configuration''"

definition explicitPorts :: "kube_lib \<Rightarrow> unstructured \<Rightarrow> explicit_ports result" where
  "explicitPorts L u =
     (case fmlookup (getAnnotations L u) lastAppliedKey of
        None \<Rightarrow> Inr ({}, {})
      | Some lastAppliedConfig \<Rightarrow>
          bindR (liftR (unmarshalObject L lastAppliedConfig)) (\<lambda>applied.
          bindR (liftR (nestedSlice L applied [''spec'', ''ports''])) (\<lambda>r. case r of
            None \<Rightarrow> Inr ({}, {})
          | Some ports \<Rightarrow> explicitLoop L ({}, {}) ports)))"

definition updateNodePortString :: "nat \<Rightarrow> string" where
  "updateNodePortString i = ''/spec/ports/'' @ itoa (int i) @ ''/nodePort''"

text \<open>The name of a port of the service; one that is no string counts as no name.\<close>

definition portNameStr :: "jobject \<Rightarrow> string" where
  "portNameStr port = (case fmlookup port ''name'' of None \<Rightarrow> []
     | Some name \<Rightarrow> (case asString name of None \<Rightarrow> [] | Some s \<Rightarrow> s))"

definition nodePortStep :: "kube_lib \<Rightarrow> explicit_ports \<Rightarrow> nat \<times> json \<Rightarrow> patch result" where
  "nodePortStep L ex ip = (case ip of (i, portInterface) \<Rightarrow>
     (case asObject portInterface of None \<Rightarrow> Inr []
      | Some port \<Rightarrow>
          (case fmlookup port ''nodePort'' of None \<Rightarrow> Inr []
           | Some nodePort \<Rightarrow>
               bindR (liftR (getNodePortInt nodePort)) (\<lambda>nodePortInt.
               if nodePortInt = 0 then Inr []
               else if (if length (portNameStr port) > 0 then portNameStr port \<notin> fst ex
                        else nodePortInt \<notin> snd ex)
               then liftR (decodePatch L (opRemove (updateNodePortString i)))
               else Inr []))))"

definition getNodePortPatch :: "kube_lib \<Rightarrow> unstructured \<Rightarrow> patch result" where
  "getNodePortPatch L u =
     (case specMap u of None \<Rightarrow> Inr []
      | Some spec \<Rightarrow> (case fmlookup spec ''type'' of None \<Rightarrow> Inr []
        | Some serviceType \<Rightarrow>
            if serviceType = JString ''ExternalName'' then Inr []
            else (case fmlookup spec ''ports'' of None \<Rightarrow> Inr []
              | Some servicePorts \<Rightarrow> (case asArray servicePorts of None \<Rightarrow> Inr []
                | Some portsSlice \<Rightarrow>
                    bindR (explicitPorts L u) (\<lambda>ex. concatR (nodePortStep L ex) (indexed portsSlice))))))"

definition removeWhen :: "kube_lib \<Rightarrow> bool \<Rightarrow> string \<Rightarrow> patch result" where
  "removeWhen L b path = (if b then liftR (decodePatch L (opRemove path)) else Inr [])"

definition removeServiceFields :: "kube_lib \<Rightarrow> unstructured \<Rightarrow> patch result" where
  "removeServiceFields L obj =
     bindR (removeWhen L (isLoadBalancerService obj) ''/spec/externalIPs'') (\<lambda>p1.
     bindR (removeWhen L (shouldRemoveServiceClusterIP obj) ''/spec/clusterIP'') (\<lambda>p2.
     bindR (removeWhen L (shouldRemoveServiceClusterIPs obj) ''/spec/clusterIPs'') (\<lambda>p3.
     bindR (getNodePortPatch L obj) (\<lambda>p4. Inr (p1 @ p2 @ p3 @ p4)))))"

section \<open>Jobs\<close>

definition controllerUIDKeys :: "string list" where
  "controllerUIDKeys = [''batch.kubernetes.io/controller-uid'', ''controller-uid'']"

definition removeLabel :: "kube_lib \<Rightarrow> jobject \<Rightarrow> string list \<Rightarrow> string \<Rightarrow> string \<Rightarrow> patch ret" where
  "removeLabel L obj parent prefix key =
     bindR (nestedString L obj (parent @ [key])) (\<lambda>r. case r of None \<Rightarrow> Inr []
     | Some _ \<Rightarrow> decodePatch L (opRemove (prefix @ escapeJSONPointer key)))"

definition removeJobControllerUID :: "kube_lib \<Rightarrow> unstructured \<Rightarrow> patch ret" where
  "removeJobControllerUID L obj =
     bindR (nestedBool L (content obj) [''spec'', ''manualSelector'']) (\<lambda>manualSelector.
     bindR (if manualSelector = None \<or> manualSelector = Some False
            then bindR (nestedMap L (content obj) [''spec'', ''selector'']) (\<lambda>r. case r of None \<Rightarrow> Inr []
                 | Some _ \<Rightarrow> decodePatch L (opRemove ''/spec/selector''))
            else concatR (removeLabel L (content obj) [''spec'', ''selector'', ''matchLabels'']
                   ''/spec/selector/matchLabels/'') controllerUIDKeys) (\<lambda>p1.
     bindR (concatR (removeLabel L (content obj) [''spec'', ''template'', ''metadata'', ''labels'']
                   ''/spec/template/metadata/labels/'') controllerUIDKeys) (\<lambda>p2.
     Inr (p1 @ p2))))"

definition CraneJobIdempotentAnnotation :: string where
  "CraneJobIdempotentAnnotation = ''crane.konveyor.io/job-idempotent''"

definition suspendStandaloneJob :: "kube_lib \<Rightarrow> unstructured \<Rightarrow> patch ret" where
  "suspendStandaloneJob L obj =
     (if length (getOwnerReferences L obj) > 0 then Inr []
      else if flagVal (getAnnotations L obj) CraneJobIdempotentAnnotation = ''true'' then Inr []
      else bindR (nestedBool L (content obj) [''spec'', ''suspend'']) (\<lambda>suspended.
        if suspended = None \<or> suspended = Some False then decodePatch L suspendText else Inr []))"

section \<open>The whole patch\<close>

text \<open>The renames of a workload kind that is decoded into its typed struct.\<close>

definition renameIn :: "kube_lib \<Rightarrow> kubePlugin \<Rightarrow> unstructured \<Rightarrow> workload_kind \<Rightarrow> (nat \<Rightarrow> string) \<Rightarrow> patch result" where
  "renameIn L k obj kind path =
     liftR (bindR (asWorkload L kind obj) (\<lambda>spec. RenamePVCs L (podVolumes spec) (kPVCRenameMap k) path))"

definition podPart :: "kube_lib \<Rightarrow> kubePlugin \<Rightarrow> unstructured \<Rightarrow> patch result" where
  "podPart L k obj =
     liftR (bindR (asWorkload L Pod obj) (\<lambda>spec.
     bindR (removePodFields L) (\<lambda>p1.
     bindR (RenamePVCs L (podVolumes spec) (kPVCRenameMap k) PVCPathPodString) (\<lambda>p2.
     Inr (p1 @ p2)))))"

definition jobPart :: "kube_lib \<Rightarrow> kubePlugin \<Rightarrow> unstructured \<Rightarrow> patch result" where
  "jobPart L k obj =
     bindR (renameIn L k obj Job PVCPathGenericString) (\<lambda>p1.
     bindR (liftR (removeJobControllerUID L obj)) (\<lambda>p2.
     bindR (liftR (suspendStandaloneJob L obj)) (\<lambda>p3.
     Inr (p1 @ p2 @ p3))))"

text \<open>The pod template of a replication controller is a pointer that may be nil.\<close>

definition replicationControllerPart :: "kube_lib \<Rightarrow> kubePlugin \<Rightarrow> unstructured \<Rightarrow> patch result" where
  "replicationControllerPart L k obj =
     bindR (liftR (asReplicationController L obj)) (\<lambda>template. case template of
       None \<Rightarrow> Inl (Panic ''nil pointer dereference'')
     | Some spec \<Rightarrow> liftR (RenamePVCs L (podVolumes spec) (kPVCRenameMap k) PVCPathGenericString))"

definition roleBindingStep :: "kube_lib \<Rightarrow> string \<Rightarrow> nat \<times> (string \<times> string) \<Rightarrow> patch ret" where
  "roleBindingStep L ns isubj = (case isubj of (i, (subjKind, subjNamespace)) \<Rightarrow>
     if subjKind = ''ServiceAccount'' \<and> subjNamespace = ns
     then decodePatch L (opRemove (''/subjects/'' @ itoa (int i) @ ''/namespace'')) else Inr [])"

definition roleBindingPart :: "kube_lib \<Rightarrow> unstructured \<Rightarrow> patch result" where
  "roleBindingPart L obj =
     liftR (bindR (asRoleBinding L obj) (\<lambda>rb.
     concatR (roleBindingStep L (rbNamespace rb)) (indexed (rbSubjects rb))))"

definition statefulSetPart :: "kube_lib \<Rightarrow> kubePlugin \<Rightarrow> unstructured \<Rightarrow> patch result" where
  "statefulSetPart L k obj =
     bindR (renameIn L k obj StatefulSet PVCPathGenericString) (\<lambda>p1.
     liftR (bindR (asClaimTemplates L obj) (\<lambda>names.
     bindR (renamePVCTemplates L names (kPVCRenameMap k) PVCPathTemplateString) (\<lambda>p2.
     Inr (p1 @ p2)))))"

definition serviceAccountPart :: "kube_lib \<Rightarrow> unstructured \<Rightarrow> patch result" where
  "serviceAccountPart L obj =
     (case nestedSlice L (content obj) [''secrets''] of
        Inr (Some _) \<Rightarrow> liftR (decodePatch L (opRemove ''/secrets''))
      | _ \<Rightarrow> Inr [])"

definition containerImageUpdate :: "nat \<Rightarrow> string" where
  "containerImageUpdate i = ''/spec/template/spec/containers/'' @ itoa (int i) @ ''/image''"

definition initContainerImageUpdate :: "nat \<Rightarrow> string" where
  "initContainerImageUpdate i = ''/spec/template/spec/initContainers/'' @ itoa (int i) @ ''/image''"

definition podContainerImageUpdate :: "nat \<Rightarrow> string" where
  "podContainerImageUpdate i = ''/spec/containers/'' @ itoa (int i) @ ''/image''"

definition podInitContainerImageUpdate :: "nat \<Rightarrow> string" where
  "podInitContainerImageUpdate i = ''/spec/initContainers/'' @ itoa (int i) @ ''/image''"

definition updateStep :: "kube_lib \<Rightarrow> (string, string) fmap \<Rightarrow> (nat \<Rightarrow> string) \<Rightarrow> nat \<times> string \<Rightarrow> patch ret" where
  "updateStep L reps path ic = (case ic of (i, img) \<Rightarrow>
     (case UpdateImageRegistry reps img of (updatedImage, update) \<Rightarrow>
       if update then UpdateImage L (path i) updatedImage else Inr []))"

definition updateImages :: "kube_lib \<Rightarrow> (string, string) fmap \<Rightarrow> (nat \<Rightarrow> string) \<Rightarrow> (nat \<Rightarrow> string) \<Rightarrow> podSpec \<Rightarrow> patch ret" where
  "updateImages L reps path initPath spec =
     bindR (concatR (updateStep L reps path) (indexed (podContainers spec))) (\<lambda>p1.
     bindR (concatR (updateStep L reps initPath) (indexed (podInitContainers spec))) (\<lambda>p2.
     Inr (p1 @ p2)))"

definition registryPart :: "kube_lib \<Rightarrow> kubePlugin \<Rightarrow> unstructured \<Rightarrow> patch result" where
  "registryPart L k obj =
     (if groupKindOf L obj = podGK
      then liftR (bindR (asWorkload L Pod obj) (\<lambda>spec.
        updateImages L (kRegistryReplacement k) podContainerImageUpdate podInitContainerImageUpdate spec))
      else (case IsPodSpecable L obj of None \<Rightarrow> Inr []
        | Some template \<Rightarrow> liftR (updateImages L (kRegistryReplacement k)
            containerImageUpdate initContainerImageUpdate template)))"

definition part :: "bool \<Rightarrow> patch result \<Rightarrow> patch result" where
  "part b p = (if b then p else Inr [])"

definition transformParts :: "kube_lib \<Rightarrow> key_order \<Rightarrow> kubePlugin \<Rightarrow> unstructured \<Rightarrow> patch result list" where
  "transformParts L ord k obj =
     (let g = groupKindOf L obj in
      [liftR (stripFields L obj),
       part (kAddAnnotations k \<noteq> fmempty) (liftR (addAnnotations L ord (kAddAnnotations k))),
       part (length (kRemoveAnnotations k) > 0) (liftR (removeAnnotations L (kRemoveAnnotations k))),
       part (cronJobGK = g) (renameIn L k obj CronJob PVCPathCronJobString),
       part (podGK = g) (podPart L k obj),
       part (daemonSetGK = g) (renameIn L k obj DaemonSet PVCPathGenericString),
       part (deploymentGK = g) (renameIn L k obj Deployment PVCPathGenericString),
       part (jobGK = g) (jobPart L k obj),
       part (replicationControllerGK = g) (replicationControllerPart L k obj),
       part (replicaSetGK = g) (renameIn L k obj ReplicaSet PVCPathGenericString),
       part (roleBindingGK = g) (roleBindingPart L obj),
       part (statefulSetGK = g) (statefulSetPart L k obj),
       part (serviceAccountGK = g) (serviceAccountPart L obj),
       part (kRegistryReplacement k \<noteq> fmempty) (registryPart L k obj),
       part (g = serviceGK) (removeServiceFields L obj)])"

definition getKubernetesTransforms :: "kube_lib \<Rightarrow> key_order \<Rightarrow> kubePlugin \<Rightarrow> unstructured \<Rightarrow> patch result" where
  "getKubernetesTransforms L ord k obj = concatR id (transformParts L ord k obj)"

text \<open>
  \<open>KubernetesTransformPlugin.Run\<close>: the plugin after the request beside the response or the
  error. The response that accompanies an error is dropped, as by the runner.
\<close>

definition kubeRun :: "kube_lib \<Rightarrow> key_order \<Rightarrow> kubePlugin \<Rightarrow> pluginRequest
    \<Rightarrow> (kubePlugin \<times> pluginResponse ret) result" where
  "kubeRun L ord k request =
     bindR (setOptionalFields L k (reqExtras request)) (\<lambda>(k', err). case err of
       Some e \<Rightarrow> Inr (k', Inl e)
     | None \<Rightarrow>
         (let resp = emptyResponse\<lparr>respVersion := V1, isWhiteOut := getWhiteOuts L k' (reqObject request)\<rparr> in
          if isWhiteOut resp then Inr (k', Inr resp)
          else (case getKubernetesTransforms L ord k' (reqObject request) of
              Inl (Panic w) \<Rightarrow> Inl (Panic w)
            | Inl (Error e) \<Rightarrow> Inr (k', Inl e)
            | Inr patches \<Rightarrow> Inr (k', Inr (resp\<lparr>respPatches := patches\<rparr>)))))"

definition kubeMetadata :: pluginMetadata where
  "kubeMetadata = \<lparr>pluginName = ''KubernetesPlugin'', pluginVersion = ''v0.0.10'',
     requestVersion = [V1], responseVersion = [V1],
     optionalFields =
       [\<lparr>flagName = AddAnnotationsFlag, flagHelp = ''Annotations to add to each resource'',
         flagExample = ''annotation1=value1,annotation2=value2''\<rparr>,
        \<lparr>flagName = RegistryReplacementFlag,
         flagHelp = ''Map of image registry paths to swap on transform, in the format original-registry1=target-registry1,original-registry2=target-registry2...'',
         flagExample = ''docker-registry.default.svc:5000=image-registry.openshift-image-registry.svc:5000,docker.io/foo=quay.io/bar''\<rparr>,
        \<lparr>flagName = RemoveAnnotationsFlag, flagHelp = ''Annotations to remove'',
         flagExample = ''annotation1,annotation2''\<rparr>,
        \<lparr>flagName = DisableWhiteoutOwnedFlag,
         flagHelp = ''Disable whiting out owned pods and pod template resources'', flagExample = ''true''\<rparr>,
        \<lparr>flagName = ExtraWhiteoutsFlag,
         flagHelp = ''Additional resources to whiteout specified as a comma-separated list of GroupKind strings.'',
         flagExample = ''Deployment.apps,Service,Route.route.openshift.io''\<rparr>,
        \<lparr>flagName = IncludeOnlyFlag,
         flagHelp = ''If specified, every resource not listed here will be a whiteout. extra-whiteouts is ignored when include-only is specified. Specified as a comma-separated list of GroupKind strings.'',
         flagExample = ''Deployment.apps,Service,Route.route.openshift.io''\<rparr>,
        \<lparr>flagName = StripDefaultRBACFlag,
         flagHelp = ''Whether to strip default RBAC including default serviceAccount (default: true)'',
         flagExample = ''true''\<rparr>,
        \<lparr>flagName = StripDefaultCABundleFlag,
         flagHelp = ''Whether to strip default CA Bundle (default: true)'', flagExample = ''true''\<rparr>,
        \<lparr>flagName = PVCRenameMapFlag, flagHelp = ''A comma-separated list of colon separated pvc renames.'',
         flagExample = ''old-pvc1-name:new-pvc1-name,old-pvc2-name:new-pvc2-name''\<rparr>]\<rparr>"

text \<open>The plugin as the runner sees it, in a given state.\<close>

definition kubePluginAsPlugin :: "kube_lib \<Rightarrow> key_order \<Rightarrow> kubePlugin \<Rightarrow> plugin" where
  "kubePluginAsPlugin L ord k = \<lparr>plugin_run = (\<lambda>req. bindR (kubeRun L ord k req) (\<lambda>(k', resp). liftR resp)),
     plugin_metadata = kubeMetadata\<rparr>"

lemma kubeRun_whiteout:
  "kubeRun L ord k req = Inr (k', Inr resp) \<Longrightarrow> isWhiteOut resp \<Longrightarrow>
   respPatches resp = [] \<and> respNewResources resp = []"
  by (auto simp: kubeRun_def Let_def emptyResponse_def result_simps
      split: option.splits if_splits sum.splits fault.splits)

interpretation kube_whiteout: whiteout_plugin "kubePluginAsPlugin L ord k" for L ord k
proof
  fix req resp
  assume "plugin_run (kubePluginAsPlugin L ord k) req = Inr resp" "isWhiteOut resp"
  then show "respPatches resp = [] \<and> respNewResources resp = []"
    using kubeRun_whiteout[of L ord k req] by (auto simp: kubePluginAsPlugin_def result_simps)
qed

end
