(* ===== verification/KubeProps.thy ===== *)
theory KubeProps
  imports KubeTransform
begin

text \<open>
  What the Kubernetes plugin's patches do to the objects they were made for, measured with
  the reference meaning of JSON patches in \<open>Json\<close>.
\<close>

section \<open>Removing unrelated fields\<close>

definition unrelated :: "string list \<Rightarrow> string list \<Rightarrow> bool" where
  "unrelated p q \<longleftrightarrow> take (length p) q \<noteq> p \<and> take (length q) p \<noteq> q"

lemma unrelated_sym: "unrelated p q \<Longrightarrow> unrelated q p"
  by (simp add: unrelated_def)

definition removals :: "json \<Rightarrow> string list list \<Rightarrow> patch_step list" where
  "removals v fs = map (\<lambda>f. Remove (pointer f)) (filter (\<lambda>f. \<exists>w. follow v f = Found w) fs)"

lemma remove_at_unrelated:
  assumes "remove_at ks v = Some v'" and "follow v ks = Found w" and "unrelated ks qs"
  shows "follow v' qs = follow v qs"
proof -
  have "take (length ks) qs \<noteq> ks" using assms(3) by (simp add: unrelated_def)
  from remove_at_other[OF assms(1,2) this] show ?thesis
  proof
    assume "\<exists>n. qs = take n ks"
    then obtain n where "qs = take n ks" by blast
    then have "take (length qs) ks = qs" by (metis length_take min.cobounded1 take_take take_all_iff linorder_linear min.absorb1 min.absorb2)
    with assms(3) show ?thesis by (simp add: unrelated_def)
  qed
qed

lemma apply_removals:
  assumes "\<forall>f\<in>set fs. f \<noteq> []" and "distinct fs"
    and "\<forall>f\<in>set fs. \<forall>g\<in>set fs. f \<noteq> g \<longrightarrow> unrelated f g"
    and "\<forall>f\<in>set fs. follow v f \<noteq> Blocked"
  shows "\<exists>v'. apply_steps (removals v fs) v = Some v' \<and> (\<forall>f\<in>set fs. follow v' f = Missing) \<and>
    (\<forall>q. (\<forall>f\<in>set fs. unrelated f q) \<longrightarrow> follow v' q = follow v q)"
  using assms
proof (induction fs arbitrary: v)
  case Nil
  then show ?case by (simp add: removals_def)
next
  case (Cons f fs)
  show ?case
  proof (cases "\<exists>w. follow v f = Found w")
    case True
    then obtain w v1 where v1: "follow v f = Found w" "remove_at f v = Some v1"
      using remove_at_Found Cons.prems(1) by fastforce
    have same: "follow v1 g = follow v g" if "unrelated f g" for g
      using remove_at_unrelated[OF v1(2,1) that] .
    have fs: "unrelated f g" if "g \<in> set fs" for g using Cons.prems(2,3) that by auto
    have "removals v (f # fs) = Remove (pointer f) # removals v1 fs"
      using v1 same fs by (simp add: removals_def cong: filter_cong)
    moreover obtain v' where v': "apply_steps (removals v1 fs) v1 = Some v'"
      "\<forall>g\<in>set fs. follow v' g = Missing"
      "\<forall>q. (\<forall>g\<in>set fs. unrelated g q) \<longrightarrow> follow v' q = follow v1 q"
      using Cons.IH[of v1] Cons.prems same fs by auto
    moreover have "follow v1 f = Missing" by (rule remove_at_gone[OF v1(2,1)])
    ultimately show ?thesis using v1 same fs unrelated_sym by auto
  next
    case False
    then have m: "follow v f = Missing" using Cons.prems(4) by (cases "follow v f") auto
    from Cons.IH[of v] Cons.prems obtain v' where v': "apply_steps (removals v fs) v = Some v'"
      "\<forall>g\<in>set fs. follow v' g = Missing"
      "\<forall>q. (\<forall>g\<in>set fs. unrelated g q) \<longrightarrow> follow v' q = follow v q" by auto
    have "\<forall>g\<in>set fs. unrelated g f" using Cons.prems(2,3) unrelated_sym by auto
    with v'(3) m have "follow v' f = Missing" by simp
    with v' False show ?thesis by (auto simp: removals_def)
  qed
qed

section \<open>Stripped fields\<close>

lemma escape_is: "escapeJSONPointer s = escapeToken s"
  by (simp add: escapeJSONPointer_def escapeToken_def)

lemma pointer_join: "ks \<noteq> [] \<Longrightarrow> CHR ''/'' # joinS ''/'' (map escapeJSONPointer ks) = pointer ks"
proof (induction ks)
  case (Cons k ks)
  then show ?case by (cases "ks = []") (simp_all add: pointer_Cons escape_is joinS_cons)
qed simp

lemma plain_fields: "f \<in> set fieldsToStrip \<Longrightarrow> f \<noteq> [] \<and> plain (pointer f)"
  by (auto simp: fieldsToStrip_def pointer_Cons escapeToken_Cons plain_Cons plain_char_def)

lemma fields_unrelated:
  "f \<in> set fieldsToStrip \<Longrightarrow> g \<in> set fieldsToStrip \<Longrightarrow> f \<noteq> g \<Longrightarrow> unrelated f g"
proof -
  have "\<forall>f\<in>set fieldsToStrip. \<forall>g\<in>set fieldsToStrip. f \<noteq> g \<longrightarrow> unrelated f g"
    by code_simp
  then show "f \<in> set fieldsToStrip \<Longrightarrow> g \<in> set fieldsToStrip \<Longrightarrow> f \<noteq> g \<Longrightarrow> unrelated f g"
    by blast
qed

lemma fields_distinct: "distinct fieldsToStrip"
  by (simp add: fieldsToStrip_def)

lemma stripField_law:
  assumes "nested_law L" and "decode_law L" and "f \<in> set fieldsToStrip"
    and "follow (JObject obj) f \<noteq> Blocked"
  shows "stripField L obj f = Inr (if \<exists>w. follow (JObject obj) f = Found w then [removeOp L (pointer f)] else [])"
proof -
  have "(case follow (JObject obj) f of Found v \<Rightarrow> nestedFieldNoCopy L obj f = Inr (Some v)
     | Missing \<Rightarrow> nestedFieldNoCopy L obj f = Inr None
     | Blocked \<Rightarrow> (\<exists>e. nestedFieldNoCopy L obj f = Inl e))"
    using assms(1) by (simp add: nested_law_def)
  then show ?thesis
    using assms(4) plain_fields[OF assms(3)] decode_opRemove[OF assms(2)]
    by (auto simp: stripField_def pointer_join split: found.splits)
qed

lemma steps_of_removals:
  "steps_of (concat (map (\<lambda>f. if P f then [removeOp L (pointer f)] else []) fs)) =
   Some (map (\<lambda>f. Remove (pointer f)) (filter P fs))"
  by (induction fs) (simp_all add: steps_of_def)

text \<open>
  C5. The strip patch applies to the object it was made for, removes every listed field
  (wherever it was present) and leaves every unrelated path of the object as it was.
\<close>

theorem stripFields_effect:
  assumes "nested_law L" and "decode_law L"
    and "\<forall>f\<in>set fieldsToStrip. follow (JObject (content obj)) f \<noteq> Blocked"
  shows "\<exists>ps st obj'. stripFields L obj = Inr ps \<and> steps_of ps = Some st \<and>
    apply_steps st (JObject (content obj)) = Some obj' \<and>
    (\<forall>f\<in>set fieldsToStrip. follow obj' f = Missing) \<and>
    (\<forall>q. (\<forall>f\<in>set fieldsToStrip. unrelated f q) \<longrightarrow> follow obj' q = follow (JObject (content obj)) q)"
proof -
  let ?v = "JObject (content obj)"
  have "stripFields L obj = Inr (concat (map (\<lambda>f. if \<exists>w. follow ?v f = Found w
      then [removeOp L (pointer f)] else []) fieldsToStrip))"
    unfolding stripFields_def using assms by (intro concatR_total stripField_law) auto
  moreover note steps_of_removals[of "\<lambda>f. \<exists>w. follow ?v f = Found w" L fieldsToStrip]
  moreover have "\<exists>v'. apply_steps (removals ?v fieldsToStrip) ?v = Some v' \<and>
      (\<forall>f\<in>set fieldsToStrip. follow v' f = Missing) \<and>
      (\<forall>q. (\<forall>f\<in>set fieldsToStrip. unrelated f q) \<longrightarrow> follow v' q = follow ?v q)"
    using plain_fields fields_unrelated fields_distinct assms(3) by (intro apply_removals) auto
  ultimately show ?thesis unfolding removals_def by blast
qed

text \<open>
  Where a listed field runs into a value that is no object, for example labels that are a
  string, the strip patch is an error and the plugin makes no patch at all.
\<close>

lemma stripFields_blocked:
  assumes "nested_law L" and "decode_law L" and "f \<in> set fieldsToStrip"
    and "follow (JObject (content obj)) f = Blocked"
  shows "\<exists>e. getKubernetesTransforms L ord k obj = Inl (Error e)"
proof -
  have "(case follow (JObject (content obj)) f of Found v \<Rightarrow> nestedFieldNoCopy L (content obj) f = Inr (Some v)
     | Missing \<Rightarrow> nestedFieldNoCopy L (content obj) f = Inr None
     | Blocked \<Rightarrow> (\<exists>e. nestedFieldNoCopy L (content obj) f = Inl e))"
    using assms(1) unfolding nested_law_def by blast
  with assms(4) obtain e where "stripField L (content obj) f = Inl e"
    by (auto simp: stripField_def)
  then have "\<nexists>ps. stripFields L obj = Inr ps"
    using assms(3) concatR_Inr_each[of "stripField L (content obj)" fieldsToStrip _ f]
    by (auto simp: stripFields_def)
  then obtain e' where "stripFields L obj = Inl e'" by (cases "stripFields L obj") auto
  then show ?thesis by (simp add: getKubernetesTransforms_def transformParts_def Let_def)
qed

section \<open>Annotations\<close>

lemma indexed_snoc: "indexed (xs @ [x]) = indexed xs @ [(length xs, x)]"
  by (simp add: indexed_def)

lemma joinS_snoc: "joinS sep (xs @ [x]) = (if xs = [] then x else joinS sep xs @ sep @ x)"
  using joinS_append[of xs "[x]" sep] by (cases "xs = []") auto

lemma foldl_items:
  "foldl (\<lambda>acc (i, x). if i = (0::nat) then acc @ f x else acc @ sep @ f x) a (indexed xs) =
   a @ joinS sep (map f xs)"
proof (induction xs rule: rev_induct)
  case (snoc x xs)
  then show ?case by (simp only: indexed_snoc foldl_append joinS_snoc map_append list.map) auto
qed simp

definition annPath :: "string \<Rightarrow> string" where
  "annPath key = ''/metadata/annotations/'' @ key"

lemma annotation_items:
  "annotationInitial acc k v = acc @ itemText (annPath k, Some v)"
  "annotationNext acc k v = acc @ '','' @ itemText (annPath k, Some v)"
  "removeAnnotationInitial acc k = acc @ itemText (annPath k, None)"
  "removeAnnotationNext acc k = acc @ '','' @ itemText (annPath k, None)"
  by (simp_all add: annotationInitial_def annotationNext_def removeAnnotationInitial_def
      removeAnnotationNext_def annPath_def)

lemma addAnnotations_text:
  "addAnnotations L ord anns =
   decodePatch L (itemsText (map (\<lambda>k. (annPath k, Some (the (fmlookup anns k)))) (ord anns)))"
  unfolding addAnnotations_def annotation_items foldl_items itemsText_def Let_def
  by (simp only: map_map comp_def append_assoc)

lemma removeAnnotations_text:
  "removeAnnotations L anns = decodePatch L (itemsText (map (\<lambda>k. (annPath k, None)) anns))"
  unfolding removeAnnotations_def annotation_items foldl_items itemsText_def Let_def
  by (simp only: map_map comp_def append_assoc)

lemma plain_annPath [simp]: "plain (annPath k) \<longleftrightarrow> plain k"
  by (simp add: annPath_def plain_Cons plain_char_def)

lemma addAnnotations_ops:
  assumes "decode_law L" and "\<And>k. k \<in> set (ord anns) \<Longrightarrow> plain k \<and> plain (the (fmlookup anns k))"
  shows "addAnnotations L ord anns =
    Inr (map (\<lambda>k. valueOp L ''add'' (annPath k) (JString (the (fmlookup anns k)))) (ord anns))"
proof -
  have "list_all plain_item (map (\<lambda>k. (annPath k, Some (the (fmlookup anns k)))) (ord anns))"
    using assms(2) by (auto simp: list_all_iff)
  from decode_items[OF assms(1) this] show ?thesis by (simp add: addAnnotations_text comp_def)
qed

lemma steps_of_adds:
  "steps_of (map (\<lambda>k. valueOp L ''add'' (p k) (v k)) ks) = Some (map (\<lambda>k. Add (p k) (v k)) ks)"
  by (induction ks) (simp_all add: steps_of_def)

lemma add_member:
  "follow v ks = Found (JObject a) \<Longrightarrow> add_at (ks @ [k]) w v = replace_at ks (JObject (fmupd k w a)) v"
proof (induction ks arbitrary: v)
  case (Cons x ks)
  then obtain m y where "v = JObject m" "fmlookup m x = Some y" "follow y ks = Found (JObject a)"
    by (auto simp: follow_Cons_Found)
  with Cons.IH[OF this(3)] show ?case by (cases ks) simp_all
qed simp

lemma annPath_tokens:
  "CHR ''/'' \<notin> set k \<Longrightarrow> CHR ''~'' \<notin> set k \<Longrightarrow> pointer_tokens (annPath k) = Some [''metadata'', ''annotations'', k]"
proof -
  assume "CHR ''/'' \<notin> set k" "CHR ''~'' \<notin> set k"
  then have "annPath k = pointer [''metadata'', ''annotations'', k]"
    by (simp add: annPath_def pointer_Cons escapeToken_id escapeToken_Cons)
  then show ?thesis by (simp only: pointer_tokens_pointer)
qed

lemma apply_adds:
  assumes "\<And>k. k \<in> set ks \<Longrightarrow> CHR ''/'' \<notin> set k \<and> CHR ''~'' \<notin> set k"
    and "follow v [''metadata'', ''annotations''] = Found (JObject a)"
  shows "apply_steps (map (\<lambda>k. Add (annPath k) (f k)) ks) v =
    replace_at [''metadata'', ''annotations''] (JObject (foldl (\<lambda>a k. fmupd k (f k) a) a ks)) v"
  using assms
proof (induction ks arbitrary: v a)
  case Nil
  then obtain m n where "v = JObject m" "fmlookup m ''metadata'' = Some (JObject n)"
    "fmlookup n ''annotations'' = Some (JObject a)" by (auto simp: follow_Cons_Found)
  then show ?case by (simp add: fmupd_same)
next
  case (Cons k ks)
  let ?K = "[''metadata'', ''annotations'']"
  have "add_at [''metadata'', ''annotations'', k] (f k) v = replace_at ?K (JObject (fmupd k (f k) a)) v"
    using add_member[OF Cons.prems(2), of k "f k"] by simp
  moreover obtain v' where v': "replace_at ?K (JObject (fmupd k (f k) a)) v = Some v'"
    "follow v' ?K = Found (JObject (fmupd k (f k) a))" "\<forall>z. replace_at ?K z v' = replace_at ?K z v"
    using replace_at_Found[OF Cons.prems(2)] by blast
  moreover have "apply_steps (map (\<lambda>k. Add (annPath k) (f k)) ks) v' =
      replace_at ?K (JObject (foldl (\<lambda>a k. fmupd k (f k) a) (fmupd k (f k) a) ks)) v'"
    using Cons.prems(1) by (intro Cons.IH[OF _ v'(2)]) auto
  ultimately show ?case using Cons.prems(1) annPath_tokens[of k]
    by (simp del: replace_at.simps add_at.simps)
qed

lemma foldl_fmupd_keys:
  "fmlookup (foldl (\<lambda>a k. fmupd k (f k) a) a ks) x = (if x \<in> set ks then Some (f x) else fmlookup a x)"
  by (induction ks arbitrary: a) auto

text \<open>
  On an object that has annotations, and for keys without slash and tilde, the patch of
  \<open>add-annotations\<close> applies and sets exactly the given annotations, in whatever order the map
  is ranged over.
\<close>

theorem addAnnotations_effect:
  assumes "decode_law L" and "enumerates (ord anns) anns"
    and "\<And>k v. fmlookup anns k = Some v \<Longrightarrow> plain k \<and> plain v \<and> CHR ''/'' \<notin> set k \<and> CHR ''~'' \<notin> set k"
    and "follow obj [''metadata'', ''annotations''] = Found (JObject a)"
  shows "\<exists>ps st. addAnnotations L ord anns = Inr ps \<and> steps_of ps = Some st \<and>
    apply_steps st obj = replace_at [''metadata'', ''annotations''] (JObject (a ++\<^sub>f fmmap JString anns)) obj"
proof -
  let ?f = "\<lambda>k. JString (the (fmlookup anns k))"
  have keys: "plain k \<and> plain (the (fmlookup anns k)) \<and> CHR ''/'' \<notin> set k \<and> CHR ''~'' \<notin> set k"
    if "k \<in> set (ord anns)" for k
    using that assms(3) enumerates_mem[OF assms(2)] by auto
  have "fmlookup (foldl (\<lambda>a k. fmupd k (?f k) a) a (ord anns)) x = fmlookup (a ++\<^sub>f fmmap JString anns) x" for x
    using enumerates_mem[OF assms(2), of x] by (auto simp: foldl_fmupd_keys fmlookup_dom_iff)
  then have "foldl (\<lambda>a k. fmupd k (?f k) a) a (ord anns) = a ++\<^sub>f fmmap JString anns"
    by (rule fmap_ext)
  then have "apply_steps (map (\<lambda>k. Add (annPath k) (?f k)) (ord anns)) obj =
      replace_at [''metadata'', ''annotations''] (JObject (a ++\<^sub>f fmmap JString anns)) obj"
    using apply_adds[OF _ assms(4), of "ord anns" ?f] keys by (simp del: replace_at.simps)
  then show ?thesis
    using addAnnotations_ops[OF assms(1), of ord anns] keys steps_of_adds[of L annPath ?f "ord anns"] by blast
qed

lemma add_at_below_Missing:
  "follow v ks = Missing \<Longrightarrow> rest \<noteq> [] \<Longrightarrow> add_at (ks @ rest) w v = None"
proof (induction ks arbitrary: v)
  case (Cons k ks)
  show ?case
  proof (cases v)
    case (JObject m)
    with Cons show ?thesis by (cases "ks @ rest") (auto split: option.splits)
  next
    case JNull
    then show ?thesis by (cases "ks @ rest") auto
  qed (use Cons.prems in auto)
qed simp

lemma follow_append: "follow v ks = Found x \<Longrightarrow> follow v (ks @ rest) = follow x rest"
  by (induction ks arbitrary: v) (auto simp: follow_Cons_Found)

lemma add_lenient_new:
  "follow v ks = Found (JObject a) \<Longrightarrow> fmlookup a k = None \<Longrightarrow> rest \<noteq> [] \<Longrightarrow>
   add_lenient (ks @ k # rest) w v = replace_at ks (JObject (fmupd k (nest rest w) a)) v"
proof (induction ks arbitrary: v)
  case (Cons x ks)
  then obtain m y where "v = JObject m" "fmlookup m x = Some y" "follow y ks = Found (JObject a)"
    by (auto simp: follow_Cons_Found)
  with Cons.IH[OF this(3) Cons.prems(2,3)] show ?case by (cases "ks @ k # rest") simp_all
qed simp

text \<open>
  The keys are not escaped. For a key with a slash, the usual form of an annotation's
  name, the patch names a field below an annotation of another name. On an object without
  that other annotation it fails to apply; under the applier's lenient rules it applies but
  the requested annotation is not there afterwards.
\<close>

theorem addAnnotations_slash_fails:
  assumes "decode_law L" and "anns = fmap_of_list [(domain @ ''/'' @ name, v)]" and "ord anns = [domain @ ''/'' @ name]"
    and "plain domain" and "plain name" and "plain v" and "CHR ''/'' \<notin> set domain" and "CHR ''~'' \<notin> set domain"
    and "follow obj [''metadata'', ''annotations''] = Found (JObject a)"
    and "fmlookup a domain = None" and "fmlookup a (domain @ ''/'' @ name) = None"
  shows "\<exists>ps st obj'. addAnnotations L ord anns = Inr ps \<and> steps_of ps = Some st \<and>
    apply_steps st obj = None \<and> lenient_steps st obj = Some obj' \<and>
    follow obj' [''metadata'', ''annotations'', domain @ ''/'' @ name] = Missing"
proof -
  let ?p = "annPath (domain @ ''/'' @ name)" and ?K = "[''metadata'', ''annotations'']"
  let ?rest = "map unescapeToken (split1 CHR ''/'' name)"
  have "?p = CHR ''/'' # ''metadata'' @ CHR ''/'' # ''annotations'' @ CHR ''/'' # domain @ CHR ''/'' # name"
    by (simp add: annPath_def)
  moreover have "unescapeToken domain = domain"
    using unescape_escape[of domain] escapeToken_id[OF assms(7,8)] by simp
  ultimately have tokens: "pointer_tokens ?p = Some (?K @ domain # ?rest)"
    using assms(7) by (simp add: pointer_tokens_def split1_append_sep)
  have "follow obj (?K @ [domain]) = Missing"
    using follow_append[OF assms(9), of "[domain]"] assms(10) by simp
  from add_at_below_Missing[OF this, of ?rest "JString v"] tokens
  have strict: "apply_steps [Add ?p (JString v)] obj = None" by simp
  obtain obj' where obj': "replace_at ?K (JObject (fmupd domain (nest ?rest (JString v)) a)) obj = Some obj'"
    "follow obj' ?K = Found (JObject (fmupd domain (nest ?rest (JString v)) a))"
    using replace_at_Found[OF assms(9)] by blast
  have "lenient_steps [Add ?p (JString v)] obj = Some obj'"
    using add_lenient_new[OF assms(9,10), of ?rest "JString v"] tokens obj'(1) by simp
  moreover have "follow obj' (?K @ [domain @ ''/'' @ name]) = Missing"
    using follow_append[OF obj'(2), of "[domain @ ''/'' @ name]"] assms(11) by simp
  moreover have "addAnnotations L ord anns = Inr [valueOp L ''add'' ?p (JString v)]"
    using addAnnotations_ops[OF assms(1), of ord anns] assms(2-6) by (simp add: plain_Cons plain_char_def)
  moreover have "steps_of [valueOp L ''add'' ?p (JString v)] = Some [Add ?p (JString v)]"
    by (simp add: steps_of_def)
  ultimately show ?thesis using strict by auto
qed

section \<open>Lenient removal of absent fields\<close>

lemma lenient_removals:
  assumes "\<forall>f\<in>set fs. f \<noteq> []" and "distinct fs"
    and "\<forall>f\<in>set fs. \<forall>g\<in>set fs. f \<noteq> g \<longrightarrow> unrelated f g"
    and "\<forall>f\<in>set fs. follow v f \<noteq> Blocked"
  shows "\<exists>v'. lenient_steps (map (\<lambda>f. Remove (pointer f)) fs) v = Some v' \<and>
    (\<forall>f\<in>set fs. follow v' f = Missing) \<and>
    (\<forall>q. (\<forall>f\<in>set fs. unrelated f q) \<longrightarrow> follow v' q = follow v q)"
  using assms
proof (induction fs arbitrary: v)
  case (Cons f fs)
  have fs: "unrelated f g" if "g \<in> set fs" for g using Cons.prems(2,3) that by auto
  obtain v1 where v1: "remove_lenient f v = Some v1" "follow v1 f = Missing"
    "\<And>g. unrelated f g \<Longrightarrow> follow v1 g = follow v g"
  proof (cases "follow v f")
    case (Found w)
    then obtain v1 where "remove_at f v = Some v1" using remove_at_Found Cons.prems(1) by fastforce
    with Found show ?thesis using remove_at_gone remove_at_unrelated
      by (intro that[of v1]) (auto simp: remove_lenient_def)
  qed (use that[of v] Cons.prems(4) in \<open>auto simp: remove_lenient_def\<close>)
  obtain v' where v': "lenient_steps (map (\<lambda>f. Remove (pointer f)) fs) v1 = Some v'"
    "\<forall>g\<in>set fs. follow v' g = Missing"
    "\<forall>q. (\<forall>g\<in>set fs. unrelated g q) \<longrightarrow> follow v' q = follow v1 q"
    using Cons.IH[of v1] Cons.prems v1(3) fs by auto
  then show ?case using v1 fs unrelated_sym by auto
qed simp

definition podFields :: "string list list" where
  "podFields = [[''spec'', ''nodeName''], [''spec'', ''nodeSelector''], [''spec'', ''priority'']]"

lemma removePodFields_ops:
  assumes "decode_law L"
  shows "removePodFields L = Inr (map (\<lambda>f. removeOp L (pointer f)) podFields)"
proof -
  have "pointer f = p \<Longrightarrow> plain p \<Longrightarrow> decodePatch L (opRemove p) = Inr [removeOp L (pointer f)]" for f p
    using decode_opRemove[OF assms] by simp
  then show ?thesis
    by (simp add: removePodFields_def podFields_def decode_opRemove[OF assms] plain_Cons plain_char_def
        pointer_Cons escapeToken_Cons)
qed

lemma steps_of_removeOps: "steps_of (map (\<lambda>f. removeOp L (pointer f)) fs) = Some (map (\<lambda>f. Remove (pointer f)) fs)"
  by (induction fs) (simp_all add: steps_of_def)

text \<open>
  The fields of a pod that bind it to its node are removed without a look at the pod. The
  patch applies under the applier's lenient rules, to any pod, and removes exactly these
  fields; as a plain JSON patch it fails on a pod that lacks one of them.
\<close>

theorem removePodFields_effect:
  assumes "decode_law L" and "follow obj [''spec''] = Found (JObject spec)"
  shows "\<exists>ps st obj'. removePodFields L = Inr ps \<and> steps_of ps = Some st \<and>
    lenient_steps st obj = Some obj' \<and> (\<forall>f\<in>set podFields. follow obj' f = Missing) \<and>
    (\<forall>q. (\<forall>f\<in>set podFields. unrelated f q) \<longrightarrow> follow obj' q = follow obj q) \<and>
    ((\<exists>f\<in>set podFields. follow obj f = Missing) \<longrightarrow> apply_steps st obj = None)"
proof -
  have un: "\<forall>f\<in>set podFields. \<forall>g\<in>set podFields. f \<noteq> g \<longrightarrow> unrelated f g" by code_simp
  have nb: "\<forall>f\<in>set podFields. follow obj f \<noteq> Blocked"
    using follow_append[OF assms(2)] by (auto simp: podFields_def split: option.splits)
  have "\<exists>v'. lenient_steps (map (\<lambda>f. Remove (pointer f)) podFields) obj = Some v' \<and>
      (\<forall>f\<in>set podFields. follow v' f = Missing) \<and>
      (\<forall>q. (\<forall>f\<in>set podFields. unrelated f q) \<longrightarrow> follow v' q = follow obj q)"
    using un nb by (intro lenient_removals) (simp_all add: podFields_def)
  moreover have "apply_steps (map (\<lambda>f. Remove (pointer f)) podFields) obj = None"
    if f: "f \<in> set podFields" "follow obj f = Missing" for f
  proof -
    have "apply_steps (map (\<lambda>f. Remove (pointer f)) fs) v = None"
      if "follow v f = Missing" "f \<in> set fs" "distinct fs" "\<forall>g\<in>set fs. g \<noteq> f \<longrightarrow> unrelated g f"
        "\<forall>g\<in>set fs. follow v g \<noteq> Blocked" "\<forall>g\<in>set fs. \<forall>h\<in>set fs. g \<noteq> h \<longrightarrow> unrelated g h" for fs v
      using that
    proof (induction fs arbitrary: v)
      case (Cons g fs)
      show ?case
      proof (cases "remove_at g v")
        case (Some v1)
        then obtain w where w: "follow v g = Found w"
          using remove_at_not_Missing[of v g] Cons.prems(5) by (cases "follow v g") auto
        with Some Cons.prems(1) have "g \<noteq> f" by auto
        have same: "follow v1 h = follow v h" if "unrelated g h" for h
          using remove_at_unrelated[OF Some w that] .
        have "apply_steps (map (\<lambda>f. Remove (pointer f)) fs) v1 = None"
          using \<open>g \<noteq> f\<close> Cons.prems same by (intro Cons.IH) auto
        with Some show ?thesis by simp
      qed simp
    qed simp
    moreover have "distinct podFields" by (simp add: podFields_def)
    ultimately show ?thesis using un nb f by blast
  qed
  ultimately show ?thesis
    using removePodFields_ops[OF assms(1)] steps_of_removeOps[of L podFields] by blast
qed

section \<open>Witnesses\<close>

definition example_deployment :: unstructured where
  "example_deployment = Some (fmap_of_list
     [(''apiVersion'', JString ''apps/v1''), (''kind'', JString ''Deployment''),
      (''metadata'', JObject (fmap_of_list [(''name'', JString ''web''), (''uid'', JString ''u-1''),
         (''annotations'', JObject (fmap_of_list [(''team'', JString ''a'')]))])),
      (''status'', JObject fmempty)])"

lemma stripFields_effect_witness:
  "\<exists>ps st obj'. stripFields ref_lib example_deployment = Inr ps \<and> steps_of ps = Some st \<and>
    apply_steps st (JObject (content example_deployment)) = Some obj' \<and>
    follow obj' [''metadata'', ''uid''] = Missing \<and> follow obj' [''metadata'', ''name''] = Found (JString ''web'')"
proof -
  have "\<forall>f\<in>set fieldsToStrip. follow (JObject (content example_deployment)) f \<noteq> Blocked"
    by (simp add: fieldsToStrip_def example_deployment_def content_def)
  from stripFields_effect[OF ref_nested_law ref_decode_law this] obtain ps st obj' where
    1: "stripFields ref_lib example_deployment = Inr ps" "steps_of ps = Some st"
      "apply_steps st (JObject (content example_deployment)) = Some obj'"
      "\<forall>f\<in>set fieldsToStrip. follow obj' f = Missing"
      "\<forall>q. (\<forall>f\<in>set fieldsToStrip. unrelated f q) \<longrightarrow> follow obj' q = follow (JObject (content example_deployment)) q"
    by blast
  have "\<forall>f\<in>set fieldsToStrip. unrelated f [''metadata'', ''name'']" by code_simp
  then have "follow obj' [''metadata'', ''name''] = Found (JString ''web'')"
    using 1(5) by (simp add: example_deployment_def content_def del: follow.simps) (simp add: content_def)
  moreover have "[''metadata'', ''uid''] \<in> set fieldsToStrip" by (simp add: fieldsToStrip_def)
  ultimately show ?thesis using 1 by blast
qed

lemma addAnnotations_effect_witness:
  "\<exists>ps st. addAnnotations ref_lib sorted_keys (fmap_of_list [(''owner'', ''me'')]) = Inr ps \<and> steps_of ps = Some st \<and>
    apply_steps st (JObject (content example_deployment)) = replace_at [''metadata'', ''annotations'']
      (JObject (fmap_of_list [(''team'', JString ''a'')] ++\<^sub>f fmmap JString (fmap_of_list [(''owner'', ''me'')])))
      (JObject (content example_deployment))"
proof (rule addAnnotations_effect[OF ref_decode_law])
  show "enumerates (sorted_keys (fmap_of_list [(''owner'', ''me'')])) (fmap_of_list [(''owner'', ''me'')])"
    by (rule enumerates_sorted_keys)
  show "follow (JObject (content example_deployment)) [''metadata'', ''annotations''] =
      Found (JObject (fmap_of_list [(''team'', JString ''a'')]))"
    by (simp add: example_deployment_def content_def)
qed (auto simp: plain_Cons plain_char_def split: if_splits)

lemma addAnnotations_slash_fails_witness:
  "\<exists>ps st obj'. addAnnotations ref_lib sorted_keys (fmap_of_list [(''a.io/b'', ''1'')]) = Inr ps \<and> steps_of ps = Some st \<and>
    apply_steps st (JObject (content example_deployment)) = None \<and>
    lenient_steps st (JObject (content example_deployment)) = Some obj' \<and>
    follow obj' [''metadata'', ''annotations'', ''a.io/b''] = Missing"
proof -
  have "follow (JObject (content example_deployment)) [''metadata'', ''annotations''] =
      Found (JObject (fmap_of_list [(''team'', JString ''a'')]))"
    by (simp add: example_deployment_def content_def)
  from addAnnotations_slash_fails[OF ref_decode_law _ _ _ _ _ _ _ this, of
      "fmap_of_list [(''a.io/b'', ''1'')]" "''a.io''" "''b''" "''1''" sorted_keys]
  show ?thesis by (simp add: sorted_keys_def plain_Cons plain_char_def)
qed

definition example_bare_pod :: json where
  "example_bare_pod = JObject (fmap_of_list [(''spec'', JObject (fmap_of_list
     [(''nodeName'', JString ''n1''), (''priority'', JInt 0)]))])"

lemma removePodFields_effect_witness:
  "\<exists>ps st obj'. removePodFields ref_lib = Inr ps \<and> steps_of ps = Some st \<and>
    lenient_steps st example_bare_pod = Some obj' \<and> follow obj' [''spec'', ''nodeName''] = Missing \<and>
    apply_steps st example_bare_pod = None"
proof -
  have s: "follow example_bare_pod [''spec''] = Found (JObject (fmap_of_list [(''nodeName'', JString ''n1''), (''priority'', JInt 0)]))"
    by (simp add: example_bare_pod_def)
  have m: "\<exists>f\<in>set podFields. follow example_bare_pod f = Missing"
    by (simp add: podFields_def example_bare_pod_def)
  have "[''spec'', ''nodeName''] \<in> set podFields" by (simp add: podFields_def)
  with removePodFields_effect[OF ref_decode_law s] m show ?thesis by blast
qed

end
