(* ===== verification/KubeWorkloads.thy ===== *)
theory KubeWorkloads
  imports KubeProps
begin

text \<open>
  Properties of the Kubernetes plugin that depend on the kind of the object: services, jobs,
  replication controllers, images, and the kinds that are only stripped.
\<close>

section \<open>Services\<close>

text \<open>A port whose node port was assigned by the cluster and not asked for.\<close>

definition assigned :: "explicit_ports \<Rightarrow> json \<Rightarrow> bool" where
  "assigned ex port \<longleftrightarrow> (\<exists>m v n. port = JObject m \<and> fmlookup m ''nodePort'' = Some v \<and>
     getNodePortInt v = Inr n \<and> n \<noteq> 0 \<and>
     (if portNameStr m \<noteq> [] then portNameStr m \<notin> fst ex else n \<notin> snd ex))"

lemma plain_nodePort [simp]: "plain (updateNodePortString i)"
  by (simp add: updateNodePortString_def plain_Cons plain_char_def)

definition readable_port :: "json \<Rightarrow> bool" where
  "readable_port port \<longleftrightarrow> (\<forall>m v. port = JObject m \<longrightarrow> fmlookup m ''nodePort'' = Some v \<longrightarrow>
     (\<exists>n. getNodePortInt v = Inr n))"

lemma nodePortStep_removes:
  assumes "decode_law L" and "readable_port port"
  shows "nodePortStep L ex (i, port) = Inr (if assigned ex port then [removeOp L (updateNodePortString i)] else [])"
proof (cases "asObject port")
  case None
  then show ?thesis by (auto simp: nodePortStep_def assigned_def)
next
  case (Some m)
  show ?thesis
  proof (cases "fmlookup m ''nodePort''")
    case None
    with Some show ?thesis by (auto simp: nodePortStep_def assigned_def)
  next
    case (Some v)
    with \<open>asObject port = Some m\<close> assms(2) obtain n where "getNodePortInt v = Inr n" by (auto simp: readable_port_def)
    with Some \<open>asObject port = Some m\<close> show ?thesis
      by (auto simp: nodePortStep_def assigned_def decode_opRemove[OF assms(1)])
  qed
qed


text \<open>
  A node port written as a string is never given up: its number is parsed into a shadowed
  variable and 0, no node port, is used instead.
\<close>

lemma getNodePortInt_string_is_zero:
  assumes "atoi s = Inr n"
  shows "getNodePortInt (JString s) = Inr 0 \<and>
    nodePortStep L ex (i, JObject (fmupd ''nodePort'' (JString s) port)) = Inr []"
  using assms by (simp add: nodePortStep_def)

text \<open>
  A port of the last applied configuration with a node port and a name that is no string
  makes the plugin panic: the assertion on the name is unchecked.
\<close>

lemma explicitStep_panics:
  assumes "nested_law L" and "fmlookup p ''nodePort'' = Some (JInt n)" and "n > 0"
    and "fmlookup p ''name'' = Some v" and "asString v = None"
  shows "explicitStep L ex (JObject p) = Inl (Panic ''interface conversion: not a string'')"
proof -
  have "follow (JObject p) [''nodePort''] = Found (JInt n)" using assms(2) by simp
  then have "nestedFieldNoCopy L p [''nodePort''] = Inr (Some (JInt n))"
    using assms(1)[unfolded nested_law_def, rule_format, of p "[''nodePort'']"] by simp
  with assms(3-5) show ?thesis by (simp add: explicitStep_def split: prod.split)
qed

lemma nodePort_paths:
  assumes "decode_law L" and "getNodePortPatch L u = Inr ps" and "x \<in> set ps"
  shows "\<exists>i. x = removeOp L (updateNodePortString i)"
proof -
  obtain ex ports where "concatR (nodePortStep L ex) (indexed ports) = Inr ps \<or> ps = []"
    using assms(2) by (auto simp: getNodePortPatch_def result_simps split: option.splits if_splits)
  then have "concatR (nodePortStep L ex) (indexed ports) = Inr ps" using assms(3) by auto
  from concatR_Inr_mem[OF this assms(3)] obtain i port zs where
    "nodePortStep L ex (i, port) = Inr zs" "x \<in> set zs" by auto
  then show ?thesis
    by (auto simp: nodePortStep_def result_simps decode_opRemove[OF assms(1)] split: option.splits if_splits)
qed

text \<open>
  The cluster's IP is removed from a service, except from a headless one, whose
  \<open>clusterIP\<close> is the word \<open>None\<close>; the external IPs are removed from load balancers only.
\<close>

lemma removeServiceFields_clusterIP:
  assumes "decode_law L" and "specMap u = Some spec" and "removeServiceFields L u = Inr ps"
  shows "(removeOp L ''/spec/clusterIP'' \<in> set ps \<longleftrightarrow>
      (\<exists>ip. fmlookup spec ''clusterIP'' = Some ip \<and> ip \<noteq> JString ''None'')) \<and>
    (removeOp L ''/spec/externalIPs'' \<in> set ps \<longleftrightarrow> fmlookup spec ''type'' = Some (JString ''LoadBalancer''))"
proof -
  have rm: "removeOp L p = removeOp L q \<longleftrightarrow> p = q" for p q by (simp add: removeOp_def)
  have other: "removeOp L ''/spec/clusterIP'' \<noteq> removeOp L (updateNodePortString i)"
    "removeOp L ''/spec/externalIPs'' \<noteq> removeOp L (updateNodePortString i)" for i
    by (simp_all add: rm updateNodePortString_def)
  have dec: "plain p \<Longrightarrow> decodePatch L (opRemove p) = Inr [removeOp L p]" for p
    using decode_opRemove[OF assms(1)] .
  have pl: "plain ''/spec/externalIPs''" "plain ''/spec/clusterIP''" "plain ''/spec/clusterIPs''"
    by (simp_all add: plain_Cons plain_char_def)
  obtain p4 where p4: "getNodePortPatch L u = Inr p4"
    and ps: "ps = (if isLoadBalancerService u then [removeOp L ''/spec/externalIPs''] else []) @
       (if shouldRemoveServiceClusterIP u then [removeOp L ''/spec/clusterIP''] else []) @
       (if shouldRemoveServiceClusterIPs u then [removeOp L ''/spec/clusterIPs''] else []) @ p4"
    using assms(3) dec[OF pl(1)] dec[OF pl(2)] dec[OF pl(3)]
    by (auto simp: removeServiceFields_def removeWhen_def result_simps split: if_splits)
  have "removeOp L ''/spec/clusterIP'' \<notin> set p4" "removeOp L ''/spec/externalIPs'' \<notin> set p4"
    using nodePort_paths[OF assms(1) p4] other by metis+
  then have "removeOp L ''/spec/clusterIP'' \<in> set ps \<longleftrightarrow> shouldRemoveServiceClusterIP u"
    "removeOp L ''/spec/externalIPs'' \<in> set ps \<longleftrightarrow> isLoadBalancerService u"
    unfolding ps by (auto simp: rm)
  then show ?thesis
    using assms(2) by (auto simp: shouldRemoveServiceClusterIP_def isLoadBalancerService_def split: option.splits)
qed

section \<open>Jobs\<close>

text \<open>
  A job is left suspended: after the patch of a standalone job that is not marked as
  idempotent \<open>spec.suspend\<close> is true and the rest of the job is as it was. A job with an owner
  or with the mark gets no patch.
\<close>

theorem suspendStandaloneJob_effect:
  assumes "decode_law L" and "typed_law asBool (nestedBool L)"
    and "follow (JObject (content job)) [''spec''] = Found (JObject spec)"
    and "fmlookup spec ''suspend'' \<in> {None, Some (JBool True), Some (JBool False)}"
  shows "if getOwnerReferences L job = [] \<and> flagVal (getAnnotations L job) CraneJobIdempotentAnnotation \<noteq> ''true''
    then \<exists>ps st. suspendStandaloneJob L job = Inr ps \<and> steps_of ps = Some st \<and>
      apply_steps st (JObject (content job)) =
        replace_at [''spec''] (JObject (fmupd ''suspend'' (JBool True) spec)) (JObject (content job))
    else suspendStandaloneJob L job = Inr []"
proof (cases "getOwnerReferences L job = [] \<and> flagVal (getAnnotations L job) CraneJobIdempotentAnnotation \<noteq> ''true''")
  case False
  then show ?thesis by (auto simp: suspendStandaloneJob_def)
next
  case standalone: True
  have path: "follow (JObject (content job)) [''spec'', ''suspend''] =
      (case fmlookup spec ''suspend'' of None \<Rightarrow> Missing | Some v \<Rightarrow> Found v)"
    using follow_append[OF assms(3), of "[''suspend'']"] by (simp split: option.splits)
  consider "fmlookup spec ''suspend'' = Some (JBool True)"
    | "fmlookup spec ''suspend'' = None \<or> fmlookup spec ''suspend'' = Some (JBool False)"
    using assms(4) by auto
  then have "\<exists>ps st. suspendStandaloneJob L job = Inr ps \<and> steps_of ps = Some st \<and>
      apply_steps st (JObject (content job)) =
        replace_at [''spec''] (JObject (fmupd ''suspend'' (JBool True) spec)) (JObject (content job))"
  proof cases
    case 1
    then have "nestedBool L (content job) [''spec'', ''suspend''] = Inr (Some True)"
      using typed_law_Found[OF assms(2)] path by simp
    then have "suspendStandaloneJob L job = Inr []" using standalone by (simp add: suspendStandaloneJob_def)
    moreover have "steps_of [] = Some []" by (simp add: steps_of_def)
    moreover have "fmlookup (content job) ''spec'' = Some (JObject spec)"
      using assms(3) by (simp split: option.splits)
    ultimately show ?thesis using 1 by (auto simp: fmupd_same)
  next
    case 2
    then have "nestedBool L (content job) [''spec'', ''suspend''] = Inr None \<or>
        nestedBool L (content job) [''spec'', ''suspend''] = Inr (Some False)"
      using typed_law_Found[OF assms(2), of "content job" "[''spec'', ''suspend'']" "JBool False" False]
        typed_law_Missing[OF assms(2), of "content job" "[''spec'', ''suspend'']"] path by auto
    then have "suspendStandaloneJob L job = Inr [valueOp L ''add'' ''/spec/suspend'' (JBool True)]"
      using standalone decode_suspendText[OF assms(1)] by (auto simp: suspendStandaloneJob_def)
    moreover have "steps_of [valueOp L ''add'' ''/spec/suspend'' (JBool True)] = Some [Add ''/spec/suspend'' (JBool True)]"
      by (simp add: steps_of_def)
    moreover have "pointer_tokens ''/spec/suspend'' = Some [''spec'', ''suspend'']"
      by (simp add: pointer_tokens_def)
    then have "apply_steps [Add ''/spec/suspend'' (JBool True)] (JObject (content job)) =
        replace_at [''spec''] (JObject (fmupd ''suspend'' (JBool True) spec)) (JObject (content job))"
      using add_member[OF assms(3), of "''suspend''" "JBool True"] by (simp del: replace_at.simps split: bind_splits)
    ultimately show ?thesis by blast
  qed
  then show ?thesis by (simp only: standalone if_True simp_thms)
qed

lemma key_paths:
  "''/spec/selector'' = pointer [''spec'', ''selector'']"
  "''/spec/template/metadata/labels/'' @ escapeJSONPointer key =
     pointer [''spec'', ''template'', ''metadata'', ''labels'', key]"
  by (simp_all add: pointer_Cons escapeToken_Cons escape_is)

definition controllerPaths :: "string list list" where
  "controllerPaths = [''spec'', ''selector''] #
     map (\<lambda>key. [''spec'', ''template'', ''metadata'', ''labels'', key]) controllerUIDKeys"

lemma removeLabel_law:
  assumes "decode_law L" and "typed_law asString (nestedString L)"
    and "follow (JObject obj) (parent @ [key]) = Missing \<or> (\<exists>s. follow (JObject obj) (parent @ [key]) = Found (JString s))"
    and "prefix @ escapeJSONPointer key = pointer (parent @ [key])" and "plain (pointer (parent @ [key]))"
  shows "removeLabel L obj parent prefix key =
    Inr (if \<exists>w. follow (JObject obj) (parent @ [key]) = Found w then [removeOp L (pointer (parent @ [key]))] else [])"
  using assms(3)
proof
  assume "follow (JObject obj) (parent @ [key]) = Missing"
  with typed_law_Missing[OF assms(2) this] show ?thesis by (simp add: removeLabel_def)
next
  assume "\<exists>s. follow (JObject obj) (parent @ [key]) = Found (JString s)"
  then obtain s where s: "follow (JObject obj) (parent @ [key]) = Found (JString s)" by blast
  with typed_law_Found[OF assms(2) s, of s] show ?thesis
    by (simp add: removeLabel_def assms(4) decode_opRemove[OF assms(1,5)])
qed

text \<open>
  Unless the job has a manual selector, the controller's selector and the two
  controller-uid labels of the pod template are gone after the patch, which applies to the
  job, and every unrelated path is as it was: the job can be created again.
\<close>

theorem removeJobControllerUID_effect:
  assumes laws: "decode_law L" "typed_law asString (nestedString L)" "typed_law asBool (nestedBool L)"
      "typed_law asObject (nestedMap L)"
    and manual: "follow (JObject (content job)) [''spec'', ''manualSelector''] \<in> {Missing, Found (JBool False)}"
    and selector: "follow (JObject (content job)) [''spec'', ''selector''] = Missing \<or>
      (\<exists>m. follow (JObject (content job)) [''spec'', ''selector''] = Found (JObject m))"
    and labels: "\<forall>key\<in>set controllerUIDKeys.
      follow (JObject (content job)) ([''spec'', ''template'', ''metadata'', ''labels''] @ [key]) = Missing \<or>
      (\<exists>s. follow (JObject (content job)) ([''spec'', ''template'', ''metadata'', ''labels''] @ [key]) = Found (JString s))"
  shows "\<exists>ps st job'. removeJobControllerUID L job = Inr ps \<and> steps_of ps = Some st \<and>
    apply_steps st (JObject (content job)) = Some job' \<and> (\<forall>f\<in>set controllerPaths. follow job' f = Missing) \<and>
    (\<forall>q. (\<forall>f\<in>set controllerPaths. unrelated f q) \<longrightarrow> follow job' q = follow (JObject (content job)) q)"
proof -
  let ?v = "JObject (content job)" and ?labels = "[''spec'', ''template'', ''metadata'', ''labels'']"
  let ?rm = "\<lambda>f. if \<exists>w. follow ?v f = Found w then [removeOp L (pointer f)] else []"
  have ms: "nestedBool L (content job) [''spec'', ''manualSelector''] \<in> {Inr None, Inr (Some False)}"
    using manual typed_law_Missing[OF laws(3)] typed_law_Found[OF laws(3), of "content job" "[''spec'', ''manualSelector'']" "JBool False" False]
    by (auto simp del: follow.simps)
  have plainkeys: "plain (pointer (?labels @ [key]))" if "key \<in> set controllerUIDKeys" for key
    using that by (auto simp: controllerUIDKeys_def pointer_Cons escapeToken_Cons plain_Cons plain_char_def)
  have "removeLabel L (content job) ?labels ''/spec/template/metadata/labels/'' key =
      Inr (?rm [''spec'', ''template'', ''metadata'', ''labels'', key])" if "key \<in> set controllerUIDKeys" for key
    using removeLabel_law[OF laws(1,2), of "content job" ?labels key "''/spec/template/metadata/labels/''"]
      that labels plainkeys key_paths(2)
    unfolding append_Cons append_Nil by blast
  then have "concatR (removeLabel L (content job) ?labels ''/spec/template/metadata/labels/'') controllerUIDKeys =
      Inr (concat (map (\<lambda>key. ?rm [''spec'', ''template'', ''metadata'', ''labels'', key]) controllerUIDKeys))"
    by (intro concatR_total)
  moreover have "bindR (nestedMap L (content job) [''spec'', ''selector'']) (\<lambda>r. case r of None \<Rightarrow> Inr []
                 | Some _ \<Rightarrow> decodePatch L (opRemove ''/spec/selector'')) = Inr (?rm [''spec'', ''selector''])"
  proof -
    have "plain (pointer [''spec'', ''selector''])"
      by (simp add: pointer_Cons escapeToken_Cons plain_Cons plain_char_def)
    from decode_opRemove[OF laws(1) this] selector show ?thesis unfolding key_paths(1)
      using typed_law_Missing[OF laws(4), of "content job" "[''spec'', ''selector'']"]
        typed_law_Found[OF laws(4), of "content job" "[''spec'', ''selector'']"]
      by (auto simp del: follow.simps)
  qed
  ultimately have "removeJobControllerUID L job = Inr (concat (map ?rm controllerPaths))"
    using ms by (auto simp: removeJobControllerUID_def controllerPaths_def comp_def simp del: follow.simps)
  moreover have "steps_of (concat (map ?rm controllerPaths)) = Some (removals ?v controllerPaths)"
    unfolding removals_def by (rule steps_of_removals)
  moreover have "\<exists>v'. apply_steps (removals ?v controllerPaths) ?v = Some v' \<and>
      (\<forall>f\<in>set controllerPaths. follow v' f = Missing) \<and>
      (\<forall>q. (\<forall>f\<in>set controllerPaths. unrelated f q) \<longrightarrow> follow v' q = follow ?v q)"
  proof (rule apply_removals)
    show "\<forall>f\<in>set controllerPaths. \<forall>g\<in>set controllerPaths. f \<noteq> g \<longrightarrow> unrelated f g" by code_simp
    show "\<forall>f\<in>set controllerPaths. follow ?v f \<noteq> Blocked"
      using selector labels by (auto simp: controllerPaths_def simp del: follow.simps)
  qed (simp_all add: controllerPaths_def controllerUIDKeys_def)
  ultimately show ?thesis by blast
qed

section \<open>Images\<close>

definition newImage :: "(string, string) fmap \<Rightarrow> string list \<Rightarrow> nat \<Rightarrow> string option" where
  "newImage reps imgs i = (case UpdateImageRegistry reps (imgs ! i) of (s, b) \<Rightarrow> if b then Some s else None)"

text \<open>The image of a container, and what the replacements make of it.\<close>

definition imageOf :: "json \<Rightarrow> string" where
  "imageOf w = (case follow w [''image''] of Found (JString s) \<Rightarrow> s | _ \<Rightarrow> [])"

definition replaced :: "(string, string) fmap \<Rightarrow> string \<Rightarrow> string" where
  "replaced reps img = (case UpdateImageRegistry reps img of (s, b) \<Rightarrow> if b then s else img)"

lemma updateStep_new:
  "updateStep L reps path (i, imgs ! i) = (case newImage reps imgs i of None \<Rightarrow> Inr []
     | Some s \<Rightarrow> decodePatch L (opReplace (path i) s))"
  by (simp add: updateStep_def newImage_def UpdateImage_def split: prod.split)

definition has_image :: "json \<Rightarrow> bool" where
  "has_image w \<longleftrightarrow> (\<exists>s. follow w [''image''] = Found (JString s))"

lemma image_edit:
  assumes "has_image x"
  shows "\<exists>x'. replace_at [''image''] (JString n) x = Some x' \<and> imageOf x' = n"
proof -
  obtain s where "follow x [''image''] = Found (JString s)" using assms by (auto simp: has_image_def)
  from replace_at_Found[OF this, of "JString n"] show ?thesis by (auto simp: imageOf_def)
qed

lemma edited_images:
  assumes "list_all has_image cs"
  shows "map imageOf (edited [''image''] (newImage reps (map imageOf cs)) cs) = map (replaced reps \<circ> imageOf) cs"
proof (rule nth_equalityI)
  fix i
  assume "i < length (map imageOf (edited [''image''] (newImage reps (map imageOf cs)) cs))"
  then have i: "i < length cs" by simp
  with assms have "has_image (cs ! i)" by (simp add: list_all_length)
  obtain s b where r: "UpdateImageRegistry reps (imageOf (cs ! i)) = (s, b)" by force
  show "map imageOf (edited [''image''] (newImage reps (map imageOf cs)) cs) ! i =
    map (replaced reps \<circ> imageOf) cs ! i"
    using image_edit[OF \<open>has_image (cs ! i)\<close>, of s] i r
    by (cases b) (auto simp: nth_edited edit1_def newImage_def replaced_def)
qed simp


lemma image_paths:
  "containerImageUpdate i = pointer ([''spec'', ''template'', ''spec'', ''containers''] @ itoa (int i) # [''image''])"
  "initContainerImageUpdate i = pointer ([''spec'', ''template'', ''spec'', ''initContainers''] @ itoa (int i) # [''image''])"
  "podContainerImageUpdate i = pointer ([''spec'', ''containers''] @ itoa (int i) # [''image''])"
  "podInitContainerImageUpdate i = pointer ([''spec'', ''initContainers''] @ itoa (int i) # [''image''])"
  by (simp_all add: containerImageUpdate_def initContainerImageUpdate_def podContainerImageUpdate_def
      podInitContainerImageUpdate_def pointer_Cons escapeToken_Cons)

lemma plain_image_paths [simp]:
  "plain (containerImageUpdate i)" "plain (initContainerImageUpdate i)"
  "plain (podContainerImageUpdate i)" "plain (podInitContainerImageUpdate i)"
  by (simp_all add: containerImageUpdate_def initContainerImageUpdate_def podContainerImageUpdate_def
      podInitContainerImageUpdate_def plain_Cons plain_char_def)

section \<open>The whole plugin\<close>

definition special_kinds :: "groupKind list" where
  "special_kinds = [cronJobGK, podGK, daemonSetGK, deploymentGK, jobGK, replicationControllerGK, replicaSetGK,
     roleBindingGK, statefulSetGK, serviceAccountGK, serviceGK]"

text \<open>
  Without options, an object of any other kind is only stripped, and a workload whose
  claims are not renamed is too.
\<close>

lemma getKubernetesTransforms_default:
  assumes "kAddAnnotations k = fmempty" and "kRemoveAnnotations k = []" and "kRegistryReplacement k = fmempty"
    and "groupKindOf L obj \<notin> set special_kinds \<or>
      (groupKindOf L obj \<in> {daemonSetGK, deploymentGK, replicaSetGK, cronJobGK} \<and> kPVCRenameMap k = fmempty \<and>
       (\<forall>kind. \<exists>spec. asWorkload L kind obj = Inr spec))"
  shows "getKubernetesTransforms L ord k obj = liftR (stripFields L obj)"
proof -
  have r: "renameIn L k obj kind path = Inr []" if "kPVCRenameMap k = fmempty" "\<exists>spec. asWorkload L kind obj = Inr spec" for kind path
    using that by (auto simp: renameIn_def RenamePVCs_def)
  have rest: "concatR id (x # xs) = x" if "\<forall>p\<in>set xs. p = Inr []" for x :: "patch result" and xs
  proof -
    have "concatR id xs = Inr []" using that by (induction xs) auto
    then show ?thesis by (cases x) auto
  qed
  have off: "\<not> b \<Longrightarrow> part b p = Inr []" "p = Inr [] \<Longrightarrow> part b p = Inr []" for b p
    by (simp_all add: part_def)
  have none: "part (kAddAnnotations k \<noteq> fmempty) p = Inr []" "part (length (kRemoveAnnotations k) > 0) p = Inr []"
    "part (kRegistryReplacement k \<noteq> fmempty) p = Inr []" for p
    using assms(1-3) by (simp_all add: part_def)
  from assms(4) show ?thesis
  proof
    assume "groupKindOf L obj \<notin> set special_kinds"
    then have neq: "\<And>g. g \<in> set special_kinds \<Longrightarrow> \<not> g = groupKindOf L obj \<and> \<not> groupKindOf L obj = g" by blast
    show ?thesis
      unfolding getKubernetesTransforms_def transformParts_def Let_def
      by (intro rest) (simp only: list.set ball_simps none off neq special_kinds_def insert_iff simp_thms, simp)
  next
    assume *: "groupKindOf L obj \<in> {daemonSetGK, deploymentGK, replicaSetGK, cronJobGK} \<and> kPVCRenameMap k = fmempty \<and>
       (\<forall>kind. \<exists>spec. asWorkload L kind obj = Inr spec)"
    then have ren: "renameIn L k obj kind path = Inr []" for kind path using r by blast
    have "g \<notin> {podGK, jobGK, replicationControllerGK, roleBindingGK, statefulSetGK, serviceAccountGK, serviceGK}"
      if "g \<in> {daemonSetGK, deploymentGK, replicaSetGK, cronJobGK}" for g
      using that by (elim insertE emptyE) (simp_all add: gk_defs)
    with * have neq: "\<And>g. g \<in> {podGK, jobGK, replicationControllerGK, roleBindingGK, statefulSetGK, serviceAccountGK, serviceGK}
      \<Longrightarrow> \<not> g = groupKindOf L obj \<and> \<not> groupKindOf L obj = g" by blast
    show ?thesis
      unfolding getKubernetesTransforms_def transformParts_def Let_def
      by (intro rest) (simp only: list.set ball_simps none off neq ren insert_iff simp_thms, simp)
  qed
qed

text \<open>
  A replication controller without a pod template makes the plugin panic: the template is
  an optional pointer and is followed unchecked.
\<close>

theorem replicationController_panics:
  assumes "groupKindOf L obj = replicationControllerGK" and "asReplicationController L obj = Inr None"
    and "stripFields L obj = Inr ps" and "kAddAnnotations k = fmempty" and "kRemoveAnnotations k = []"
  shows "getKubernetesTransforms L ord k obj = Inl (Panic ''nil pointer dereference'')"
  using assms by (simp add: getKubernetesTransforms_def transformParts_def part_def Let_def
      replicationControllerPart_def gk_defs)


section \<open>Witnesses\<close>

definition example_service :: unstructured where
  "example_service = Some (fmap_of_list [(''apiVersion'', JString ''v1''), (''kind'', JString ''Service''),
     (''spec'', JObject (fmap_of_list [(''type'', JString ''NodePort''),
        (''ports'', JArray [JObject (fmap_of_list [(''name'', JString ''http''), (''nodePort'', JInt 30080)]),
           JObject (fmap_of_list [(''name'', JString ''admin'')])])]))])"

definition example_ports :: "json list" where
  "example_ports = [JObject (fmap_of_list [(''name'', JString ''http''), (''nodePort'', JInt 30080)]),
     JObject (fmap_of_list [(''name'', JString ''admin'')])]"


definition example_job :: unstructured where
  "example_job = Some (fmap_of_list [(''apiVersion'', JString ''batch/v1''), (''kind'', JString ''Job''),
     (''spec'', JObject (fmap_of_list [(''selector'', JObject fmempty),
        (''template'', JObject (fmap_of_list [(''metadata'', JObject (fmap_of_list
           [(''labels'', JObject (fmap_of_list [(''controller-uid'', JString ''u'')]))]))]))]))])"

definition example_job_spec :: jobject where
  "example_job_spec = fmap_of_list [(''selector'', JObject fmempty),
        (''template'', JObject (fmap_of_list [(''metadata'', JObject (fmap_of_list
           [(''labels'', JObject (fmap_of_list [(''controller-uid'', JString ''u'')]))]))]))]"

lemma ref_job_laws: "typed_law asBool (nestedBool ref_lib)" "typed_law asString (nestedString ref_lib)"
  "typed_law asObject (nestedMap ref_lib)"
  by simp_all

lemma suspendStandaloneJob_effect_witness:
  "\<exists>ps st. suspendStandaloneJob ref_lib example_job = Inr ps \<and> steps_of ps = Some st \<and>
    apply_steps st (JObject (content example_job)) =
      replace_at [''spec''] (JObject (fmupd ''suspend'' (JBool True) example_job_spec)) (JObject (content example_job))"
proof -
  have "follow (JObject (content example_job)) [''spec''] = Found (JObject example_job_spec)"
    by (simp add: example_job_def content_def example_job_spec_def)
  moreover have "fmlookup example_job_spec ''suspend'' \<in> {None, Some (JBool True), Some (JBool False)}"
    by (simp add: example_job_spec_def)
  moreover have "getOwnerReferences ref_lib example_job = []"
    "flagVal (getAnnotations ref_lib example_job) CraneJobIdempotentAnnotation \<noteq> ''true''"
    by (simp_all add: ref_owners_def ref_list_def example_job_def doc_def content_def ref_annotations_def flagVal_def)
  ultimately show ?thesis
    using suspendStandaloneJob_effect[OF ref_decode_law ref_job_laws(1), of example_job example_job_spec] by simp
qed

lemma removeJobControllerUID_effect_witness:
  "\<exists>ps st job'. removeJobControllerUID ref_lib example_job = Inr ps \<and> steps_of ps = Some st \<and>
    apply_steps st (JObject (content example_job)) = Some job' \<and> follow job' [''spec'', ''selector''] = Missing"
proof -
  have "[''spec'', ''selector''] \<in> set controllerPaths" by (simp add: controllerPaths_def)
  moreover have "follow (JObject (content example_job)) [''spec'', ''manualSelector''] \<in> {Missing, Found (JBool False)}"
    "follow (JObject (content example_job)) [''spec'', ''selector''] = Missing \<or>
      (\<exists>m. follow (JObject (content example_job)) [''spec'', ''selector''] = Found (JObject m))"
    "\<forall>key\<in>set controllerUIDKeys.
      follow (JObject (content example_job)) ([''spec'', ''template'', ''metadata'', ''labels''] @ [key]) = Missing \<or>
      (\<exists>s. follow (JObject (content example_job)) ([''spec'', ''template'', ''metadata'', ''labels''] @ [key]) = Found (JString s))"
    by (simp_all add: example_job_def content_def controllerUIDKeys_def)
  from removeJobControllerUID_effect[OF ref_decode_law ref_job_laws(2,1,3) this] obtain ps st job' where
    "removeJobControllerUID ref_lib example_job = Inr ps" "steps_of ps = Some st"
    "apply_steps st (JObject (content example_job)) = Some job'" "\<forall>f\<in>set controllerPaths. follow job' f = Missing"
    by blast
  ultimately show ?thesis by blast
qed

definition example_containers :: "json list" where
  "example_containers = [JObject (fmap_of_list [(''image'', JString ''docker.io/app'')]),
     JObject (fmap_of_list [(''image'', JString ''other'')])]"

definition example_image_pod :: json where
  "example_image_pod = JObject (fmap_of_list [(''spec'', JObject (fmap_of_list
     [(''containers'', JArray example_containers)]))])"


definition example_rc :: unstructured where
  "example_rc = Some (fmap_of_list [(''apiVersion'', JString ''v1''), (''kind'', JString ''ReplicationController'')])"

lemma replicationController_panics_witness:
  "getKubernetesTransforms ref_lib sorted_keys newKubePlugin example_rc = Inl (Panic ''nil pointer dereference'')"
proof (rule replicationController_panics)
  show "groupKindOf ref_lib example_rc = replicationControllerGK"
    by (simp add: ref_groupKind_def example_rc_def doc_def content_def ref_str_def gk_defs Let_def)
  show "asReplicationController ref_lib example_rc = Inr None"
    by (simp add: ref_lib_def example_rc_def doc_def content_def)
  show "stripFields ref_lib example_rc = Inr []"
    by (simp add: stripFields_def fieldsToStrip_def stripField_def ref_get_def example_rc_def content_def)
qed (simp_all add: newKubePlugin_def)


end
