(* ===== verification/PluginProcess.thy ===== *)
theory PluginProcess
  imports PluginApi
begin

text \<open>
  A plugin as a process: \<open>transform/cli/cli.go\<close> on the plugin's side,
  \<open>transform/binary-plugin/binary_plugin.go\<close> on the caller's side. The text on the pipe is
  of a type \<open>'t\<close> that neither side looks into except through \<open>encoding/json\<close> and the
  unstructured codec, the parameter \<open>codec\<close>. Starting a process is the parameter
  \<open>runCmd\<close>, from its standard input to its two outputs or an error.
\<close>

record 't codec =
  cMarshalObject :: "jobject \<Rightarrow> 't ret"
  cUnmarshalObject :: "'t \<Rightarrow> jobject option ret" \<comment> \<open>\<open>None\<close>: the text \<open>null\<close>, which sets the map to nil\<close>
  cMarshalU :: "unstructured \<Rightarrow> 't ret"
  cUnmarshalU :: "'t \<Rightarrow> unstructured ret"
  cMarshalMetadata :: "pluginMetadata \<Rightarrow> 't ret"
  cUnmarshalMetadata :: "'t \<Rightarrow> pluginMetadata ret"
  cMarshalResponse :: "pluginResponse \<Rightarrow> 't ret"
  cUnmarshalResponse :: "'t \<Rightarrow> pluginResponse ret"
  cMetadataRequest :: 't \<comment> \<open>the text \<open>{}\<close>\<close>
  cNoText :: 't \<comment> \<open>no bytes\<close>
  cErrorText :: "pluginError \<Rightarrow> string" \<comment> \<open>the JSON of an error\<close>
  cShow :: "'t \<Rightarrow> string"
  cShowJson :: "json \<Rightarrow> string"

section \<open>The plugin's side\<close>

record customPlugin =
  cpMetadata :: pluginMetadata
  cpRunFunc :: "(pluginRequest \<Rightarrow> pluginResponse result) option"

definition customRun :: "customPlugin \<Rightarrow> pluginRequest \<Rightarrow> pluginResponse result" where
  "customRun c request = (case cpRunFunc c of None \<Rightarrow> Inr emptyResponse | Some f \<Rightarrow> f request)"

definition customMetadata :: "customPlugin \<Rightarrow> pluginMetadata" where
  "customMetadata c = cpMetadata c"

definition NewCustomPlugin :: "string \<Rightarrow> string \<Rightarrow> optionalField list
    \<Rightarrow> (pluginRequest \<Rightarrow> pluginResponse result) option \<Rightarrow> plugin" where
  "NewCustomPlugin name version flags runFunc =
     (let c = \<lparr>cpMetadata = \<lparr>pluginName = name, pluginVersion = version, requestVersion = [V1],
                 responseVersion = [V1], optionalFields = flags\<rparr>, cpRunFunc = runFunc\<rparr>
      in \<lparr>plugin_run = customRun c, plugin_metadata = customMetadata c\<rparr>)"

text \<open>
  How the process ends. \<open>WriterErrorAndExit\<close> does not return, so it is the value of the
  whole run; a panic of the plugin ends the process too and is a fault here.
\<close>

record 't finished =
  exitCode :: nat
  stdOutText :: 't
  stdErrText :: string

definition PluginErrorText :: "'t codec \<Rightarrow> pluginError \<Rightarrow> string" where
  "PluginErrorText C p = cErrorText C p"

definition WriterErrorAndExit :: "'t codec \<Rightarrow> string \<Rightarrow> string \<Rightarrow> string \<Rightarrow> 't finished" where
  "WriterErrorAndExit C ty msg err = \<lparr>exitCode = 1, stdOutText = cNoText C,
     stdErrText = PluginErrorText C \<lparr>errType = ty, errMessage = msg, errErrorMessage = err\<rparr>\<rparr>"

text \<open>
  The \<open>extras\<close> member: \<open>Inl\<close> the first value that is no string, in the order the map is
  ranged over; \<open>None\<close> when there is no object under that key.
\<close>

fun stringExtras :: "jobject \<Rightarrow> string list \<Rightarrow> (string, string) fmap \<Rightarrow> (string \<times> json) + (string, string) fmap" where
  "stringExtras m [] extras = Inr extras"
| "stringExtras m (key # ks) extras = (case the (fmlookup m key) of
     JString value \<Rightarrow> stringExtras m ks (fmupd key value extras)
   | value \<Rightarrow> Inl (key, value))"

definition extrasOf :: "(jobject \<Rightarrow> string list) \<Rightarrow> jobject \<Rightarrow> (string \<times> json) + (string, string) fmap option" where
  "extrasOf ord m = (case Option.bind (fmlookup m ''extras'') asObject of
     None \<Rightarrow> Inr None
   | Some extrasInMap \<Rightarrow> map_sum id Some (stringExtras extrasInMap (ord extrasInMap) fmempty))"

text \<open>
  \<open>RunAndExit\<close>. \<open>write\<close> is the error, if any, that copying to standard output ends with.
\<close>

definition RunAndExit :: "'t codec \<Rightarrow> (jobject \<Rightarrow> string list) \<Rightarrow> ('t \<Rightarrow> goerror option) \<Rightarrow> plugin \<Rightarrow> 't
    \<Rightarrow> 't finished result" where
  "RunAndExit C ord write p stdIn = (case cUnmarshalObject C stdIn of
     Inl err \<Rightarrow> Inr (WriterErrorAndExit C PluginInvalidIOError ''error reading plugin input from input'' (errorText err))
   | Inr decoded \<Rightarrow>
      (let m = content decoded in
       if m = fmempty then
         (case bindR (cMarshalMetadata C (plugin_metadata p)) (\<lambda>t. case write t of None \<Rightarrow> Inr t | Some e \<Rightarrow> Inl e) of
            Inl err \<Rightarrow> Inr (WriterErrorAndExit C PluginInvalidIOError ''error writing plugin response to stdOut'' (errorText err))
          | Inr t \<Rightarrow> Inr \<lparr>exitCode = 0, stdOutText = t, stdErrText = []\<rparr>)
       else
         (let b = (case cMarshalObject C m of Inl _ \<Rightarrow> cNoText C | Inr t \<Rightarrow> t) in
          case cUnmarshalU C b of
            Inl err \<Rightarrow> Inr (WriterErrorAndExit C PluginInvalidInputError ''error writing plugin response to stdOut'' (errorText err))
          | Inr obj \<Rightarrow>
             (case extrasOf ord m of
                Inl (key, value) \<Rightarrow> Inr (WriterErrorAndExit C PluginInvalidIOError ''error getting extras value string''
                  (''value '' @ cShowJson C value @ '' for param '' @ key @ '' is not a string''))
              | Inr extras \<Rightarrow>
                 (case plugin_run p \<lparr>reqObject = obj, reqExtras = (case extras of None \<Rightarrow> fmempty | Some x \<Rightarrow> x)\<rparr> of
                    Inl (Panic w) \<Rightarrow> Inl (Panic w)
                  | Inl (Error err) \<Rightarrow> Inr (WriterErrorAndExit C PluginRunError ''error when running plugin'' (errorText err))
                  | Inr resp \<Rightarrow>
                     (case cMarshalResponse C resp of
                        Inl err \<Rightarrow> Inr (WriterErrorAndExit C PluginRunError ''invalid json plugin output, unable to marshal in'' (errorText err))
                      | Inr t \<Rightarrow>
                         (case write t of
                            Some err \<Rightarrow> Inr (WriterErrorAndExit C PluginInvalidIOError ''error writing plugin response to stdOut'' (errorText err))
                          | None \<Rightarrow> Inr \<lparr>exitCode = 0, stdOutText = t, stdErrText = []\<rparr>)))))))"

section \<open>The caller's side\<close>

type_synonym 't command = "'t \<Rightarrow> ('t \<times> string) ret"

definition binaryMetadata :: "'t codec \<Rightarrow> 't command \<Rightarrow> ('t \<times> string) ret" where
  "binaryMetadata C runCmd = (case runCmd (cMetadataRequest C) of
     Inl err \<Rightarrow> Inl (errorf (''unable to run the plugin binary, err: '' @ errorText err))
   | Inr r \<Rightarrow> Inr r)"

text \<open>
  The object as JSON, read back as a plain map, with the flags under \<open>extras\<close>. The errors of
  the first two steps are not looked at: the map then stays empty. A nil map panics.
\<close>

definition binaryRun :: "'t codec \<Rightarrow> 't command \<Rightarrow> pluginRequest \<Rightarrow> ('t \<times> string) result" where
  "binaryRun C runCmd request =
     (let unstructuredJson = (case cMarshalU C (reqObject request) of Inl _ \<Rightarrow> cNoText C | Inr t \<Rightarrow> t);
          objMap = (case cUnmarshalObject C unstructuredJson of Inl _ \<Rightarrow> Some fmempty | Inr m \<Rightarrow> m)
      in case objMap of
           None \<Rightarrow> Inl (Panic ''assignment to entry in nil map'')
         | Some m \<Rightarrow>
            (case cMarshalObject C (fmupd ''extras'' (JObject (fmmap JString (reqExtras request))) m) of
               Inl err \<Rightarrow> Inl (Error (errorf (''unable to marshal unstructured Object: , err: '' @ errorText err)))
             | Inr objJson \<Rightarrow>
                (case runCmd objJson of
                   Inl err \<Rightarrow> Inl (Error (errorf (''unable to run the plugin binary, err: '' @ errorText err)))
                 | Inr r \<Rightarrow> Inr r)))"

definition contain :: "string \<Rightarrow> string list \<Rightarrow> bool" where
  "contain validVersion versions = list_ex (\<lambda>v. validVersion = v) versions"

record 't binaryPlugin =
  bpCommand :: "'t command"
  bpMetadata :: pluginMetadata

definition NewBinaryPlugin :: "'t codec \<Rightarrow> 't command \<Rightarrow> 't binaryPlugin ret" where
  "NewBinaryPlugin C runCmd = (case binaryMetadata C runCmd of
     Inl err \<Rightarrow> Inl (errorf (''error running the plugin metadata command: '' @ errorText err))
   | Inr (out, errBytes) \<Rightarrow>
      if length errBytes \<noteq> 0 then Inl (errorf (''error from plugin binary: '' @ errBytes))
      else (case cUnmarshalMetadata C out of
         Inl err \<Rightarrow> Inl (errorf (''unable to decode metadata sent by the plugin: '' @ cShow C out @ '', err: '' @ errorText err))
       | Inr metadata \<Rightarrow>
          if \<not> contain RequestVersion (requestVersion metadata) \<or> \<not> contain ResponseVersion (responseVersion metadata)
          then Inl (errorf ''invalid versions supported by plugin defined by caller'')
          else Inr \<lparr>bpCommand = runCmd, bpMetadata = metadata\<rparr>))"

text \<open>The lines the plugin wrote to standard error, by the level they name.\<close>

datatype level = Info | Warning | ErrorLevel | Debug

definition lineLevel :: "string \<Rightarrow> level option" where
  "lineLevel line =
     (if containsS line ''level=info'' then Some Info
      else if containsS line ''level=warning'' then Some Warning
      else if containsS line ''level=error'' then Some ErrorLevel
      else if containsS line ''level=debug'' then Some Debug else None)"

definition logLines :: "string \<Rightarrow> (level \<times> string) list" where
  "logLines logBytes = (if length logBytes = 0 then []
     else List.map_filter (\<lambda>line. map_option (\<lambda>l. (l, line)) (lineLevel line)) (split1 CHR 0x0A logBytes))"

definition BinaryPlugin_Run :: "'t codec \<Rightarrow> 't binaryPlugin \<Rightarrow> pluginRequest
    \<Rightarrow> ((level \<times> string) list \<times> pluginResponse) result" where
  "BinaryPlugin_Run C b request = (case binaryRun C (bpCommand b) request of
     Inl (Panic w) \<Rightarrow> Inl (Panic w)
   | Inl (Error err) \<Rightarrow> Inl (Error (errorf (''error running the plugin command: '' @ errorText err)))
   | Inr (out, logBytes) \<Rightarrow>
      (case cUnmarshalResponse C out of
         Inl err \<Rightarrow> Inl (Error (errorf (''unable to decode object sent by the plugin: '' @ cShow C out @ '', err: '' @ errorText err)))
       | Inr p \<Rightarrow> Inr (logLines logBytes, p)))"

definition binaryPluginAsPlugin :: "'t codec \<Rightarrow> 't binaryPlugin \<Rightarrow> plugin" where
  "binaryPluginAsPlugin C b = \<lparr>plugin_run = (\<lambda>req. bindR (BinaryPlugin_Run C b req) (\<lambda>r. Inr (snd r))),
     plugin_metadata = bpMetadata b\<rparr>"

section \<open>The codec\<close>

text \<open>
  Numbers lose their Go type on the way: every number of a generic map is a float64. The
  laws speak about objects whose integers a float64 holds exactly.
\<close>

primrec floats :: "json \<Rightarrow> json" where
  "floats JNull = JNull"
| "floats (JBool b) = JBool b"
| "floats (JInt i) = JFloat (of_int i)"
| "floats (JFloat r) = JFloat r"
| "floats (JString s) = JString s"
| "floats (JArray xs) = JArray (map floats xs)"
| "floats (JObject m) = JObject (fmmap floats m)"

primrec exact :: "json \<Rightarrow> bool" where
  "exact JNull = True"
| "exact (JBool b) = True"
| "exact (JInt i) = (\<bar>i\<bar> \<le> 2 ^ 53)"
| "exact (JFloat r) = False"
| "exact (JString s) = True"
| "exact (JArray xs) = list_all id (map exact xs)"
| "exact (JObject m) = fmpred (\<lambda>_. id) (fmmap exact m)"

definition has_kind :: "jobject \<Rightarrow> bool" where
  "has_kind m \<longleftrightarrow> (\<exists>k. fmlookup m ''kind'' = Some (JString k) \<and> k \<noteq> [])"

definition codec_law :: "'t codec \<Rightarrow> bool" where
  "codec_law C \<longleftrightarrow>
     (\<forall>m. exact (JObject m) \<longrightarrow> (\<exists>t. cMarshalU C (Some m) = Inr t \<and> cUnmarshalObject C t = Inr (Some (fmmap floats m)))) \<and>
     (\<forall>m. exact (JObject m) \<longrightarrow> (\<exists>t. cMarshalObject C (fmmap floats m) = Inr t \<and>
        cUnmarshalObject C t = Inr (Some (fmmap floats m)) \<and> (has_kind m \<longrightarrow> cUnmarshalU C t = Inr (Some m)))) \<and>
     (\<forall>d. \<exists>t. cMarshalMetadata C d = Inr t \<and> cUnmarshalMetadata C t = Inr d) \<and>
     (\<forall>r. \<exists>t. cMarshalResponse C r = Inr t \<and> cUnmarshalResponse C t = Inr r) \<and>
     cUnmarshalObject C (cMetadataRequest C) = Inr (Some fmempty)"

section \<open>A plugin behind a process is the plugin\<close>

text \<open>The command that runs the plugin \<open>p\<close> as a process whose output can be written.\<close>

definition process :: "'t codec \<Rightarrow> (jobject \<Rightarrow> string list) \<Rightarrow> plugin \<Rightarrow> 't command" where
  "process C ord p stdIn = (case RunAndExit C ord (\<lambda>_. None) p stdIn of
     Inl _ \<Rightarrow> Inl (errorf ''exit status 2'')
   | Inr r \<Rightarrow> if exitCode r = 0 then Inr (stdOutText r, stdErrText r) else Inl (errorf ''exit status 1''))"

text \<open>The request as it reaches the plugin: the flags are a member of the object too.\<close>

definition delivered :: "jobject \<Rightarrow> (string, string) fmap \<Rightarrow> pluginRequest" where
  "delivered m extras = \<lparr>reqObject = Some (fmupd ''extras'' (JObject (fmmap JString extras)) m), reqExtras = extras\<rparr>"

lemma stringExtras_strings:
  "(\<And>k. k \<in> set ks \<Longrightarrow> fmlookup extras k \<noteq> None) \<Longrightarrow>
   stringExtras (fmmap JString extras) ks acc = Inr (foldl (\<lambda>m (k, v). fmupd k v m) acc (map (\<lambda>k. (k, the (fmlookup extras k))) ks))"
proof (induction ks arbitrary: acc)
  case (Cons a ks)
  then obtain v where "fmlookup extras a = Some v" using Cons.prems[of a] by auto
  with Cons show ?case by simp
qed simp

lemma stringExtras_all:
  assumes "enumerates ks (fmmap JString extras)"
  shows "stringExtras (fmmap JString extras) ks fmempty = Inr extras"
proof -
  have mem: "k \<in> set ks \<longleftrightarrow> fmlookup extras k \<noteq> None" for k
    using enumerates_mem[OF assms, of k] by simp
  let ?f = "\<lambda>k. (k, the (fmlookup extras k))"
  have "map_of (rev (map ?f ks)) k = (if k \<in> set ks then Some (the (fmlookup extras k)) else None)" for k
  proof -
    have "map_of (map ?f us) k = (if k \<in> set us then Some (the (fmlookup extras k)) else None)" for us
      by (induction us) auto
    then show ?thesis by (simp add: rev_map)
  qed
  then have "foldl (\<lambda>m (k, v). fmupd k v m) fmempty (map ?f ks) = extras"
    using mem by (intro fmap_ext) (auto simp: foldl_fmupd_lookup)
  then show ?thesis using stringExtras_strings[of ks extras fmempty] mem by simp
qed

lemma floats_strings [simp]: "fmmap floats (fmmap JString m) = fmmap JString m"
  by (rule fmap_ext) (auto simp: option.map_comp comp_def)

lemma exact_strings [simp]: "exact (JObject (fmmap JString m))"
  by (auto simp: fmpred_iff)

lemma exact_fmupd: "exact (JObject m) \<Longrightarrow> exact v \<Longrightarrow> exact (JObject (fmupd k v m))"
  by (auto simp: fmpred_iff)

lemma floats_fmupd: "fmmap floats (fmupd k v m) = fmupd k (floats v) (fmmap floats m)"
  by (rule fmap_ext) auto

lemma RunAndExit_request:
  assumes "codec_law C" and "ranges_map ord" and "exact (JObject m)" and "has_kind m"
  shows "\<exists>t. cMarshalObject C (fmupd ''extras'' (JObject (fmmap JString extras)) (fmmap floats m)) = Inr t \<and>
    RunAndExit C ord (\<lambda>_. None) p t = (case plugin_run p (delivered m extras) of
       Inl (Panic w) \<Rightarrow> Inl (Panic w)
     | Inl (Error err) \<Rightarrow> Inr (WriterErrorAndExit C PluginRunError ''error when running plugin'' (errorText err))
     | Inr resp \<Rightarrow> Inr \<lparr>exitCode = 0, stdOutText = projr (cMarshalResponse C resp), stdErrText = []\<rparr>)"
proof -
  let ?m = "fmupd ''extras'' (JObject (fmmap JString extras)) m"
  let ?g = "fmupd ''extras'' (JObject (fmmap JString extras)) (fmmap floats m)"
  have g: "fmmap floats ?m = ?g" by (simp add: floats_fmupd)
  have "exact (JObject ?m)" using assms(3) exact_strings by (rule exact_fmupd)
  moreover have "has_kind ?m" using assms(4) by (simp add: has_kind_def)
  ultimately obtain t where t: "cMarshalObject C ?g = Inr t" "cUnmarshalObject C t = Inr (Some ?g)"
    "cUnmarshalU C t = Inr (Some ?m)" using assms(1) unfolding codec_law_def g[symmetric] by blast
  have "enumerates (ord (fmmap JString extras)) (fmmap JString extras)" using assms(2) by (simp add: ranges_map_def)
  from stringExtras_all[OF this] have ex: "extrasOf ord ?g = Inr (Some extras)" by (simp add: extrasOf_def)
  have resp: "\<exists>t. cMarshalResponse C r = Inr t" for r using assms(1) unfolding codec_law_def by blast
  have "RunAndExit C ord (\<lambda>_. None) p t = (case plugin_run p (delivered m extras) of
       Inl (Panic w) \<Rightarrow> Inl (Panic w)
     | Inl (Error err) \<Rightarrow> Inr (WriterErrorAndExit C PluginRunError ''error when running plugin'' (errorText err))
     | Inr resp \<Rightarrow> Inr \<lparr>exitCode = 0, stdOutText = projr (cMarshalResponse C resp), stdErrText = []\<rparr>)"
  proof (cases "plugin_run p (delivered m extras)")
    case (Inl f)
    then show ?thesis using t ex by (cases f) (simp_all add: RunAndExit_def content_def delivered_def)
  next
    case (Inr r)
    then show ?thesis using t ex resp[of r] by (auto simp: RunAndExit_def content_def delivered_def)
  qed
  with t show ?thesis by blast
qed


text \<open>A codec with the laws: the pipe carries the values themselves.\<close>

datatype wire = WObject jobject | WMetadata pluginMetadata | WResponse pluginResponse | WNone

primrec ints :: "json \<Rightarrow> json" where
  "ints JNull = JNull"
| "ints (JBool b) = JBool b"
| "ints (JInt i) = JInt i"
| "ints (JFloat r) = (if of_int \<lfloor>r\<rfloor> = r then JInt \<lfloor>r\<rfloor> else JFloat r)"
| "ints (JString s) = JString s"
| "ints (JArray xs) = JArray (map ints xs)"
| "ints (JObject m) = JObject (fmmap ints m)"

lemma ints_floats: "exact v \<Longrightarrow> ints (floats v) = v"
proof (induction v)
  case (JArray xs)
  then show ?case by (auto simp: list_all_iff intro!: map_idI)
next
  case (JObject m)
  have "fmlookup (fmmap ints (fmmap floats m)) k = fmlookup m k" for k
  proof (cases "fmlookup m k")
    case (Some v)
    then have "v \<in> fmran' m" by (rule fmran'I)
    moreover have "exact v" using JObject.prems Some by (auto simp: fmpred_iff)
    ultimately show ?thesis using JObject.IH Some by simp
  qed simp
  then show ?case by (simp add: fmap_ext)
qed simp_all

definition ref_codec :: "wire codec" where
  "ref_codec = \<lparr>cMarshalObject = (\<lambda>m. Inr (WObject m)),
     cUnmarshalObject = (\<lambda>t. case t of WObject m \<Rightarrow> Inr (Some (fmmap floats m)) | _ \<Rightarrow> Inl (errorf ''json'')),
     cMarshalU = (\<lambda>u. Inr (WObject (content u))),
     cUnmarshalU = (\<lambda>t. case t of WObject m \<Rightarrow> Inr (Some (fmmap ints m)) | _ \<Rightarrow> Inl (errorf ''json'')),
     cMarshalMetadata = (\<lambda>d. Inr (WMetadata d)),
     cUnmarshalMetadata = (\<lambda>t. case t of WMetadata d \<Rightarrow> Inr d | _ \<Rightarrow> Inl (errorf ''json'')),
     cMarshalResponse = (\<lambda>r. Inr (WResponse r)),
     cUnmarshalResponse = (\<lambda>t. case t of WResponse r \<Rightarrow> Inr r | _ \<Rightarrow> Inl (errorf ''json'')),
     cMetadataRequest = WObject fmempty, cNoText = WNone, cErrorText = errMessage,
     cShow = (\<lambda>_. []), cShowJson = (\<lambda>_. [])\<rparr>"

lemma floats_floats: "floats (floats v) = floats v"
proof (induction v)
  case (JObject m)
  have "fmlookup (fmmap floats (fmmap floats m)) k = fmlookup (fmmap floats m) k" for k
    using JObject.IH[OF fmran'I[of m k]] by (cases "fmlookup m k") simp_all
  then have "fmmap floats (fmmap floats m) = fmmap floats m" by (rule fmap_ext)
  then show ?case by simp
qed simp_all

lemma ref_codec_law: "codec_law ref_codec"
proof -
  have 1: "fmmap floats (fmmap floats m) = fmmap floats m" for m :: jobject using floats_floats[of "JObject m"] by simp
  have 2: "fmmap ints (fmmap floats m) = m" if "exact (JObject m)" for m using ints_floats[OF that] by simp
  show ?thesis using 2 unfolding codec_law_def
    by (auto simp: ref_codec_def content_def 1 simp del: exact.simps)
qed


end
