(* ===== verification/Applier.thy ===== *)
theory Applier
  imports KubeWorkloads PluginProcess
begin

text \<open>
  \<open>apply/applier.go\<close>: applying a transform file to a resource, and the three plugins of
  \<open>binary-plugin/examples/test\<close>. Printing and reading resources and applying a patch are
  third-party code; a document is of a type \<open>'t\<close> the applier does not look into.
\<close>

section \<open>The applier\<close>

text \<open>
  \<open>aApply\<close> is \<open>ApplyWithOptions\<close> with the options the applier passes: paths are created for an
  \<open>add\<close> and may be missing for a \<open>remove\<close>.
\<close>

record 't apply_lib =
  aMarshalU :: "unstructured \<Rightarrow> 't ret"
  aApply :: "patch \<Rightarrow> 't \<Rightarrow> 't ret"
  aUnmarshalU :: "'t \<Rightarrow> unstructured ret"

definition Apply :: "'t apply_lib \<Rightarrow> kube_lib \<Rightarrow> unstructured \<Rightarrow> string \<Rightarrow> 't ret" where
  "Apply A L u patchFileData =
     (if length patchFileData = 0 then Inl (errorf ''invalid patch file - no data'')
      else bindR (decodePatch L patchFileData) (\<lambda>patch.
        case aMarshalU A u of
          Inl err \<Rightarrow> Inl (errorf (''invalid resource file - '' @ errorText err))
        | Inr doc1 \<Rightarrow> (case aApply A patch doc1 of
            Inl err \<Rightarrow> Inl (errorf (''unable to apply patches - '' @ errorText err))
          | Inr doc2 \<Rightarrow> (case aUnmarshalU A doc2 of
              Inl err \<Rightarrow> Inl (errorf (''unable to apply transformations to create a valid kubernetes object - '' @ errorText err))
            | Inr u' \<Rightarrow> aMarshalU A u'))))"

text \<open>
  Printing a resource cannot fail, applying a patch whose steps apply does so, and the result
  can be read back as long as it has a kind.
\<close>

definition apply_law :: "'t apply_lib \<Rightarrow> bool" where
  "apply_law A \<longleftrightarrow> (\<forall>m. \<exists>t. aMarshalU A (Some m) = Inr t) \<and>
     (\<forall>m t ps st m'. aMarshalU A (Some m) = Inr t \<longrightarrow> steps_of ps = Some st \<longrightarrow>
        lenient_steps st (JObject m) = Some (JObject m') \<longrightarrow> has_kind m' \<longrightarrow>
        (\<exists>t'. aApply A ps t = Inr t' \<and> aUnmarshalU A t' = Inr (Some m')))"

lemma Apply_steps:
  assumes "apply_law A" and "t \<noteq> []" and "decodePatch L t = Inr ps" and "steps_of ps = Some st"
    and "lenient_steps st (JObject m) = Some (JObject m')" and "has_kind m'"
  shows "Apply A L (Some m) t = aMarshalU A (Some m')"
proof -
  obtain d where d: "aMarshalU A (Some m) = Inr d" using assms(1) unfolding apply_law_def by blast
  with assms obtain d' where "aApply A ps d = Inr d'" "aUnmarshalU A d' = Inr (Some m')"
    unfolding apply_law_def by blast
  with assms(2,3) d show ?thesis by (simp add: Apply_def)
qed

text \<open>An instance: documents are the objects themselves.\<close>

definition ref_apply :: "jobject apply_lib" where
  "ref_apply = \<lparr>aMarshalU = (\<lambda>u. Inr (content u)),
     aApply = (\<lambda>ps m. case Option.bind (steps_of ps) (\<lambda>st. lenient_steps st (JObject m)) of
        Some (JObject m') \<Rightarrow> Inr m' | _ \<Rightarrow> Inl (errorf ''patch'')),
     aUnmarshalU = (\<lambda>m. if has_kind m then Inr (Some m) else Inl (errorf ''Object 'Kind' is missing''))\<rparr>"

lemma ref_apply_law: "apply_law ref_apply"
  by (simp add: apply_law_def ref_apply_def content_def)

section \<open>The example plugins\<close>

definition annotationText :: "string \<Rightarrow> string" where
  "annotationText val = ''['' @ nl @ ''{ \"op\": \"add\", \"path\": \"/metadata/annotations/test-crane-annotation\", \"value\":\"'' @
     val @ ''\"}'' @ nl @ '']''"

definition AddAnnotation :: "kube_lib \<Rightarrow> pluginRequest \<Rightarrow> patch ret" where
  "AddAnnotation L request =
     (let val = (case fmlookup (reqExtras request) ''annotation-value'' of None \<Rightarrow> ''crane'' | Some v \<Rightarrow> v)
      in decodePatch L (annotationText val))"

definition annotationRun :: "kube_lib \<Rightarrow> pluginRequest \<Rightarrow> pluginResponse result" where
  "annotationRun L request = bindR (liftR (AddAnnotation L request)) (\<lambda>p.
     Inr \<lparr>respVersion = ''v1'', isWhiteOut = False, respPatches = p, respNewResources = []\<rparr>)"

definition annotationPlugin :: "kube_lib \<Rightarrow> plugin" where
  "annotationPlugin L = NewCustomPlugin ''AnnotationPlugin'' ''v1''
     [\<lparr>flagName = ''annotation-value'', flagHelp = ''The value to set for the annotation test-crane-annotation'',
       flagExample = ''foo''\<rparr>] (Some (annotationRun L))"

definition whiteoutAllRun :: "pluginRequest \<Rightarrow> pluginResponse result" where
  "whiteoutAllRun request = Inr \<lparr>respVersion = ''v1'', isWhiteOut = True, respPatches = [], respNewResources = []\<rparr>"

definition whiteoutAllPlugin :: plugin where
  "whiteoutAllPlugin = NewCustomPlugin ''WhiteoutPluginAll'' ''v1'' [] (Some whiteoutAllRun)"

definition whiteoutPodsRun :: "kube_lib \<Rightarrow> pluginRequest \<Rightarrow> pluginResponse result" where
  "whiteoutPodsRun L request = Inr \<lparr>respVersion = ''v1'', isWhiteOut = (getKind L (reqObject request) = ''Pod''),
     respPatches = [], respNewResources = []\<rparr>"

definition whiteoutPodsPlugin :: "kube_lib \<Rightarrow> plugin" where
  "whiteoutPodsPlugin L = NewCustomPlugin ''WhiteoutPodsPlugin'' ''v1'' [] (Some (whiteoutPodsRun L))"

lemmas example_plugin_defs = NewCustomPlugin_def customRun_def Let_def whiteoutAllPlugin_def whiteoutAllRun_def
  whiteoutPodsPlugin_def whiteoutPodsRun_def annotationPlugin_def annotationRun_def

text \<open>Each of them keeps the contract of a white-out: nothing comes with it.\<close>

interpretation whiteout_all: whiteout_plugin whiteoutAllPlugin
  by unfold_locales (auto simp: example_plugin_defs)

interpretation whiteout_pods: whiteout_plugin "whiteoutPodsPlugin L" for L
  by unfold_locales (auto simp: example_plugin_defs)

interpretation annotation: whiteout_plugin "annotationPlugin L" for L
  by unfold_locales (auto simp: example_plugin_defs result_simps)

end
