(* ===== verification/Pipeline.thy ===== *)
theory Pipeline
  imports Applier
begin

text \<open>
  The components together: an object goes through the runner with the Kubernetes plugin, the
  transform file is written, and the applier applies it to the object.
\<close>

section \<open>Patches without conflicts\<close>

text \<open>
  When every operation has a path of its own, sanitizing keeps them all, in the order the map
  is ranged over.
\<close>

lemma sanitizeLoop_no_conflict:
  "distinct (map fst kos) \<Longrightarrow> (\<And>k o1. (k, o1) \<in> set kos \<Longrightarrow> opPath (opOperation o1) = Inr k \<and> fmlookup pm k = None) \<Longrightarrow>
   sanitizeLoop prios (pm, ign) (map snd kos) = Inr (foldl (\<lambda>m (k, o1). fmupd k o1 m) pm kos, ign)"
proof (induction kos arbitrary: pm)
  case (Cons ko kos)
  obtain k o1 where ko: "ko = (k, o1)" by (cases ko)
  have p: "opPath (opOperation o1) = Inr k" "fmlookup pm k = None" using Cons.prems(2)[of k o1] ko by auto
  have n: "k \<noteq> k'" if "(k', x) \<in> set kos" for k' x using Cons.prems(1) ko that by force
  have "sanitizeStep prios (pm, ign) o1 = Inr (fmupd k o1 pm, ign)" using p by (simp add: sanitizeStep_def)
  moreover have "sanitizeLoop prios (fmupd k o1 pm, ign) (map snd kos) =
      Inr (foldl (\<lambda>m (k, o1). fmupd k o1 m) (fmupd k o1 pm) kos, ign)"
    using Cons.prems n by (intro Cons.IH) auto
  ultimately show ?case using ko by simp
qed simp

lemma sanitize_removals:
  assumes "ranges_map ord" and "distinct fs"
  shows "\<exists>gs. distinct gs \<and> set gs = set fs \<and>
    sanitizePatches ord prios (PluginOperationsFromPatch n (map (\<lambda>f. removeOp L (pointer f)) fs)) =
      Inr (map (\<lambda>f. removeOp L (pointer f)) gs, [])"
proof -
  let ?o = "\<lambda>f. \<lparr>opPlugin = n, opOperation = removeOp L (pointer f)\<rparr>"
  let ?kos = "map (\<lambda>f. (pointer f, ?o f)) fs"
  let ?pm = "foldl (\<lambda>m (k, o1). fmupd k o1 m) fmempty ?kos"
  have d: "distinct (map fst ?kos)" using assms(2) by (auto simp: distinct_map comp_def inj_on_def pointer_inj)
  have loop: "sanitizeLoop prios (fmempty, []) (map ?o fs) = Inr (?pm, [])"
    using sanitizeLoop_no_conflict[OF d, of fmempty prios "[]"] by (fastforce simp: comp_def)
  have l: "fmlookup ?pm k = (if k \<in> pointer ` set fs then Some (?o (the (pointer_tokens k))) else None)" for k
  proof -
    have "map_of (map (\<lambda>f. (pointer f, ?o f)) us) k =
        (if k \<in> pointer ` set us then Some (?o (the (pointer_tokens k))) else None)" for us
      by (induction us) auto
    then show ?thesis unfolding foldl_fmupd_lookup rev_map by simp
  qed
  have en: "enumerates (ord ?pm) ?pm" using assms(1) by (simp add: ranges_map_def)
  have set: "set (ord ?pm) = pointer ` set fs"
    using enumerates_mem[OF en] unfolding l by (auto split: if_splits)
  define gs where "gs = map (\<lambda>k. the (pointer_tokens k)) (ord ?pm)"
  have inj: "inj_on (\<lambda>k. the (pointer_tokens k)) (set (ord ?pm))" unfolding set by (auto simp: inj_on_def)
  have "distinct gs" using en inj by (simp add: gs_def distinct_map enumerates_def)
  moreover have "set gs = set fs" unfolding gs_def set_map set by (simp add: image_image)
  moreover have "map (\<lambda>k. opOperation (the (fmlookup ?pm k))) (ord ?pm) = map (\<lambda>f. removeOp L (pointer f)) gs"
    unfolding gs_def using set l by auto
  ultimately show ?thesis using loop
    by (intro exI[of _ gs]) (simp add: sanitizePatches_def PluginOperationsFromPatch_def comp_def)
qed

section \<open>Printing\<close>

text \<open>\<open>json.Marshal\<close> of a patch is text that \<open>DecodePatch\<close> reads as that patch.\<close>

definition print_law :: "printers \<Rightarrow> kube_lib \<Rightarrow> bool" where
  "print_law J L \<longleftrightarrow>
     (\<forall>its. list_all plain_item its \<longrightarrow> (\<exists>t. marshalPatch J (map (itemOp L) its) = Inr t \<and> t \<noteq> [] \<and>
        decodePatch L t = Inr (map (itemOp L) its))) \<and> (\<exists>t. marshalIgnored J [] = Inr t)"

lemma print_removals:
  assumes "print_law J L" and "\<forall>f\<in>set fs. plain (pointer f)"
  shows "\<exists>t. marshalPatch J (map (\<lambda>f. removeOp L (pointer f)) fs) = Inr t \<and> t \<noteq> [] \<and>
    decodePatch L t = Inr (map (\<lambda>f. removeOp L (pointer f)) fs)"
proof -
  let ?its = "map (\<lambda>f. (pointer f, None :: string option)) fs"
  have "list_all plain_item ?its" using assms(2) by (simp add: list_all_iff)
  moreover have "map (itemOp L) ?its = map (\<lambda>f. removeOp L (pointer f)) fs" by simp
  ultimately show ?thesis using assms(1) unfolding print_law_def by metis
qed

definition toItem :: "operation \<Rightarrow> string \<times> string option" where
  "toItem o1 = (projr (opPath o1), case opValue o1 of Inr (JString v) \<Rightarrow> Some v | _ \<Rightarrow> None)"

definition ref_printers :: printers where
  "ref_printers = \<lparr>marshalPatch = (\<lambda>ps. Inr (itemsText (map toItem ps))), marshalIgnored = (\<lambda>_. Inr ''[]'')\<rparr>"

lemma toItem_itemOp: "toItem (itemOp ref_lib it) = it"
proof -
  obtain p v where "it = (p, v)" by (cases it)
  then show ?thesis by (cases v) (simp_all add: toItem_def removeOp_def valueOp_def ref_missing_def)
qed

lemma ref_print_law: "print_law ref_printers ref_lib"
proof -
  have items: "map toItem (map (itemOp ref_lib) its) = its" for its
    unfolding map_map by (rule map_idI) (simp add: toItem_itemOp del: itemOp.simps)
  have "itemsText its \<noteq> []" for its by (simp add: itemsText_def)
  with decode_items[OF ref_decode_law] show ?thesis
    unfolding print_law_def ref_printers_def printers.simps items by blast
qed

section \<open>A resource through the whole program\<close>

lemma json_empty: "json_parse ''[]'' = Some (JArray (map JObject []))"
  by code_simp

definition defaulted :: "kubePlugin \<Rightarrow> kubePlugin" where
  "defaulted k = k\<lparr>kStripDefaultRBAC := True, kStripDefaultCABundle := True\<rparr>"

lemma stripFields_ops:
  assumes "nested_law L" and "decode_law L"
    and "\<forall>f\<in>set fieldsToStrip. follow (JObject (content obj)) f \<noteq> Blocked"
  shows "stripFields L obj = Inr (map (\<lambda>f. removeOp L (pointer f))
     (filter (\<lambda>f. \<exists>w. follow (JObject (content obj)) f = Found w) fieldsToStrip))"
proof -
  let ?v = "JObject (content obj)"
  have "stripFields L obj = Inr (concat (map (\<lambda>f. if \<exists>w. follow ?v f = Found w
      then [removeOp L (pointer f)] else []) fieldsToStrip))"
    unfolding stripFields_def using assms by (intro concatR_total stripField_law) auto
  also have "concat (map (\<lambda>f. if P f then [g f] else []) xs) = map g (filter P xs)" for P g and xs :: "'a list"
    by (induction xs) auto
  finally show ?thesis .
qed

lemma kube_strip_run:
  assumes "nested_law L" and "decode_law L" and "optionalFlags r = fmempty"
    and "kAddAnnotations k = fmempty" and "kRemoveAnnotations k = []" and "kRegistryReplacement k = fmempty"
    and "groupKindOf L obj \<notin> set special_kinds" and "\<not> getWhiteOuts L (defaulted k) obj"
    and "\<forall>f\<in>set fieldsToStrip. follow (JObject (content obj)) f \<noteq> Blocked"
  shows "plugin_run (kubePluginAsPlugin L ord k) \<lparr>reqObject = obj, reqExtras = optionalFlags r\<rparr> =
    Inr (emptyResponse\<lparr>respVersion := V1, respPatches := map (\<lambda>f. removeOp L (pointer f))
      (filter (\<lambda>f. \<exists>w. follow (JObject (content obj)) f = Found w) fieldsToStrip)\<rparr>)"
proof -
  have "setOptionalFields L k fmempty = Inr (defaulted k, None)"
    by (simp add: setOptionalFields_def setFlags_def flagVal_def Let_def defaulted_def)
  moreover have "getKubernetesTransforms L ord (defaulted k) obj = liftR (stripFields L obj)"
    using assms(4-7) by (intro getKubernetesTransforms_default) (simp_all add: defaulted_def)
  ultimately show ?thesis
    using assms(3,8) stripFields_ops[OF assms(1,2,9)]
    by (simp add: kubePluginAsPlugin_def kubeRun_def Let_def emptyResponse_def)
qed

lemma apply_found_removals:
  assumes "distinct gs" and "set gs \<subseteq> set fieldsToStrip" and "\<forall>f\<in>set gs. \<exists>w. follow v f = Found w"
  shows "\<exists>v'. apply_steps (map (\<lambda>f. Remove (pointer f)) gs) v = Some v' \<and> (\<forall>f\<in>set gs. follow v' f = Missing) \<and>
    (\<forall>q. (\<forall>f\<in>set gs. unrelated f q) \<longrightarrow> follow v' q = follow v q)"
proof -
  have "filter (\<lambda>f. \<exists>w. follow v f = Found w) gs = gs" using assms(3) by (simp add: filter_id_conv)
  moreover have "\<exists>v'. apply_steps (removals v gs) v = Some v' \<and> (\<forall>f\<in>set gs. follow v' f = Missing) \<and>
      (\<forall>q. (\<forall>f\<in>set gs. unrelated f q) \<longrightarrow> follow v' q = follow v q)"
  proof (rule apply_removals)
    show "\<forall>f\<in>set gs. f \<noteq> []" using assms(2) plain_fields by blast
    show "\<forall>f\<in>set gs. \<forall>g\<in>set gs. f \<noteq> g \<longrightarrow> unrelated f g" using assms(2) fields_unrelated by blast
    show "\<forall>f\<in>set gs. follow v f \<noteq> Blocked" using assms(3) by force
  qed (rule assms(1))
  ultimately show ?thesis by (simp add: removals_def)
qed


definition exported :: jobject where
  "exported = fmap_of_list [(''apiVersion'', JString ''v1''), (''kind'', JString ''ConfigMap''),
     (''metadata'', JObject (fmap_of_list [(''name'', JString ''settings''), (''uid'', JString ''1f'')])),
     (''data'', JObject (fmap_of_list [(''mode'', JString ''on'')]))]"

lemma exported_follow: "\<forall>f\<in>set fieldsToStrip. follow (JObject exported) f \<noteq> Blocked"
  by (simp add: exported_def fieldsToStrip_def)

lemma exported_kept: "\<not> getWhiteOuts ref_lib (defaulted newKubePlugin) (Some exported)"
  by (simp add: getWhiteOuts_iff selected_kind_def generated_secret_def default_object_def defaulted_def
      newKubePlugin_def gksToWhiteout_def gk_defs exported_def ref_defs extensionsGroup_def splitN2_no_sep)


end
