(* ===== verification/Effects.thy ===== *)
theory Effects
  imports Prelude
begin

text \<open>
  Code that talks to a cluster. An action takes the state of the world outside the program
  to a result (a value, an error or a panic) and the state it leaves, so what was done
  before an error stays done. \<open>'s\<close> is never inspected by the program: it is the state the
  client behind the parameters works on.
\<close>

type_synonym ('s, 'a) act = "'s \<Rightarrow> 'a result \<times> 's"

definition retA :: "'a \<Rightarrow> ('s, 'a) act" where
  "retA x = (\<lambda>s. (Inr x, s))"

definition failA :: "fault \<Rightarrow> ('s, 'a) act" where
  "failA e = (\<lambda>s. (Inl e, s))"

definition bindA :: "('s, 'a) act \<Rightarrow> ('a \<Rightarrow> ('s, 'b) act) \<Rightarrow> ('s, 'b) act" where
  "bindA m f = (\<lambda>s. case m s of (Inl e, s') \<Rightarrow> (Inl e, s') | (Inr x, s') \<Rightarrow> f x s')"

definition thenA :: "('s, 'a) act \<Rightarrow> ('s, 'b) act \<Rightarrow> ('s, 'b) act" where
  "thenA m n = bindA m (\<lambda>_. n)"

text \<open>A computation without effect as an action.\<close>

definition pureA :: "'a result \<Rightarrow> ('s, 'a) act" where
  "pureA r = (\<lambda>s. (r, s))"

text \<open>\<open>err := m\<close>, with the error looked at by the code that follows; a panic is not caught.\<close>

definition tryA :: "('s, 'a) act \<Rightarrow> ('s, 'a ret) act" where
  "tryA m = (\<lambda>s. case m s of
     (Inl (Panic w), s') \<Rightarrow> (Inl (Panic w), s')
   | (Inl (Error e), s') \<Rightarrow> (Inr (Inl e), s')
   | (Inr x, s') \<Rightarrow> (Inr (Inr x), s'))"

text \<open>\<open>for _, x := range xs { if err := f(x); err != nil { return err } }\<close>.\<close>

fun forA :: "('a \<Rightarrow> ('s, unit) act) \<Rightarrow> 'a list \<Rightarrow> ('s, unit) act" where
  "forA f [] s = (Inr (), s)"
| "forA f (x # xs) s = (case f x s of (Inl e, s') \<Rightarrow> (Inl e, s') | (Inr _, s') \<Rightarrow> forA f xs s')"

named_theorems act_simps \<open>running actions\<close>

lemma act_run [act_simps]:
  "retA x s = (Inr x, s)" "failA e s = (Inl e, s)" "pureA r s = (r, s)"
  by (simp_all add: retA_def failA_def pureA_def)

lemma bindA_Inr [act_simps]: "m s = (Inr x, s') \<Longrightarrow> bindA m f s = f x s'"
  by (simp add: bindA_def)

lemma bindA_Inl: "m s = (Inl e, s') \<Longrightarrow> bindA m f s = (Inl e, s')"
  by (simp add: bindA_def)

lemma thenA_Inr [act_simps]: "m s = (Inr x, s') \<Longrightarrow> thenA m n s = n s'"
  by (simp add: thenA_def bindA_def)

lemma thenA_Inl: "m s = (Inl e, s') \<Longrightarrow> thenA m n s = (Inl e, s')"
  by (simp add: thenA_def bindA_def)

lemma bindA_eq_Inr:
  "bindA m f s = (Inr y, s2) \<longleftrightarrow> (\<exists>x s1. m s = (Inr x, s1) \<and> f x s1 = (Inr y, s2))"
  by (auto simp: bindA_def split: prod.splits sum.splits)

lemma thenA_eq_Inr:
  "thenA m n s = (Inr y, s2) \<longleftrightarrow> (\<exists>x s1. m s = (Inr x, s1) \<and> n s1 = (Inr y, s2))"
  by (simp add: thenA_def bindA_eq_Inr)

lemma thenA_assoc: "thenA (thenA a b) c = thenA a (thenA b c)"
  by (rule ext) (auto simp: thenA_def bindA_def split: prod.splits sum.splits)

lemma tryA_run [act_simps]:
  "m s = (Inr x, s') \<Longrightarrow> tryA m s = (Inr (Inr x), s')"
  "m s = (Inl (Error e), s') \<Longrightarrow> tryA m s = (Inr (Inl e), s')"
  "m s = (Inl (Panic w), s') \<Longrightarrow> tryA m s = (Inl (Panic w), s')"
  by (simp_all add: tryA_def)

text \<open>A loop whose rounds all succeed threads the state; a simulation invariant carries over.\<close>

lemma forA_invariant:
  assumes "\<And>x s. x \<in> set xs \<Longrightarrow> P s \<Longrightarrow> P (snd (f x s))" and "P s"
  shows "P (snd (forA f xs s))"
  using assms
proof (induction xs arbitrary: s)
  case (Cons x xs)
  obtain r s1 where 1: "f x s = (r, s1)" by (cases "f x s")
  with Cons.prems have "P s1" by (metis list.set_intros(1) snd_conv)
  then show ?case using 1 Cons by (cases r) auto
qed simp

lemma forA_ok:
  assumes "\<And>x s. x \<in> set xs \<Longrightarrow> \<exists>s'. f x s = (Inr (), s')"
  shows "\<exists>s'. forA f xs s = (Inr (), s')"
  using assms
proof (induction xs arbitrary: s)
  case (Cons x xs)
  obtain s1 where "f x s = (Inr (), s1)" using Cons.prems[of x s] by auto
  then show ?case using Cons by simp
qed simp

section \<open>Errors that are collected\<close>

text \<open>
  \<open>errorsutil.NewAggregate\<close> drops the nil errors of a list and is nil when none is left; the
  error it makes of the others is third-party code and a parameter.
\<close>

type_synonym aggregator = "goerror list \<Rightarrow> goerror"

definition newAggregate :: "aggregator \<Rightarrow> goerror option list \<Rightarrow> goerror option" where
  "newAggregate agg errs = (let es = List.map_filter id errs in if es = [] then None else Some (agg es))"

definition errorA :: "goerror option \<Rightarrow> ('s, unit) act" where
  "errorA err = (case err of None \<Rightarrow> retA () | Some e \<Rightarrow> failA (Error e))"

lemma newAggregate_None: "newAggregate agg errs = None \<longleftrightarrow> (\<forall>e\<in>set errs. e = None)"
  by (induction errs) (auto simp: newAggregate_def List.map_filter_simps Let_def split: option.splits)

lemma newAggregate_simps [simp]:
  "newAggregate agg [] = None" "newAggregate agg (None # errs) = newAggregate agg errs"
  by (simp_all add: newAggregate_def List.map_filter_simps)

text \<open>\<open>err := m; errs = append(errs, err)\<close>: the error of an action as a value.\<close>

definition errOfA :: "('s, unit) act \<Rightarrow> ('s, goerror option) act" where
  "errOfA m = bindA (tryA m) (\<lambda>r. retA (case r of Inl e \<Rightarrow> Some e | Inr _ \<Rightarrow> None))"

lemma errOfA_run [act_simps]:
  "m s = (Inr (), s') \<Longrightarrow> errOfA m s = (Inr None, s')"
  "m s = (Inl (Error e), s') \<Longrightarrow> errOfA m s = (Inr (Some e), s')"
  "m s = (Inl (Panic w), s') \<Longrightarrow> errOfA m s = (Inl (Panic w), s')"
  by (simp_all add: errOfA_def bindA_def tryA_def retA_def)

end
