(* ===== verification/KubeObjects.thy ===== *)
theory KubeObjects
  imports Effects GoConv
begin

text \<open>
  The Kubernetes objects the state transfer code builds and reads, reduced to the fields it
  sets or looks at, and the controller-runtime client as a parameter: one set of operations
  per kind, on a cluster state \<open>'s\<close> that only the client knows. Ports are 32 bits wide.
\<close>

record namespacedName =
  nnNamespace :: string
  nnName :: string

type_synonym labels = "(string, string) fmap"

record ownerReference =
  orKind :: string
  orName :: string
  orUID :: string

record resourceMeta =
  rmNamespace :: string
  rmName :: string
  rmLabels :: labels
  rmAnnotations :: labels
  rmOwners :: "ownerReference list"

definition objectMetaOf :: "string \<Rightarrow> string \<Rightarrow> labels \<Rightarrow> resourceMeta" where
  "objectMetaOf ns n ls = \<lparr>rmNamespace = ns, rmName = n, rmLabels = ls, rmAnnotations = fmempty, rmOwners = []\<rparr>"

section \<open>Services, ingresses and routes\<close>

record servicePort =
  spName :: string
  spProtocol :: string
  spPort :: "32 word"
  spTargetPort :: "32 word"
  spNodePort :: "32 word"

record service =
  svcMeta :: resourceMeta
  svcPorts :: "servicePort list"
  svcSelector :: labels
  svcType :: string
  svcClusterIP :: string
  svcIngress :: "(string \<times> string) list" \<comment> \<open>host name and address of each load balancer\<close>

record ingress =
  ingMeta :: resourceMeta
  ingHosts :: "string list" \<comment> \<open>the host of each rule\<close>
  ingPath :: "string \<times> string" \<comment> \<open>the path of the rule and its type\<close>
  ingBackend :: "string \<times> 32 word" \<comment> \<open>service and port of the rule's path\<close>
  ingStatusHosts :: "string list"

record route =
  rtMeta :: resourceMeta
  rtSubdomain :: string
  rtHost :: string
  rtPort :: "32 word option"
  rtTo :: "string \<times> string" \<comment> \<open>kind and name of the target\<close>
  rtTLS :: "(string \<times> string) option" \<comment> \<open>termination and policy for insecure edges\<close>
  rtConditions :: "(string \<times> string) list option" \<comment> \<open>type and status, of the first ingress\<close>

section \<open>Configuration, secrets and pods\<close>

record configMap =
  cmMeta :: resourceMeta
  cmData :: labels

record secret =
  secMeta :: resourceMeta
  secData :: labels

record securityContext =
  runAsUser :: "int option"
  privileged :: "bool option"

record podSecurityContext =
  podRunAsUser :: "int option"
  podRunAsGroup :: "int option"
  podFSGroup :: "int option"

record volumeMount =
  vmName :: string
  vmPath :: string
  vmSubPath :: string
  vmReadOnly :: bool

record container =
  ctName :: string
  ctImage :: string
  ctPullPolicy :: string
  ctCommand :: "string list"
  ctEnv :: "(string \<times> string) list"
  ctPorts :: "(string \<times> string \<times> 32 word) list" \<comment> \<open>name, protocol, port\<close>
  ctMounts :: "volumeMount list"
  ctDevices :: "(string \<times> string) list"
  ctSecurity :: "securityContext option"
  ctResources :: string

definition containerOf :: "string \<Rightarrow> string \<Rightarrow> string list \<Rightarrow> container" where
  "containerOf n img cmd = \<lparr>ctName = n, ctImage = img, ctPullPolicy = [], ctCommand = cmd, ctEnv = [], ctPorts = [], ctMounts = [],
     ctDevices = [], ctSecurity = None, ctResources = []\<rparr>"

definition mountOf :: "string \<Rightarrow> string \<Rightarrow> string \<Rightarrow> volumeMount" where
  "mountOf n p sub = \<lparr>vmName = n, vmPath = p, vmSubPath = sub, vmReadOnly = False\<rparr>"

datatype volumeSource =
    FromConfigMap string
  | FromSecret string "(string \<times> string) list" "32 word option"
  | FromClaim string
  | EmptyDir

record volume =
  volName :: string
  volSource :: volumeSource

record podSpecification =
  psContainers :: "container list"
  psVolumes :: "volume list"
  psRestartPolicy :: string
  psNodeSelector :: labels
  psNodeName :: string
  psSecurity :: "podSecurityContext option"

record pod =
  poMeta :: resourceMeta
  poGenerateName :: string
  poSpec :: podSpecification
  poStatuses :: "(string \<times> bool) list" \<comment> \<open>name and readiness of each container\<close>
  poPhase :: string

text \<open>A persistent volume claim; a nil volume mode means a file system.\<close>

record claim =
  pvcMeta :: resourceMeta
  pvcMode :: "string option"

section \<open>The client\<close>

record ('s, 'o) kind_api =
  k_get :: "namespacedName \<Rightarrow> ('s, 'o) act"
  k_create :: "'o \<Rightarrow> ('s, unit) act"
  k_update :: "'o \<Rightarrow> ('s, unit) act"

text \<open>\<open>err := c.Create(..); if err != nil && !IsAlreadyExists(err) { return err }\<close>.\<close>

definition createIfAbsent :: "('s, 'o) kind_api \<Rightarrow> 'o \<Rightarrow> ('s, unit) act" where
  "createIfAbsent api x = bindA (tryA (k_create api x)) (\<lambda>r. case r of
     Inr _ \<Rightarrow> retA ()
   | Inl err \<Rightarrow> if errorCause err = AlreadyExists then retA () else failA (Error err))"

text \<open>The same, followed by an update when the object existed.\<close>

definition createOrUpdate :: "('s, 'o) kind_api \<Rightarrow> 'o \<Rightarrow> ('s, unit) act" where
  "createOrUpdate api x = bindA (tryA (k_create api x)) (\<lambda>r. case r of
     Inr _ \<Rightarrow> retA ()
   | Inl err \<Rightarrow> if errorCause err = AlreadyExists then k_update api x else failA (Error err))"

text \<open>
  What a cluster does: \<open>view\<close> is its content of one kind, by name. Creating adds an object
  unless the name is taken, which is \<open>AlreadyExists\<close>; getting a missing one is \<open>NotFound\<close>.
\<close>

definition nnOf :: "resourceMeta \<Rightarrow> namespacedName" where
  "nnOf m = \<lparr>nnNamespace = rmNamespace m, nnName = rmName m\<rparr>"

type_synonym 'o store = "namespacedName \<Rightarrow> 'o option"

definition stores :: "('s, 'o) kind_api \<Rightarrow> ('o \<Rightarrow> resourceMeta) \<Rightarrow> ('c \<Rightarrow> 'o store) \<Rightarrow> ('o store \<Rightarrow> 'c \<Rightarrow> 'c)
    \<Rightarrow> ('s \<Rightarrow> 'c) \<Rightarrow> bool" where
  "stores api meta get put view \<longleftrightarrow>
     (\<forall>s n. case get (view s) n of
        Some x \<Rightarrow> k_get api n s = (Inr x, s)
      | None \<Rightarrow> \<exists>e. k_get api n s = (Inl (Error e), s) \<and> errorCause e = NotFound) \<and>
     (\<forall>s x. if get (view s) (nnOf (meta x)) = None
        then \<exists>s'. k_create api x s = (Inr (), s') \<and> view s' = put ((get (view s))(nnOf (meta x) \<mapsto> x)) (view s)
        else \<exists>e. k_create api x s = (Inl (Error e), s) \<and> errorCause e = AlreadyExists) \<and>
     (\<forall>s x. get (view s) (nnOf (meta x)) \<noteq> None \<longrightarrow>
        (\<exists>s'. k_update api x s = (Inr (), s') \<and> view s' = put ((get (view s))(nnOf (meta x) \<mapsto> x)) (view s)))"

lemma stores_get:
  "stores api meta get put view \<Longrightarrow> get (view s) n = Some x \<Longrightarrow> k_get api n s = (Inr x, s)"
  "stores api meta get put view \<Longrightarrow> get (view s) n = None \<Longrightarrow>
     \<exists>e. k_get api n s = (Inl (Error e), s) \<and> errorCause e = NotFound"
proof -
  assume a: "stores api meta get put view"
  then have *: "case get (view s) n of
        Some x \<Rightarrow> k_get api n s = (Inr x, s)
      | None \<Rightarrow> \<exists>e. k_get api n s = (Inl (Error e), s) \<and> errorCause e = NotFound"
    unfolding stores_def by blast
  from * show "get (view s) n = Some x \<Longrightarrow> k_get api n s = (Inr x, s)" by simp
  from * show "get (view s) n = None \<Longrightarrow> \<exists>e. k_get api n s = (Inl (Error e), s) \<and> errorCause e = NotFound" by simp
qed

lemma stores_create:
  assumes "stores api meta get put view"
  shows "get (view s) (nnOf (meta x)) = None \<Longrightarrow>
      \<exists>s'. k_create api x s = (Inr (), s') \<and> view s' = put ((get (view s))(nnOf (meta x) \<mapsto> x)) (view s)"
    and "get (view s) (nnOf (meta x)) \<noteq> None \<Longrightarrow>
      \<exists>e. k_create api x s = (Inl (Error e), s) \<and> errorCause e = AlreadyExists"
    and "get (view s) (nnOf (meta x)) \<noteq> None \<Longrightarrow>
      \<exists>s'. k_update api x s = (Inr (), s') \<and> view s' = put ((get (view s))(nnOf (meta x) \<mapsto> x)) (view s)"
  using assms unfolding stores_def by metis+

text \<open>After \<open>createIfAbsent\<close> there is an object of that name: the new one or the one there was.\<close>

lemma createIfAbsent_effect:
  assumes "stores api meta get put view" and "put (get (view s)) (view s) = view s"
  shows "\<exists>s'. createIfAbsent api x s = (Inr (), s') \<and>
    view s' = put (if get (view s) (nnOf (meta x)) = None then (get (view s))(nnOf (meta x) \<mapsto> x) else get (view s)) (view s)"
proof (cases "get (view s) (nnOf (meta x)) = None")
  case True
  then obtain s' where "k_create api x s = (Inr (), s')" "view s' = put ((get (view s))(nnOf (meta x) \<mapsto> x)) (view s)"
    using stores_create(1)[OF assms(1)] by blast
  with True show ?thesis by (simp add: createIfAbsent_def bindA_def tryA_def retA_def)
next
  case False
  then obtain e where "k_create api x s = (Inl (Error e), s)" "errorCause e = AlreadyExists"
    using stores_create(2)[OF assms(1)] by blast
  with False assms(2) show ?thesis by (auto simp: createIfAbsent_def bindA_def tryA_def retA_def)
qed

lemma createOrUpdate_effect:
  assumes "stores api meta get put view"
  shows "\<exists>s'. createOrUpdate api x s = (Inr (), s') \<and> view s' = put ((get (view s))(nnOf (meta x) \<mapsto> x)) (view s)"
proof (cases "get (view s) (nnOf (meta x)) = None")
  case True
  then obtain s' where "k_create api x s = (Inr (), s')" "view s' = put ((get (view s))(nnOf (meta x) \<mapsto> x)) (view s)"
    using stores_create(1)[OF assms] by blast
  then show ?thesis by (simp add: createOrUpdate_def bindA_def tryA_def retA_def)
next
  case False
  then obtain e where "k_create api x s = (Inl (Error e), s)" "errorCause e = AlreadyExists"
    using stores_create(2)[OF assms] by blast
  then show ?thesis using stores_create(3)[OF assms False] by (simp add: createOrUpdate_def bindA_def tryA_def retA_def)
qed

text \<open>A client over a concrete store, for witnesses.\<close>

definition ref_kind :: "('o \<Rightarrow> resourceMeta) \<Rightarrow> ('c \<Rightarrow> 'o store) \<Rightarrow> ('o store \<Rightarrow> 'c \<Rightarrow> 'c) \<Rightarrow> ('c, 'o) kind_api" where
  "ref_kind meta get put = \<lparr>
     k_get = (\<lambda>n c. (case get c n of Some x \<Rightarrow> Inr x | None \<Rightarrow> Inl (Error (GoError ''not found'' NotFound)), c)),
     k_create = (\<lambda>x c. if get c (nnOf (meta x)) = None then (Inr (), put ((get c)(nnOf (meta x) \<mapsto> x)) c)
        else (Inl (Error (GoError ''already exists'' AlreadyExists)), c)),
     k_update = (\<lambda>x c. if get c (nnOf (meta x)) = None then (Inl (Error (GoError ''not found'' NotFound)), c)
        else (Inr (), put ((get c)(nnOf (meta x) \<mapsto> x)) c))\<rparr>"

lemma stores_ref_kind: "stores (ref_kind meta get put) meta get put id"
  by (auto simp: stores_def ref_kind_def split: option.split)

end
