(* ===== verification/Claims.thy ===== *)
theory Claims
  imports KubeObjects
begin

text \<open>
  \<open>state_transfer/transfer/pvc_list.go\<close> and \<open>pvc.go\<close>: the persistent volume claims of a transfer, in
  pairs of a source and a destination. A list may hold nil pairs, the two getters of a pair may
  answer nil, and so may the claim of either side: each is an \<open>option\<close>, and following
  a nil one panics. \<open>md5\<close> is the hexadecimal digest.
\<close>

record pvc =
  pClaim :: "claim option"
  pLabelSafeName :: string

record pvcPair =
  ppSource :: "pvc option"
  ppDestination :: "pvc option"

type_synonym pvcPairList = "pvcPair option list"

definition derefR :: "'a option \<Rightarrow> 'a result" where
  "derefR p = (case p of None \<Rightarrow> Inl (Panic ''nil pointer dereference'') | Some x \<Rightarrow> Inr x)"

lemma derefR_simps [simp]: "derefR (Some x) = Inr x" "derefR p = Inr y \<longleftrightarrow> p = Some y"
  by (auto simp: derefR_def split: option.splits)

definition claimNamespace :: "claim \<Rightarrow> string" where
  "claimNamespace c = rmNamespace (pvcMeta c)"

definition claimName :: "claim \<Rightarrow> string" where
  "claimName c = rmName (pvcMeta c)"

text \<open>\<open>pvc.Source().Claim()\<close> and \<open>pvc.Destination().Claim()\<close>, about to be read.\<close>

definition claimR :: "pvc option \<Rightarrow> claim result" where
  "claimR p = bindR (derefR p) (\<lambda>x. derefR (pClaim x))"

definition sourceClaim :: "pvcPair option \<Rightarrow> claim result" where
  "sourceClaim p = bindR (derefR p) (\<lambda>x. claimR (ppSource x))"

definition destinationClaim :: "pvcPair option \<Rightarrow> claim result" where
  "destinationClaim p = bindR (derefR p) (\<lambda>x. claimR (ppDestination x))"

definition newPvc :: "(string \<Rightarrow> string) \<Rightarrow> claim option \<Rightarrow> pvc" where
  "newPvc md5 c = \<lparr>pClaim = c, pLabelSafeName = (case c of None \<Rightarrow> [] | Some x \<Rightarrow> md5 (claimName x))\<rparr>"

definition NewPVCPair :: "(string \<Rightarrow> string) \<Rightarrow> claim option \<Rightarrow> claim option \<Rightarrow> pvcPair" where
  "NewPVCPair md5 src dest = \<lparr>ppSource = Some (newPvc md5 src),
     ppDestination = Some (if dest = None then newPvc md5 src else newPvc md5 dest)\<rparr>"

section \<open>Volumes of one kind\<close>

definition kubeVirtAnnKey :: string where "kubeVirtAnnKey = ''cdi.kubevirt.io/storage.contentType''"
definition kubevirtContentType :: string where "kubevirtContentType = ''kubevirt''"

definition isBlockOrVMDisk :: "claim option \<Rightarrow> bool" where
  "isBlockOrVMDisk c = (case c of None \<Rightarrow> False
   | Some x \<Rightarrow> if pvcMode x = Some ''Block'' then True
      else fmlookup (rmAnnotations (pvcMeta x)) kubeVirtAnnKey = Some kubevirtContentType)"

text \<open>The pair a list keeps: a missing destination is the source.\<close>

definition managedPair :: "pvcPair option \<Rightarrow> (pvc \<times> pvc) result" where
  "managedPair p = bindR (derefR p) (\<lambda>x. case ppSource x of
     None \<Rightarrow> Inl (Error (errorf ''source pvc definition cannot be nil''))
   | Some src \<Rightarrow> Inr (src, case ppDestination x of None \<Rightarrow> src | Some dest \<Rightarrow> dest))"

definition pairOf :: "pvc \<times> pvc \<Rightarrow> pvcPair option" where
  "pairOf sd = Some \<lparr>ppSource = Some (fst sd), ppDestination = Some (snd sd)\<rparr>"

definition sameType :: "pvc \<times> pvc \<Rightarrow> bool" where
  "sameType sd \<longleftrightarrow> isBlockOrVMDisk (pClaim (fst sd)) = isBlockOrVMDisk (pClaim (snd sd))"

definition NewBlockOrVMDiskPVCPairList :: "pvcPairList \<Rightarrow> pvcPairList result" where
  "NewBlockOrVMDiskPVCPairList = concatR (\<lambda>p. bindR (managedPair p) (\<lambda>(src, dest).
     if \<not> sameType (src, dest) then Inl (Error (errorf ''source and destination must be the same type of volume''))
     else Inr (if isBlockOrVMDisk (pClaim src) \<and> isBlockOrVMDisk (pClaim dest) then [pairOf (src, dest)] else [])))"

definition NewFilesystemPVCPairList :: "pvcPairList \<Rightarrow> pvcPairList result" where
  "NewFilesystemPVCPairList = concatR (\<lambda>p. bindR (managedPair p) (\<lambda>(src, dest).
     if \<not> sameType (src, dest) then Inl (Error (errorf ''source and destination must be the same type of volume''))
     else Inr (if \<not> isBlockOrVMDisk (pClaim src) \<and> \<not> isBlockOrVMDisk (pClaim dest) then [pairOf (src, dest)] else [])))"

section \<open>Namespaces\<close>

text \<open>A new namespace is appended and remembered in a set.\<close>

fun addNamespaces :: "string list \<Rightarrow> string list \<Rightarrow> string list" where
  "addNamespaces acc [] = acc"
| "addNamespaces acc (n # ns) = (if n \<in> set acc then addNamespaces acc ns else addNamespaces (acc @ [n]) ns)"

definition hasSourceClaim :: "pvcPair option \<Rightarrow> bool" where
  "hasSourceClaim p = (case p of None \<Rightarrow> False
   | Some x \<Rightarrow> (case ppSource x of None \<Rightarrow> False | Some s \<Rightarrow> pClaim s \<noteq> None))"

definition sourceNamespace :: "pvcPair option \<Rightarrow> string list" where
  "sourceNamespace p = (case sourceClaim p of Inr c \<Rightarrow> [claimNamespace c] | Inl _ \<Rightarrow> [])"

definition GetSourceNamespaces :: "pvcPairList \<Rightarrow> string list" where
  "GetSourceNamespaces l = addNamespaces [] (concat (map sourceNamespace l))"

text \<open>The guard looks at the source here too; the destination is followed unchecked.\<close>

definition GetDestinationNamespaces :: "pvcPairList \<Rightarrow> string list result" where
  "GetDestinationNamespaces l = bindR
     (concatR (\<lambda>p. if hasSourceClaim p then bindR (destinationClaim p) (\<lambda>c. Inr [claimNamespace c]) else Inr []) l)
     (\<lambda>ns. Inr (addNamespaces [] ns))"

definition InSourceNamespace :: "string \<Rightarrow> pvcPairList \<Rightarrow> pvcPairList result" where
  "InSourceNamespace ns = concatR (\<lambda>p. bindR (sourceClaim p) (\<lambda>c. Inr (if claimNamespace c = ns then [p] else [])))"

definition InDestinationNamespace :: "string \<Rightarrow> pvcPairList \<Rightarrow> pvcPairList result" where
  "InDestinationNamespace ns = concatR (\<lambda>p. bindR (destinationClaim p) (\<lambda>c. Inr (if claimNamespace c = ns then [p] else [])))"

fun GetSourcePVC :: "namespacedName \<Rightarrow> pvcPairList \<Rightarrow> pvcPair option option result" where
  "GetSourcePVC nn [] = Inr None"
| "GetSourcePVC nn (p # ps) = bindR (sourceClaim p) (\<lambda>c.
     if claimNamespace c = nnNamespace nn \<and> claimName c = nnName nn then Inr (Some p) else GetSourcePVC nn ps)"

text \<open>The list of a namespace is made when its first claim is met, and that claim is not put into it.\<close>

definition groupClaimStep :: "(string, pvcPairList) fmap \<Rightarrow> pvcPair option \<Rightarrow> (string, pvcPairList) fmap result" where
  "groupClaimStep m p = bindR (sourceClaim p) (\<lambda>c. Inr (case fmlookup m (claimNamespace c) of
     None \<Rightarrow> fmupd (claimNamespace c) [] m
   | Some l \<Rightarrow> fmupd (claimNamespace c) (l @ [p]) m))"

fun groupClaims :: "(string, pvcPairList) fmap \<Rightarrow> pvcPairList \<Rightarrow> (string, pvcPairList) fmap result" where
  "groupClaims m [] = Inr m"
| "groupClaims m (p # ps) = bindR (groupClaimStep m p) (\<lambda>m'. groupClaims m' ps)"

definition GroupBySourceNamespaces :: "pvcPairList \<Rightarrow> (string, pvcPairList) fmap result" where
  "GroupBySourceNamespaces = groupClaims fmempty"

section \<open>Lists without nil\<close>

text \<open>A pair with both claims, as the constructors make of two claims.\<close>

definition bothClaims :: "pvcPair option \<Rightarrow> bool" where
  "bothClaims p \<longleftrightarrow> (\<exists>s d c e. p = Some \<lparr>ppSource = Some s, ppDestination = Some d\<rparr> \<and> pClaim s = Some c \<and> pClaim d = Some e)"

definition srcOf :: "pvcPair option \<Rightarrow> claim" where
  "srcOf p = the (pClaim (the (ppSource (the p))))"

definition destOf :: "pvcPair option \<Rightarrow> claim" where
  "destOf p = the (pClaim (the (ppDestination (the p))))"

definition srcName :: "pvcPair option \<Rightarrow> string" where
  "srcName p = pLabelSafeName (the (ppSource (the p)))"

definition destName :: "pvcPair option \<Rightarrow> string" where
  "destName p = pLabelSafeName (the (ppDestination (the p)))"

lemma complete_claims [simp]:
  assumes "bothClaims p"
  shows "sourceClaim p = Inr (srcOf p)" "destinationClaim p = Inr (destOf p)" "hasSourceClaim p"
    "sourceNamespace p = [claimNamespace (srcOf p)]"
  using assms by (auto simp: bothClaims_def sourceClaim_def destinationClaim_def claimR_def srcOf_def destOf_def
      hasSourceClaim_def sourceNamespace_def)

lemma complete_NewPVCPair: "bothClaims (Some (NewPVCPair md5 (Some c) d))"
  by (auto simp: bothClaims_def NewPVCPair_def newPvc_def)

lemma InSourceNamespace_complete:
  assumes "list_all bothClaims l"
  shows "InSourceNamespace ns l = Inr (filter (\<lambda>p. claimNamespace (srcOf p) = ns) l)"
  using assms by (induction l) (auto simp: InSourceNamespace_def)

lemma InDestinationNamespace_complete:
  assumes "list_all bothClaims l"
  shows "InDestinationNamespace ns l = Inr (filter (\<lambda>p. claimNamespace (destOf p) = ns) l)"
  using assms by (induction l) (auto simp: InDestinationNamespace_def)

lemma addNamespaces_props:
  "distinct acc \<Longrightarrow> distinct (addNamespaces acc ns)" "set (addNamespaces acc ns) = set acc \<union> set ns"
  "\<exists>zs. addNamespaces acc ns = acc @ zs"
  by (induction acc ns rule: addNamespaces.induct) auto

lemma GetSourceNamespaces_complete:
  assumes "list_all bothClaims l"
  shows "GetSourceNamespaces l = addNamespaces [] (map (\<lambda>p. claimNamespace (srcOf p)) l)"
proof -
  have "concat (map sourceNamespace l) = map (\<lambda>p. claimNamespace (srcOf p)) l" using assms by (induction l) auto
  then show ?thesis by (simp add: GetSourceNamespaces_def)
qed

lemma GetDestinationNamespaces_complete:
  assumes "list_all bothClaims l"
  shows "GetDestinationNamespaces l = Inr (addNamespaces [] (map (\<lambda>p. claimNamespace (destOf p)) l))"
proof -
  have "concatR (\<lambda>p. if hasSourceClaim p then bindR (destinationClaim p) (\<lambda>c. Inr [claimNamespace c]) else Inr []) l =
    Inr (map (\<lambda>p. claimNamespace (destOf p)) l)" using assms by (induction l) auto
  then show ?thesis by (simp add: GetDestinationNamespaces_def)
qed

end
