(* ===== verification/GoPaths.thy ===== *)
theory GoPaths
  imports GoStrings
begin

text \<open>
  Go's \<open>path/filepath\<close> on a Unix system, as far as the program uses it: \<open>filepath.Clean\<close>
  resolves a path lexically (no empty element, no dot, a double dot only in front of a
  relative path), and \<open>filepath.Join\<close> cleans the elements put together with slashes.
\<close>

definition cleanStep :: "bool \<Rightarrow> string list \<Rightarrow> string \<Rightarrow> string list" where
  "cleanStep rooted out e =
     (if e = '''' \<or> e = ''.'' then out
      else if e = ''..'' then
        (if out \<noteq> [] \<and> last out \<noteq> ''..'' then butlast out
         else if rooted then out else out @ [e])
      else out @ [e])"

definition pathParts :: "string \<Rightarrow> string list" where
  "pathParts p = foldl (cleanStep (hasPrefix ''/'' p)) [] (split1 CHR ''/'' p)"

definition pathText :: "bool \<Rightarrow> string list \<Rightarrow> string" where
  "pathText rooted ps = (if rooted then CHR ''/'' # joinS ''/'' ps
     else if ps = [] then ''.'' else joinS ''/'' ps)"

definition cleanPath :: "string \<Rightarrow> string" where
  "cleanPath p = pathText (hasPrefix ''/'' p) (pathParts p)"

definition joinPath :: "string list \<Rightarrow> string" where
  "joinPath es = (case dropWhile (\<lambda>e. e = '''') es of [] \<Rightarrow> '''' | fs \<Rightarrow> cleanPath (joinS ''/'' fs))"

text \<open>An element that \<open>Clean\<close> keeps as it is.\<close>

definition plain_elem :: "string \<Rightarrow> bool" where
  "plain_elem e \<longleftrightarrow> e \<noteq> '''' \<and> e \<noteq> ''.'' \<and> e \<noteq> ''..'' \<and> CHR ''/'' \<notin> set e"

definition clean_parts :: "bool \<Rightarrow> string list \<Rightarrow> bool" where
  "clean_parts rooted ps \<longleftrightarrow>
     (\<exists>k qs. ps = replicate k ''..'' @ qs \<and> list_all plain_elem qs \<and> (rooted \<longrightarrow> k = 0))"

lemma cleanStep_plain: "plain_elem e \<Longrightarrow> cleanStep rooted out e = out @ [e]"
  by (simp add: cleanStep_def plain_elem_def)

lemma foldl_plain: "list_all plain_elem qs \<Longrightarrow> foldl (cleanStep rooted) out qs = out @ qs"
  by (induction qs arbitrary: out) (auto simp: cleanStep_plain)

lemma foldl_dots: "foldl (cleanStep False) (replicate n ''..'') (replicate k ''..'') = replicate (n + k) ''..''"
proof (induction k arbitrary: n)
  case (Suc k)
  have "cleanStep False (replicate n ''..'') ''..'' = replicate (Suc n) ''..''"
    by (cases n) (simp_all add: cleanStep_def replicate_append_same)
  with Suc.IH[of "Suc n"] show ?case by simp
qed simp

lemma foldl_clean: "clean_parts rooted ps \<Longrightarrow> foldl (cleanStep rooted) [] ps = ps"
  using foldl_dots[of 0] by (auto simp: clean_parts_def foldl_plain)

lemma cleanStep_clean:
  assumes "clean_parts rooted ps" and "CHR ''/'' \<notin> set e"
  shows "clean_parts rooted (cleanStep rooted ps e)"
proof -
  obtain k qs where ps: "ps = replicate k ''..'' @ qs" "list_all plain_elem qs" "rooted \<longrightarrow> k = 0"
    using assms(1) by (auto simp: clean_parts_def)
  show ?thesis
  proof (cases "e = ''..''")
    case True
    show ?thesis
    proof (cases qs rule: rev_cases)
      case Nil
      then have "ps = replicate k ''..''" using ps by simp
      then have "cleanStep rooted ps e = (if rooted then ps else replicate (Suc k) ''..'')"
        using True by (cases k) (auto simp: cleanStep_def replicate_append_same)
      then show ?thesis using assms(1) by (auto simp: clean_parts_def intro!: exI[of _ "Suc k"] exI[of _ "[]"])
    next
      case (snoc rs q)
      then have "q \<noteq> ''..''" using ps by (simp add: plain_elem_def)
      then have "cleanStep rooted ps e = replicate k ''..'' @ rs"
        using True snoc ps by (simp add: cleanStep_def butlast_append)
      then show ?thesis using ps snoc by (auto simp: clean_parts_def)
    qed
  next
    case False
    then consider "cleanStep rooted ps e = ps" | "plain_elem e" "cleanStep rooted ps e = ps @ [e]"
      using assms(2) False by (cases "e = '''' \<or> e = ''.''") (simp_all add: cleanStep_def plain_elem_def)
    then show ?thesis
    proof cases
      case 1
      then show ?thesis using assms(1) by simp
    next
      case 2
      then have "cleanStep rooted ps e = replicate k ''..'' @ (qs @ [e])" using ps by simp
      moreover have "list_all plain_elem (qs @ [e])" using 2 ps by simp
      ultimately show ?thesis using ps(3) unfolding clean_parts_def by blast
    qed
  qed
qed

lemma foldl_clean_parts:
  "clean_parts rooted ps \<Longrightarrow> \<forall>e\<in>set es. CHR ''/'' \<notin> set e \<Longrightarrow> clean_parts rooted (foldl (cleanStep rooted) ps es)"
  by (induction es arbitrary: ps) (auto simp: cleanStep_clean)

lemma clean_parts_Nil [simp]: "clean_parts rooted []"
  by (simp add: clean_parts_def)

lemma pathParts_clean: "clean_parts (hasPrefix ''/'' p) (pathParts p)"
  unfolding pathParts_def by (rule foldl_clean_parts) (auto dest: split1_parts)

text \<open>A cleaned path is read back as its parts.\<close>

lemma clean_parts_elem:
  assumes "clean_parts rooted ps" and "e \<in> set ps"
  shows "e \<noteq> '''' \<and> CHR ''/'' \<notin> set e"
proof -
  obtain k qs where "ps = replicate k ''..'' @ qs" and q: "list_all plain_elem qs"
    using assms(1) unfolding clean_parts_def by blast
  then consider "e = ''..''" | "e \<in> set qs" using assms(2) by (auto split: if_splits)
  then show ?thesis
  proof cases
    case 2
    then have "plain_elem e" using q by (auto simp: list_all_iff)
    then show ?thesis unfolding plain_elem_def by blast
  qed simp
qed

lemma joinS_hd: "ps \<noteq> [] \<Longrightarrow> hd ps \<noteq> [] \<Longrightarrow> joinS sep ps \<noteq> [] \<and> hd (joinS sep ps) = hd (hd ps)"
  by (cases ps; cases "tl ps") auto

lemma joinS_unrooted:
  assumes "clean_parts rooted ps" and "ps \<noteq> []"
  shows "\<not> hasPrefix ''/'' (joinS ''/'' ps)"
proof -
  have h: "hd ps \<noteq> []" "CHR ''/'' \<notin> set (hd ps)"
    using clean_parts_elem[OF assms(1), of "hd ps"] assms(2) by auto
  then have "hd (joinS ''/'' ps) \<noteq> CHR ''/''" using joinS_hd[OF assms(2)] by (metis hd_in_set)
  then show ?thesis using joinS_hd[OF assms(2) h(1)] by (cases "joinS ''/'' ps") auto
qed

lemma pathText_rooted [simp]: "clean_parts r ps \<Longrightarrow> hasPrefix ''/'' (pathText r ps) = r"
  using joinS_unrooted[of r ps] by (auto simp: pathText_def)

lemma split_clean:
  assumes "clean_parts r ps" and "ps \<noteq> []"
  shows "split1 CHR ''/'' (joinS ''/'' ps) = ps"
  by (rule split_join1[OF assms(2)]) (use clean_parts_elem[OF assms(1)] in blast)

lemma pathText_parts:
  assumes "clean_parts r ps"
  shows "pathParts (pathText r ps) = ps"
proof (cases "ps = []")
  case True
  then show ?thesis by (cases r) (simp_all add: pathParts_def pathText_def cleanStep_def)
next
  case False
  have "foldl (cleanStep r) [] (split1 CHR ''/'' (pathText r ps)) = foldl (cleanStep r) [] ps"
    using split_clean[OF assms False] False by (cases r) (simp_all add: pathText_def cleanStep_def)
  also have "\<dots> = ps" by (rule foldl_clean[OF assms])
  finally show ?thesis using assms by (simp add: pathParts_def)
qed

lemma clean_parts_append:
  assumes "clean_parts r ps" and "list_all plain_elem fs"
  shows "clean_parts r (ps @ fs)"
proof -
  obtain k qs where "ps = replicate k ''..'' @ qs" "list_all plain_elem qs" "r \<longrightarrow> k = 0"
    using assms(1) by (auto simp: clean_parts_def)
  with assms(2) have "ps @ fs = replicate k ''..'' @ (qs @ fs) \<and> list_all plain_elem (qs @ fs) \<and> (r \<longrightarrow> k = 0)"
    by simp
  then show ?thesis unfolding clean_parts_def by blast
qed

text \<open>Joining plain elements to a directory adds them to its parts.\<close>

lemma joinPath_parts:
  assumes "list_all plain_elem fs" and "fs \<noteq> []"
  shows "joinPath (d # fs) = pathText (hasPrefix ''/'' d) (pathParts d @ fs)"
proof -
  have c: "clean_parts False fs" using assms(1) by (auto simp: clean_parts_def intro!: exI[of _ 0])
  note sp = split_clean[OF c assms(2)]
  have f0: "hd fs \<noteq> ''''" using assms by (cases fs) (auto simp: plain_elem_def)
  show ?thesis
  proof (cases "d = ''''")
    case True
    have "dropWhile (\<lambda>e. e = '''') fs = fs" using f0 assms(2) by (cases fs) auto
    moreover obtain f fs' where fs: "fs = f # fs'" using assms(2) by (cases fs) auto
    ultimately have "joinPath (d # fs) = cleanPath (joinS ''/'' fs)" using True by (simp add: joinPath_def)
    moreover have "pathParts (joinS ''/'' fs) = fs" using assms joinS_unrooted[OF c assms(2)] sp
      by (simp add: pathParts_def foldl_plain)
    ultimately show ?thesis using True joinS_unrooted[OF c assms(2)]
      by (simp add: cleanPath_def pathParts_def cleanStep_def)
  next
    case False
    let ?p = "d @ ''/'' @ joinS ''/'' fs"
    have "joinPath (d # fs) = cleanPath ?p" using False assms(2) by (simp add: joinPath_def joinS_cons)
    moreover have r: "hasPrefix ''/'' ?p = hasPrefix ''/'' d" using False by (cases d) auto
    moreover have "split1 CHR ''/'' ?p = split1 CHR ''/'' d @ fs" using split1_append[of "CHR ''/''" d] sp by simp
    then have "pathParts ?p = pathParts d @ fs" using r assms(1) by (simp add: pathParts_def foldl_plain)
    ultimately show ?thesis by (simp add: cleanPath_def)
  qed
qed

lemma joinPath_joinPath:
  assumes "list_all plain_elem fs" "fs \<noteq> []" "list_all plain_elem gs" "gs \<noteq> []"
  shows "joinPath (joinPath (d # fs) # gs) = joinPath (d # fs @ gs)"
  using joinPath_parts[OF assms(1,2), of d] joinPath_parts[OF assms(3,4), of "joinPath (d # fs)"]
    joinPath_parts[of "fs @ gs" d] assms clean_parts_append[OF pathParts_clean assms(1), of d]
  by (simp add: pathText_parts)

lemma joinPath_inj:
  assumes "list_all plain_elem fs" "fs \<noteq> []" "list_all plain_elem gs" "gs \<noteq> []"
    and "joinPath (d # fs) = joinPath (d # gs)"
  shows "fs = gs"
proof -
  let ?r = "hasPrefix ''/'' d"
  have "pathText ?r (pathParts d @ fs) = pathText ?r (pathParts d @ gs)"
    using assms(5) joinPath_parts[OF assms(1,2)] joinPath_parts[OF assms(3,4)] by simp
  then have "pathParts d @ fs = pathParts d @ gs"
    using pathText_parts[OF clean_parts_append[OF pathParts_clean assms(1)], of d]
      pathText_parts[OF clean_parts_append[OF pathParts_clean assms(3)], of d] by metis
  then show ?thesis by simp
qed

end
