(* ===== verification/Builds.thy ===== *)
theory Builds
  imports Claims GoPaths
begin

text \<open>
  \<open>convert/buildconfigs.go\<close>, the data: OpenShift's \<open>BuildConfig\<close> with the fields the
  conversion reads, Shipwright's \<open>Build\<close> with the fields it sets, and the world it runs in. The
  client, the file system, the clock and YAML are parameters. A nil pointer is \<open>None\<close>.
\<close>

section \<open>Build configurations\<close>

record objectRef =
  refKind :: string
  refNamespace :: string
  refName :: string

record envVar =
  evName :: string
  evValue :: string
  evFrom :: "string option"

datatype buildVolumeSource = BuildVolumeSource (bvType: string) (bvSecret: "string option") (bvConfigMap: "string option")

record buildVolume =
  bvName :: string
  bvSource :: buildVolumeSource
  bvMounts :: "string list"

record dockerStrategy =
  dsFrom :: "objectRef option"
  dsPullSecret :: "string option"
  dsNoCache :: bool
  dsEnv :: "envVar list"
  dsForcePull :: bool
  dsDockerfilePath :: string
  dsBuildArgs :: "envVar list"
  dsOptimization :: "string option"
  dsVolumes :: "buildVolume list"

record sourceStrategy =
  ssFrom :: objectRef
  ssPullSecret :: "string option"
  ssEnv :: "envVar list"
  ssScripts :: string
  ssIncremental :: "bool option"
  ssForcePull :: bool
  ssVolumes :: "buildVolume list"

record gitBuildSource =
  gsURI :: string
  gsRef :: string
  gsHTTPProxy :: "string option"
  gsHTTPSProxy :: "string option"
  gsNoProxy :: "string option"

text \<open>\<open>As\<close> and \<open>Paths\<close> are slices that are compared with nil.\<close>

record imageSource =
  isFrom :: objectRef
  isAs :: "string list option"
  isPaths :: "string list option"
  isPullSecret :: "string option"

text \<open>
  \<open>bcBinary\<close> is the \<open>AsFile\<close> of the binary source, the secrets are names, and \<open>bcRest\<close> stands for
  the content the conversion only writes out again.
\<close>

record buildConfig =
  bcKind :: string
  bcAPIVersion :: string
  bcNamespace :: string
  bcName :: string
  bcServiceAccount :: string
  bcStrategyType :: string
  bcDocker :: "dockerStrategy option"
  bcSource :: "sourceStrategy option"
  bcGit :: "gitBuildSource option"
  bcBinary :: "string option"
  bcImages :: "imageSource list"
  bcContextDir :: string
  bcSourceSecret :: "string option"
  bcOutputTo :: "objectRef option"
  bcPushSecret :: "string option"
  bcRest :: string

section \<open>Builds\<close>

record paramValue =
  pvName :: string
  pvSingle :: "string option"
  pvValues :: "string list"

datatype strategyKind = ClusterBuildStrategyKind
datatype sourceType = GitType | LocalType | OCIArtifactType

record shpGit =
  sgURL :: string
  sgRevision :: "string option"
  sgCloneSecret :: "string option"

record shpLocal =
  slName :: string
  slTimeout :: "64 word" \<comment> \<open>nanoseconds\<close>

record ociArtifact =
  ociImage :: string
  ociPullSecret :: "string option"

record shpSource =
  shType :: sourceType
  shContextDir :: "string option"
  shGit :: "shpGit option"
  shLocal :: "shpLocal option"
  shOCI :: "ociArtifact option"

record shpBuild =
  bdAPIVersion :: string
  bdKind :: string
  bdNamespace :: string
  bdName :: string
  bdCreated :: string
  bdStrategy :: "strategyKind option \<times> string"
  bdParams :: "paramValue list"
  bdEnv :: "envVar list"
  bdSource :: "shpSource option"
  bdImage :: string
  bdPushSecret :: "string option"
  bdVolumes :: "(string \<times> buildVolumeSource) list"

text \<open>The service account that is generated for a pull secret.\<close>

record buildAccount =
  saAPIVersion :: string
  saKind :: string
  saNamespace :: string
  saName :: string
  saCreated :: string
  saPullSecrets :: "string list"
  saSecrets :: "string list"

record pullSecretObject =
  pullType :: string
  pullData :: "(string, string) fmap"

section \<open>The world of a conversion\<close>

text \<open>
  A tag's answer is the name in its \<open>Tag.From\<close>, \<open>None\<close> when one of the two pointers is nil.
  \<open>gvOf\<close> splits an \<open>apiVersion\<close> into group and version. A created file is addressed by its path.
\<close>

record 's convert_env =
  listBuildConfigs :: "string \<Rightarrow> ('s, buildConfig list) act"
  getImageStreamTag :: "namespacedName \<Rightarrow> ('s, string option) act"
  getImageStreamImage :: "namespacedName \<Rightarrow> ('s, string) act"
  getPullSecretObject :: "namespacedName \<Rightarrow> ('s, pullSecretObject) act"
  timeNow :: "('s, string) act"
  mkdirAll :: "string \<Rightarrow> nat \<Rightarrow> ('s, unit) act"
  createFile :: "string \<Rightarrow> ('s, unit) act"
  writeFile :: "string \<Rightarrow> string \<Rightarrow> ('s, unit) act"
  closeFile :: "string \<Rightarrow> ('s, unit) act"
  marshalConfig :: "buildConfig \<Rightarrow> string ret"
  marshalBuild :: "shpBuild \<Rightarrow> string ret"
  marshalAccount :: "buildAccount \<Rightarrow> string ret"
  gvOf :: "string \<Rightarrow> string \<times> string"

record convertOptions =
  coNamespace :: string
  coResourceType :: string
  coSearchRegistries :: "string list"
  coInsecureRegistries :: "string list"
  coBlockRegistries :: "string list"
  coExportDir :: string

section \<open>Constants\<close>

definition BuildStrategyDockerType :: string where "BuildStrategyDockerType = ''Docker''"
definition BuildStrategySourceType :: string where "BuildStrategySourceType = ''Source''"
definition ImageStreamTag :: string where "ImageStreamTag = ''ImageStreamTag''"
definition ImageStreamImage :: string where "ImageStreamImage = ''ImageStreamImage''"
definition DockerImage :: string where "DockerImage = ''DockerImage''"
definition NoCacheParamName :: string where "NoCacheParamName = ''no-cache''"
definition SquashParamName :: string where "SquashParamName = ''squash''"
definition ForcePullParamName :: string where "ForcePullParamName = ''pull''"
definition RuntimeStageFromParamName :: string where "RuntimeStageFromParamName = ''runtime-stage-from''"
definition S2iScriptsURLParamName :: string where "S2iScriptsURLParamName = ''scripts-url''"
definition S2iIncrementalParamName :: string where "S2iIncrementalParamName = ''incremental''"
definition S2iForcePullParamName :: string where "S2iForcePullParamName = ''pull-policy''"

definition BuildTimeout :: "64 word" where
  "BuildTimeout = 10 * 60 * 1000000000"

definition singleParam :: "string \<Rightarrow> string \<Rightarrow> paramValue" where
  "singleParam n v = \<lparr>pvName = n, pvSingle = Some v, pvValues = []\<rparr>"

definition valuesParam :: "string \<Rightarrow> string list \<Rightarrow> paramValue" where
  "valuesParam n vs = \<lparr>pvName = n, pvSingle = None, pvValues = vs\<rparr>"

definition addParam :: "paramValue \<Rightarrow> shpBuild \<Rightarrow> shpBuild" where
  "addParam p b = b\<lparr>bdParams := bdParams b @ [p]\<rparr>"

definition addEnv :: "envVar list \<Rightarrow> shpBuild \<Rightarrow> shpBuild" where
  "addEnv es b = b\<lparr>bdEnv := bdEnv b @ es\<rparr>"

end
