(* ===== verification/BuildConvert.thy ===== *)
theory BuildConvert
  imports Builds
begin

text \<open>
  \<open>convert/buildconfigs.go\<close> and \<open>convert.go\<close>, the operations: every step of the conversion in
  the order of the code. Log messages have no effect and are left out. The code sets an empty
  namespace of a \<open>From\<close> reference in place; nothing reads it again, so it is a local value here.
\<close>

section \<open>Looking up images\<close>

definition resolveImageStreamRef :: "'s convert_env \<Rightarrow> string \<Rightarrow> string \<Rightarrow> ('s, string) act" where
  "resolveImageStreamRef env name ns =
     bindA (getImageStreamTag env \<lparr>nnNamespace = ns, nnName = name\<rparr>) (\<lambda>t. pureA (derefR t))"

definition resolveImageStreamImageRef :: "'s convert_env \<Rightarrow> string \<Rightarrow> string \<Rightarrow> ('s, string) act" where
  "resolveImageStreamImageRef env name ns = getImageStreamImage env \<lparr>nnNamespace = ns, nnName = name\<rparr>"

definition namespaceOr :: "string \<Rightarrow> string \<Rightarrow> string" where
  "namespaceOr ns dflt = (if ns = '''' then dflt else ns)"

definition processStrategyFromField :: "'s convert_env \<Rightarrow> buildConfig \<Rightarrow> shpBuild \<Rightarrow> ('s, shpBuild) act" where
  "processStrategyFromField env bc b = (case bcSource bc of None \<Rightarrow> retA b | Some ss \<Rightarrow>
     let from = ssFrom ss; ns = namespaceOr (refNamespace from) (bcNamespace bc) in
     if refName from = '''' \<or> refKind from = '''' then retA b
     else if refKind from = ImageStreamTag then
       bindA (resolveImageStreamRef env (refName from) ns) (\<lambda>img. retA (addParam (singleParam ''builder-image'' img) b))
     else if refKind from = ImageStreamImage then
       bindA (resolveImageStreamImageRef env (refName from) ns) (\<lambda>img. retA (addParam (singleParam ''builder-image'' img) b))
     else if refKind from = DockerImage then retA (addParam (singleParam ''builder-image'' (refName from)) b)
     else failA (Error (errorf (''strategy 'From' kind '' @ refKind from @ '' is unknown type'')))) "

definition processDockerStrategyFromField :: "'s convert_env \<Rightarrow> buildConfig \<Rightarrow> shpBuild \<Rightarrow> ('s, shpBuild) act" where
  "processDockerStrategyFromField env bc b = bindA (pureA (derefR (bcDocker bc))) (\<lambda>ds.
     case dsFrom ds of None \<Rightarrow> retA b | Some from \<Rightarrow>
     let ns = namespaceOr (refNamespace from) (bcNamespace bc) in
     if refKind from = '''' \<or> refName from = '''' then retA b
     else bindA
       (if refKind from = ImageStreamTag then resolveImageStreamRef env (refName from) ns
        else if refKind from = ImageStreamImage then resolveImageStreamImageRef env (refName from) ns
        else if refKind from = DockerImage then retA (refName from)
        else failA (Error (errorf (''docker strategy 'From' kind '' @ refKind from @ '' is unknown''))))
       (\<lambda>img. retA (addParam (singleParam RuntimeStageFromParamName img) b)))"

section \<open>Pull secrets and service accounts\<close>

definition pullSecretKey :: "string \<Rightarrow> string option" where
  "pullSecretKey ty =
     (if ty = ''kubernetes.io/dockerconfigjson'' then Some ''.dockerconfigjson''
      else if ty = ''kubernetes.io/dockercfg'' then Some ''.dockercfg'' else None)"

definition checkPullSecret :: "string \<Rightarrow> pullSecretObject \<Rightarrow> unit ret" where
  "checkPullSecret name sec = (case pullSecretKey (pullType sec) of
     None \<Rightarrow> Inl (errorf (''unsupported pull secret type '' @ pullType sec @ '' for secret '' @ name))
   | Some key \<Rightarrow> (case fmlookup (pullData sec) key of
        Some d \<Rightarrow> if d = [] then Inl (errorf (''secret '' @ name @ '' must contain key '' @ key)) else Inr ()
      | None \<Rightarrow> Inl (errorf (''secret '' @ name @ '' must contain key '' @ key))))"

definition validatePullSecret :: "'s convert_env \<Rightarrow> buildConfig \<Rightarrow> string option \<Rightarrow> ('s, unit) act" where
  "validatePullSecret env bc ref = (case ref of None \<Rightarrow> retA () | Some name \<Rightarrow>
     if name = '''' then failA (Error (errorf (''pullSecret name is empty for BuildConfig '' @ bcName bc)))
     else bindA (tryA (getPullSecretObject env \<lparr>nnNamespace = bcNamespace bc, nnName = name\<rparr>)) (\<lambda>r. case r of
       Inl err \<Rightarrow> failA (Error (GoError (''failed to get pull secret '' @ name @ '': '' @ errorText err) (errorCause err)))
     | Inr sec \<Rightarrow> pureA (liftR (checkPullSecret name sec))))"

definition getPullSecret :: "buildConfig \<Rightarrow> string option" where
  "getPullSecret bc = (case Option.bind (bcDocker bc) dsPullSecret of
     Some s \<Rightarrow> Some s | None \<Rightarrow> Option.bind (bcSource bc) ssPullSecret)"

definition getServiceAccountName :: "buildConfig \<Rightarrow> string" where
  "getServiceAccountName bc = (if bcServiceAccount bc = '''' then bcName bc else bcServiceAccount bc)"

definition makeDir :: "'s convert_env \<Rightarrow> string \<Rightarrow> ('s, unit) act" where
  "makeDir env dir = bindA (tryA (mkdirAll env dir 448)) (\<lambda>r. case r of Inr _ \<Rightarrow> retA ()
     | Inl err \<Rightarrow> if errorCause err = AlreadyExists then retA () else failA (Error err))"

definition getServiceAccountFilePath :: "'s convert_env \<Rightarrow> buildAccount \<Rightarrow> string" where
  "getServiceAccountFilePath env sa =
     joinS ''_'' [saKind sa, snd (gvOf env (saAPIVersion sa)), saNamespace sa, saName sa] @ ''.yaml''"

text \<open>The file is closed on every return after it was created; the error of closing is dropped.\<close>

definition deferClose :: "'s convert_env \<Rightarrow> string \<Rightarrow> ('s, unit) act \<Rightarrow> ('s, unit) act" where
  "deferClose env path m = (\<lambda>s. case m s of (r, s1) \<Rightarrow> (case tryA (closeFile env path) s1 of
     (Inl e, s2) \<Rightarrow> (Inl e, s2) | (Inr _, s2) \<Rightarrow> (r, s2)))"

definition writeServiceAccount :: "'s convert_env \<Rightarrow> convertOptions \<Rightarrow> buildAccount \<Rightarrow> ('s, unit) act" where
  "writeServiceAccount env t sa = (let dir = joinPath [coExportDir t, ''builds'', saNamespace sa];
       path = joinPath [dir, getServiceAccountFilePath env sa] in
     thenA (makeDir env dir) (thenA (createFile env path)
       (deferClose env path (bindA (pureA (liftR (marshalAccount env sa))) (\<lambda>txt. writeFile env path txt)))))"

definition accountFor :: "buildConfig \<Rightarrow> string \<Rightarrow> string \<Rightarrow> buildAccount" where
  "accountFor bc sec now = \<lparr>saAPIVersion = ''v1'', saKind = ''ServiceAccount'', saNamespace = bcNamespace bc,
     saName = getServiceAccountName bc, saCreated = now, saPullSecrets = [sec], saSecrets = [sec]\<rparr>"

definition generateServiceAccountForPullSecret :: "'s convert_env \<Rightarrow> convertOptions \<Rightarrow> buildConfig \<Rightarrow> ('s, unit) act" where
  "generateServiceAccountForPullSecret env t bc = (case getPullSecret bc of
     None \<Rightarrow> failA (Error (errorf (''no PullSecret found for BuildConfig '' @ bcName bc)))
   | Some sec \<Rightarrow> bindA (timeNow env) (\<lambda>now. writeServiceAccount env t (accountFor bc sec now)))"

definition processPullSecret :: "'s convert_env \<Rightarrow> convertOptions \<Rightarrow> buildConfig \<Rightarrow> ('s, unit) act" where
  "processPullSecret env t bc = (case getPullSecret bc of None \<Rightarrow> retA ()
   | Some sec \<Rightarrow> thenA (validatePullSecret env bc (Some sec)) (generateServiceAccountForPullSecret env t bc))"

section \<open>Volumes, which no strategy converts\<close>

definition convertBuildVolumeSource :: "buildVolumeSource \<Rightarrow> buildVolumeSource ret" where
  "convertBuildVolumeSource v =
     (if bvType v = ''Secret'' then
        (if bvSecret v = None then Inl (errorf ''secret volume source is nil'') else Inr (BuildVolumeSource [] (bvSecret v) None))
      else if bvType v = ''ConfigMap'' then
        (if bvConfigMap v = None then Inl (errorf ''configMap volume source is nil'') else Inr (BuildVolumeSource [] None (bvConfigMap v)))
      else Inl (errorf (''unsupported volume source type '' @ bvType v)))"

fun processStrategyVolumes :: "buildConfig \<Rightarrow> buildVolume list \<Rightarrow> shpBuild \<Rightarrow> shpBuild ret" where
  "processStrategyVolumes bc [] b = Inr b"
| "processStrategyVolumes bc (v # vs) b = (case convertBuildVolumeSource (bvSource v) of
     Inl err \<Rightarrow> Inl (GoError (''failed to convert volume '' @ bvName v @ '' for BuildConfig '' @ bcName bc @ '': '' @ errorText err) (errorCause err))
   | Inr src \<Rightarrow> processStrategyVolumes bc vs (b\<lparr>bdVolumes := bdVolumes b @ [(bvName v, src)]\<rparr>))"

definition processSourceStrategyVolumes :: "buildConfig \<Rightarrow> shpBuild \<Rightarrow> shpBuild result" where
  "processSourceStrategyVolumes bc b =
     bindR (derefR (bcSource bc)) (\<lambda>ss. liftR (processStrategyVolumes bc (ssVolumes ss) b))"

section \<open>Strategy parameters\<close>

definition withParam :: "bool \<Rightarrow> paramValue \<Rightarrow> shpBuild \<Rightarrow> shpBuild" where
  "withParam c p b = (if c then addParam p b else b)"

definition processDockerStrategyNoCache :: "dockerStrategy \<Rightarrow> shpBuild \<Rightarrow> shpBuild" where
  "processDockerStrategyNoCache ds = withParam (dsNoCache ds) (singleParam NoCacheParamName ''true'')"

definition processDockerStrategyForcePull :: "dockerStrategy \<Rightarrow> shpBuild \<Rightarrow> shpBuild" where
  "processDockerStrategyForcePull ds = withParam (dsForcePull ds) (singleParam ForcePullParamName ''always'')"

definition processDockerfilePath :: "dockerStrategy \<Rightarrow> shpBuild \<Rightarrow> shpBuild" where
  "processDockerfilePath ds = withParam (dsDockerfilePath ds \<noteq> '''') (singleParam ''dockerfile'' (dsDockerfilePath ds))"

fun buildArgValues :: "envVar list \<Rightarrow> string list" where
  "buildArgValues [] = []"
| "buildArgValues (a # as) = (evName a @ ''='' @ evValue a) # buildArgValues as"

definition processBuildArgs :: "dockerStrategy \<Rightarrow> shpBuild \<Rightarrow> shpBuild" where
  "processBuildArgs ds = withParam (length (dsBuildArgs ds) \<noteq> 0) (valuesParam ''build-args'' (buildArgValues (dsBuildArgs ds)))"

definition processDockerStrategySquash :: "dockerStrategy \<Rightarrow> shpBuild \<Rightarrow> shpBuild" where
  "processDockerStrategySquash ds b = (case dsOptimization ds of None \<Rightarrow> b | Some policy \<Rightarrow>
     if policy = ''SkipLayers'' then addParam (singleParam SquashParamName ''true'') b
     else if policy = ''SkipLayersAndWarn'' then addParam (singleParam SquashParamName ''true'') b
     else b)"

definition processSourceStrategyScripts :: "sourceStrategy \<Rightarrow> shpBuild \<Rightarrow> shpBuild" where
  "processSourceStrategyScripts ss = withParam (ssScripts ss \<noteq> '''') (singleParam S2iScriptsURLParamName (ssScripts ss))"

definition processSourceStrategyIncremental :: "sourceStrategy \<Rightarrow> shpBuild \<Rightarrow> shpBuild" where
  "processSourceStrategyIncremental ss = withParam (ssIncremental ss = Some True) (singleParam S2iIncrementalParamName ''true'')"

definition processSourceStrategyForcePull :: "sourceStrategy \<Rightarrow> shpBuild \<Rightarrow> shpBuild" where
  "processSourceStrategyForcePull ss = withParam (ssForcePull ss) (singleParam S2iForcePullParamName ''always'')"

definition dockerStrategyOf :: "'s convert_env \<Rightarrow> convertOptions \<Rightarrow> buildConfig \<Rightarrow> shpBuild \<Rightarrow> ('s, shpBuild) act" where
  "dockerStrategyOf env t bc b0 = (let b = b0\<lparr>bdStrategy := (Some ClusterBuildStrategyKind, ''buildah'')\<rparr> in
     bindA (pureA (derefR (bcDocker bc))) (\<lambda>ds.
     bindA (processDockerStrategyFromField env bc b) (\<lambda>b1.
     thenA (processPullSecret env t bc) (retA
       (processDockerStrategySquash ds (processBuildArgs ds (processDockerfilePath ds (processDockerStrategyForcePull ds
         (addEnv (dsEnv ds) (processDockerStrategyNoCache ds b1))))))))))"

definition sourceStrategyOf :: "'s convert_env \<Rightarrow> convertOptions \<Rightarrow> buildConfig \<Rightarrow> shpBuild \<Rightarrow> ('s, shpBuild) act" where
  "sourceStrategyOf env t bc b0 = (let b = b0\<lparr>bdStrategy := (Some ClusterBuildStrategyKind, ''source-to-image'')\<rparr> in
     bindA (pureA (derefR (bcSource bc))) (\<lambda>ss.
     bindA (if refName (ssFrom ss) \<noteq> '''' then processStrategyFromField env bc b else retA b) (\<lambda>b1.
     thenA (processPullSecret env t bc) (retA
       (processSourceStrategyForcePull ss (processSourceStrategyIncremental ss (processSourceStrategyScripts ss
         (addEnv (ssEnv ss) b1))))))))"

section \<open>The source\<close>

definition proxyVar :: "string \<Rightarrow> string option \<Rightarrow> envVar list" where
  "proxyVar n v = (case v of None \<Rightarrow> [] | Some x \<Rightarrow> if x = '''' then [] else [\<lparr>evName = n, evValue = x, evFrom = None\<rparr>])"

definition processGitProxyConfig :: "buildConfig \<Rightarrow> shpBuild \<Rightarrow> shpBuild" where
  "processGitProxyConfig bc b = (case bcGit bc of None \<Rightarrow> b | Some g \<Rightarrow>
     addEnv (proxyVar ''HTTP_PROXY'' (gsHTTPProxy g) @ proxyVar ''HTTPS_PROXY'' (gsHTTPSProxy g) @ proxyVar ''NO_PROXY'' (gsNoProxy g)) b)"

definition sourceOf :: "sourceType \<Rightarrow> shpSource" where
  "sourceOf ty = \<lparr>shType = ty, shContextDir = None, shGit = None, shLocal = None, shOCI = None\<rparr>"

definition gitSourceOf :: "buildConfig \<Rightarrow> gitBuildSource \<Rightarrow> shpSource option \<Rightarrow> shpSource" where
  "gitSourceOf bc g old = (let git = \<lparr>sgURL = gsURI g, sgRevision = Some (gsRef g), sgCloneSecret = bcSourceSecret bc\<rparr> in
     case old of Some src \<Rightarrow> src\<lparr>shGit := Some git, shType := GitType\<rparr>
     | None \<Rightarrow> (sourceOf GitType)\<lparr>shGit := Some git\<rparr>)"

definition localSource :: shpSource where
  "localSource = (sourceOf LocalType)\<lparr>shLocal := Some \<lparr>slName = ''local-copy'', slTimeout = BuildTimeout\<rparr>\<rparr>"

definition ociSource :: "string \<Rightarrow> string option \<Rightarrow> shpSource" where
  "ociSource img sec = (sourceOf OCIArtifactType)\<lparr>shOCI := Some \<lparr>ociImage = img, ociPullSecret = sec\<rparr>\<rparr>"

definition wrapLookup :: "string \<Rightarrow> ('s, 'a) act \<Rightarrow> ('s, 'a) act" where
  "wrapLookup msg m = bindA (tryA m) (\<lambda>r. case r of
     Inl err \<Rightarrow> failA (Error (errorf (msg @ errorText err))) | Inr x \<Rightarrow> retA x)"

definition processBuildSourceFromField :: "'s convert_env \<Rightarrow> objectRef \<Rightarrow> shpBuild \<Rightarrow> ('s, shpBuild) act" where
  "processBuildSourceFromField env from b =
     (if refName from = '''' then failA (Error (errorf ''image name is empty''))
      else bindA
        (if refKind from = ImageStreamTag then
           wrapLookup ''failed to resolve image stream tag: '' (resolveImageStreamRef env (refName from) (refNamespace from))
         else if refKind from = ImageStreamImage then
           wrapLookup ''failed to resolve image stream image: '' (resolveImageStreamImageRef env (refName from) (refNamespace from))
         else if refKind from = DockerImage then retA (refName from)
         else failA (Error (errorf (''BuildSource 'From' kind '' @ refKind from @ '' is unknown type''))))
        (\<lambda>img. retA (b\<lparr>bdSource := Some (ociSource img None)\<rparr>)))"

definition optDir :: "string \<Rightarrow> string option" where
  "optDir d = (if d = '''' then None else Some d)"

text \<open>The tail of \<open>processSource\<close>: the source is followed, so nil would panic.\<close>

definition setContextDir :: "buildConfig \<Rightarrow> shpBuild \<Rightarrow> shpBuild result" where
  "setContextDir bc b = bindR (derefR (bdSource b)) (\<lambda>src. Inr (b\<lparr>bdSource := Some (src\<lparr>shContextDir := optDir (bcContextDir bc)\<rparr>)\<rparr>))"

definition sourceCount :: "buildConfig \<Rightarrow> nat" where
  "sourceCount bc = of_bool (bcGit bc \<noteq> None) + of_bool (bcBinary bc \<noteq> None) + of_bool (length (bcImages bc) > 0)"

text \<open>Errors of the image source are logged, and the build keeps the source it had.\<close>

definition processSource :: "'s convert_env \<Rightarrow> buildConfig \<Rightarrow> shpBuild \<Rightarrow> ('s, shpBuild) act" where
  "processSource env bc b =
     (if sourceCount bc > 1 \<or> sourceCount bc = 0 then retA b
      else case bcGit bc of
        Some g \<Rightarrow> pureA (setContextDir bc (processGitProxyConfig bc (b\<lparr>bdSource := Some (gitSourceOf bc g (bdSource b))\<rparr>)))
      | None \<Rightarrow> (case bcBinary bc of
          Some asFile \<Rightarrow> if asFile \<noteq> '''' then retA b
            else pureA (setContextDir bc (b\<lparr>bdSource := Some (localSource\<lparr>shContextDir := optDir (bcContextDir bc)\<rparr>)\<rparr>))
        | None \<Rightarrow> (case bcImages bc of
            [img] \<Rightarrow> if isAs img \<noteq> None \<or> isPaths img \<noteq> None then retA b
              else bindA (tryA (processBuildSourceFromField env (isFrom img) b)) (\<lambda>r. case r of
                Inl err \<Rightarrow> retA b
              | Inr b1 \<Rightarrow> pureA (setContextDir bc (b1\<lparr>bdSource := Some (ociSource (refName (isFrom img)) (isPullSecret img))\<rparr>)))
          | _ \<Rightarrow> retA b)))"

section \<open>The output and the registries\<close>

definition processOutput :: "buildConfig \<Rightarrow> shpBuild \<Rightarrow> shpBuild result" where
  "processOutput bc b = bindR (derefR (bcOutputTo bc)) (\<lambda>to.
     if refKind to = ''ImageStreamTag'' then
       (let ns = (if refNamespace to \<noteq> '''' then refNamespace to else bcNamespace bc);
            name = (if containsS (refName to) '':'' then refName to else refName to @ '':latest'') in
        Inr (b\<lparr>bdImage := ''image-registry.openshift-image-registry.svc:5000/'' @ ns @ ''/'' @ name\<rparr>))
     else Inr (b\<lparr>bdImage := refName to\<rparr>))"

fun parseRegistries :: "string list \<Rightarrow> string list" where
  "parseRegistries [] = []"
| "parseRegistries (r # rs) = r # parseRegistries rs"

definition addRegistries :: "convertOptions \<Rightarrow> shpBuild \<Rightarrow> shpBuild" where
  "addRegistries t b =
     withParam (length (coBlockRegistries t) \<noteq> 0) (valuesParam ''registries-block'' (parseRegistries (coBlockRegistries t)))
       (withParam (length (coInsecureRegistries t) \<noteq> 0) (valuesParam ''registries-insecure'' (parseRegistries (coBlockRegistries t)))
         (withParam (length (coSearchRegistries t) \<noteq> 0) (valuesParam ''registries-search'' (parseRegistries (coSearchRegistries t))) b))"

section \<open>Writing files\<close>

definition groupVersionPath :: "'s convert_env \<Rightarrow> string \<Rightarrow> string \<Rightarrow> string \<Rightarrow> string \<Rightarrow> string" where
  "groupVersionPath env kind api ns name =
     joinS ''_'' [kind, fst (gvOf env api), snd (gvOf env api), ns, name] @ ''.yaml''"

definition getBuildConfigFilePath :: "'s convert_env \<Rightarrow> buildConfig \<Rightarrow> string" where
  "getBuildConfigFilePath env bc = groupVersionPath env (bcKind bc) (bcAPIVersion bc) (bcNamespace bc) (bcName bc)"

definition getBuildFilePath :: "'s convert_env \<Rightarrow> shpBuild \<Rightarrow> string" where
  "getBuildFilePath env b = groupVersionPath env (bdKind b) (bdAPIVersion b) (bdNamespace b) (bdName b)"

definition writeOut :: "'s convert_env \<Rightarrow> string \<Rightarrow> string ret \<Rightarrow> ('s, unit) act" where
  "writeOut env path doc = thenA (createFile env path)
     (bindA (pureA (liftR doc)) (\<lambda>txt. thenA (writeFile env path txt) (closeFile env path)))"

definition writeBuild :: "'s convert_env \<Rightarrow> convertOptions \<Rightarrow> shpBuild \<Rightarrow> ('s, unit) act" where
  "writeBuild env t b = (let dir = joinPath [coExportDir t, ''builds'', coNamespace t];
       path = joinPath [dir, getBuildFilePath env b] in
     thenA (makeDir env dir) (writeOut env path (marshalBuild env b)))"

text \<open>The errors of the files are collected in a list that nothing reads.\<close>

fun writeConfigFiles :: "'s convert_env \<Rightarrow> string \<Rightarrow> buildConfig list \<Rightarrow> ('s, unit) act" where
  "writeConfigFiles env dir [] = retA ()"
| "writeConfigFiles env dir (bc0 # bcs) =
     (let bc = bc0\<lparr>bcKind := ''BuildConfig'', bcAPIVersion := ''build.openshift.io/v1''\<rparr>;
          path = joinPath [dir, getBuildConfigFilePath env bc] in
      bindA (tryA (writeOut env path (marshalConfig env bc))) (\<lambda>_. writeConfigFiles env dir bcs))"

definition writeBuildConfigs :: "'s convert_env \<Rightarrow> convertOptions \<Rightarrow> buildConfig list \<Rightarrow> ('s, unit) act" where
  "writeBuildConfigs env t bcs = (let dir = joinPath [coExportDir t, ''buildconfigs'', coNamespace t] in
     thenA (makeDir env dir) (writeConfigFiles env dir bcs))"

section \<open>The conversion\<close>

definition newBuild :: "buildConfig \<Rightarrow> string \<Rightarrow> shpBuild" where
  "newBuild bc now = \<lparr>bdAPIVersion = ''shipwright.io/v1beta1'', bdKind = ''Build'', bdNamespace = bcNamespace bc,
     bdName = bcName bc, bdCreated = now, bdStrategy = (None, ''''), bdParams = [], bdEnv = [], bdSource = None,
     bdImage = '''', bdPushSecret = None, bdVolumes = []\<rparr>"

definition processPushSecret :: "buildConfig \<Rightarrow> shpBuild \<Rightarrow> shpBuild" where
  "processPushSecret bc b = (case bcPushSecret bc of None \<Rightarrow> b | Some s \<Rightarrow> if s = '''' then b else b\<lparr>bdPushSecret := Some s\<rparr>)"

definition processStrategy :: "'s convert_env \<Rightarrow> convertOptions \<Rightarrow> buildConfig \<Rightarrow> shpBuild \<Rightarrow> ('s, shpBuild) act" where
  "processStrategy env t bc b =
     (if bcStrategyType bc = BuildStrategyDockerType then dockerStrategyOf env t bc b
      else if bcStrategyType bc = BuildStrategySourceType then sourceStrategyOf env t bc b
      else retA b)"

definition buildFor :: "'s convert_env \<Rightarrow> convertOptions \<Rightarrow> buildConfig \<Rightarrow> ('s, shpBuild) act" where
  "buildFor env t bc = bindA (timeNow env) (\<lambda>now.
     bindA (processStrategy env t bc (newBuild bc now)) (\<lambda>b1.
     bindA (processSource env bc (processPushSecret bc b1)) (\<lambda>b2.
     bindA (pureA (processOutput bc b2)) (\<lambda>b3. retA (addRegistries t b3)))))"

text \<open>The error of writing the build is dropped.\<close>

definition convertOne :: "'s convert_env \<Rightarrow> convertOptions \<Rightarrow> buildConfig \<Rightarrow> ('s, unit) act" where
  "convertOne env t bc = bindA (buildFor env t bc) (\<lambda>b. bindA (tryA (writeBuild env t b)) (\<lambda>_. retA ()))"

definition convertBuildConfigs :: "'s convert_env \<Rightarrow> convertOptions \<Rightarrow> ('s, unit) act" where
  "convertBuildConfigs env t = bindA (listBuildConfigs env (coNamespace t)) (\<lambda>bcs.
     thenA (writeBuildConfigs env t bcs) (forA (convertOne env t) bcs))"

text \<open>\<open>log.Fatal\<close> ends the program.\<close>

definition Convert :: "'s convert_env \<Rightarrow> convertOptions \<Rightarrow> ('s, unit) act" where
  "Convert env t =
     (if coResourceType t = ''BuildConfigs'' then convertBuildConfigs env t
      else failA (Panic (''crane cannot convert resource type '' @ coResourceType t)))"

end
