(* ===== verification/BuildSpec.thy ===== *)
theory BuildSpec
  imports BuildConvert
begin

text \<open>
  What a build configuration is converted to, written down field by field, and the proof that
  the steps of \<open>BuildConvert\<close>, which change the build one after another, arrive there. The
  hypotheses are those of a cluster that is only read and of a disk that keeps what is written.
\<close>

section \<open>A cluster and a disk\<close>

text \<open>What the API server answers; the conversion only reads.\<close>

record answers =
  ansTag :: "namespacedName \<Rightarrow> string option result"
  ansImage :: "namespacedName \<Rightarrow> string result"
  ansSecret :: "namespacedName \<Rightarrow> pullSecretObject result"

definition answered :: "'s convert_env \<Rightarrow> answers \<Rightarrow> bool" where
  "answered env ans \<longleftrightarrow>
     (\<forall>n s. getImageStreamTag env n s = (ansTag ans n, s)) \<and>
     (\<forall>n s. getImageStreamImage env n s = (ansImage ans n, s)) \<and>
     (\<forall>n s. getPullSecretObject env n s = (ansSecret ans n, s)) \<and>
     (\<forall>s. \<exists>now. timeNow env s = (Inr now, s))"

type_synonym files = "string \<Rightarrow> string option"

definition keeps_files :: "'s convert_env \<Rightarrow> ('s \<Rightarrow> files) \<Rightarrow> bool" where
  "keeps_files env disk \<longleftrightarrow>
     (\<forall>p m s. \<exists>s'. mkdirAll env p m s = (Inr (), s') \<and> disk s' = disk s) \<and>
     (\<forall>p s. \<exists>s'. createFile env p s = (Inr (), s') \<and> disk s' = (disk s)(p \<mapsto> [])) \<and>
     (\<forall>p x y s. disk s p = Some y \<longrightarrow> (\<exists>s'. writeFile env p x s = (Inr (), s') \<and> disk s' = (disk s)(p \<mapsto> y @ x))) \<and>
     (\<forall>p s. \<exists>s'. closeFile env p s = (Inr (), s') \<and> disk s' = disk s)"

lemma makeDir_run:
  assumes "keeps_files env disk"
  shows "\<exists>s'. makeDir env d s = (Inr (), s') \<and> disk s' = disk s"
proof -
  obtain s' where s': "mkdirAll env d 448 s = (Inr (), s')" "disk s' = disk s"
    using assms unfolding keeps_files_def by blast
  then show ?thesis by (simp add: makeDir_def act_simps bindA_Inr[OF tryA_run(1)])
qed

lemma createFile_run: "keeps_files env disk \<Longrightarrow> \<exists>s'. createFile env p s = (Inr (), s') \<and> disk s' = (disk s)(p \<mapsto> [])"
  unfolding keeps_files_def by blast

lemma writeFile_run: "keeps_files env disk \<Longrightarrow> disk s p = Some y \<Longrightarrow>
   \<exists>s'. writeFile env p x s = (Inr (), s') \<and> disk s' = (disk s)(p \<mapsto> y @ x)"
  unfolding keeps_files_def by blast

lemma closeFile_run: "keeps_files env disk \<Longrightarrow> \<exists>s'. closeFile env p s = (Inr (), s') \<and> disk s' = disk s"
  unfolding keeps_files_def by blast

text \<open>Writing a document leaves it, and nothing else, changed on the disk.\<close>

lemma writeOut_run:
  assumes k: "keeps_files env disk"
  shows "\<exists>s'. writeOut env p (Inr x) s = (Inr (), s') \<and> disk s' = (disk s)(p \<mapsto> x)"
proof -
  obtain s1 where 1: "createFile env p s = (Inr (), s1)" "disk s1 = (disk s)(p \<mapsto> [])"
    using createFile_run[OF k] by blast
  then obtain s2 where 2: "writeFile env p x s1 = (Inr (), s2)" "disk s2 = (disk s1)(p \<mapsto> [] @ x)"
    using writeFile_run[OF k, of s1 p "[]" x] by auto
  obtain s3 where 3: "closeFile env p s2 = (Inr (), s3)" "disk s3 = disk s2"
    using closeFile_run[OF k] by blast
  show ?thesis using 1 2 3 by (simp add: writeOut_def act_simps bindA_Inr[of "pureA (Inr x)"])
qed

lemma writeServiceAccount_run:
  assumes k: "keeps_files env disk" and m: "marshalAccount env sa = Inr x"
  shows "\<exists>s'. writeServiceAccount env t sa s = (Inr (), s') \<and> disk s' = (disk s)
     (joinPath [joinPath [coExportDir t, ''builds'', saNamespace sa], getServiceAccountFilePath env sa] \<mapsto> x)"
proof -
  let ?d = "joinPath [coExportDir t, ''builds'', saNamespace sa]"
  let ?p = "joinPath [?d, getServiceAccountFilePath env sa]"
  obtain s0 where 0: "makeDir env ?d s = (Inr (), s0)" "disk s0 = disk s" using makeDir_run[OF k] by blast
  obtain s1 where 1: "createFile env ?p s0 = (Inr (), s1)" "disk s1 = (disk s0)(?p \<mapsto> [])"
    using createFile_run[OF k] by blast
  then obtain s2 where 2: "writeFile env ?p x s1 = (Inr (), s2)" "disk s2 = (disk s1)(?p \<mapsto> [] @ x)"
    using writeFile_run[OF k, of s1 ?p "[]" x] by auto
  obtain s3 where 3: "closeFile env ?p s2 = (Inr (), s3)" "disk s3 = disk s2"
    using closeFile_run[OF k] by blast
  have w: "bindA (pureA (liftR (marshalAccount env sa))) (writeFile env ?p) s1 = (Inr (), s2)"
    using m 2 by (simp add: act_simps bindA_Inr[of "pureA (Inr x)"])
  show ?thesis using 0 1 2 3 w
    by (simp add: writeServiceAccount_def Let_def act_simps deferClose_def)
qed

section \<open>The specification\<close>

definition imageAnswer :: "answers \<Rightarrow> string \<Rightarrow> string \<Rightarrow> string \<Rightarrow> goerror \<Rightarrow> string result" where
  "imageAnswer ans kind name ns err =
     (if kind = ImageStreamTag then bindR (ansTag ans \<lparr>nnNamespace = ns, nnName = name\<rparr>) derefR
      else if kind = ImageStreamImage then ansImage ans \<lparr>nnNamespace = ns, nnName = name\<rparr>
      else if kind = DockerImage then Inr name else Inl (Error err))"

text \<open>The parameter a \<open>From\<close> reference turns into; a reference without kind or name gives none.\<close>

definition fromParam :: "answers \<Rightarrow> buildConfig \<Rightarrow> string \<Rightarrow> objectRef \<Rightarrow> goerror \<Rightarrow> paramValue list result" where
  "fromParam ans bc pname from err =
     (if refKind from = '''' \<or> refName from = '''' then Inr []
      else bindR (imageAnswer ans (refKind from) (refName from) (namespaceOr (refNamespace from) (bcNamespace bc)) err)
        (\<lambda>img. Inr [singleParam pname img]))"

definition paramIf :: "bool \<Rightarrow> string \<Rightarrow> string \<Rightarrow> paramValue list" where
  "paramIf c n v = (if c then [singleParam n v] else [])"

definition dockerParams :: "dockerStrategy \<Rightarrow> paramValue list" where
  "dockerParams ds =
     paramIf (dsNoCache ds) ''no-cache'' ''true'' @ paramIf (dsForcePull ds) ''pull'' ''always'' @
     paramIf (dsDockerfilePath ds \<noteq> '''') ''dockerfile'' (dsDockerfilePath ds) @
     (if dsBuildArgs ds = [] then []
      else [valuesParam ''build-args'' (map (\<lambda>a. evName a @ ''='' @ evValue a) (dsBuildArgs ds))]) @
     paramIf (dsOptimization ds \<in> {Some ''SkipLayers'', Some ''SkipLayersAndWarn''}) ''squash'' ''true''"

definition sourceParams :: "sourceStrategy \<Rightarrow> paramValue list" where
  "sourceParams ss =
     paramIf (ssScripts ss \<noteq> '''') ''scripts-url'' (ssScripts ss) @
     paramIf (ssIncremental ss = Some True) ''incremental'' ''true'' @
     paramIf (ssForcePull ss) ''pull-policy'' ''always''"

definition registryParams :: "convertOptions \<Rightarrow> paramValue list" where
  "registryParams t =
     (if coSearchRegistries t = [] then [] else [valuesParam ''registries-search'' (coSearchRegistries t)]) @
     (if coInsecureRegistries t = [] then [] else [valuesParam ''registries-insecure'' (coBlockRegistries t)]) @
     (if coBlockRegistries t = [] then [] else [valuesParam ''registries-block'' (coBlockRegistries t)])"

definition gitEnv :: "gitBuildSource \<Rightarrow> envVar list" where
  "gitEnv g = concat (map (\<lambda>(n, v). if v \<in> {None, Some ''''} then [] else [\<lparr>evName = n, evValue = the v, evFrom = None\<rparr>])
     [(''HTTP_PROXY'', gsHTTPProxy g), (''HTTPS_PROXY'', gsHTTPSProxy g), (''NO_PROXY'', gsNoProxy g)])"

text \<open>The only kind of source, when there is exactly one and the build can have it.\<close>

datatype chosenSource = NoSource | GitSource gitBuildSource | LocalSource | OCISource imageSource

definition chosen :: "buildConfig \<Rightarrow> chosenSource" where
  "chosen bc = (case (bcGit bc, bcBinary bc, bcImages bc) of
     (Some g, None, []) \<Rightarrow> GitSource g
   | (None, Some asFile, []) \<Rightarrow> if asFile = '''' then LocalSource else NoSource
   | (None, None, [img]) \<Rightarrow> if isAs img = None \<and> isPaths img = None then OCISource img else NoSource
   | _ \<Rightarrow> NoSource)"

text \<open>An image source is taken when its reference resolves, and then keeps the unresolved name.\<close>

definition specSource :: "answers \<Rightarrow> buildConfig \<Rightarrow> shpSource option result" where
  "specSource ans bc = (case chosen bc of
     NoSource \<Rightarrow> Inr None
   | GitSource g \<Rightarrow> Inr (Some \<lparr>shType = GitType, shContextDir = optDir (bcContextDir bc),
       shGit = Some \<lparr>sgURL = gsURI g, sgRevision = Some (gsRef g), sgCloneSecret = bcSourceSecret bc\<rparr>, shLocal = None, shOCI = None\<rparr>)
   | LocalSource \<Rightarrow> Inr (Some \<lparr>shType = LocalType, shContextDir = optDir (bcContextDir bc), shGit = None,
       shLocal = Some \<lparr>slName = ''local-copy'', slTimeout = BuildTimeout\<rparr>, shOCI = None\<rparr>)
   | OCISource img \<Rightarrow> (let from = isFrom img in
       if refName from = '''' then Inr None
       else case imageAnswer ans (refKind from) (refName from) (refNamespace from) (errorf '''') of
         Inl (Error _) \<Rightarrow> Inr None | Inl (Panic w) \<Rightarrow> Inl (Panic w)
       | Inr _ \<Rightarrow> Inr (Some \<lparr>shType = OCIArtifactType, shContextDir = optDir (bcContextDir bc), shGit = None, shLocal = None,
           shOCI = Some \<lparr>ociImage = refName from, ociPullSecret = isPullSecret img\<rparr>\<rparr>)))"

definition sourceEnv :: "buildConfig \<Rightarrow> envVar list" where
  "sourceEnv bc = (case chosen bc of GitSource g \<Rightarrow> gitEnv g | _ \<Rightarrow> [])"

definition outputImage :: "buildConfig \<Rightarrow> objectRef \<Rightarrow> string" where
  "outputImage bc to =
     (if refKind to = ''ImageStreamTag'' then ''image-registry.openshift-image-registry.svc:5000/'' @
        namespaceOr (refNamespace to) (bcNamespace bc) @ ''/'' @
        (refName to @ (if containsS (refName to) '':'' then '''' else '':latest''))
      else refName to)"

text \<open>The pull secret of a build configuration must exist and hold credentials.\<close>

definition specSecret :: "answers \<Rightarrow> buildConfig \<Rightarrow> unit result" where
  "specSecret ans bc = (case getPullSecret bc of None \<Rightarrow> Inr () | Some name \<Rightarrow>
     if name = '''' then Inl (Error (errorf (''pullSecret name is empty for BuildConfig '' @ bcName bc)))
     else case ansSecret ans \<lparr>nnNamespace = bcNamespace bc, nnName = name\<rparr> of
       Inl (Error err) \<Rightarrow> Inl (Error (GoError (''failed to get pull secret '' @ name @ '': '' @ errorText err) (errorCause err)))
     | Inl (Panic w) \<Rightarrow> Inl (Panic w)
     | Inr sec \<Rightarrow> liftR (checkPullSecret name sec))"

text \<open>Strategy, parameters and environment; a strategy of another type gives an empty build.\<close>

definition specStrategy :: "answers \<Rightarrow> buildConfig \<Rightarrow> ((strategyKind option \<times> string) \<times> paramValue list \<times> envVar list) result" where
  "specStrategy ans bc =
     (if bcStrategyType bc = BuildStrategyDockerType then
        bindR (derefR (bcDocker bc)) (\<lambda>ds.
        bindR (case dsFrom ds of None \<Rightarrow> Inr [] | Some from \<Rightarrow> fromParam ans bc ''runtime-stage-from'' from
            (errorf (''docker strategy 'From' kind '' @ refKind from @ '' is unknown''))) (\<lambda>ps.
        bindR (specSecret ans bc) (\<lambda>_.
          Inr ((Some ClusterBuildStrategyKind, ''buildah''), ps @ dockerParams ds, dsEnv ds))))
      else if bcStrategyType bc = BuildStrategySourceType then
        bindR (derefR (bcSource bc)) (\<lambda>ss.
        bindR (fromParam ans bc ''builder-image'' (ssFrom ss)
            (errorf (''strategy 'From' kind '' @ refKind (ssFrom ss) @ '' is unknown type''))) (\<lambda>ps.
        bindR (specSecret ans bc) (\<lambda>_.
          Inr ((Some ClusterBuildStrategyKind, ''source-to-image''), ps @ sourceParams ss, ssEnv ss))))
      else Inr ((None, ''''), [], []))"

definition specBuild :: "answers \<Rightarrow> convertOptions \<Rightarrow> buildConfig \<Rightarrow> string \<Rightarrow> shpBuild result" where
  "specBuild ans t bc now = bindR (specStrategy ans bc) (\<lambda>(strategy, params, env).
     bindR (specSource ans bc) (\<lambda>src. bindR (derefR (bcOutputTo bc)) (\<lambda>to. Inr
       \<lparr>bdAPIVersion = ''shipwright.io/v1beta1'', bdKind = ''Build'', bdNamespace = bcNamespace bc, bdName = bcName bc,
        bdCreated = now, bdStrategy = strategy, bdParams = params @ registryParams t, bdEnv = env @ sourceEnv bc,
        bdSource = src, bdImage = outputImage bc to,
        bdPushSecret = (if bcPushSecret bc = Some '''' then None else bcPushSecret bc), bdVolumes = []\<rparr>)))"

end
