(* ===== verification/BuildSteps.thy ===== *)
theory BuildSteps
  imports BuildSpec
begin

text \<open>
  The steps of the conversion implement the specification of \<open>BuildSpec\<close>: each is run on a
  cluster that is only read and a disk that keeps what is written.
\<close>

lemma bindA_same: "m s = (r, s) \<Longrightarrow> bindA m f s = (case r of Inl e \<Rightarrow> (Inl e, s) | Inr x \<Rightarrow> f x s)"
  by (simp add: bindA_def split: sum.split)

lemma answered_run:
  assumes "answered env ans"
  shows "getImageStreamTag env n s = (ansTag ans n, s)" "getImageStreamImage env n s = (ansImage ans n, s)"
    "getPullSecretObject env n s = (ansSecret ans n, s)" "\<exists>now. timeNow env s = (Inr now, s)"
  using assms unfolding answered_def by blast+

lemma resolve_run:
  assumes "answered env ans"
  shows "resolveImageStreamRef env name ns s = (bindR (ansTag ans \<lparr>nnNamespace = ns, nnName = name\<rparr>) derefR, s)"
    "resolveImageStreamImageRef env name ns s = (ansImage ans \<lparr>nnNamespace = ns, nnName = name\<rparr>, s)"
  using answered_run[OF assms]
  by (simp_all add: resolveImageStreamRef_def resolveImageStreamImageRef_def bindA_def pureA_def split: sum.split)

lemma image_kinds [simp]:
  "ImageStreamTag \<noteq> ImageStreamImage" "ImageStreamTag \<noteq> DockerImage" "ImageStreamImage \<noteq> DockerImage"
  "ImageStreamTag \<noteq> ''''" "ImageStreamImage \<noteq> ''''" "DockerImage \<noteq> ''''"
  by (simp_all add: ImageStreamTag_def ImageStreamImage_def DockerImage_def)

text \<open>The \<open>From\<close> references of the two strategies.\<close>

definition addParams :: "paramValue list \<Rightarrow> shpBuild \<Rightarrow> shpBuild" where
  "addParams ps b = b\<lparr>bdParams := bdParams b @ ps\<rparr>"

lemma addParams_simps [simp]:
  "addParams [] b = b" "addParam p b = addParams [p] b" "addParams qs (addParams ps b) = addParams (ps @ qs) b"
  "bdParams (addParams ps b) = bdParams b @ ps"
  by (simp_all add: addParams_def addParam_def)

lemma from_docker_run:
  assumes "answered env ans" and "bcDocker bc = Some ds"
  shows "processDockerStrategyFromField env bc b s =
    (bindR (case dsFrom ds of None \<Rightarrow> Inr [] | Some from \<Rightarrow> fromParam ans bc ''runtime-stage-from'' from
       (errorf (''docker strategy 'From' kind '' @ refKind from @ '' is unknown''))) (\<lambda>ps. Inr (addParams ps b)), s)"
  using assms(2)
  by (simp add: processDockerStrategyFromField_def fromParam_def imageAnswer_def bindA_def act_run resolve_run[OF assms(1)]
      RuntimeStageFromParamName_def Let_def split: option.split sum.split)

lemma from_source_run:
  assumes "answered env ans" and "bcSource bc = Some ss"
  shows "processStrategyFromField env bc b s =
    (bindR (fromParam ans bc ''builder-image'' (ssFrom ss)
       (errorf (''strategy 'From' kind '' @ refKind (ssFrom ss) @ '' is unknown type''))) (\<lambda>ps. Inr (addParams ps b)), s)"
  using assms(2)
  by (simp add: processStrategyFromField_def fromParam_def imageAnswer_def bindA_def act_run resolve_run[OF assms(1)]
      Let_def split: option.split sum.split)

section \<open>Parameters\<close>

lemma withParam_eq: "withParam c p b = addParams (if c then [p] else []) b"
  by (simp add: withParam_def)

lemma buildArgValues_eq: "buildArgValues as = map (\<lambda>a. evName a @ ''='' @ evValue a) as"
  by (induction as) auto

lemma parseRegistries_eq [simp]: "parseRegistries rs = rs"
  by (induction rs) auto

lemma addEnv_simps [simp]:
  "addEnv es (addParams ps b) = addParams ps (addEnv es b)"
  "addEnv fs (addEnv es b) = addEnv (es @ fs) b" "addEnv [] b = b"
  by (simp_all add: addParams_def addEnv_def)

lemma squash_eq: "processDockerStrategySquash ds b =
   addParams (paramIf (dsOptimization ds \<in> {Some ''SkipLayers'', Some ''SkipLayersAndWarn''}) ''squash'' ''true'') b"
  unfolding processDockerStrategySquash_def paramIf_def SquashParamName_def
  by (cases "dsOptimization ds") simp_all

lemma dockerParams_run:
  "processDockerStrategySquash ds (processBuildArgs ds (processDockerfilePath ds (processDockerStrategyForcePull ds
     (addEnv (dsEnv ds) (processDockerStrategyNoCache ds b))))) = addParams (dockerParams ds) (addEnv (dsEnv ds) b)"
  unfolding squash_eq dockerParams_def
  by (simp add: processBuildArgs_def processDockerfilePath_def processDockerStrategyForcePull_def
      processDockerStrategyNoCache_def withParam_eq buildArgValues_eq paramIf_def NoCacheParamName_def ForcePullParamName_def)

lemma sourceParams_run:
  "processSourceStrategyForcePull ss (processSourceStrategyIncremental ss (processSourceStrategyScripts ss
     (addEnv (ssEnv ss) b))) = addParams (sourceParams ss) (addEnv (ssEnv ss) b)"
  by (simp add: sourceParams_def processSourceStrategyForcePull_def processSourceStrategyIncremental_def
      processSourceStrategyScripts_def withParam_eq paramIf_def S2iForcePullParamName_def S2iIncrementalParamName_def
      S2iScriptsURLParamName_def)

lemma addRegistries_eq: "addRegistries t b = addParams (registryParams t) b"
  by (simp add: addRegistries_def registryParams_def withParam_eq)

section \<open>Pull secrets\<close>

definition marshals :: "'s convert_env \<Rightarrow> bool" where
  "marshals env \<longleftrightarrow> (\<forall>c. isl (marshalConfig env c) = False) \<and> (\<forall>b. isl (marshalBuild env b) = False) \<and>
     (\<forall>a. isl (marshalAccount env a) = False)"

definition accountPath :: "'s convert_env \<Rightarrow> convertOptions \<Rightarrow> buildConfig \<Rightarrow> string" where
  "accountPath env t bc = joinPath [joinPath [coExportDir t, ''builds'', bcNamespace bc],
     joinS ''_'' [''ServiceAccount'', snd (gvOf env ''v1''), bcNamespace bc, getServiceAccountName bc] @ ''.yaml'']"

text \<open>What converting a build configuration does to the files before its build is written.\<close>

definition account_written :: "'s convert_env \<Rightarrow> convertOptions \<Rightarrow> buildConfig \<Rightarrow> files \<Rightarrow> files \<Rightarrow> bool" where
  "account_written env t bc d d' \<longleftrightarrow>
     (case (if bcStrategyType bc \<in> {BuildStrategyDockerType, BuildStrategySourceType} then getPullSecret bc else None) of
        None \<Rightarrow> d' = d
      | Some sec \<Rightarrow> \<exists>now. d' = d(accountPath env t bc \<mapsto> projr (marshalAccount env (accountFor bc sec now))))"

lemma marshals_run:
  assumes "marshals env"
  shows "marshalConfig env c = Inr (projr (marshalConfig env c))"
    "marshalBuild env b = Inr (projr (marshalBuild env b))"
    "marshalAccount env a = Inr (projr (marshalAccount env a))"
  using assms unfolding marshals_def by (metis sum.collapse(2))+

lemma validate_run:
  assumes "answered env ans" and "getPullSecret bc = Some sec"
  shows "validatePullSecret env bc (Some sec) s = (specSecret ans bc, s)"
  using assms(2) answered_run(3)[OF assms(1)]
  by (simp add: validatePullSecret_def specSecret_def bindA_def tryA_def act_run split: sum.split fault.split)

text \<open>Only the service account of a pull secret is written before the build.\<close>

definition can_write :: "'s convert_env \<Rightarrow> ('s \<Rightarrow> files) \<Rightarrow> buildConfig \<Rightarrow> bool" where
  "can_write env disk bc \<longleftrightarrow> keeps_files env disk \<and> marshals env \<or> getPullSecret bc = None"

lemma secret_run:
  assumes "answered env ans" "can_write env disk bc"
  shows "\<exists>s'. processPullSecret env t bc s = (specSecret ans bc, s') \<and>
     (specSecret ans bc = Inr () \<longrightarrow> (case getPullSecret bc of None \<Rightarrow> disk s' = disk s
       | Some sec \<Rightarrow> \<exists>now. disk s' = (disk s)(accountPath env t bc \<mapsto> projr (marshalAccount env (accountFor bc sec now))))) \<and>
     (\<forall>p. p \<noteq> accountPath env t bc \<longrightarrow> disk s' p = disk s p) \<and> (getPullSecret bc = None \<longrightarrow> s' = s)"
proof (cases "getPullSecret bc")
  case None
  then show ?thesis by (simp add: processPullSecret_def specSecret_def act_run)
next
  case (Some sec)
  then have k: "keeps_files env disk" "marshals env" using assms(2) by (auto simp: can_write_def)
  note v = validate_run[OF assms(1) Some]
  show ?thesis
  proof (cases "specSecret ans bc")
    case (Inl e)
    then have "processPullSecret env t bc s = (specSecret ans bc, s)"
      using Some by (simp add: processPullSecret_def thenA_def bindA_def v)
    then show ?thesis using Inl by simp
  next
    case (Inr u)
    obtain now where now: "timeNow env s = (Inr now, s)" using answered_run(4)[OF assms(1)] by blast
    obtain s' where s': "writeServiceAccount env t (accountFor bc sec now) s = (Inr (), s')"
      "disk s' = (disk s)(joinPath [joinPath [coExportDir t, ''builds'', saNamespace (accountFor bc sec now)],
          getServiceAccountFilePath env (accountFor bc sec now)] \<mapsto> projr (marshalAccount env (accountFor bc sec now)))"
      using writeServiceAccount_run[OF k(1) marshals_run(3)[OF k(2)]] by blast
    have "joinPath [joinPath [coExportDir t, ''builds'', saNamespace (accountFor bc sec now)],
          getServiceAccountFilePath env (accountFor bc sec now)] = accountPath env t bc"
      by (simp add: accountPath_def accountFor_def getServiceAccountFilePath_def)
    then have d: "disk s' = (disk s)(accountPath env t bc \<mapsto> projr (marshalAccount env (accountFor bc sec now)))"
      using s'(2) by simp
    have "processPullSecret env t bc s = (Inr (), s')"
      using Some s'(1) now Inr by (simp add: processPullSecret_def thenA_def bindA_def v generateServiceAccountForPullSecret_def)
    then show ?thesis using Some Inr d by auto
  qed
qed

section \<open>The strategy\<close>

lemma strategy_types [simp]: "BuildStrategyDockerType \<noteq> BuildStrategySourceType" "BuildStrategySourceType \<noteq> BuildStrategyDockerType"
  by (simp_all add: BuildStrategyDockerType_def BuildStrategySourceType_def)

definition strategyInto :: "shpBuild \<Rightarrow> (strategyKind option \<times> string) \<times> paramValue list \<times> envVar list \<Rightarrow> shpBuild" where
  "strategyInto b0 r = (case r of (st, ps, es) \<Rightarrow> addParams ps (addEnv es (b0\<lparr>bdStrategy := st\<rparr>)))"

definition other_files :: "string \<Rightarrow> files \<Rightarrow> files \<Rightarrow> bool" where
  "other_files q d d' \<longleftrightarrow> (\<forall>p. p \<noteq> q \<longrightarrow> d' p = d p)"

lemma other_files_refl [simp]: "other_files q d d"
  by (simp add: other_files_def)

text \<open>
  A strategy is a lookup of the \<open>From\<close> reference, then the pull secret, then parameters; \<open>g\<close>
  and \<open>h\<close> are the two ends.
\<close>

lemma secret_then:
  assumes "answered env ans" "can_write env disk bc"
    and m: "\<And>s. m s = (r, s)" and t: "bcStrategyType bc \<in> {BuildStrategyDockerType, BuildStrategySourceType}"
  shows "\<exists>s'. bindA m (\<lambda>x. thenA (processPullSecret env t bc) (retA (g x))) s =
      (bindR r (\<lambda>x. bindR (specSecret ans bc) (\<lambda>_. Inr (g x))), s') \<and>
      (\<forall>x. r = Inr x \<and> specSecret ans bc = Inr () \<longrightarrow> account_written env t bc (disk s) (disk s')) \<and>
      other_files (accountPath env t bc) (disk s) (disk s') \<and> (getPullSecret bc = None \<longrightarrow> s' = s)"
proof (cases r)
  case (Inl e)
  then show ?thesis by (simp add: bindA_def m)
next
  case (Inr x)
  obtain s' where s': "processPullSecret env t bc s = (specSecret ans bc, s')"
     "specSecret ans bc = Inr () \<longrightarrow> (case getPullSecret bc of None \<Rightarrow> disk s' = disk s
       | Some sec \<Rightarrow> \<exists>now. disk s' = (disk s)(accountPath env t bc \<mapsto> projr (marshalAccount env (accountFor bc sec now))))"
     "\<forall>p. p \<noteq> accountPath env t bc \<longrightarrow> disk s' p = disk s p" "getPullSecret bc = None \<longrightarrow> s' = s"
    using secret_run[OF assms(1,2)] by blast
  have "bindA m (\<lambda>x. thenA (processPullSecret env t bc) (retA (g x))) s = (bindR (specSecret ans bc) (\<lambda>_. Inr (g x)), s')"
    using Inr s'(1) by (cases "specSecret ans bc") (simp_all add: bindA_def thenA_def m retA_def)
  moreover have "specSecret ans bc = Inr () \<longrightarrow> account_written env t bc (disk s) (disk s')"
    using s'(2) t by (auto simp: account_written_def split: option.splits)
  ultimately show ?thesis using Inr s'(3,4) by (auto simp: other_files_def)
qed

lemma strategy_run:
  assumes "answered env ans" "can_write env disk bc" and b0: "bdStrategy b0 = (None, [])"
  shows "\<exists>s'. processStrategy env t bc b0 s = (bindR (specStrategy ans bc) (\<lambda>r. Inr (strategyInto b0 r)), s') \<and>
    (\<forall>r. specStrategy ans bc = Inr r \<longrightarrow> account_written env t bc (disk s) (disk s')) \<and>
    other_files (accountPath env t bc) (disk s) (disk s') \<and> (getPullSecret bc = None \<longrightarrow> s' = s)"
proof -
  consider (docker) "bcStrategyType bc = BuildStrategyDockerType" | (source) "bcStrategyType bc = BuildStrategySourceType"
    | (other) "bcStrategyType bc \<notin> {BuildStrategyDockerType, BuildStrategySourceType}" by blast
  then show ?thesis
  proof cases
    case docker
    show ?thesis
    proof (cases "bcDocker bc")
      case None
      then show ?thesis using docker
        by (auto simp: processStrategy_def dockerStrategyOf_def specStrategy_def derefR_def bindA_def pureA_def)
    next
      case (Some ds)
      let ?b = "b0\<lparr>bdStrategy := (Some ClusterBuildStrategyKind, ''buildah'')\<rparr>"
      let ?f = "case dsFrom ds of None \<Rightarrow> Inr [] | Some from \<Rightarrow> fromParam ans bc ''runtime-stage-from'' from
          (errorf (''docker strategy 'From' kind '' @ refKind from @ '' is unknown''))"
      have m: "\<And>s. processDockerStrategyFromField env bc ?b s = (bindR ?f (\<lambda>ps. Inr (addParams ps ?b)), s)"
        using from_docker_run[OF assms(1) Some] .
      have p: "processStrategy env t bc b0 = bindA (processDockerStrategyFromField env bc ?b)
          (\<lambda>b1. thenA (processPullSecret env t bc) (retA (addParams (dockerParams ds) (addEnv (dsEnv ds) b1))))"
        using docker Some
        by (auto simp: processStrategy_def dockerStrategyOf_def Let_def dockerParams_run fun_eq_iff bindA_def pureA_def)
      have e: "bindR (specStrategy ans bc) (\<lambda>r. Inr (strategyInto b0 r)) = bindR (bindR ?f (\<lambda>ps. Inr (addParams ps ?b)))
           (\<lambda>x. bindR (specSecret ans bc) (\<lambda>_. Inr (addParams (dockerParams ds) (addEnv (dsEnv ds) x))))"
        using docker Some by (simp add: specStrategy_def bindR_assoc strategyInto_def)
      have i: "specStrategy ans bc = Inr r \<Longrightarrow> (\<exists>x. bindR ?f (\<lambda>ps. Inr (addParams ps ?b)) = Inr x) \<and> specSecret ans bc = Inr ()" for r
        using docker Some by (auto simp: specStrategy_def bindR_eq_Inr)
      have ty: "bcStrategyType bc \<in> {BuildStrategyDockerType, BuildStrategySourceType}" using docker by simp
      from secret_then[OF assms(1,2) m ty, where g = "\<lambda>b1. addParams (dockerParams ds) (addEnv (dsEnv ds) b1)" and t = t and s = s]
      show ?thesis unfolding p e by (elim ex_forward conj_forward impI) (use i in blast)+
    qed
  next
    case source
    show ?thesis
    proof (cases "bcSource bc")
      case None
      then show ?thesis using source
        by (auto simp: processStrategy_def sourceStrategyOf_def specStrategy_def derefR_def bindA_def pureA_def)
    next
      case (Some ss)
      let ?b = "b0\<lparr>bdStrategy := (Some ClusterBuildStrategyKind, ''source-to-image'')\<rparr>"
      let ?f = "fromParam ans bc ''builder-image'' (ssFrom ss)
            (errorf (''strategy 'From' kind '' @ refKind (ssFrom ss) @ '' is unknown type''))"
      let ?m = "if refName (ssFrom ss) \<noteq> '''' then processStrategyFromField env bc ?b else retA ?b"
      have m: "\<And>s. ?m s = (bindR ?f (\<lambda>ps. Inr (addParams ps ?b)), s)"
        using from_source_run[OF assms(1) Some] by (simp add: fromParam_def retA_def)
      have p: "processStrategy env t bc b0 = bindA ?m
          (\<lambda>b1. thenA (processPullSecret env t bc) (retA (addParams (sourceParams ss) (addEnv (ssEnv ss) b1))))"
        using source Some
        by (auto simp: processStrategy_def sourceStrategyOf_def Let_def sourceParams_run fun_eq_iff bindA_def pureA_def)
      have e: "bindR (specStrategy ans bc) (\<lambda>r. Inr (strategyInto b0 r)) = bindR (bindR ?f (\<lambda>ps. Inr (addParams ps ?b)))
           (\<lambda>x. bindR (specSecret ans bc) (\<lambda>_. Inr (addParams (sourceParams ss) (addEnv (ssEnv ss) x))))"
        using source Some by (simp add: specStrategy_def bindR_assoc strategyInto_def)
      have i: "specStrategy ans bc = Inr r \<Longrightarrow> (\<exists>x. bindR ?f (\<lambda>ps. Inr (addParams ps ?b)) = Inr x) \<and> specSecret ans bc = Inr ()" for r
        using source Some by (auto simp: specStrategy_def bindR_eq_Inr)
      have ty: "bcStrategyType bc \<in> {BuildStrategyDockerType, BuildStrategySourceType}" using source by simp
      from secret_then[OF assms(1,2) m ty, where g = "\<lambda>b1. addParams (sourceParams ss) (addEnv (ssEnv ss) b1)" and t = t and s = s]
      show ?thesis unfolding p e by (elim ex_forward conj_forward impI) (use i in blast)+
    qed
  next
    case other
    then have "processStrategy env t bc b0 s = (Inr b0, s)" "specStrategy ans bc = Inr ((None, ''''), [], [])"
      by (simp_all add: processStrategy_def specStrategy_def retA_def)
    then show ?thesis using other b0 by (simp add: strategyInto_def account_written_def)
  qed
qed

section \<open>The source\<close>

lemma proxyVar_eq: "proxyVar n v = (if v \<in> {None, Some ''''} then [] else [\<lparr>evName = n, evValue = the v, evFrom = None\<rparr>])"
  by (auto simp: proxyVar_def split: option.split)

lemma gitEnv_eq: "gitEnv g =
   proxyVar ''HTTP_PROXY'' (gsHTTPProxy g) @ proxyVar ''HTTPS_PROXY'' (gsHTTPSProxy g) @ proxyVar ''NO_PROXY'' (gsNoProxy g)"
  unfolding gitEnv_def proxyVar_eq by simp

lemma setContextDir_some:
  "setContextDir bc (b\<lparr>bdSource := Some src\<rparr>) = Inr (b\<lparr>bdSource := Some (src\<lparr>shContextDir := optDir (bcContextDir bc)\<rparr>)\<rparr>)"
  by (simp add: setContextDir_def)

lemma addEnv_source: "addEnv es (b\<lparr>bdSource := s\<rparr>) = (addEnv es b)\<lparr>bdSource := s\<rparr>"
  by (simp add: addEnv_def)

lemma buildSource_run:
  assumes "answered env ans"
  shows "\<exists>e. processBuildSourceFromField env from b s =
    ((if refName from = '''' then Inl (Error e)
      else case imageAnswer ans (refKind from) (refName from) (refNamespace from) (errorf '''') of
        Inl (Error _) \<Rightarrow> Inl (Error e) | Inl (Panic w) \<Rightarrow> Inl (Panic w)
      | Inr img \<Rightarrow> Inr (b\<lparr>bdSource := Some (ociSource img None)\<rparr>)), s)"
  by (auto simp: processBuildSourceFromField_def wrapLookup_def imageAnswer_def bindA_def tryA_def act_run
      resolve_run[OF assms] split: sum.split fault.split)

lemma source_run:
  assumes "answered env ans" and "bdSource b = None"
  shows "processSource env bc b s = (bindR (specSource ans bc) (\<lambda>src. Inr (addEnv (sourceEnv bc) (b\<lparr>bdSource := src\<rparr>))), s)"
proof -
  have same: "b\<lparr>bdSource := None\<rparr> = b" using assms(2) by simp
  show ?thesis
  proof (cases "chosen bc")
    case NoSource
    then have "processSource env bc b s = (Inr b, s)"
      by (auto simp: chosen_def processSource_def sourceCount_def act_run split: option.splits list.splits if_splits)
    then show ?thesis using NoSource same by (simp add: specSource_def sourceEnv_def)
  next
    case (GitSource g)
    then have g: "bcGit bc = Some g" "bcBinary bc = None" "bcImages bc = []"
      by (auto simp: chosen_def split: option.splits list.splits if_splits)
    then have "processSource env bc b s = (setContextDir bc (processGitProxyConfig bc (b\<lparr>bdSource := Some (gitSourceOf bc g None)\<rparr>)), s)"
      using assms(2) by (simp add: processSource_def sourceCount_def act_run)
    then show ?thesis using GitSource g
      by (simp add: specSource_def sourceEnv_def processGitProxyConfig_def gitEnv_eq addEnv_source setContextDir_some
          gitSourceOf_def sourceOf_def)
  next
    case LocalSource
    then have "bcGit bc = None" "bcBinary bc = Some ''''" "bcImages bc = []"
      by (auto simp: chosen_def split: option.splits list.splits if_splits)
    then show ?thesis using LocalSource
      by (simp add: processSource_def sourceCount_def act_run setContextDir_some specSource_def sourceEnv_def
          localSource_def sourceOf_def)
  next
    case (OCISource img)
    then have g: "bcGit bc = None" "bcBinary bc = None" "bcImages bc = [img]" "isAs img = None" "isPaths img = None"
      by (auto simp: chosen_def split: option.splits list.splits if_splits)
    obtain e where e: "processBuildSourceFromField env (isFrom img) b s =
      ((if refName (isFrom img) = '''' then Inl (Error e)
        else case imageAnswer ans (refKind (isFrom img)) (refName (isFrom img)) (refNamespace (isFrom img)) (errorf '''') of
          Inl (Error _) \<Rightarrow> Inl (Error e) | Inl (Panic w) \<Rightarrow> Inl (Panic w)
        | Inr img' \<Rightarrow> Inr (b\<lparr>bdSource := Some (ociSource img' None)\<rparr>)), s)"
      using buildSource_run[OF assms(1)] by blast
    show ?thesis using OCISource g
      by (simp add: processSource_def sourceCount_def act_run bindA_def tryA_def e specSource_def sourceEnv_def same
          setContextDir_some Let_def ociSource_def sourceOf_def split: sum.split fault.split)
  qed
qed

section \<open>The whole build\<close>

lemma outputImage_run: "processOutput bc b = bindR (derefR (bcOutputTo bc)) (\<lambda>to. Inr (b\<lparr>bdImage := outputImage bc to\<rparr>))"
  by (cases "bcOutputTo bc") (simp_all add: processOutput_def outputImage_def namespaceOr_def derefR_def)

lemma processPushSecret_eq: "processPushSecret bc b =
   b\<lparr>bdPushSecret := (if bcPushSecret bc \<in> {None, Some []} then bdPushSecret b else bcPushSecret bc)\<rparr>"
  by (simp add: processPushSecret_def split: option.split)

lemma build_run:
  assumes "answered env ans" "can_write env disk bc"
  shows "\<exists>now s'. buildFor env t bc s = (specBuild ans t bc now, s') \<and>
    (\<forall>b. specBuild ans t bc now = Inr b \<longrightarrow> account_written env t bc (disk s) (disk s')) \<and>
    other_files (accountPath env t bc) (disk s) (disk s') \<and> (getPullSecret bc = None \<longrightarrow> s' = s)"
proof -
  obtain now where now: "timeNow env s = (Inr now, s)" using answered_run(4)[OF assms(1)] by blast
  let ?b0 = "newBuild bc now"
  obtain s' where s': "processStrategy env t bc ?b0 s = (bindR (specStrategy ans bc) (\<lambda>r. Inr (strategyInto ?b0 r)), s')"
      "\<forall>r. specStrategy ans bc = Inr r \<longrightarrow> account_written env t bc (disk s) (disk s')"
      "other_files (accountPath env t bc) (disk s) (disk s')" "getPullSecret bc = None \<longrightarrow> s' = s"
    using strategy_run[OF assms, of ?b0 t s] unfolding newBuild_def by fastforce
  have "buildFor env t bc s = (specBuild ans t bc now, s')"
  proof (cases "specStrategy ans bc")
    case (Inl e)
    then show ?thesis using now s'(1) by (simp add: buildFor_def bindA_def specBuild_def)
  next
    case (Inr r)
    obtain st ps es where r: "r = (st, ps, es)" by (cases r)
    let ?b1 = "processPushSecret bc (strategyInto ?b0 r)"
    have src: "bdSource ?b1 = None"
      by (simp add: r strategyInto_def processPushSecret_def newBuild_def addParams_def addEnv_def split: option.split)
    show ?thesis using Inr now s'(1) source_run[OF assms(1) src, of bc s']
      by (cases "specSource ans bc"; cases "bcOutputTo bc")
        (simp_all add: buildFor_def bindA_def act_run specBuild_def outputImage_run addRegistries_eq processPushSecret_eq r strategyInto_def
          newBuild_def addParams_def addEnv_def derefR_def del: addParams_simps addEnv_simps)
  qed
  moreover have "specBuild ans t bc now = Inr b \<Longrightarrow> \<exists>r. specStrategy ans bc = Inr r" for b
    by (auto simp: specBuild_def bindR_eq_Inr)
  ultimately show ?thesis using s'(2-4) by (intro exI[of _ now] exI[of _ s']) simp
qed

end
