(* ===== verification/BuildProps.thy ===== *)
theory BuildProps
  imports BuildSteps
begin

text \<open>
  The conversion as a whole: which files a run leaves, what it does at the first build
  configuration it cannot convert, and which faults it does not report.
\<close>

section \<open>Paths\<close>

definition buildPath :: "'s convert_env \<Rightarrow> convertOptions \<Rightarrow> buildConfig \<Rightarrow> string" where
  "buildPath env t bc = joinPath [joinPath [coExportDir t, ''builds'', coNamespace t],
     groupVersionPath env ''Build'' ''shipwright.io/v1beta1'' (bcNamespace bc) (bcName bc)]"

definition configPath :: "'s convert_env \<Rightarrow> convertOptions \<Rightarrow> buildConfig \<Rightarrow> string" where
  "configPath env t bc = joinPath [joinPath [coExportDir t, ''buildconfigs'', coNamespace t],
     groupVersionPath env ''BuildConfig'' ''build.openshift.io/v1'' (bcNamespace bc) (bcName bc)]"

definition typedConfig :: "buildConfig \<Rightarrow> buildConfig" where
  "typedConfig bc = bc\<lparr>bcKind := ''BuildConfig'', bcAPIVersion := ''build.openshift.io/v1''\<rparr>"

definition slashless :: "string \<Rightarrow> bool" where
  "slashless s \<longleftrightarrow> CHR ''/'' \<notin> set s"

text \<open>The names of listed objects: all in the namespace asked for, and each a path segment.\<close>

definition valid_names :: "'s convert_env \<Rightarrow> convertOptions \<Rightarrow> buildConfig list \<Rightarrow> bool" where
  "valid_names env t bcs \<longleftrightarrow> plain_elem (coNamespace t) \<and>
     list_all (\<lambda>v. slashless (fst (gvOf env v)) \<and> slashless (snd (gvOf env v)))
       [''v1'', ''shipwright.io/v1beta1'', ''build.openshift.io/v1''] \<and>
     list_all (\<lambda>bc. bcNamespace bc = coNamespace t \<and> slashless (bcName bc) \<and> slashless (bcServiceAccount bc)) bcs"

lemma plain_yaml: "slashless x \<Longrightarrow> plain_elem (x @ ''.yaml'')"
proof -
  assume "slashless x"
  moreover have "x @ ''.yaml'' \<noteq> ''''" "x @ ''.yaml'' \<noteq> ''.''" "x @ ''.yaml'' \<noteq> ''..''"
    by (auto dest: arg_cong[of _ _ last])
  ultimately show ?thesis by (simp add: plain_elem_def slashless_def)
qed

lemma plain_dirs [simp]: "plain_elem ''builds''" "plain_elem ''buildconfigs''"
  by (simp_all add: plain_elem_def)

lemma slashless_append [simp]: "slashless (a @ b) \<longleftrightarrow> slashless a \<and> slashless b"
  by (auto simp: slashless_def)

definition buildFile :: "'s convert_env \<Rightarrow> buildConfig \<Rightarrow> string" where
  "buildFile env bc = groupVersionPath env ''Build'' ''shipwright.io/v1beta1'' (bcNamespace bc) (bcName bc)"

definition configFile :: "'s convert_env \<Rightarrow> buildConfig \<Rightarrow> string" where
  "configFile env bc = groupVersionPath env ''BuildConfig'' ''build.openshift.io/v1'' (bcNamespace bc) (bcName bc)"

definition accountFile :: "'s convert_env \<Rightarrow> buildConfig \<Rightarrow> string" where
  "accountFile env bc = joinS ''_'' [''ServiceAccount'', snd (gvOf env ''v1''), bcNamespace bc, getServiceAccountName bc] @ ''.yaml''"

lemma slashless_lits [simp]: "slashless ''_''" "slashless ''Build''" "slashless ''BuildConfig''" "slashless ''ServiceAccount''"
  by (simp_all add: slashless_def)

lemma plain_slashless: "plain_elem e \<Longrightarrow> slashless e"
  by (simp add: plain_elem_def slashless_def)

lemma valid_files:
  assumes v: "valid_names env t bcs" and bc: "bc \<in> set bcs"
  shows "plain_elem (buildFile env bc)" "plain_elem (configFile env bc)" "plain_elem (accountFile env bc)"
proof -
  have n: "bcNamespace bc = coNamespace t" "slashless (bcName bc)" "slashless (bcServiceAccount bc)" "slashless (coNamespace t)"
    and g: "slashless (fst (gvOf env ''shipwright.io/v1beta1''))" "slashless (snd (gvOf env ''shipwright.io/v1beta1''))"
      "slashless (fst (gvOf env ''build.openshift.io/v1''))" "slashless (snd (gvOf env ''build.openshift.io/v1''))"
      "slashless (snd (gvOf env ''v1''))"
    using v bc unfolding valid_names_def by (auto simp: list_all_iff plain_slashless)
  show "plain_elem (buildFile env bc)" "plain_elem (configFile env bc)" "plain_elem (accountFile env bc)"
    unfolding buildFile_def configFile_def accountFile_def groupVersionPath_def
    by (rule plain_yaml; simp only: joinS.simps slashless_append slashless_lits n g getServiceAccountName_def split: if_split; simp add: n)+
qed

lemma paths_flat:
  assumes v: "valid_names env t bcs" and bc: "bc \<in> set bcs"
  shows "buildPath env t bc = joinPath (coExportDir t # [''builds'', coNamespace t, buildFile env bc])"
    "configPath env t bc = joinPath (coExportDir t # [''buildconfigs'', coNamespace t, configFile env bc])"
    "accountPath env t bc = joinPath (coExportDir t # [''builds'', coNamespace t, accountFile env bc])"
proof -
  have ns: "plain_elem (coNamespace t)" "bcNamespace bc = coNamespace t"
    using v bc by (auto simp: valid_names_def list_all_iff)
  note f = valid_files[OF v bc]
  show "buildPath env t bc = joinPath (coExportDir t # [''builds'', coNamespace t, buildFile env bc])"
    using joinPath_joinPath[of "[''builds'', coNamespace t]" "[buildFile env bc]" "coExportDir t"] ns(1) f(1)
    by (simp add: buildPath_def buildFile_def)
  show "configPath env t bc = joinPath (coExportDir t # [''buildconfigs'', coNamespace t, configFile env bc])"
    using joinPath_joinPath[of "[''buildconfigs'', coNamespace t]" "[configFile env bc]" "coExportDir t"] ns(1) f(2)
    by (simp add: configPath_def configFile_def)
  show "accountPath env t bc = joinPath (coExportDir t # [''builds'', coNamespace t, accountFile env bc])"
    using joinPath_joinPath[of "[''builds'', coNamespace t]" "[accountFile env bc]" "coExportDir t"] ns f(3)
    by (simp add: accountPath_def accountFile_def)
qed

text \<open>No file of a run is another one, except accounts of the same name.\<close>

lemma paths_distinct:
  assumes v: "valid_names env t bcs" and a: "a \<in> set bcs" and b: "b \<in> set bcs"
  shows "buildPath env t a = buildPath env t b \<longleftrightarrow> bcName a = bcName b"
    "configPath env t a = configPath env t b \<longleftrightarrow> bcName a = bcName b"
    "buildPath env t a \<noteq> accountPath env t b" "buildPath env t a \<noteq> configPath env t b"
    "accountPath env t a \<noteq> configPath env t b"
proof -
  have ns: "plain_elem (coNamespace t)" "bcNamespace a = coNamespace t" "bcNamespace b = coNamespace t"
    using v a b by (auto simp: valid_names_def list_all_iff)
  note fa = valid_files[OF v a] and fb = valid_files[OF v b]
  note pa = paths_flat[OF v a] and pb = paths_flat[OF v b]
  have inj: "joinPath (coExportDir t # [x, coNamespace t, f]) = joinPath (coExportDir t # [y, coNamespace t, g]) \<longleftrightarrow> x = y \<and> f = g"
    if "plain_elem f" "plain_elem g" "plain_elem x" "plain_elem y" for x y f g
    using joinPath_inj[of "[x, coNamespace t, f]" "[y, coNamespace t, g]" "coExportDir t"] that ns(1) by auto
  show "buildPath env t a = buildPath env t b \<longleftrightarrow> bcName a = bcName b"
    unfolding pa(1) pb(1) by (subst inj) (use fa fb in \<open>auto simp: buildFile_def groupVersionPath_def ns\<close>)
  show "configPath env t a = configPath env t b \<longleftrightarrow> bcName a = bcName b"
    unfolding pa(2) pb(2) by (subst inj) (use fa fb in \<open>auto simp: configFile_def groupVersionPath_def ns\<close>)
  show "buildPath env t a \<noteq> accountPath env t b"
    unfolding pa(1) pb(3) by (subst inj) (use fa fb in \<open>auto simp: buildFile_def accountFile_def groupVersionPath_def\<close>)
  show "buildPath env t a \<noteq> configPath env t b" "accountPath env t a \<noteq> configPath env t b"
    unfolding pa(1,3) pb(2) by (subst inj; use fa fb in simp)+
qed

section \<open>One build configuration\<close>

definition converts :: "answers \<Rightarrow> convertOptions \<Rightarrow> buildConfig \<Rightarrow> bool" where
  "converts ans t bc \<longleftrightarrow> \<not> isl (specBuild ans t bc [])"

lemma converts_any: "converts ans t bc \<Longrightarrow> \<exists>b. specBuild ans t bc now = Inr b"
  by (cases "specStrategy ans bc"; cases "specSource ans bc"; cases "bcOutputTo bc")
    (auto simp: converts_def specBuild_def derefR_def split: prod.splits)

lemma not_converts_any: "specBuild ans t bc now = Inl e \<Longrightarrow> specBuild ans t bc now' = Inl e"
  by (cases "specStrategy ans bc"; cases "specSource ans bc"; cases "bcOutputTo bc")
    (auto simp: specBuild_def derefR_def split: prod.splits)

lemma specBuild_meta: "specBuild ans t bc now = Inr b \<Longrightarrow>
   bdKind b = ''Build'' \<and> bdAPIVersion b = ''shipwright.io/v1beta1'' \<and> bdNamespace b = bcNamespace bc \<and> bdName b = bcName bc"
  by (auto simp: specBuild_def bindR_eq_Inr split: prod.splits)

lemma writeBuild_run:
  assumes "keeps_files env disk" "marshals env" "specBuild ans t bc now = Inr b"
  shows "\<exists>s'. writeBuild env t b s = (Inr (), s') \<and> disk s' = (disk s)(buildPath env t bc \<mapsto> projr (marshalBuild env b))"
proof -
  let ?d = "joinPath [coExportDir t, ''builds'', coNamespace t]"
  have p: "joinPath [?d, getBuildFilePath env b] = buildPath env t bc"
    using specBuild_meta[OF assms(3)] by (simp add: buildPath_def getBuildFilePath_def)
  obtain s1 where 1: "makeDir env ?d s = (Inr (), s1)" "disk s1 = disk s" using makeDir_run[OF assms(1)] by blast
  obtain s2 where 2: "writeOut env (buildPath env t bc) (marshalBuild env b) s1 = (Inr (), s2)"
      "disk s2 = (disk s1)(buildPath env t bc \<mapsto> projr (marshalBuild env b))"
    using writeOut_run[OF assms(1)] marshals_run(2)[OF assms(2)] by metis
  show ?thesis using 1 2 by (simp add: writeBuild_def Let_def p act_simps)
qed

lemma can_writeI: "keeps_files env disk \<Longrightarrow> marshals env \<Longrightarrow> can_write env disk bc"
  by (simp add: can_write_def)

lemma one_run:
  assumes laws: "answered env ans" "keeps_files env disk" "marshals env" and c: "converts ans t bc"
  shows "\<exists>now b d s'. specBuild ans t bc now = Inr b \<and> convertOne env t bc s = (Inr (), s') \<and>
    account_written env t bc (disk s) d \<and> disk s' = d(buildPath env t bc \<mapsto> projr (marshalBuild env b))"
proof -
  obtain now s1 where 1: "buildFor env t bc s = (specBuild ans t bc now, s1)"
      "\<forall>b. specBuild ans t bc now = Inr b \<longrightarrow> account_written env t bc (disk s) (disk s1)"
    using build_run[OF laws(1) can_writeI[OF laws(2,3)]] by blast
  obtain b where b: "specBuild ans t bc now = Inr b" using converts_any[OF c] by blast
  obtain s2 where 2: "writeBuild env t b s1 = (Inr (), s2)"
      "disk s2 = (disk s1)(buildPath env t bc \<mapsto> projr (marshalBuild env b))"
    using writeBuild_run[OF laws(2,3) b] by blast
  have "convertOne env t bc s = (Inr (), s2)"
    using 1(1) 2(1) b by (simp add: convertOne_def bindA_def tryA_def retA_def)
  then show ?thesis using b 1(2) 2(2) by blast
qed

lemma one_fails:
  assumes laws: "answered env ans" "keeps_files env disk" "marshals env" and c: "specBuild ans t bc [] = Inl e"
  shows "\<exists>s'. convertOne env t bc s = (Inl e, s') \<and> other_files (accountPath env t bc) (disk s) (disk s')"
proof -
  obtain now s1 where 1: "buildFor env t bc s = (specBuild ans t bc now, s1)"
      "other_files (accountPath env t bc) (disk s) (disk s1)"
    using build_run[OF laws(1) can_writeI[OF laws(2,3)]] by blast
  moreover have "specBuild ans t bc now = Inl e" using not_converts_any[OF c] .
  ultimately show ?thesis by (auto simp: convertOne_def bindA_def)
qed

lemma account_frame: "account_written env t bc d d' \<Longrightarrow> p \<noteq> accountPath env t bc \<Longrightarrow> d' p = d p"
  by (auto simp: account_written_def split: option.splits)

section \<open>The loop\<close>

definition build_on_disk :: "'s convert_env \<Rightarrow> answers \<Rightarrow> convertOptions \<Rightarrow> files \<Rightarrow> buildConfig \<Rightarrow> bool" where
  "build_on_disk env ans t d bc \<longleftrightarrow>
     (\<exists>now b. specBuild ans t bc now = Inr b \<and> d (buildPath env t bc) = Some (projr (marshalBuild env b)))"

definition run_paths :: "'s convert_env \<Rightarrow> convertOptions \<Rightarrow> buildConfig list \<Rightarrow> string set" where
  "run_paths env t bcs = buildPath env t ` set bcs \<union> accountPath env t ` set bcs"

lemma loop_run:
  assumes laws: "answered env ans" "keeps_files env disk" "marshals env"
    and v: "valid_names env t all" and sub: "set bcs \<subseteq> set all" and c: "list_all (converts ans t) bcs"
    and dist: "distinct (map bcName bcs)"
  shows "\<exists>s'. forA (convertOne env t) bcs s = (Inr (), s') \<and> list_all (build_on_disk env ans t (disk s')) bcs \<and>
    (\<forall>p. p \<notin> run_paths env t bcs \<longrightarrow> disk s' p = disk s p)"
  using sub c dist
proof (induction bcs arbitrary: s)
  case Nil
  then show ?case by simp
next
  case (Cons bc bcs)
  obtain now b d s1 where 1: "specBuild ans t bc now = Inr b" "convertOne env t bc s = (Inr (), s1)"
      "account_written env t bc (disk s) d" "disk s1 = d(buildPath env t bc \<mapsto> projr (marshalBuild env b))"
    using one_run[OF laws] Cons.prems by fastforce
  obtain s2 where 2: "forA (convertOne env t) bcs s1 = (Inr (), s2)" "list_all (build_on_disk env ans t (disk s2)) bcs"
      "\<forall>p. p \<notin> run_paths env t bcs \<longrightarrow> disk s2 p = disk s1 p"
    using Cons.IH[of s1] Cons.prems by auto
  have "buildPath env t bc \<notin> run_paths env t bcs"
    using Cons.prems paths_distinct(1,3)[OF v] by (fastforce simp: run_paths_def)
  then have "disk s2 (buildPath env t bc) = Some (projr (marshalBuild env b))" using 1(4) 2(3) by simp
  moreover have "disk s2 p = disk s p" if "p \<notin> run_paths env t (bc # bcs)" for p
    using that 2(3) 1(4) account_frame[OF 1(3)] by (simp add: run_paths_def)
  moreover have "build_on_disk env ans t (disk s2) bc"
    using calculation(1) 1(1) unfolding build_on_disk_def by blast
  ultimately show ?case using 1(2) 2(1,2) by auto
qed

lemma loop_append: "forA f (xs @ ys) s = (case forA f xs s of (Inl e, s') \<Rightarrow> (Inl e, s') | (Inr _, s') \<Rightarrow> forA f ys s')"
  by (induction xs arbitrary: s) (simp_all split: prod.split sum.split)

section \<open>The copies of the build configurations\<close>

lemma configs_run:
  assumes "keeps_files env disk" "marshals env" and v: "valid_names env t all" and sub: "set bcs \<subseteq> set all"
    and dist: "distinct (map bcName bcs)"
  shows "\<exists>s'. writeConfigFiles env (joinPath [coExportDir t, ''buildconfigs'', coNamespace t]) bcs s = (Inr (), s') \<and>
    list_all (\<lambda>bc. disk s' (configPath env t bc) = Some (projr (marshalConfig env (typedConfig bc)))) bcs \<and>
    (\<forall>p. p \<notin> configPath env t ` set bcs \<longrightarrow> disk s' p = disk s p)"
  using sub dist
proof (induction bcs arbitrary: s)
  case Nil
  then show ?case by (simp add: retA_def)
next
  case (Cons bc bcs)
  let ?d = "joinPath [coExportDir t, ''buildconfigs'', coNamespace t]"
  have p: "joinPath [?d, getBuildConfigFilePath env (typedConfig bc)] = configPath env t bc"
    by (simp add: configPath_def getBuildConfigFilePath_def typedConfig_def)
  obtain s1 where 1: "writeOut env (configPath env t bc) (marshalConfig env (typedConfig bc)) s = (Inr (), s1)"
      "disk s1 = (disk s)(configPath env t bc \<mapsto> projr (marshalConfig env (typedConfig bc)))"
    using writeOut_run[OF assms(1)] marshals_run(1)[OF assms(2)] by metis
  obtain s2 where 2: "writeConfigFiles env ?d bcs s1 = (Inr (), s2)"
      "list_all (\<lambda>bc. disk s2 (configPath env t bc) = Some (projr (marshalConfig env (typedConfig bc)))) bcs"
      "\<forall>p. p \<notin> configPath env t ` set bcs \<longrightarrow> disk s2 p = disk s1 p"
    using Cons.IH[of s1] Cons.prems by auto
  have "writeConfigFiles env ?d (bc # bcs) s = (Inr (), s2)"
    using 1(1) 2(1) p by (simp add: Let_def typedConfig_def bindA_def tryA_def)
  moreover have "configPath env t bc \<notin> configPath env t ` set bcs"
    using Cons.prems paths_distinct(2)[OF v] by fastforce
  ultimately show ?case using 1(2) 2 by auto
qed

lemma write_configs_run:
  assumes "keeps_files env disk" "marshals env" and v: "valid_names env t bcs" and dist: "distinct (map bcName bcs)"
  shows "\<exists>s'. writeBuildConfigs env t bcs s = (Inr (), s') \<and>
    list_all (\<lambda>bc. disk s' (configPath env t bc) = Some (projr (marshalConfig env (typedConfig bc)))) bcs \<and>
    (\<forall>p. p \<notin> configPath env t ` set bcs \<longrightarrow> disk s' p = disk s p)"
proof -
  let ?d = "joinPath [coExportDir t, ''buildconfigs'', coNamespace t]"
  obtain s1 where 1: "makeDir env ?d s = (Inr (), s1)" "disk s1 = disk s" using makeDir_run[OF assms(1)] by blast
  show ?thesis using configs_run[OF assms(1,2) v subset_refl dist, of s1] 1
    by (simp add: writeBuildConfigs_def Let_def thenA_Inr[where m = "makeDir env ?d"])
qed

lemma configs_not_run_paths:
  assumes v: "valid_names env t bcs" and a: "bc \<in> set bcs" and sub: "set cs \<subseteq> set bcs"
  shows "configPath env t bc \<notin> run_paths env t cs"
  using paths_distinct(4,5)[OF v _ a] sub by (force simp: run_paths_def)

section \<open>Runs\<close>

text \<open>A client, a disk and YAML for evaluation: the state is the content of the disk.\<close>

definition gv_ref :: "string \<Rightarrow> string \<times> string" where
  "gv_ref v = (case splitN2 CHR ''/'' v of [g, w] \<Rightarrow> (g, w) | _ \<Rightarrow> ('''', v))"

definition ref_env :: "answers \<Rightarrow> buildConfig list \<Rightarrow> files convert_env" where
  "ref_env ans bcs = \<lparr>
     listBuildConfigs = (\<lambda>ns d. (Inr bcs, d)),
     getImageStreamTag = (\<lambda>n d. (ansTag ans n, d)),
     getImageStreamImage = (\<lambda>n d. (ansImage ans n, d)),
     getPullSecretObject = (\<lambda>n d. (ansSecret ans n, d)),
     timeNow = (\<lambda>d. (Inr ''now'', d)),
     mkdirAll = (\<lambda>p m d. (Inr (), d)),
     createFile = (\<lambda>p d. (Inr (), d(p \<mapsto> []))),
     writeFile = (\<lambda>p x d. case d p of Some y \<Rightarrow> (Inr (), d(p \<mapsto> y @ x)) | None \<Rightarrow> (Inl (Error (errorf ''closed'')), d)),
     closeFile = (\<lambda>p d. (Inr (), d)),
     marshalConfig = (\<lambda>c. Inr (bcName c)),
     marshalBuild = (\<lambda>b. Inr (bdImage b)),
     marshalAccount = (\<lambda>a. Inr (concat (saPullSecrets a))),
     gvOf = gv_ref\<rparr>"

lemma ref_env_laws: "answered (ref_env ans bcs) ans" "keeps_files (ref_env ans bcs) id" "marshals (ref_env ans bcs)"
  "listBuildConfigs (ref_env ans bcs) ns d = (Inr bcs, d)"
  by (simp_all add: ref_env_def answered_def keeps_files_def marshals_def)

definition sampleRef :: objectRef where
  "sampleRef = \<lparr>refKind = ''DockerImage'', refNamespace = '''', refName = ''img''\<rparr>"

definition sampleSource :: sourceStrategy where
  "sampleSource = \<lparr>ssFrom = sampleRef, ssPullSecret = Some ''first'', ssEnv = [], ssScripts = '''', ssIncremental = None,
     ssForcePull = False, ssVolumes = []\<rparr>"

definition sampleConfig :: "string \<Rightarrow> string \<Rightarrow> buildConfig" where
  "sampleConfig name sec = \<lparr>bcKind = '''', bcAPIVersion = '''', bcNamespace = ''ns'', bcName = name, bcServiceAccount = ''sa'',
     bcStrategyType = ''Source'', bcDocker = None, bcSource = Some (sampleSource\<lparr>ssPullSecret := Some sec\<rparr>), bcGit = None, bcBinary = None,
     bcImages = [], bcContextDir = '''', bcSourceSecret = None, bcOutputTo = Some sampleRef, bcPushSecret = None, bcRest = ''''\<rparr>"

definition sampleOptions :: convertOptions where
  "sampleOptions = \<lparr>coNamespace = ''ns'', coResourceType = ''BuildConfigs'', coSearchRegistries = [], coInsecureRegistries = [],
     coBlockRegistries = [], coExportDir = ''/out''\<rparr>"

definition sampleAnswers :: answers where
  "sampleAnswers = \<lparr>ansTag = (\<lambda>_. Inr None), ansImage = (\<lambda>_. Inr ''img''),
     ansSecret = (\<lambda>_. Inr \<lparr>pullType = ''kubernetes.io/dockercfg'', pullData = fmupd ''.dockercfg'' ''x'' fmempty\<rparr>)\<rparr>"

lemma sample_converts: "sec \<noteq> '''' \<Longrightarrow> converts sampleAnswers sampleOptions (sampleConfig name sec)"
  by (simp add: converts_def specBuild_def specStrategy_def specSource_def sampleConfig_def sampleSource_def sampleRef_def
      sampleAnswers_def sampleOptions_def chosen_def fromParam_def imageAnswer_def BuildStrategyDockerType_def
      BuildStrategySourceType_def specSecret_def getPullSecret_def checkPullSecret_def pullSecretKey_def
      ImageStreamTag_def ImageStreamImage_def DockerImage_def)

lemma sample_valid: "list_all slashless ns \<Longrightarrow>
   valid_names (ref_env ans all) sampleOptions (map (\<lambda>n. sampleConfig n sec) ns)"
  by (simp add: valid_names_def ref_env_def gv_ref_def sampleOptions_def sampleConfig_def plain_elem_def slashless_def list_all_iff)

text \<open>
  C12. A conversion whose every build configuration can be converted succeeds, and afterwards the export
  directory holds, for each of them, the copy of the build configuration and the build that the
  specification describes; and it holds nothing else new but service accounts.
\<close>

theorem convert_writes_everything:
  assumes "answered env ans" "keeps_files env disk" "marshals env"
    and "listBuildConfigs env (coNamespace t) s = (Inr bcs, s)" and "coResourceType t = ''BuildConfigs''"
    and "valid_names env t bcs" and "distinct (map bcName bcs)" and "list_all (converts ans t) bcs"
  shows "\<exists>s'. Convert env t s = (Inr (), s') \<and>
    list_all (\<lambda>bc. disk s' (configPath env t bc) = Some (projr (marshalConfig env (typedConfig bc))) \<and>
      build_on_disk env ans t (disk s') bc) bcs \<and>
    (\<forall>p. p \<notin> run_paths env t bcs \<union> configPath env t ` set bcs \<longrightarrow> disk s' p = disk s p)"
proof -
  obtain s1 where 1: "writeBuildConfigs env t bcs s = (Inr (), s1)"
      "list_all (\<lambda>bc. disk s1 (configPath env t bc) = Some (projr (marshalConfig env (typedConfig bc)))) bcs"
      "\<forall>p. p \<notin> configPath env t ` set bcs \<longrightarrow> disk s1 p = disk s p"
    using write_configs_run[OF assms(2,3,6,7)] by blast
  obtain s2 where 2: "forA (convertOne env t) bcs s1 = (Inr (), s2)" "list_all (build_on_disk env ans t (disk s2)) bcs"
      "\<forall>p. p \<notin> run_paths env t bcs \<longrightarrow> disk s2 p = disk s1 p"
    using loop_run[OF assms(1-3,6) subset_refl assms(8,7)] by blast
  have "Convert env t s = (Inr (), s2)"
    using assms(4,5) 1(1) 2(1) by (simp add: Convert_def convertBuildConfigs_def bindA_def thenA_def)
  moreover have "disk s2 (configPath env t bc) = Some (projr (marshalConfig env (typedConfig bc)))" if "bc \<in> set bcs" for bc
    using that 1(2) 2(3) configs_not_run_paths[OF assms(6) that subset_refl] by (simp add: list_all_iff)
  ultimately show ?thesis using 2(2,3) 1(3) by (auto simp: list_all_iff)
qed

theorem convert_writes_everything_witness:
  "let bcs = [sampleConfig ''a'' ''sec'', sampleConfig ''b'' ''sec'']; env = ref_env sampleAnswers bcs in
   \<exists>s'. Convert env sampleOptions (\<lambda>_. None) = (Inr (), s') \<and>
    list_all (\<lambda>bc. id s' (configPath env sampleOptions bc) = Some (projr (marshalConfig env (typedConfig bc))) \<and>
      build_on_disk env sampleAnswers sampleOptions (id s') bc) bcs"
proof -
  let ?bcs = "map (\<lambda>n. sampleConfig n ''sec'') [''a'', ''b'']"
  have v: "valid_names (ref_env sampleAnswers ?bcs) sampleOptions ?bcs"
    by (rule sample_valid) (simp add: slashless_def)
  have c: "list_all (converts sampleAnswers sampleOptions) ?bcs" by (simp add: sample_converts)
  have d: "distinct (map bcName ?bcs)" by (simp add: sampleConfig_def)
  have "coResourceType sampleOptions = ''BuildConfigs''" by (simp add: sampleOptions_def)
  from convert_writes_everything[OF ref_env_laws(1-3) ref_env_laws(4) this v d c, of "\<lambda>_. None"]
  show ?thesis by (auto simp: Let_def)
qed

text \<open>
  C37. The first build configuration that cannot be converted ends the run with its error: the builds
  before it are on disk, and no build of a later one is written or changed.
\<close>

theorem convert_stops_at_first_error:
  assumes "answered env ans" "keeps_files env disk" "marshals env"
    and "listBuildConfigs env (coNamespace t) s = (Inr (pre @ bc # post), s)" and "coResourceType t = ''BuildConfigs''"
    and "valid_names env t (pre @ bc # post)" and "distinct (map bcName (pre @ bc # post))"
    and "list_all (converts ans t) pre" and "specBuild ans t bc [] = Inl e"
  shows "\<exists>s'. Convert env t s = (Inl e, s') \<and> list_all (build_on_disk env ans t (disk s')) pre \<and>
    list_all (\<lambda>c. disk s' (buildPath env t c) = disk s (buildPath env t c)) (bc # post)"
proof -
  let ?bcs = "pre @ bc # post"
  have sub: "set pre \<subseteq> set ?bcs" by auto
  have dist: "distinct (map bcName pre)" using assms(7) by simp
  obtain s1 where 1: "writeBuildConfigs env t ?bcs s = (Inr (), s1)"
      "\<forall>p. p \<notin> configPath env t ` set ?bcs \<longrightarrow> disk s1 p = disk s p"
    using write_configs_run[OF assms(2,3,6,7)] by blast
  obtain s2 where 2: "forA (convertOne env t) pre s1 = (Inr (), s2)" "list_all (build_on_disk env ans t (disk s2)) pre"
      "\<forall>p. p \<notin> run_paths env t pre \<longrightarrow> disk s2 p = disk s1 p"
    using loop_run[OF assms(1-3,6) sub assms(8) dist] by blast
  obtain s3 where 3: "convertOne env t bc s2 = (Inl e, s3)" "other_files (accountPath env t bc) (disk s2) (disk s3)"
    using one_fails[OF assms(1-3,9)] by blast
  have "Convert env t s = (Inl e, s3)"
    using assms(4,5) 1(1) 2(1) 3(1) by (simp add: Convert_def convertBuildConfigs_def bindA_def thenA_def loop_append)
  moreover have keep: "disk s3 (buildPath env t c) = disk s2 (buildPath env t c)" if "c \<in> set ?bcs" for c
    using 3(2) paths_distinct(3)[OF assms(6) that] by (simp add: other_files_def)
  moreover have "disk s2 (buildPath env t c) = disk s (buildPath env t c)" if c: "c \<in> set (bc # post)" for c
  proof -
    have c': "c \<in> set ?bcs" using c by auto
    have "buildPath env t c \<notin> run_paths env t pre"
    proof
      assume "buildPath env t c \<in> run_paths env t pre"
      then consider a where "a \<in> set pre" "buildPath env t c = buildPath env t a"
        | a where "a \<in> set pre" "buildPath env t c = accountPath env t a"
        unfolding run_paths_def by blast
      then show False
      proof cases
        case 1
        then have "bcName c = bcName a" using paths_distinct(1)[OF assms(6) c' , of a] by simp
        moreover have "bcName a \<notin> bcName ` set (bc # post)"
          using assms(7) 1(1) unfolding map_append distinct_append by (metis disjoint_iff image_eqI list.set_map)
        ultimately show False using c by (metis image_eqI)
      next
        case 2
        then show False using paths_distinct(3)[OF assms(6) c', of a] by simp
      qed
    qed
    moreover have "buildPath env t c \<notin> configPath env t ` set ?bcs"
      using paths_distinct(4)[OF assms(6) c'] by blast
    ultimately show ?thesis using 2(3) 1(2) by simp
  qed
  ultimately show ?thesis using 2(2) by (auto simp: list_all_iff build_on_disk_def)
qed

theorem convert_stops_at_first_error_witness:
  "let bc = (sampleConfig ''b'' ''sec'')\<lparr>bcOutputTo := None\<rparr>; bcs = [sampleConfig ''a'' ''sec'', bc, sampleConfig ''c'' ''sec''];
       env = ref_env sampleAnswers bcs in
   \<exists>s' e. Convert env sampleOptions (\<lambda>_. None) = (Inl e, s') \<and> build_on_disk env sampleAnswers sampleOptions (id s') (hd bcs) \<and>
    id s' (buildPath env sampleOptions (sampleConfig ''c'' ''sec'')) = None"
proof -
  let ?pre = "[sampleConfig ''a'' ''sec'']"
  let ?bc = "(sampleConfig ''b'' ''sec'')\<lparr>bcOutputTo := None\<rparr>"
  let ?post = "[sampleConfig ''c'' ''sec'']"
  let ?env = "ref_env sampleAnswers (?pre @ ?bc # ?post)"
  have v: "valid_names ?env sampleOptions (?pre @ ?bc # ?post)"
    by (simp add: valid_names_def ref_env_def gv_ref_def sampleOptions_def sampleConfig_def plain_elem_def slashless_def)
  have d: "distinct (map bcName (?pre @ ?bc # ?post))" by (simp add: sampleConfig_def)
  have c: "list_all (converts sampleAnswers sampleOptions) ?pre" by (simp add: sample_converts)
  have o: "coResourceType sampleOptions = ''BuildConfigs''" by (simp add: sampleOptions_def)
  have "isl (specBuild sampleAnswers sampleOptions ?bc [])"
    by (cases "specStrategy sampleAnswers ?bc"; cases "specSource sampleAnswers ?bc")
      (auto simp: specBuild_def derefR_def split: prod.split)
  then obtain e where "specBuild sampleAnswers sampleOptions ?bc [] = Inl e" by (cases "specBuild sampleAnswers sampleOptions ?bc []") auto
  from convert_stops_at_first_error[OF ref_env_laws(1-3) ref_env_laws(4) o v d c this, of "\<lambda>_. None"]
  show ?thesis by (auto simp: Let_def)
qed

text \<open>
  C3. Step by step, the conversion of a build configuration computes the build that the specification
  writes down field by field: strategy, parameters in their order, environment, source, output and
  push secret; and it fails with the specification's error or panic when there is none.
\<close>

theorem conversion_meets_specification:
  assumes "answered env ans" and "keeps_files env disk" and "marshals env"
  shows "\<exists>now s'. buildFor env t bc s = (specBuild ans t bc now, s')"
  using build_run[OF assms(1) can_writeI[OF assms(2,3)]] by blast

theorem conversion_meets_specification_witness:
  "\<exists>now s' b. buildFor (ref_env sampleAnswers []) sampleOptions (sampleConfig ''a'' ''sec'') (\<lambda>_. None) =
     (specBuild sampleAnswers sampleOptions (sampleConfig ''a'' ''sec'') now, s') \<and>
     specBuild sampleAnswers sampleOptions (sampleConfig ''a'' ''sec'') now = Inr b"
  using conversion_meets_specification[OF ref_env_laws(1-3)] converts_any[OF sample_converts] by blast

end
