(* ===== verification/BuildFaults.thy ===== *)
theory BuildFaults
  imports BuildProps
begin

text \<open>
  What every converted build satisfies whatever the cluster answers, and what the conversion loses:
  service accounts that share a name, resolved image sources, and errors of the file system.
\<close>

section \<open>Shapes\<close>

text \<open>A source has exactly the part its type names.\<close>

definition well_typed_source :: "shpSource \<Rightarrow> bool" where
  "well_typed_source src \<longleftrightarrow>
     (shGit src \<noteq> None) = (shType src = GitType) \<and> (shLocal src \<noteq> None) = (shType src = LocalType) \<and>
     (shOCI src \<noteq> None) = (shType src = OCIArtifactType)"

text \<open>A parameter has a single value or a list, never both.\<close>

definition param_ok :: "paramValue \<Rightarrow> bool" where
  "param_ok p \<longleftrightarrow> pvSingle p = None \<or> pvValues p = []"

definition well_typed_build :: "shpBuild \<Rightarrow> bool" where
  "well_typed_build b \<longleftrightarrow> pred_option well_typed_source (bdSource b) \<and>
     list_all param_ok (bdParams b) \<and>
     fst (bdStrategy b) \<in> {None, Some ClusterBuildStrategyKind} \<and>
     (fst (bdStrategy b) \<noteq> None) = (snd (bdStrategy b) \<in> {''buildah'', ''source-to-image''}) \<and> bdVolumes b = []"

lemma param_ok_simps [simp]: "param_ok (singleParam n v)" "param_ok (valuesParam n vs)"
  by (simp_all add: param_ok_def singleParam_def valuesParam_def)

text \<open>The strategies touch the strategy, parameters and environment only.\<close>

definition grown :: "shpBuild \<Rightarrow> shpBuild \<Rightarrow> bool" where
  "grown b b' \<longleftrightarrow> (\<exists>ps es. b' = b\<lparr>bdParams := bdParams b @ ps, bdEnv := bdEnv b @ es\<rparr> \<and> list_all param_ok ps)"

lemma grownI: "b' = b\<lparr>bdParams := bdParams b @ ps, bdEnv := bdEnv b @ es\<rparr> \<Longrightarrow> list_all param_ok ps \<Longrightarrow> grown b b'"
  unfolding grown_def by blast

lemma grown_refl [simp]: "grown b b"
  by (rule grownI[where ps="[]" and es="[]"]) simp_all

lemma grown_params: "list_all param_ok ps \<Longrightarrow> grown b (addParams ps b)"
  by (rule grownI[where ps=ps and es="[]"]) (simp_all add: addParams_def)

lemma grown_env: "grown b (addEnv es b)"
  by (rule grownI[where ps="[]" and es=es]) (simp_all add: addEnv_def)

lemma grown_trans:
  assumes "grown a b" and "grown b c"
  shows "grown a c"
proof -
  obtain ps es qs fs where "b = a\<lparr>bdParams := bdParams a @ ps, bdEnv := bdEnv a @ es\<rparr>" "list_all param_ok ps"
      "c = b\<lparr>bdParams := bdParams b @ qs, bdEnv := bdEnv b @ fs\<rparr>" "list_all param_ok qs"
    using assms by (auto simp: grown_def)
  then have "c = a\<lparr>bdParams := bdParams a @ (ps @ qs), bdEnv := bdEnv a @ (es @ fs)\<rparr> \<and> list_all param_ok (ps @ qs)" by simp
  then show ?thesis unfolding grown_def by blast
qed

lemma dockerParams_ok: "list_all param_ok (dockerParams ds)"
  by (simp add: dockerParams_def paramIf_def)

lemma sourceParams_ok: "list_all param_ok (sourceParams ss)"
  by (simp add: sourceParams_def paramIf_def)

lemma registryParams_ok: "list_all param_ok (registryParams t)"
  by (simp add: registryParams_def)

lemma from_docker_grown:
  assumes "processDockerStrategyFromField env bc b s = (Inr b', s')"
  shows "grown b b'"
proof -
  obtain ds where "bcDocker bc = Some ds" using assms
    by (cases "bcDocker bc") (simp_all add: processDockerStrategyFromField_def derefR_def bindA_def pureA_def)
  with assms consider "b' = b" | m where "bindA m (\<lambda>img. retA (addParam (singleParam RuntimeStageFromParamName img) b)) s = (Inr b', s')"
    by (auto simp: processDockerStrategyFromField_def bindA_def[of "pureA _"] act_run Let_def split: option.splits if_split_asm)
  then show ?thesis
  proof cases
    case 2
    then obtain img where "b' = addParam (singleParam RuntimeStageFromParamName img) b" by (auto simp: bindA_eq_Inr retA_def)
    then show ?thesis by (simp add: grown_params)
  qed simp
qed

lemma from_source_grown:
  "processStrategyFromField env bc b s = (Inr b', s') \<Longrightarrow> grown b b'"
  by (auto simp: processStrategyFromField_def bindA_eq_Inr act_run Let_def intro!: grown_params
      split: option.splits if_splits)

lemma strategy_grown:
  assumes "processStrategy env t bc b s = (Inr b', s')"
  shows "\<exists>st. (bdStrategy b' = bdStrategy b \<or> bdStrategy b' = (Some ClusterBuildStrategyKind, st) \<and> st \<in> {''buildah'', ''source-to-image''}) \<and>
    grown (b\<lparr>bdStrategy := bdStrategy b'\<rparr>) b'"
proof -
  consider (docker) ds b1 where "grown (b\<lparr>bdStrategy := (Some ClusterBuildStrategyKind, ''buildah'')\<rparr>) b1"
      "b' = addParams (dockerParams ds) (addEnv (dsEnv ds) b1)"
    | (source) ss b1 where "grown (b\<lparr>bdStrategy := (Some ClusterBuildStrategyKind, ''source-to-image'')\<rparr>) b1"
      "b' = addParams (sourceParams ss) (addEnv (ssEnv ss) b1)"
    | (other) "b' = b"
  proof -
    consider (d) "bcStrategyType bc = BuildStrategyDockerType" | (s) "bcStrategyType bc = BuildStrategySourceType"
      | (o) "bcStrategyType bc \<notin> {BuildStrategyDockerType, BuildStrategySourceType}" by blast
    then show ?thesis
    proof cases
      case d
      with assms show ?thesis
        by (auto simp: processStrategy_def dockerStrategyOf_def Let_def bindA_eq_Inr thenA_eq_Inr act_run dockerParams_run
            simp del: addParams_simps addEnv_simps dest!: from_docker_grown intro: docker)
    next
      case s
      with assms show ?thesis
        by (auto simp: processStrategy_def sourceStrategyOf_def Let_def bindA_eq_Inr thenA_eq_Inr act_run sourceParams_run
            simp del: addParams_simps addEnv_simps dest!: from_source_grown intro: source source[OF grown_refl] split: if_splits)
    next
      case o
      with assms other show ?thesis by (auto simp: processStrategy_def act_run)
    qed
  qed
  then show ?thesis
  proof cases
    case docker
    have "grown b1 b'" unfolding docker(2)
      by (rule grown_trans[OF grown_env grown_params[OF dockerParams_ok]])
    with docker(1) have g: "grown (b\<lparr>bdStrategy := (Some ClusterBuildStrategyKind, ''buildah'')\<rparr>) b'" by (rule grown_trans)
    then have "bdStrategy b' = (Some ClusterBuildStrategyKind, ''buildah'')" by (auto simp: grown_def)
    then show ?thesis using g by auto
  next
    case source
    have "grown b1 b'" unfolding source(2)
      by (rule grown_trans[OF grown_env grown_params[OF sourceParams_ok]])
    with source(1) have g: "grown (b\<lparr>bdStrategy := (Some ClusterBuildStrategyKind, ''source-to-image'')\<rparr>) b'" by (rule grown_trans)
    then have "bdStrategy b' = (Some ClusterBuildStrategyKind, ''source-to-image'')" by (auto simp: grown_def)
    then show ?thesis using g by auto
  next
    case other
    then show ?thesis by simp
  qed
qed

lemma git_env: "\<exists>es. processGitProxyConfig bc b = addEnv es b"
proof (cases "bcGit bc")
  case None
  then have "processGitProxyConfig bc b = addEnv [] b" by (simp add: processGitProxyConfig_def)
  then show ?thesis by blast
next
  case (Some g)
  then show ?thesis unfolding processGitProxyConfig_def Some option.case by blast
qed

lemma grown_fields: "grown b b' \<Longrightarrow> bdSource b' = bdSource b \<and> bdVolumes b' = bdVolumes b \<and> bdStrategy b' = bdStrategy b \<and>
    (list_all param_ok (bdParams b) \<longrightarrow> list_all param_ok (bdParams b'))"
  unfolding grown_def by fastforce

text \<open>The source step changes the source, and the environment when the source is a repository.\<close>

lemma processSource_shape:
  assumes "processSource env bc b s = (Inr b', s')" and "bdSource b = None"
  shows "\<exists>src. grown (b\<lparr>bdSource := src\<rparr>) b' \<and> pred_option well_typed_source src \<and>
    (\<forall>x. Option.bind src shOCI = Some x \<longrightarrow> (\<exists>img. bcImages bc = [img] \<and> ociImage x = refName (isFrom img)))"
proof -
  have nosrc: "b\<lparr>bdSource := None\<rparr> = b" using assms(2) by simp
  from assms consider (same) "b' = b"
    | (git) g where "b' = (processGitProxyConfig bc b)\<lparr>bdSource := Some ((gitSourceOf bc g None)\<lparr>shContextDir := optDir (bcContextDir bc)\<rparr>)\<rparr>"
    | (binary) "b' = b\<lparr>bdSource := Some (localSource\<lparr>shContextDir := optDir (bcContextDir bc)\<rparr>)\<rparr>"
    | (oci) img where "bcImages bc = [img]"
       "b' = b\<lparr>bdSource := Some ((ociSource (refName (isFrom img)) (isPullSecret img))\<lparr>shContextDir := optDir (bcContextDir bc)\<rparr>)\<rparr>"
  proof -
    show ?thesis
    proof (cases "bcGit bc")
      case (Some g)
      with assms have "b' = b \<or> setContextDir bc (processGitProxyConfig bc (b\<lparr>bdSource := Some (gitSourceOf bc g None)\<rparr>)) = Inr b'"
        by (auto simp: processSource_def act_run split: if_split_asm)
      with Some that(1) that(2)[of g] show ?thesis
        by (auto simp: processGitProxyConfig_def addEnv_source setContextDir_some)
    next
      case None
      note git = None
      show ?thesis
      proof (cases "bcBinary bc")
        case (Some f)
        with assms git have "b' = b \<or> setContextDir bc (b\<lparr>bdSource := Some (localSource\<lparr>shContextDir := optDir (bcContextDir bc)\<rparr>)\<rparr>) = Inr b'"
          by (auto simp: processSource_def act_run split: if_split_asm)
        with that(1,3) show ?thesis by (auto simp: setContextDir_some)
      next
        case None
        show ?thesis
        proof (cases "\<exists>img. bcImages bc = [img]")
          case True
          then obtain img where img: "bcImages bc = [img]" by blast
          let ?m = "processBuildSourceFromField env (isFrom img) b"
          have "b' = b \<or> (\<exists>b1 s1. ?m s = (Inr b1, s1) \<and>
              setContextDir bc (b1\<lparr>bdSource := Some (ociSource (refName (isFrom img)) (isPullSecret img))\<rparr>) = Inr b')"
            using assms git None img
            by (auto simp: processSource_def bindA_def tryA_def act_run split: if_split_asm prod.splits sum.splits fault.splits)
          moreover have "\<exists>src. b1 = b\<lparr>bdSource := src\<rparr>" if "?m s = (Inr b1, s1)" for b1 s1
            using that by (auto simp: processBuildSourceFromField_def bindA_eq_Inr act_run split: if_split_asm)
          ultimately show ?thesis using that(1) that(4)[OF img] by (auto simp: setContextDir_some)
        next
          case False
          then have "b' = b" using assms git None
            by (auto simp: processSource_def act_run split: if_split_asm list.splits)
          then show ?thesis by (rule that(1))
        qed
      qed
    qed
  qed
  then show ?thesis
  proof cases
    case same
    then have "grown (b\<lparr>bdSource := None\<rparr>) b'" by (simp add: nosrc)
    then show ?thesis by (intro exI[of _ None]) simp
  next
    case (git g)
    let ?src = "(gitSourceOf bc g None)\<lparr>shContextDir := optDir (bcContextDir bc)\<rparr>"
    obtain es where "processGitProxyConfig bc b = addEnv es b" using git_env by blast
    then have "b' = addEnv es (b\<lparr>bdSource := Some ?src\<rparr>)" using git by (simp add: addEnv_source)
    then have "grown (b\<lparr>bdSource := Some ?src\<rparr>) b'" by (simp add: grown_env)
    then show ?thesis by (intro exI[of _ "Some ?src"]) (simp add: well_typed_source_def gitSourceOf_def sourceOf_def)
  next
    case binary
    then show ?thesis
      by (intro exI[of _ "Some (localSource\<lparr>shContextDir := optDir (bcContextDir bc)\<rparr>)"])
        (simp add: well_typed_source_def localSource_def sourceOf_def)
  next
    case (oci img)
    then show ?thesis
      by (intro exI[of _ "Some ((ociSource (refName (isFrom img)) (isPullSecret img))\<lparr>shContextDir := optDir (bcContextDir bc)\<rparr>)"])
        (simp add: well_typed_source_def ociSource_def sourceOf_def)
  qed
qed

text \<open>
  C18. Every build the conversion makes is well typed, whatever the cluster and the clock answer: a
  source has exactly the part its type names, a parameter has one value or a list of values, and
  the strategy is a cluster build strategy with a name or no strategy at all.
\<close>

theorem builds_are_well_typed:
  assumes "buildFor env t bc s = (Inr b, s')"
  shows "well_typed_build b"
proof -
  obtain now b1 b2 b3 s1 s2 s3 where 1: "processStrategy env t bc (newBuild bc now) s1 = (Inr b1, s2)"
      and 2: "processSource env bc (processPushSecret bc b1) s2 = (Inr b2, s3)"
      and 3: "processOutput bc b2 = Inr b3" and 4: "b = addRegistries t b3"
    using assms by (auto simp: buildFor_def bindA_eq_Inr act_run)
  obtain st where st: "bdStrategy b1 = (None, []) \<or> bdStrategy b1 = (Some ClusterBuildStrategyKind, st) \<and> st \<in> {''buildah'', ''source-to-image''}"
      and g1: "grown ((newBuild bc now)\<lparr>bdStrategy := bdStrategy b1\<rparr>) b1"
    using strategy_grown[OF 1] by (auto simp: newBuild_def)
  have b1: "bdSource b1 = None" "list_all param_ok (bdParams b1)" "bdVolumes b1 = []"
    using grown_fields[OF g1] by (simp_all add: newBuild_def)
  let ?b = "processPushSecret bc b1"
  have p: "bdSource ?b = None" "bdParams ?b = bdParams b1" "bdVolumes ?b = []" "bdStrategy ?b = bdStrategy b1"
    using b1 by (simp_all add: processPushSecret_eq)
  obtain src where g2: "grown (?b\<lparr>bdSource := src\<rparr>) b2" and src: "pred_option well_typed_source src"
    using processSource_shape[OF 2 p(1)] by blast
  have b2: "bdSource b2 = src" "list_all param_ok (bdParams b2)" "bdVolumes b2 = []" "bdStrategy b2 = bdStrategy b1"
    using grown_fields[OF g2] p b1 by simp_all
  have b3: "bdSource b3 = src" "bdParams b3 = bdParams b2" "bdVolumes b3 = []" "bdStrategy b3 = bdStrategy b1"
    using 3 b2 by (auto simp: outputImage_run bindR_eq_Inr)
  have "bdSource b = src" "bdParams b = bdParams b2 @ registryParams t" "bdVolumes b = []" "bdStrategy b = bdStrategy b1"
    using b3 by (simp_all add: 4 addRegistries_eq) (simp_all add: addParams_def)
  then show ?thesis using st src b2(2) registryParams_ok[of t] by (auto simp: well_typed_build_def)
qed

theorem builds_are_well_typed_witness:
  "\<exists>b. fst (buildFor (ref_env sampleAnswers []) sampleOptions (sampleConfig ''a'' ''sec'') (\<lambda>_. None)) = Inr b \<and> well_typed_build b"
proof -
  obtain now s' where 1: "buildFor (ref_env sampleAnswers []) sampleOptions (sampleConfig ''a'' ''sec'') (\<lambda>_. None)
     = (specBuild sampleAnswers sampleOptions (sampleConfig ''a'' ''sec'') now, s')"
    using build_run[OF ref_env_laws(1) can_writeI[OF ref_env_laws(2,3)]] by blast
  obtain b where "specBuild sampleAnswers sampleOptions (sampleConfig ''a'' ''sec'') now = Inr b"
    using converts_any[OF sample_converts] by blast
  then show ?thesis using 1 builds_are_well_typed[of "ref_env sampleAnswers []"] by simp
qed

section \<open>What is lost\<close>

text \<open>
  C38. An image source keeps the name the build configuration has: the image that its tag or its image
  stream resolves to is looked up and then overwritten, whatever the cluster answers.
\<close>

theorem image_source_is_not_resolved:
  assumes "processSource env bc b s = (Inr b', s')" and "bdSource b = None"
    and "bdSource b' = Some src" and "shOCI src = Some oci"
  shows "\<exists>img. bcImages bc = [img] \<and> ociImage oci = refName (isFrom img)"
proof -
  obtain src' where "grown (b\<lparr>bdSource := src'\<rparr>) b'"
      "\<forall>x. Option.bind src' shOCI = Some x \<longrightarrow> (\<exists>img. bcImages bc = [img] \<and> ociImage x = refName (isFrom img))"
    using processSource_shape[OF assms(1,2)] by blast
  moreover from grown_fields[OF this(1)] have "src' = Some src" using assms(3) by simp
  ultimately show ?thesis using assms(4) by simp
qed

definition imageConfig :: buildConfig where
  "imageConfig = (sampleConfig ''a'' ''sec'')\<lparr>bcImages := [\<lparr>isFrom = \<lparr>refKind = ''ImageStreamTag'', refNamespace = ''ns'', refName = ''app:1''\<rparr>,
     isAs = None, isPaths = None, isPullSecret = None\<rparr>]\<rparr>"

definition imageAnswers :: answers where
  "imageAnswers = sampleAnswers\<lparr>ansTag := (\<lambda>_. Inr (Some ''registry/app@sha256:1''))\<rparr>"

lemma image_source_run: "processSource (ref_env imageAnswers []) imageConfig (newBuild imageConfig []) (\<lambda>_. None) =
   (Inr ((newBuild imageConfig [])\<lparr>bdSource := Some (ociSource ''app:1'' None)\<rparr>), \<lambda>_. None)"
proof -
  have "bdSource (newBuild imageConfig []) = None" by (simp add: newBuild_def)
  from source_run[OF ref_env_laws(1) this, where bc = imageConfig] show ?thesis
    by (simp add: imageConfig_def imageAnswers_def sampleConfig_def sampleAnswers_def specSource_def sourceEnv_def chosen_def
        imageAnswer_def ImageStreamTag_def optDir_def ociSource_def sourceOf_def)
qed

theorem image_source_is_not_resolved_witness:
  "\<exists>img. bcImages imageConfig = [img] \<and> ociImage \<lparr>ociImage = ''app:1'', ociPullSecret = None\<rparr> = refName (isFrom img)"
  by (rule image_source_is_not_resolved[OF image_source_run, of "ociSource ''app:1'' None"])
    (simp_all add: newBuild_def ociSource_def sourceOf_def)

text \<open>
  Two build configurations that use the same service account write the same file: the account on
  disk names the pull secret of the last one only.
\<close>

theorem shared_account_keeps_last_secret:
  assumes "answered env ans" "keeps_files env disk" "marshals env"
    and "listBuildConfigs env (coNamespace t) s = (Inr [a, b], s)" and "valid_names env t [a, b]"
    and "bcName a \<noteq> bcName b" and "list_all (converts ans t) [a, b]" and "getServiceAccountName a = getServiceAccountName b"
    and "bcStrategyType b \<in> {BuildStrategyDockerType, BuildStrategySourceType}" and "getPullSecret b = Some sec"
  shows "\<exists>s' sa. convertBuildConfigs env t s = (Inr (), s') \<and> saPullSecrets sa = [sec] \<and>
    disk s' (accountPath env t a) = Some (projr (marshalAccount env sa))"
proof -
  have same: "accountPath env t a = accountPath env t b"
    using assms(5,8) by (simp add: accountPath_def valid_names_def)
  obtain s1 where 1: "writeBuildConfigs env t [a, b] s = (Inr (), s1)"
    using write_configs_run[OF assms(2,3,5)] assms(6) by auto
  obtain s2 where 2: "convertOne env t a s1 = (Inr (), s2)"
    using one_run[OF assms(1-3), of t a s1] assms(7) by auto
  obtain now bd d s3 where 3: "convertOne env t b s2 = (Inr (), s3)" "account_written env t b (disk s2) d"
      "disk s3 = d(buildPath env t b \<mapsto> projr (marshalBuild env bd))"
    using one_run[OF assms(1-3), of t b s2] assms(7) by auto
  obtain now' where "d = (disk s2)(accountPath env t b \<mapsto> projr (marshalAccount env (accountFor b sec now')))"
    using 3(2) assms(9,10) by (auto simp: account_written_def split: if_splits)
  moreover have "buildPath env t b \<noteq> accountPath env t b"
    using paths_distinct(3)[OF assms(5), of b b] by simp
  ultimately have "disk s3 (accountPath env t a) = Some (projr (marshalAccount env (accountFor b sec now')))"
    using 3(3) same by simp
  moreover have "convertBuildConfigs env t s = (Inr (), s3)"
    using assms(4) 1 2 3(1) by (simp add: convertBuildConfigs_def bindA_def thenA_def)
  ultimately show ?thesis by (intro exI[of _ s3] exI[of _ "accountFor b sec now'"]) (simp add: accountFor_def)
qed

theorem shared_account_keeps_last_secret_witness:
  "\<exists>s' sa. convertBuildConfigs (ref_env sampleAnswers [sampleConfig ''a'' ''first'', sampleConfig ''b'' ''second'']) sampleOptions (\<lambda>_. None)
      = (Inr (), s') \<and> saPullSecrets sa = [''second''] \<and>
    id s' (accountPath (ref_env sampleAnswers [sampleConfig ''a'' ''first'', sampleConfig ''b'' ''second'']) sampleOptions (sampleConfig ''a'' ''first''))
      = Some (projr (marshalAccount (ref_env sampleAnswers [sampleConfig ''a'' ''first'', sampleConfig ''b'' ''second'']) sa))"
proof -
  let ?a = "sampleConfig ''a'' ''first''" and ?b = "sampleConfig ''b'' ''second''"
  have v: "valid_names (ref_env sampleAnswers [?a, ?b]) sampleOptions [?a, ?b]"
    by (simp add: valid_names_def ref_env_def gv_ref_def sampleOptions_def sampleConfig_def plain_elem_def slashless_def)
  have n: "bcName ?a \<noteq> bcName ?b" "getServiceAccountName ?a = getServiceAccountName ?b"
      "bcStrategyType ?b \<in> {BuildStrategyDockerType, BuildStrategySourceType}" "getPullSecret ?b = Some ''second''"
    by (simp_all add: sampleConfig_def getServiceAccountName_def BuildStrategySourceType_def getPullSecret_def)
  have c: "list_all (converts sampleAnswers sampleOptions) [?a, ?b]" by (simp add: sample_converts)
  show ?thesis by (rule shared_account_keeps_last_secret[OF ref_env_laws(1-3) ref_env_laws(4) v n(1) c n(2-4)])
qed

text \<open>
  C39. No error of writing is reported: when no file can be created, a conversion without pull secrets
  still returns no error, and leaves no file.
\<close>

theorem convert_hides_write_errors:
  assumes "answered env ans" and "listBuildConfigs env (coNamespace t) s = (Inr bcs, s)"
    and dir: "\<And>p s. mkdirAll env p 448 s = (Inr (), s)" and create: "\<And>p s. createFile env p s = (Inl (Error e), s)"
    and "list_all (\<lambda>bc. converts ans t bc \<and> getPullSecret bc = None) bcs"
  shows "convertBuildConfigs env t s = (Inr (), s)"
proof -
  have w: "writeOut env p x s = (Inl (Error e), s)" for p x s
    by (simp add: writeOut_def thenA_def bindA_def create)
  have m: "makeDir env d s = (Inr (), s)" for d s
    by (simp add: makeDir_def bindA_def tryA_def dir retA_def)
  have "writeConfigFiles env d bcs s = (Inr (), s)" for d s
    by (induction bcs arbitrary: s) (simp_all add: Let_def bindA_def tryA_def w retA_def)
  then have c: "writeBuildConfigs env t bcs s = (Inr (), s)"
    by (simp add: writeBuildConfigs_def Let_def thenA_def bindA_def m)
  have one: "convertOne env t bc s = (Inr (), s)" if cv: "converts ans t bc" and np: "getPullSecret bc = None" for bc s
  proof -
    obtain now where 1: "buildFor env t bc s = (specBuild ans t bc now, s)"
      using build_run[OF assms(1), of "\<lambda>_ _. None" bc t s] np by (auto simp: can_write_def)
    obtain b where "specBuild ans t bc now = Inr b" using converts_any[OF cv] by blast
    with 1 show ?thesis
      by (simp add: convertOne_def bindA_def tryA_def writeBuild_def Let_def thenA_def m w retA_def)
  qed
  have "forA (convertOne env t) bcs s = (Inr (), s)"
    using assms(5) by (induction bcs) (simp_all add: one)
  then show ?thesis using assms(2) c by (simp add: convertBuildConfigs_def bindA_def thenA_def)
qed

definition plainConfig :: buildConfig where
  "plainConfig = (sampleConfig ''a'' '''')\<lparr>bcSource := Some (sampleSource\<lparr>ssPullSecret := None\<rparr>)\<rparr>"

theorem convert_hides_write_errors_witness:
  "convertBuildConfigs ((ref_env sampleAnswers [plainConfig])\<lparr>createFile := (\<lambda>p d. (Inl (Error (errorf ''disk full'')), d))\<rparr>)
     sampleOptions (\<lambda>_. None) = (Inr (), \<lambda>_. None)"
proof -
  have "list_all (\<lambda>bc. converts sampleAnswers sampleOptions bc \<and> getPullSecret bc = None) [plainConfig]"
    by (simp add: plainConfig_def converts_def specBuild_def specStrategy_def specSource_def sampleConfig_def sampleSource_def
        sampleRef_def sampleOptions_def chosen_def fromParam_def imageAnswer_def BuildStrategyDockerType_def
        BuildStrategySourceType_def specSecret_def getPullSecret_def ImageStreamTag_def ImageStreamImage_def DockerImage_def)
  then show ?thesis
    by (intro convert_hides_write_errors[where ans = sampleAnswers and bcs = "[plainConfig]"])
      (simp_all add: ref_env_def answered_def)
qed

end
