(* ===== verification/Endpoints.thy ===== *)
theory Endpoints
  imports KubeObjects
begin

text \<open>
  \<open>state_transfer/endpoint\<close>: how the two clusters reach each other, by a service, an ingress
  or a route. An endpoint is a mutable object in the code; here every method that writes to
  its receiver returns the new one, beside the error, since the writes before an error stay.
  \<open>md5\<close> is the hexadecimal digest, \<open>agg\<close> the aggregation of errors.
\<close>

record 's endpoint_client =
  eServices :: "('s, service) kind_api"
  eIngresses :: "('s, ingress) kind_api"
  eRoutes :: "('s, route) kind_api"

text \<open>The digest is 32 hexadecimal digits.\<close>

definition md5_law :: "(string \<Rightarrow> string) \<Rightarrow> bool" where
  "md5_law md5 \<longleftrightarrow> (\<forall>s. length (md5 s) = 32 \<and> set (md5 s) \<subseteq> set ''0123456789abcdef'')"

text \<open>
  The interface \<open>Endpoint\<close>: what its getters answer. \<open>Create\<close> returns the endpoint as its method
  left it, or the error.
\<close>

record endpoint_info =
  epHostname :: string
  epPort :: "32 word"
  epExposedPort :: "32 word"
  epName :: namespacedName
  epLabels :: labels

definition endpointCreate :: "('s, 'e \<times> goerror option) act \<Rightarrow> ('s, 'e) act" where
  "endpointCreate create = bindA create (\<lambda>(e, err). case err of
     Some err' \<Rightarrow> failA (Error err') | None \<Rightarrow> retA e)"

section \<open>Services\<close>

record serviceEndpoint =
  seName :: namespacedName
  seHostname :: string
  seType :: string
  seLabels :: labels
  seBackendPort :: "32 word"
  seExposedPort :: "32 word"

definition newServiceEndpoint :: "namespacedName \<Rightarrow> labels \<Rightarrow> string \<Rightarrow> string \<Rightarrow> serviceEndpoint" where
  "newServiceEndpoint nn ls hostname ty = \<lparr>seName = nn, seHostname = hostname, seType = ty,
     seLabels = ls, seBackendPort = 6443, seExposedPort = 6443\<rparr>"

definition serviceInfo :: "serviceEndpoint \<Rightarrow> endpoint_info" where
  "serviceInfo s = \<lparr>epHostname = seHostname s, epPort = seBackendPort s, epExposedPort = seExposedPort s,
     epName = seName s, epLabels = seLabels s\<rparr>"

text \<open>The labels of the service carry the host name, so that it can be found again.\<close>

definition getSvcLabels :: "serviceEndpoint \<Rightarrow> labels" where
  "getSvcLabels e = fmupd ''hostname'' (seHostname e) (seLabels e)"

definition serviceOf :: "serviceEndpoint \<Rightarrow> service" where
  "serviceOf e = \<lparr>svcMeta = objectMetaOf (nnNamespace (seName e)) (nnName (seName e)) (getSvcLabels e),
     svcPorts = [\<lparr>spName = nnName (seName e), spProtocol = ''TCP'', spPort = seExposedPort e, spTargetPort = seBackendPort e, spNodePort = 0\<rparr>],
     svcSelector = seLabels e, svcType = seType e, svcClusterIP = [], svcIngress = []\<rparr>"

definition createService :: "'s endpoint_client \<Rightarrow> serviceEndpoint \<Rightarrow> ('s, unit) act" where
  "createService c e = createIfAbsent (eServices c) (serviceOf e)"

definition serviceCreate :: "'s endpoint_client \<Rightarrow> serviceEndpoint \<Rightarrow> ('s, unit) act" where
  "serviceCreate c e = createService c e"

text \<open>\<open>svc.Labels["hostname"]\<close>, empty when absent.\<close>

definition labelOf :: "labels \<Rightarrow> string \<Rightarrow> string" where
  "labelOf ls k = (case fmlookup ls k of None \<Rightarrow> [] | Some v \<Rightarrow> v)"

definition clusterHost :: "service \<Rightarrow> serviceEndpoint \<Rightarrow> serviceEndpoint" where
  "clusterHost svc e = (if labelOf (rmLabels (svcMeta svc)) ''hostname'' \<noteq> []
     then e\<lparr>seHostname := labelOf (rmLabels (svcMeta svc)) ''hostname''\<rparr> else e)"

text \<open>
  \<open>IsHealthy\<close> after the service was read: the endpoint with what the service says, and the
  verdict. A service without ports panics.
\<close>

definition serviceHealth :: "service \<Rightarrow> serviceEndpoint \<Rightarrow> (serviceEndpoint \<times> bool ret) result" where
  "serviceHealth svc e0 =
     (if svcPorts svc = [] then Inl (Panic ''index out of range'')
      else
        (let port = hd (svcPorts svc);
             e = e0\<lparr>seBackendPort := spTargetPort port, seExposedPort := spPort port, seLabels := rmLabels (svcMeta svc)\<rparr>;
             invalid = Inl (errorf ''service status is not in valid state'')
         in if svcType svc = ''LoadBalancer'' then
              (case svcIngress svc of
                 [] \<Rightarrow> Inr (e, invalid)
               | (host, ip) # _ \<Rightarrow>
                   (let e1 = (if host \<noteq> [] then e\<lparr>seHostname := host\<rparr> else e);
                        e2 = (if ip \<noteq> [] then e1\<lparr>seHostname := ip\<rparr> else e1)
                    in Inr (e2, Inr True)))
            else if svcType svc = ''ClusterIP'' then
              Inr (clusterHost svc (if svcClusterIP svc \<noteq> [] then e\<lparr>seHostname := svcClusterIP svc\<rparr> else e), Inr True)
            else if svcType svc = ''NodePort'' then
              (let e1 = (if svcClusterIP svc \<noteq> [] then
                           (if spNodePort port \<noteq> 0 then e\<lparr>seHostname := svcClusterIP svc, seExposedPort := spNodePort port\<rparr>
                            else e\<lparr>seHostname := svcClusterIP svc\<rparr>)
                         else e)
               in Inr (clusterHost svc e1, Inr True))
            else Inr (e, Inl (errorf (''unsupported service type '' @ seType e)))))"

definition serviceIsHealthy :: "'s endpoint_client \<Rightarrow> serviceEndpoint \<Rightarrow> ('s, serviceEndpoint \<times> bool ret) act" where
  "serviceIsHealthy c e = bindA (tryA (k_get (eServices c) (seName e))) (\<lambda>r. case r of
     Inl err \<Rightarrow> retA (e, Inl err)
   | Inr svc \<Rightarrow> pureA (serviceHealth svc e))"

text \<open>The zero endpoint the lookup starts from has only a name.\<close>

definition serviceFromKube :: "'s endpoint_client \<Rightarrow> namespacedName \<Rightarrow> ('s, serviceEndpoint) act" where
  "serviceFromKube c obj =
     bindA (serviceIsHealthy c \<lparr>seName = obj, seHostname = [], seType = [], seLabels = fmempty,
        seBackendPort = 0, seExposedPort = 0\<rparr>) (\<lambda>(r, healthy). case healthy of
       Inl err \<Rightarrow> failA (Error err)
     | Inr h \<Rightarrow> if \<not> h then failA (Error (errorf ''endpoint not healthy'')) else retA r)"

section \<open>Ingresses\<close>

record ingressEndpoint =
  ieHostname :: string
  ieLabels :: labels
  iePort :: "32 word"
  ieName :: namespacedName

definition ingressPrefix :: "(string \<Rightarrow> string) \<Rightarrow> namespacedName \<Rightarrow> string" where
  "ingressPrefix md5 nn =
     (let p = nnName nn @ ''-'' @ nnNamespace nn in
      if length p > 62 then nnName nn @ ''-'' @ md5 (nnNamespace nn) else p)"

definition newIngressEndpoint :: "(string \<Rightarrow> string) \<Rightarrow> namespacedName \<Rightarrow> labels \<Rightarrow> string \<Rightarrow> ingressEndpoint" where
  "newIngressEndpoint md5 nn ls subdomain = \<lparr>ieHostname = ingressPrefix md5 nn @ ''.'' @ subdomain,
     ieLabels = ls, iePort = 6443, ieName = nn\<rparr>"

definition ingressInfo :: "ingressEndpoint \<Rightarrow> endpoint_info" where
  "ingressInfo i = \<lparr>epHostname = ieHostname i, epPort = iePort i, epExposedPort = 443,
     epName = ieName i, epLabels = ieLabels i\<rparr>"

definition nodePortServiceOf :: "namespacedName \<Rightarrow> labels \<Rightarrow> 32 word \<Rightarrow> string \<Rightarrow> service" where
  "nodePortServiceOf nn ls port ty = \<lparr>svcMeta = objectMetaOf (nnNamespace nn) (nnName nn) ls,
     svcPorts = [\<lparr>spName = nnName nn, spProtocol = ''TCP'', spPort = port, spTargetPort = port, spNodePort = 0\<rparr>],
     svcSelector = ls, svcType = ty, svcClusterIP = [], svcIngress = []\<rparr>"

definition createIngressService :: "'s endpoint_client \<Rightarrow> ingressEndpoint \<Rightarrow> ('s, unit) act" where
  "createIngressService c i = createIfAbsent (eServices c) (nodePortServiceOf (ieName i) (ieLabels i) (iePort i) ''NodePort'')"

definition ingressOf :: "ingressEndpoint \<Rightarrow> ingress" where
  "ingressOf i = \<lparr>ingMeta = (objectMetaOf (nnNamespace (ieName i)) (nnName (ieName i)) (ieLabels i))
       \<lparr>rmAnnotations := fmupd ''nginx.ingress.kubernetes.io/ssl-passthrough'' ''true'' fmempty\<rparr>,
     ingHosts = [ieHostname i], ingPath = (''/'', ''Prefix''), ingBackend = (nnName (ieName i), iePort i), ingStatusHosts = []\<rparr>"

definition createIngress :: "'s endpoint_client \<Rightarrow> ingressEndpoint \<Rightarrow> ('s, unit) act" where
  "createIngress c i = createIfAbsent (eIngresses c) (ingressOf i)"

definition ingressCreate :: "aggregator \<Rightarrow> 's endpoint_client \<Rightarrow> ingressEndpoint \<Rightarrow> ('s, unit) act" where
  "ingressCreate agg c i =
     bindA (errOfA (createIngressService c i)) (\<lambda>e1.
     bindA (errOfA (createIngress c i)) (\<lambda>e2.
     errorA (newAggregate agg [e1, e2])))"

definition ingressHealth :: "ingress \<Rightarrow> bool ret" where
  "ingressHealth ing =
     (if length (ingHosts ing) > 0 \<and> ingHosts ing ! 0 = [] then Inl (errorf ''hostname not set for ingress'')
      else if length (ingStatusHosts ing) > 0 \<and> ingStatusHosts ing ! 0 \<noteq> [] then Inr True
      else Inr False)"

definition ingressIsHealthy :: "'s endpoint_client \<Rightarrow> ingressEndpoint \<Rightarrow> ('s, bool) act" where
  "ingressIsHealthy c i = bindA (k_get (eIngresses c) (ieName i)) (\<lambda>ing. pureA (liftR (ingressHealth ing)))"

definition ingressSetFields :: "'s endpoint_client \<Rightarrow> ingressEndpoint \<Rightarrow> ('s, ingressEndpoint \<times> goerror option) act" where
  "ingressSetFields c i0 =
     (let i = i0\<lparr>iePort := 6443\<rparr> in
      bindA (tryA (k_get (eIngresses c) (ieName i))) (\<lambda>r. retA (case r of
        Inl err \<Rightarrow> (i, Some err)
      | Inr ing \<Rightarrow>
          (let i1 = i\<lparr>ieLabels := rmLabels (ingMeta ing)\<rparr> in
           if length (ingHosts ing) > 0 then (i1\<lparr>ieHostname := ingHosts ing ! 0\<rparr>, None)
           else (i1, Some (errorf ''ingress does not have the right spec''))))))"

text \<open>The error of \<open>setFields\<close> is assigned and not looked at.\<close>

definition ingressFromKube :: "'s endpoint_client \<Rightarrow> namespacedName \<Rightarrow> ('s, ingressEndpoint) act" where
  "ingressFromKube c obj =
     (let i = \<lparr>ieHostname = [], ieLabels = fmempty, iePort = 0, ieName = obj\<rparr> in
      bindA (ingressIsHealthy c i) (\<lambda>healthy.
      if \<not> healthy then failA (Error (errorf ''ingress not healthy''))
      else bindA (ingressSetFields c i) (\<lambda>(i', err). retA i')))"

section \<open>Routes\<close>

definition EndpointTypePassthrough :: string where "EndpointTypePassthrough = ''EndpointTypePassthrough''"
definition EndpointTypeInsecureEdge :: string where "EndpointTypeInsecureEdge = ''EndpointTypeInsecureEdge''"

record routeEndpoint =
  reHostname :: string
  reSubdomain :: string
  reLabels :: labels
  rePort :: "32 word"
  reType :: string
  reName :: namespacedName

definition newRouteEndpoint :: "namespacedName \<Rightarrow> string \<Rightarrow> labels \<Rightarrow> string \<Rightarrow> routeEndpoint result" where
  "newRouteEndpoint nn eType ls subdomain =
     (if eType \<noteq> EndpointTypePassthrough \<and> eType \<noteq> EndpointTypeInsecureEdge
      then Inl (Panic ''unsupported endpoint type for routes'')
      else Inr \<lparr>reHostname = [], reSubdomain = subdomain, reLabels = ls, rePort = 0, reType = eType, reName = nn\<rparr>)"

definition routeInfo :: "routeEndpoint \<Rightarrow> endpoint_info" where
  "routeInfo r = \<lparr>epHostname = reHostname r, epPort = rePort r, epExposedPort = 443,
     epName = reName r, epLabels = reLabels r\<rparr>"

definition routeHealth :: "route \<Rightarrow> bool ret" where
  "routeHealth rt =
     (if rtHost rt = [] then Inl (errorf ''hostname not set for rsync route'')
      else (case rtConditions rt of
          None \<Rightarrow> Inl (errorf ''route status is not in valid state'')
        | Some conds \<Rightarrow>
            if list_ex (\<lambda>(ty, status). ty = ''Admitted'' \<and> status = ''True'') conds then Inr True
            else Inl (errorf ''route status is not in valid state'')))"

definition routeIsHealthy :: "'s endpoint_client \<Rightarrow> routeEndpoint \<Rightarrow> ('s, bool) act" where
  "routeIsHealthy c r = bindA (k_get (eRoutes c) (reName r)) (\<lambda>rt. pureA (liftR (routeHealth rt)))"

definition createRouteService :: "'s endpoint_client \<Rightarrow> routeEndpoint \<Rightarrow> ('s, unit) act" where
  "createRouteService c r = createIfAbsent (eServices c) (nodePortServiceOf (reName r) (reLabels r) (rePort r) ''ClusterIP'')"

text \<open>The termination of the endpoint's type, and the port that goes with it.\<close>

definition routeTermination :: "routeEndpoint \<Rightarrow> (string \<times> string) \<times> routeEndpoint" where
  "routeTermination r =
     (if reType r = EndpointTypeInsecureEdge then ((''edge'', ''Allow''), r\<lparr>rePort := 8080\<rparr>)
      else if reType r = EndpointTypePassthrough then ((''passthrough'', []), r\<lparr>rePort := 6443\<rparr>)
      else (([], []), r))"

text \<open>The first label of the host: at most 62 bytes.\<close>

definition routePrefix :: "(string \<Rightarrow> string) \<Rightarrow> string \<Rightarrow> namespacedName \<Rightarrow> string ret" where
  "routePrefix md5 subdomain nn =
     (let p = nnName nn @ ''-'' @ nnNamespace nn in
      if length p > 62 then
        (if subdomain = [] then Inl (errorf ''no subdomain specified and route hostname is more than 63 characters'')
         else (let q = nnName nn @ ''-'' @ md5 (nnNamespace nn) in
               Inr (if length q > 62 then take 62 q else q)))
      else Inr p)"

definition routeOf :: "routeEndpoint \<Rightarrow> string \<times> string \<Rightarrow> string \<Rightarrow> route" where
  "routeOf r tls prefix = \<lparr>rtMeta = objectMetaOf (nnNamespace (reName r)) (nnName (reName r)) (reLabels r),
     rtSubdomain = reSubdomain r,
     rtHost = (if reSubdomain r \<noteq> [] then prefix @ ''.'' @ reSubdomain r else []),
     rtPort = Some (rePort r), rtTo = (''Service'', nnName (reName r)), rtTLS = Some tls, rtConditions = None\<rparr>"

definition createRoute :: "(string \<Rightarrow> string) \<Rightarrow> 's endpoint_client \<Rightarrow> routeEndpoint \<Rightarrow> ('s, routeEndpoint \<times> goerror option) act" where
  "createRoute md5 c r0 = (case routeTermination r0 of (tls, r) \<Rightarrow>
     (case routePrefix md5 (reSubdomain r) (reName r) of
        Inl err \<Rightarrow> retA (r, Some err)
      | Inr prefix \<Rightarrow>
          bindA (errOfA (createIfAbsent (eRoutes c) (routeOf r tls prefix))) (\<lambda>e. case e of
            Some err \<Rightarrow> retA (r, Some err)
          | None \<Rightarrow> bindA (tryA (k_get (eRoutes c) (reName r))) (\<lambda>g. retA (case g of
                Inl err \<Rightarrow> (r, Some err)
              | Inr rt \<Rightarrow> (r\<lparr>reHostname := rtHost rt\<rparr>, None))))))"

definition routeCreate :: "(string \<Rightarrow> string) \<Rightarrow> aggregator \<Rightarrow> 's endpoint_client \<Rightarrow> routeEndpoint
    \<Rightarrow> ('s, routeEndpoint \<times> goerror option) act" where
  "routeCreate md5 agg c r =
     bindA (createRoute md5 c r) (\<lambda>(r', e1).
     bindA (errOfA (createRouteService c r')) (\<lambda>e2.
     retA (r', newAggregate agg [e1, e2])))"

text \<open>A route without TLS panics: the configuration is a nil pointer.\<close>

definition routeFields :: "route \<Rightarrow> routeEndpoint \<Rightarrow> (routeEndpoint \<times> goerror option) result" where
  "routeFields rt r0 =
     (let r = r0\<lparr>reLabels := rmLabels (rtMeta rt)\<rparr> in
      if rtHost rt = [] then Inr (r, Some (errorf ''route has empty spec.host field''))
      else (case rtPort rt of
          None \<Rightarrow> Inr (r, Some (errorf ''route has empty spec.port field''))
        | Some port \<Rightarrow>
            (let r1 = r\<lparr>reHostname := rtHost rt, rePort := port\<rparr> in
             case rtTLS rt of
               None \<Rightarrow> Inl (Panic ''nil pointer dereference'')
             | Some (t, _) \<Rightarrow>
                 if t = ''edge'' then Inr (r1\<lparr>reType := EndpointTypeInsecureEdge\<rparr>, None)
                 else if t = ''passthrough'' then Inr (r1\<lparr>reType := EndpointTypePassthrough\<rparr>, None)
                 else Inr (r1, Some (errorf ''route has unsupported spec.spec.tls.termination value'')))))"

definition getRoute :: "'s endpoint_client \<Rightarrow> routeEndpoint \<Rightarrow> ('s, route) act" where
  "getRoute c r = k_get (eRoutes c) (reName r)"

definition routeSetFields :: "'s endpoint_client \<Rightarrow> routeEndpoint \<Rightarrow> ('s, routeEndpoint \<times> goerror option) act" where
  "routeSetFields c r = bindA (tryA (getRoute c r)) (\<lambda>g. case g of
     Inl err \<Rightarrow> retA (r, Some err)
   | Inr rt \<Rightarrow> pureA (routeFields rt r))"

definition routeFromKube :: "'s endpoint_client \<Rightarrow> namespacedName \<Rightarrow> ('s, routeEndpoint) act" where
  "routeFromKube c obj =
     (let r = \<lparr>reHostname = [], reSubdomain = [], reLabels = fmempty, rePort = 0, reType = [], reName = obj\<rparr> in
      bindA (routeIsHealthy c r) (\<lambda>healthy.
      if \<not> healthy then failA (Error (errorf ''route not healthy''))
      else bindA (routeSetFields c r) (\<lambda>(r', err). case err of
          Some e \<Rightarrow> failA (Error e) | None \<Rightarrow> retA r')))"

end
