(* ===== verification/Mutations.thy ===== *)
theory Mutations
  imports KubeObjects
begin

text \<open>
  \<open>state_transfer/meta\<close>: the pair of names of a transfer, labels and their validation, and the
  mutations a caller may apply to the pods and containers of a transfer. \<open>pod_validation\<close> holds
  the two checks of apimachinery, which answer the list of what is wrong.
\<close>

section \<open>Names and labels\<close>

text \<open>A pair of names; an empty part of the destination is taken from the source.\<close>

record nnPair =
  pairSource :: namespacedName
  pairDestination :: namespacedName

definition newNamespacedPair :: "namespacedName \<Rightarrow> namespacedName \<Rightarrow> nnPair" where
  "newNamespacedPair src dest = \<lparr>pairSource = src, pairDestination =
     \<lparr>nnNamespace = (if length (nnNamespace dest) = 0 then nnNamespace src else nnNamespace dest),
      nnName = (if length (nnName dest) = 0 then nnName src else nnName dest)\<rparr>\<rparr>"

record pod_validation =
  isQualifiedName :: "string \<Rightarrow> string list"
  isValidLabelValue :: "string \<Rightarrow> string list"

definition labelErrors :: "pod_validation \<Rightarrow> string \<Rightarrow> string \<Rightarrow> goerror option list" where
  "labelErrors V key val =
     (if length (isQualifiedName V key) > 0
      then [Some (errorf (''label key '' @ key @ '' is not a valid qualified name''))] else []) @
     (if length (isValidLabelValue V val) > 0
      then [Some (errorf (''label value '' @ key @ '' for key '' @ val @ '' is not valid''))] else [])"

text \<open>\<open>ks\<close> is the order the labels are visited in.\<close>

definition ValidateLabels :: "pod_validation \<Rightarrow> aggregator \<Rightarrow> string list \<Rightarrow> labels \<Rightarrow> goerror option" where
  "ValidateLabels V agg ks ls = newAggregate agg
     (concat (map (\<lambda>k. case fmlookup ls k of None \<Rightarrow> [] | Some v \<Rightarrow> labelErrors V k v) ks))"

lemma ValidateLabels_ok:
  assumes "enumerates ks ls"
  shows "ValidateLabels V agg ks ls = None \<longleftrightarrow>
    (\<forall>k v. fmlookup ls k = Some v \<longrightarrow> isQualifiedName V k = [] \<and> isValidLabelValue V v = [])"
proof -
  have e: "(\<forall>x\<in>set (labelErrors V k v). x = None) \<longleftrightarrow> isQualifiedName V k = [] \<and> isValidLabelValue V v = []" for k v
    by (auto simp: labelErrors_def)
  have "ValidateLabels V agg ks ls = None \<longleftrightarrow> (\<forall>k\<in>set ks. \<forall>v. fmlookup ls k = Some v \<longrightarrow>
      (\<forall>x\<in>set (labelErrors V k v). x = None))"
  proof -
    have "(\<forall>x\<in>set (case w of None \<Rightarrow> [] | Some v \<Rightarrow> labelErrors V k v). x = None) \<longleftrightarrow>
      (\<forall>v. w = Some v \<longrightarrow> (\<forall>x\<in>set (labelErrors V k v). x = None))" for k w by (cases w) auto
    then show ?thesis by (simp add: ValidateLabels_def newAggregate_None)
  qed
  then show ?thesis using enumerates_mem[OF assms] unfolding e by (metis option.distinct(1))
qed

section \<open>Mutations\<close>

definition MutationTypeMerge :: string where "MutationTypeMerge = ''merge''"
definition MutationTypeReplace :: string where "MutationTypeReplace = ''replace''"

record podmutation =
  pmType :: string
  pmSpec :: "podSpecification option"

record containermutation =
  cmuType :: string
  cmuContainer :: "container option"

record metamutation =
  mmType :: string
  mmMeta :: "resourceMeta option"

definition NewPodSpecMutation :: "podSpecification option \<Rightarrow> string \<Rightarrow> podmutation" where
  "NewPodSpecMutation spec typ = \<lparr>pmType = typ, pmSpec = spec\<rparr>"

definition NewObjectMetaMutation :: "resourceMeta option \<Rightarrow> string \<Rightarrow> metamutation" where
  "NewObjectMetaMutation m typ = \<lparr>mmType = typ, mmMeta = m\<rparr>"

definition NewContainerMutation :: "container option \<Rightarrow> string \<Rightarrow> containermutation" where
  "NewContainerMutation c typ = \<lparr>cmuType = typ, cmuContainer = c\<rparr>"

definition pmPodSecurityContext :: "podmutation \<Rightarrow> podSecurityContext option" where
  "pmPodSecurityContext m = (case pmSpec m of None \<Rightarrow> None | Some p \<Rightarrow> psSecurity p)"

definition pmNodeSelector :: "podmutation \<Rightarrow> labels" where
  "pmNodeSelector m = (case pmSpec m of None \<Rightarrow> fmempty | Some p \<Rightarrow> psNodeSelector p)"

definition pmNodeName :: "podmutation \<Rightarrow> string option" where
  "pmNodeName m = (case pmSpec m of None \<Rightarrow> None | Some p \<Rightarrow> Some (psNodeName p))"

definition cmuSecurityContext :: "containermutation \<Rightarrow> securityContext option" where
  "cmuSecurityContext m = (case cmuContainer m of None \<Rightarrow> None | Some c \<Rightarrow> ctSecurity c)"

definition cmuResources :: "containermutation \<Rightarrow> string option" where
  "cmuResources m = (case cmuContainer m of None \<Rightarrow> None | Some c \<Rightarrow> Some (ctResources c))"

definition cmuName :: "containermutation \<Rightarrow> string option" where
  "cmuName m = (case cmuContainer m of None \<Rightarrow> None | Some c \<Rightarrow> Some (ctName c))"

definition mmLabels :: "metamutation \<Rightarrow> labels" where
  "mmLabels m = (case mmMeta m of None \<Rightarrow> fmempty | Some x \<Rightarrow> rmLabels x)"

definition mmAnnotations :: "metamutation \<Rightarrow> labels" where
  "mmAnnotations m = (case mmMeta m of None \<Rightarrow> fmempty | Some x \<Rightarrow> rmAnnotations x)"

definition mmName :: "metamutation \<Rightarrow> string option" where
  "mmName m = (case mmMeta m of None \<Rightarrow> None | Some x \<Rightarrow> Some (rmName x))"

definition mmOwnerReferences :: "metamutation \<Rightarrow> ownerReference list" where
  "mmOwnerReferences m = (case mmMeta m of None \<Rightarrow> [] | Some x \<Rightarrow> rmOwners x)"

text \<open>
  Only mutations of the type replace have an effect. The node name of a mutation with a spec
  is never nil, so an empty one clears the pod's.
\<close>

definition applyPodMutation :: "podSpecification \<Rightarrow> podmutation \<Rightarrow> podSpecification" where
  "applyPodMutation spec m = (if pmType m = MutationTypeReplace then
     (let s1 = spec\<lparr>psNodeSelector := pmNodeSelector m\<rparr>;
          s2 = (case pmPodSecurityContext m of None \<Rightarrow> s1 | Some sc \<Rightarrow> s1\<lparr>psSecurity := Some sc\<rparr>)
      in case pmNodeName m of None \<Rightarrow> s2 | Some n \<Rightarrow> s2\<lparr>psNodeName := n\<rparr>)
     else spec)"

definition applyPodMutations :: "podmutation list \<Rightarrow> podSpecification \<Rightarrow> podSpecification" where
  "applyPodMutations ms spec = foldl applyPodMutation spec ms"

definition applyContainerMutation :: "container \<Rightarrow> containermutation \<Rightarrow> container" where
  "applyContainerMutation c m = (if cmuType m = MutationTypeReplace then
     (let c1 = (case cmuSecurityContext m of None \<Rightarrow> c | Some sc \<Rightarrow> c\<lparr>ctSecurity := Some sc\<rparr>)
      in case cmuResources m of None \<Rightarrow> c1 | Some r \<Rightarrow> c1\<lparr>ctResources := r\<rparr>)
     else c)"

definition applyContainerMutations :: "containermutation list \<Rightarrow> container \<Rightarrow> container" where
  "applyContainerMutations ms c = foldl applyContainerMutation c ms"

text \<open>Mutations leave alone what a transfer relies on.\<close>

lemma applyContainerMutations_keeps [simp]:
  "ctName (applyContainerMutations ms c) = ctName c" "ctImage (applyContainerMutations ms c) = ctImage c"
  "ctCommand (applyContainerMutations ms c) = ctCommand c" "ctEnv (applyContainerMutations ms c) = ctEnv c"
  "ctMounts (applyContainerMutations ms c) = ctMounts c" "ctPorts (applyContainerMutations ms c) = ctPorts c"
  unfolding applyContainerMutations_def
  by (induction ms arbitrary: c) (simp_all add: applyContainerMutation_def Let_def split: option.split)

lemma applyPodMutations_keeps [simp]:
  "psContainers (applyPodMutations ms p) = psContainers p" "psVolumes (applyPodMutations ms p) = psVolumes p"
  "psRestartPolicy (applyPodMutations ms p) = psRestartPolicy p"
  unfolding applyPodMutations_def
  by (induction ms arbitrary: p) (simp_all add: applyPodMutation_def Let_def split: option.split)

end
