(* ===== verification/Transports.thy ===== *)
theory Transports
  imports Endpoints Mutations
begin

text \<open>
  \<open>state_transfer/transport\<close>: the tunnel a transfer runs through, encrypted by stunnel or none.
  The methods that write to the receiver return the new transport beside the error. Of an
  endpoint only the values of its getters are used.
\<close>

text \<open>
  The interface \<open>Transport\<close>: what its getters answer. \<open>CreateServer\<close> and \<open>CreateClient\<close> return
  the transport as its method left it, or the error.
\<close>

record transportOptions =
  ProxyURL :: string
  ProxyUsername :: string
  ProxyPassword :: string
  NoVerifyCA :: bool
  CAVerifyLevel :: string
  StunnelClientImage :: string
  StunnelServerImage :: string

definition DefaultRsyncTransferImage :: string where
  "DefaultRsyncTransferImage = ''quay.io/konveyor/rsync-transfer:latest''"

record 's transport_client =
  tcConfigMaps :: "('s, configMap) kind_api"
  tcSecrets :: "('s, secret) kind_api"

record transport_info =
  tiType :: string
  tiPort :: "32 word"
  tiExposedPort :: "32 word"
  tiClientContainers :: "container list"
  tiClientVolumes :: "volume list"
  tiServerContainers :: "container list"
  tiServerVolumes :: "volume list"
  tiDirect :: bool
  tiPair :: nnPair
  tiOptions :: "transportOptions option"
  tiCrt :: "string option"
  tiKey :: "string option"

definition transportCreate :: "('s, 't \<times> goerror option) act \<Rightarrow> ('s, 't) act" where
  "transportCreate create = bindA create (\<lambda>(t, err). case err of
     Some err' \<Rightarrow> failA (Error err') | None \<Rightarrow> retA t)"

section \<open>The certificate\<close>

text \<open>
  The template of the self-signed certificate; key generation, signing and PEM encoding are
  the parameter. \<open>GenerateSSLCert\<close> returns the certificate twice, as CA and as certificate,
  and the key.
\<close>

record certTemplate =
  certSerial :: int
  certCommonName :: string
  certCountry :: "string list"
  certProvince :: "string list"
  certLocality :: "string list"
  certOrganization :: "string list"
  certOrganizationalUnit :: "string list"
  certYears :: nat \<comment> \<open>valid from now on\<close>
  certIsCA :: bool
  certExtKeyUsage :: "string list"
  certKeyUsage :: "string list"
  certBasicConstraintsValid :: bool

definition certTemp :: certTemplate where
  "certTemp = \<lparr>certSerial = 2020, certCommonName = ''openshift.io'', certCountry = [''US''],
     certProvince = [''NC''], certLocality = [''RDU''], certOrganization = [''Migration Engineering''],
     certOrganizationalUnit = [''Engineering''], certYears = 10, certIsCA = True,
     certExtKeyUsage = [''ClientAuth'', ''ServerAuth''], certKeyUsage = [''DigitalSignature'', ''CertSign''],
     certBasicConstraintsValid = True\<rparr>"

record ('s, 'k) crypto =
  rsaGenerateKey :: "nat \<Rightarrow> ('s, 'k) act"
  createCertificate :: "certTemplate \<Rightarrow> 'k \<Rightarrow> ('s, string) act"
  pkcs1 :: "'k \<Rightarrow> string"
  pemEncode :: "string \<Rightarrow> string \<Rightarrow> string ret"

definition GenerateSSLCert :: "('s, 'k) crypto \<Rightarrow> ('s, string \<times> string \<times> string) act" where
  "GenerateSSLCert K =
     bindA (rsaGenerateKey K 4096) (\<lambda>caPrivKey.
     bindA (createCertificate K certTemp caPrivKey) (\<lambda>caBytes.
     pureA (liftR (bindR (pemEncode K ''CERTIFICATE'' caBytes) (\<lambda>crt.
       bindR (pemEncode K ''RSA PRIVATE KEY'' (pkcs1 K caPrivKey)) (\<lambda>key. Inr (crt, crt, key)))))))"

section \<open>No tunnel\<close>

record nullTransport =
  ntPort :: "32 word"
  ntDirect :: bool
  ntPair :: nnPair

definition newNullTransport :: "nnPair \<Rightarrow> nullTransport" where
  "newNullTransport p = \<lparr>ntPort = 0, ntDirect = False, ntPair = p\<rparr>"

definition nullCreateServer :: "endpoint_info \<Rightarrow> nullTransport \<Rightarrow> nullTransport" where
  "nullCreateServer e t = t\<lparr>ntDirect := True, ntPort := epPort e\<rparr>"

definition nullCreateClient :: "endpoint_info \<Rightarrow> nullTransport \<Rightarrow> nullTransport" where
  "nullCreateClient e t = t"

definition TransportTypeNull :: string where "TransportTypeNull = ''null''"

text \<open>Nothing but these fields is ever set.\<close>

definition nullInfo :: "nullTransport \<Rightarrow> transport_info" where
  "nullInfo t = \<lparr>tiType = TransportTypeNull, tiPort = ntPort t, tiExposedPort = ntPort t, tiClientContainers = [],
     tiClientVolumes = [], tiServerContainers = [], tiServerVolumes = [], tiDirect = ntDirect t, tiPair = ntPair t,
     tiOptions = None, tiCrt = None, tiKey = None\<rparr>"

section \<open>Stunnel\<close>

definition defaultStunnelServerConfig :: string where "defaultStunnelServerConfig = ''crane2-stunnel-server-config''"
definition defaultStunnelServerSecret :: string where "defaultStunnelServerSecret = ''crane2-stunnel-server-secret''"
definition defaultStunnelClientConfig :: string where "defaultStunnelClientConfig = ''crane2-stunnel-client-config''"
definition defaultStunnelClientSecret :: string where "defaultStunnelClientSecret = ''crane2-stunnel-client-secret''"
definition StunnelContainer :: string where "StunnelContainer = ''stunnel''"

record stunnelTransport =
  stCrt :: "string option"
  stKey :: "string option"
  stPort :: "32 word"
  stServerContainers :: "container list"
  stServerVolumes :: "volume list"
  stClientContainers :: "container list"
  stClientVolumes :: "volume list"
  stDirect :: bool
  stOptions :: "transportOptions option"
  stPair :: nnPair

definition newStunnelTransport :: "nnPair \<Rightarrow> transportOptions option \<Rightarrow> stunnelTransport" where
  "newStunnelTransport p opts = \<lparr>stCrt = None, stKey = None, stPort = 0, stServerContainers = [],
     stServerVolumes = [], stClientContainers = [], stClientVolumes = [], stDirect = False,
     stOptions = opts, stPair = p\<rparr>"

definition stunnelExposedPort :: "32 word" where "stunnelExposedPort = 2222"

definition TransportTypeStunnel :: string where "TransportTypeStunnel = ''stunnel''"

definition stunnelInfo :: "stunnelTransport \<Rightarrow> transport_info" where
  "stunnelInfo s = \<lparr>tiType = TransportTypeStunnel, tiPort = stPort s, tiExposedPort = stunnelExposedPort,
     tiClientContainers = stClientContainers s, tiClientVolumes = stClientVolumes s,
     tiServerContainers = stServerContainers s, tiServerVolumes = stServerVolumes s, tiDirect = stDirect s,
     tiPair = stPair s, tiOptions = stOptions s, tiCrt = stCrt s, tiKey = stKey s\<rparr>"

definition getStunnelServerImage :: "stunnelTransport \<Rightarrow> string" where
  "getStunnelServerImage s = (case stOptions s of
     Some opts \<Rightarrow> if StunnelServerImage opts \<noteq> [] then StunnelServerImage opts else DefaultRsyncTransferImage
   | None \<Rightarrow> DefaultRsyncTransferImage)"

definition getStunnelClientImage :: "stunnelTransport \<Rightarrow> string" where
  "getStunnelClientImage s = (case stOptions s of
     Some opts \<Rightarrow> if StunnelClientImage opts \<noteq> [] then StunnelClientImage opts else DefaultRsyncTransferImage
   | None \<Rightarrow> DefaultRsyncTransferImage)"

definition withPrefix :: "string \<Rightarrow> string \<Rightarrow> string" where
  "withPrefix prefix name = (if prefix = [] then ''fs'' else prefix) @ ''-'' @ name"

text \<open>The configuration files, as their templates render. Each line ends the one before it.\<close>

definition line :: "string \<Rightarrow> string" where
  "line s = CHR 0x0A # s"

definition portText :: "32 word \<Rightarrow> string" where
  "portText p = itoa (sint p)"

definition stunnelClientBody :: "string \<Rightarrow> string \<Rightarrow> string \<Rightarrow> transportOptions \<Rightarrow> string" where
  "stunnelClientBody stunnelPort hostname port opts =
     line '' pid ='' @ line '' sslVersion = TLSv1.2'' @ line '' client = yes'' @ line '' syslog = no'' @
     line '' output = /dev/stdout'' @ line '' [rsync]'' @ line '' debug = 7'' @
     line ('' accept = '' @ stunnelPort) @ line '' cert = /etc/stunnel/certs/tls.crt'' @
     line '' key = /etc/stunnel/certs/tls.key'' @
     (if ProxyURL opts \<noteq> [] then
        line '' protocol = connect'' @ line ('' connect = '' @ ProxyURL opts) @
        line ('' protocolHost = '' @ hostname @ '':'' @ port) @
        (if ProxyUsername opts \<noteq> [] then line ('' protocolUsername = '' @ ProxyUsername opts) else []) @
        (if ProxyPassword opts \<noteq> [] then line ('' protocolPassword = '' @ ProxyPassword opts) else [])
      else line ('' connect = '' @ hostname @ '':'' @ port))"

text \<open>The template compares the text of the flag with \<open>"false"\<close>.\<close>

definition stunnelClientConf :: "string \<Rightarrow> string \<Rightarrow> string \<Rightarrow> transportOptions \<Rightarrow> string \<Rightarrow> string" where
  "stunnelClientConf stunnelPort hostname port opts caVerifyLevel =
     stunnelClientBody stunnelPort hostname port opts @
     (if (if NoVerifyCA opts then ''true'' else ''false'') \<noteq> ''false'' then line ('' verify = '' @ caVerifyLevel) else []) @
     line []"

definition stunnelServerConf :: "string \<Rightarrow> string \<Rightarrow> string" where
  "stunnelServerConf acceptPort connectPort =
     ''foreground = yes'' @ line ''pid ='' @ line ''socket = l:TCP_NODELAY=1'' @ line ''socket = r:TCP_NODELAY=1'' @
     line ''debug = 7'' @ line ''sslVersion = TLSv1.2'' @ line ''[rsync]'' @ line (''accept = '' @ acceptPort) @
     line (''connect = '' @ connectPort) @ line ''key = /etc/stunnel/certs/tls.key'' @
     line ''cert = /etc/stunnel/certs/tls.crt'' @ line ''TIMEOUTclose = 0'' @ line []"

definition stunnelContainerOf :: "string \<Rightarrow> string \<Rightarrow> string \<Rightarrow> endpoint_info \<Rightarrow> container" where
  "stunnelContainerOf img config sec e =
     (containerOf StunnelContainer img [''/bin/stunnel'', ''/etc/stunnel/stunnel.conf''])
     \<lparr>ctPorts := [(''stunnel'', ''TCP'', epPort e)],
      ctMounts := [mountOf config ''/etc/stunnel/stunnel.conf'' ''stunnel.conf'', mountOf sec ''/etc/stunnel/certs'' []]\<rparr>"

definition stunnelVolumesOf :: "string \<Rightarrow> string \<Rightarrow> string \<Rightarrow> volume list" where
  "stunnelVolumesOf prefix config sec =
     [\<lparr>volName = config, volSource = FromConfigMap (withPrefix prefix config)\<rparr>,
      \<lparr>volName = sec, volSource = FromSecret (withPrefix prefix sec) [(''tls.crt'', ''tls.crt''), (''tls.key'', ''tls.key'')] None\<rparr>]"

definition setClientContainers :: "endpoint_info \<Rightarrow> stunnelTransport \<Rightarrow> stunnelTransport" where
  "setClientContainers e s = s\<lparr>stClientContainers :=
     [stunnelContainerOf (getStunnelClientImage s) defaultStunnelClientConfig defaultStunnelClientSecret e]\<rparr>"

definition createClientVolumes :: "string \<Rightarrow> stunnelTransport \<Rightarrow> stunnelTransport" where
  "createClientVolumes prefix s =
     s\<lparr>stClientVolumes := stunnelVolumesOf prefix defaultStunnelClientConfig defaultStunnelClientSecret\<rparr>"

definition createStunnelServerContainers :: "endpoint_info \<Rightarrow> stunnelTransport \<Rightarrow> stunnelTransport" where
  "createStunnelServerContainers e s = s\<lparr>stServerContainers :=
     [stunnelContainerOf (getStunnelServerImage s) defaultStunnelServerConfig defaultStunnelServerSecret e]\<rparr>"

definition createStunnelServerVolumes :: "string \<Rightarrow> stunnelTransport \<Rightarrow> stunnelTransport" where
  "createStunnelServerVolumes prefix s =
     s\<lparr>stServerVolumes := stunnelVolumesOf prefix defaultStunnelServerConfig defaultStunnelServerSecret\<rparr>"

subsection \<open>The client's side\<close>

definition configName :: "namespacedName \<Rightarrow> string \<Rightarrow> string \<Rightarrow> namespacedName" where
  "configName obj prefix name = \<lparr>nnNamespace = nnNamespace obj, nnName = withPrefix prefix name\<rparr>"

definition getClientConfig :: "'s transport_client \<Rightarrow> namespacedName \<Rightarrow> string \<Rightarrow> ('s, configMap) act" where
  "getClientConfig c obj prefix = k_get (tcConfigMaps c) (configName obj prefix defaultStunnelClientConfig)"

definition getClientSecret :: "'s transport_client \<Rightarrow> namespacedName \<Rightarrow> string \<Rightarrow> ('s, secret) act" where
  "getClientSecret c obj prefix = k_get (tcSecrets c) (configName obj prefix defaultStunnelClientSecret)"

definition clientConfigMap :: "stunnelTransport \<Rightarrow> string \<Rightarrow> endpoint_info \<Rightarrow> transportOptions \<Rightarrow> configMap" where
  "clientConfigMap s prefix e opts =
     (let caVerifyLevel = (if CAVerifyLevel opts = [] then ''2'' else CAVerifyLevel opts) in
      \<lparr>cmMeta = objectMetaOf (nnNamespace (pairSource (stPair s))) (withPrefix prefix defaultStunnelClientConfig) (epLabels e),
       cmData = fmupd ''stunnel.conf'' (stunnelClientConf (portText (epPort e)) (epHostname e) (portText (epExposedPort e))
          opts caVerifyLevel) fmempty\<rparr>)"

text \<open>\<open>s.Options()\<close> may be nil, and its fields are read unchecked.\<close>

definition createClientConfig :: "'s transport_client \<Rightarrow> stunnelTransport \<Rightarrow> string \<Rightarrow> endpoint_info \<Rightarrow> ('s, unit) act" where
  "createClientConfig c s prefix e = (case stOptions s of
     None \<Rightarrow> failA (Panic ''nil pointer dereference'')
   | Some opts \<Rightarrow> createOrUpdate (tcConfigMaps c) (clientConfigMap s prefix e opts))"

definition tlsSecret :: "string \<Rightarrow> string \<Rightarrow> labels \<Rightarrow> string \<Rightarrow> string \<Rightarrow> secret" where
  "tlsSecret ns name ls crt key =
     \<lparr>secMeta = objectMetaOf ns name ls, secData = fmupd ''tls.key'' key (fmupd ''tls.crt'' crt fmempty)\<rparr>"

text \<open>The bytes of a nil buffer cannot be read.\<close>

definition createClientSecret :: "'s transport_client \<Rightarrow> stunnelTransport \<Rightarrow> string \<Rightarrow> endpoint_info \<Rightarrow> ('s, unit) act" where
  "createClientSecret c s prefix e = (case (stCrt s, stKey s) of
     (Some crt, Some key) \<Rightarrow> createIfAbsent (tcSecrets c)
        (tlsSecret (nnNamespace (pairSource (stPair s))) (withPrefix prefix defaultStunnelClientSecret) (epLabels e) crt key)
   | _ \<Rightarrow> failA (Panic ''nil pointer dereference''))"

definition createClientResources :: "aggregator \<Rightarrow> 's transport_client \<Rightarrow> string \<Rightarrow> endpoint_info \<Rightarrow> stunnelTransport
    \<Rightarrow> ('s, stunnelTransport \<times> goerror option) act" where
  "createClientResources agg c prefix e s =
     bindA (errOfA (createClientConfig c s prefix e)) (\<lambda>e1.
     bindA (errOfA (createClientSecret c s prefix e)) (\<lambda>e2.
     retA (createClientVolumes prefix (setClientContainers e s), newAggregate agg [e1, e2])))"

definition stunnelCreateClient :: "aggregator \<Rightarrow> 's transport_client \<Rightarrow> string \<Rightarrow> endpoint_info \<Rightarrow> stunnelTransport
    \<Rightarrow> ('s, stunnelTransport \<times> goerror option) act" where
  "stunnelCreateClient agg c prefix e s = createClientResources agg c prefix e s"

subsection \<open>The server's side\<close>

definition getServerConfig :: "'s transport_client \<Rightarrow> namespacedName \<Rightarrow> string \<Rightarrow> ('s, configMap) act" where
  "getServerConfig c obj prefix = k_get (tcConfigMaps c) (configName obj prefix defaultStunnelServerConfig)"

definition getServerSecret :: "'s transport_client \<Rightarrow> namespacedName \<Rightarrow> string \<Rightarrow> ('s, secret) act" where
  "getServerSecret c obj prefix = k_get (tcSecrets c) (configName obj prefix defaultStunnelServerSecret)"

definition createStunnelServerConfig :: "'s transport_client \<Rightarrow> stunnelTransport \<Rightarrow> string \<Rightarrow> endpoint_info \<Rightarrow> ('s, unit) act" where
  "createStunnelServerConfig c s prefix e = createOrUpdate (tcConfigMaps c)
     \<lparr>cmMeta = objectMetaOf (nnNamespace (pairDestination (stPair s))) (withPrefix prefix defaultStunnelServerConfig) (epLabels e),
      cmData = fmupd ''stunnel.conf'' (stunnelServerConf (portText (epPort e)) (portText stunnelExposedPort)) fmempty\<rparr>"

text \<open>The transport's key pair is overwritten first, with nil when the generation failed.\<close>

definition createStunnelServerSecret :: "('s, 'k) crypto \<Rightarrow> 's transport_client \<Rightarrow> string \<Rightarrow> endpoint_info
    \<Rightarrow> stunnelTransport \<Rightarrow> ('s, stunnelTransport \<times> goerror option) act" where
  "createStunnelServerSecret K c prefix e s =
     bindA (tryA (GenerateSSLCert K)) (\<lambda>r. case r of
       Inl err \<Rightarrow> retA (s\<lparr>stKey := None, stCrt := None\<rparr>, Some err)
     | Inr (_, crt, key) \<Rightarrow>
         bindA (errOfA (createIfAbsent (tcSecrets c)
           (tlsSecret (nnNamespace (pairDestination (stPair s))) (withPrefix prefix defaultStunnelServerSecret) (epLabels e) crt key)))
         (\<lambda>err. retA (s\<lparr>stKey := Some key, stCrt := Some crt\<rparr>, err)))"

definition createStunnelServerResources :: "('s, 'k) crypto \<Rightarrow> aggregator \<Rightarrow> 's transport_client \<Rightarrow> string
    \<Rightarrow> endpoint_info \<Rightarrow> stunnelTransport \<Rightarrow> ('s, stunnelTransport \<times> goerror option) act" where
  "createStunnelServerResources K agg c prefix e s =
     bindA (errOfA (createStunnelServerConfig c s prefix e)) (\<lambda>e1.
     bindA (createStunnelServerSecret K c prefix e s) (\<lambda>(s', e2).
     retA (createStunnelServerVolumes prefix (createStunnelServerContainers e s'), newAggregate agg [e1, e2])))"

definition stunnelCreateServer :: "('s, 'k) crypto \<Rightarrow> aggregator \<Rightarrow> 's transport_client \<Rightarrow> string
    \<Rightarrow> endpoint_info \<Rightarrow> stunnelTransport \<Rightarrow> ('s, stunnelTransport \<times> goerror option) act" where
  "stunnelCreateServer K agg c prefix e s = createStunnelServerResources K agg c prefix e s"

subsection \<open>Finding a transport again\<close>

definition GetTransportFromKubeObjects :: "'s transport_client \<Rightarrow> 's transport_client \<Rightarrow> string \<Rightarrow> nnPair
    \<Rightarrow> endpoint_info \<Rightarrow> transportOptions option \<Rightarrow> ('s, stunnelTransport) act" where
  "GetTransportFromKubeObjects srcClient destClient prefix pair e opts =
     bindA (getClientConfig srcClient (pairSource pair) prefix) (\<lambda>_.
     bindA (getServerConfig destClient (pairDestination pair) prefix) (\<lambda>_.
     bindA (getClientSecret srcClient (pairSource pair) prefix) (\<lambda>clientSecret.
     bindA (getServerSecret destClient (pairDestination pair) prefix) (\<lambda>_.
     case fmlookup (secData clientSecret) ''tls.key'' of
       None \<Rightarrow> failA (Error (errorf ''invalid secret for transport, tls.key key not found''))
     | Some key \<Rightarrow> (case fmlookup (secData clientSecret) ''tls.crt'' of
         None \<Rightarrow> failA (Error (errorf ''invalid secret for transport, tls.crt key not found''))
       | Some crt \<Rightarrow>
           (let s0 = \<lparr>stCrt = Some crt, stKey = Some key, stPort = epPort e, stServerContainers = [],
                  stServerVolumes = [], stClientContainers = [], stClientVolumes = [], stDirect = False,
                  stOptions = opts, stPair = \<lparr>pairSource = \<lparr>nnNamespace = [], nnName = []\<rparr>,
                    pairDestination = \<lparr>nnNamespace = [], nnName = []\<rparr>\<rparr>\<rparr>;
                s1 = createClientVolumes prefix (createStunnelServerVolumes prefix s0);
                s2 = createStunnelServerContainers e (setClientContainers e s1)
            in retA (s2\<lparr>stPair := pair\<rparr>)))))))"

end
