(* ===== verification/Tunnel.thy ===== *)
theory Tunnel
  imports Transports Claims
begin

text \<open>
  \<open>connect/tunnel_api/tunnel_api.go\<close>: an OpenVPN tunnel from a source to a destination cluster. The
  server side is created on the destination, then the client side on the source, once the
  destination's load balancer has an address. The two clusters, the keys and the certificates are
  parameters; \<open>'s\<close> is the state of both clusters. The constant templates are folded into the text
  they render, and a nil buffer is \<open>None\<close>.
\<close>

section \<open>Options\<close>

record tunnelOptions =
  toNamespace :: string
  toCACrt :: "string option"
  toClientCrt :: "string option"
  toClientKey :: "string option"
  toServerCrt :: "string option"
  toServerKey :: "string option"
  toRSADHKey :: "string option"
  toClientImage :: string
  toServerImage :: string
  toServerPort :: "32 word"
  toProxyHost :: string
  toProxyPort :: string
  toProxyUser :: string
  toProxyPass :: string

text \<open>The bytes of a nil buffer panic, its string does not.\<close>

definition bufBytes :: "string option \<Rightarrow> string result" where
  "bufBytes b = derefR b"

definition bufString :: "string option \<Rightarrow> string" where
  "bufString b = (case b of None \<Rightarrow> ''<nil>'' | Some x \<Rightarrow> x)"

section \<open>Objects\<close>

record tunnelContext =
  sccName :: string
  sccUsers :: "string list"
  sccCapabilities :: "string list"
  sccVolumes :: "string list"
  sccSeccompProfiles :: "string list"
  sccStrategies :: "string list" \<comment> \<open>of SELinux, user, supplemental groups and file system group\<close>
  sccPrivileged :: bool
  sccHostAccess :: "bool list" \<comment> \<open>directories, network, ports, process and IPC namespaces\<close>
  sccReadOnlyRoot :: bool

record tunnelRole =
  trMeta :: resourceMeta
  trVerbs :: "string list"
  trGroups :: "string list"
  trResources :: "string list"
  trNames :: "string list"

record tunnelBinding =
  tbMeta :: resourceMeta
  tbSubjects :: "(string \<times> string \<times> string) list" \<comment> \<open>kind, name, namespace\<close>
  tbRole :: "string \<times> string \<times> string" \<comment> \<open>API group, kind, name\<close>

datatype deploymentVersion = AppsV1 | AppsV1beta1

record tunnelDeployment =
  tdVersion :: deploymentVersion
  tdMeta :: resourceMeta
  tdSelector :: labels
  tdPodLabels :: labels
  tdServiceAccount :: string
  tdPod :: podSpecification

datatype tunnelObject =
    ONamespace string
  | OConfigMap configMap
  | OService service
  | OSecret secret
  | OServiceAccount resourceMeta
  | OContext tunnelContext
  | ORole tunnelRole
  | OBinding tunnelBinding
  | ODeployment tunnelDeployment

record 's tunnel_client =
  tcCreate :: "tunnelObject \<Rightarrow> ('s, unit) act"
  tcGetService :: "namespacedName \<Rightarrow> ('s, service) act"

record 's tunnel =
  tuDst :: "'s tunnel_client"
  tuDstMinor :: int
  tuSrc :: "'s tunnel_client"
  tuSrcMinor :: int
  tuOptions :: tunnelOptions

definition serviceName :: string where "serviceName = ''openvpn''"
definition serviceConfig :: string where "serviceConfig = ''openvpn-conf''"
definition proxyConfig :: string where "proxyConfig = ''openvpn-proxy-creds''"
definition tunnelKeySize :: nat where "tunnelKeySize = 2048"

definition tunnelMeta :: "tunnelOptions \<Rightarrow> string \<Rightarrow> resourceMeta" where
  "tunnelMeta o1 name = objectMetaOf (toNamespace o1) name fmempty"

definition tunnelLabels :: labels where
  "tunnelLabels = fmupd ''app'' serviceName fmempty"

section \<open>Configuration files\<close>

definition openvpnServerConf :: "string \<Rightarrow> string" where
  "openvpnServerConf port = concat (map (\<lambda>l. l @ [CHR 0x0A])
     [''dh /certs/dh.pem'', ''cipher AES-256-GCM'', ''ca /certs/ca.crt'', ''server 192.168.123.0 255.255.255.0'',
      ''dev tun0'', ''proto tcp4'', ''port '' @ port, ''keepalive 10 120'', ''tmp-dir /tmp/openvpn'',
      ''cert /certs/server.crt'', ''key /certs/server.key''])"

record openvpnConfigData =
  ocPort :: string
  ocCA :: string
  ocCrt :: string
  ocKey :: string
  ocEndpoint :: string
  ocProxy :: string

definition openvpnClientConf :: "openvpnConfigData \<Rightarrow> string" where
  "openvpnClientConf d = concat (map (\<lambda>l. l @ [CHR 0x0A])
     [''client'', ''cipher AES-256-GCM'', ''dev tun'', ''proto tcp4'', ''remote '' @ ocEndpoint d @ '' '' @ ocPort d @ '' tcp-client'',
      ocProxy d, ''<ca>'', ocCA d, ''</ca>'', ''<key>'', ocKey d, ''</key>'', ''<cert>'', ocCrt d, ''</cert>'',
      ''verify-x509-name \"C=US, ST=NC, L=RDU, O=Engineering, OU=Crane, CN=Server\"''])"

section \<open>Pods\<close>

definition privilegedContext :: securityContext where
  "privilegedContext = \<lparr>runAsUser = None, privileged = Some True\<rparr>"

definition bash :: "string \<Rightarrow> string list" where
  "bash cmd = [''bash'', ''-c'', cmd]"

definition openvpnContainer :: "string \<Rightarrow> volumeMount list \<Rightarrow> container" where
  "openvpnContainer img mounts = (containerOf serviceName img (bash ''mkdir /tmp/openvpn && openvpn --config /openvpn.conf''))
     \<lparr>ctMounts := mounts, ctSecurity := Some privilegedContext\<rparr>"

definition tunnelPod :: "container list \<Rightarrow> volume list \<Rightarrow> podSpecification" where
  "tunnelPod cs vs = \<lparr>psContainers = cs, psVolumes = vs, psRestartPolicy = '''', psNodeSelector = fmempty, psNodeName = '''',
     psSecurity = Some \<lparr>podRunAsUser = Some 0, podRunAsGroup = None, podFSGroup = None\<rparr>\<rparr>"

definition tunnelDeploymentOf :: "tunnelOptions \<Rightarrow> int \<Rightarrow> podSpecification \<Rightarrow> tunnelDeployment" where
  "tunnelDeploymentOf o1 minor pod =
     \<lparr>tdVersion = (if minor < 9 then AppsV1beta1 else AppsV1), tdMeta = tunnelMeta o1 serviceName, tdSelector = tunnelLabels,
      tdPodLabels = tunnelLabels, tdServiceAccount = serviceName, tdPod = pod\<rparr>"

definition secretVolume :: "string \<Rightarrow> string \<Rightarrow> volume" where
  "secretVolume name sec = \<lparr>volName = name, volSource = FromSecret sec [] (Some 256)\<rparr>"

definition serverPod :: "tunnelOptions \<Rightarrow> podSpecification" where
  "serverPod o1 = tunnelPod
     [openvpnContainer (toServerImage o1) [mountOf serviceName ''/certs'' [], mountOf serviceConfig ''/openvpn.conf'' ''openvpn.conf''],
      containerOf ''api-socat'' (toServerImage o1) (bash ''socat TCP-LISTEN:8443,fork,reuseaddr TCP:192.168.123.6:8443''),
      containerOf ''image-registry-socat'' (toServerImage o1) (bash ''socat TCP-LISTEN:5000,fork,reuseaddr TCP:192.168.123.6:5000'')]
     [secretVolume serviceName serviceName, \<lparr>volName = serviceConfig, volSource = FromConfigMap serviceName\<rparr>]"

definition registrySvc :: "int \<Rightarrow> string" where
  "registrySvc minor = (if minor \<le> 11 then ''docker-registry.default.svc.cluster.local:5000''
     else ''image-registry.openshift-image-registry.svc.cluster.local:5000'')"

text \<open>The client's containers run the server's image.\<close>

definition clientPod :: "tunnelOptions \<Rightarrow> int \<Rightarrow> podSpecification" where
  "clientPod o1 minor = (let proxied = toProxyUser o1 \<noteq> '''' \<and> toProxyPass o1 \<noteq> '''' in tunnelPod
     [openvpnContainer (toServerImage o1) (mountOf serviceConfig ''/openvpn.conf'' ''openvpn.conf'' #
        (if proxied then [mountOf proxyConfig ''/proxy.secret'' ''proxy.secret''] else [])),
      containerOf ''api-socat'' (toServerImage o1)
        (bash ''socat TCP-LISTEN:8443,fork,reuseaddr TCP:${KUBERNETES_SERVICE_HOST}:${KUBERNETES_SERVICE_PORT_HTTPS}''),
      containerOf ''image-registry-socat'' (toServerImage o1) (bash (''socat TCP-LISTEN:5000,fork,reuseaddr TCP:'' @ registrySvc minor))]
     (secretVolume serviceConfig serviceName # (if proxied then [secretVolume proxyConfig proxyConfig] else [])))"

section \<open>Access\<close>

definition tunnelContextOf :: "tunnelOptions \<Rightarrow> tunnelContext" where
  "tunnelContextOf o1 = \<lparr>sccName = toNamespace o1, sccUsers = [''system:serviceaccount:'' @ toNamespace o1 @ '':openvpn''],
     sccCapabilities = [''*''], sccVolumes = [''*''], sccSeccompProfiles = [''*''],
     sccStrategies = [''RunAsAny'', ''RunAsAny'', ''RunAsAny'', ''RunAsAny''], sccPrivileged = True,
     sccHostAccess = [True, True, True, True, True], sccReadOnlyRoot = False\<rparr>"

definition tunnelRoleOf :: "tunnelOptions \<Rightarrow> tunnelRole" where
  "tunnelRoleOf o1 = \<lparr>trMeta = tunnelMeta o1 serviceName, trVerbs = [''use''], trGroups = [''security.openshift.io''],
     trResources = [''securitycontextconstraints''], trNames = [''privileged'']\<rparr>"

definition tunnelBindingOf :: "tunnelOptions \<Rightarrow> tunnelBinding" where
  "tunnelBindingOf o1 = \<lparr>tbMeta = tunnelMeta o1 serviceName, tbSubjects = [(''ServiceAccount'', serviceName, toNamespace o1)],
     tbRole = (''rbac.authorization.k8s.io'', ''Role'', serviceName)\<rparr>"

definition createOrKeep :: "'s tunnel_client \<Rightarrow> tunnelObject \<Rightarrow> ('s, unit) act" where
  "createOrKeep c x = bindA (tryA (tcCreate c x)) (\<lambda>r. case r of
     Inl err \<Rightarrow> if errorCause err = AlreadyExists then retA () else failA (Error err)
   | Inr _ \<Rightarrow> retA ())"

definition createRBAC :: "'s tunnel \<Rightarrow> string \<Rightarrow> ('s, unit) act" where
  "createRBAC tun cluster =
     (if cluster \<noteq> ''src'' \<and> cluster \<noteq> ''dst'' then
        failA (Error (errorf (''Cannot create RBAC rules for unknown cluster '' @ cluster)))
      else
       (let c = (if cluster = ''src'' then tuSrc tun else tuDst tun);
            minor = (if cluster = ''src'' then tuSrcMinor tun else tuDstMinor tun);
            o1 = tuOptions tun in
        thenA (tcCreate c (OServiceAccount (tunnelMeta o1 serviceName)))
          (if minor \<le> 11 then
             createOrKeep c (OContext (tunnelContextOf o1))
           else
             thenA (tcCreate c (ORole (tunnelRoleOf o1))) (tcCreate c (OBinding (tunnelBindingOf o1))))))"

section \<open>The server\<close>

definition serverPort :: "string \<Rightarrow> 32 word \<Rightarrow> servicePort" where
  "serverPort name p = \<lparr>spName = name, spProtocol = ''TCP'', spPort = p, spTargetPort = p, spNodePort = 0\<rparr>"

definition tunnelService :: "tunnelOptions \<Rightarrow> string \<Rightarrow> servicePort list \<Rightarrow> string \<Rightarrow> service" where
  "tunnelService o1 name ports ty = \<lparr>svcMeta = tunnelMeta o1 name, svcPorts = ports, svcSelector = tunnelLabels, svcType = ty,
     svcClusterIP = '''', svcIngress = []\<rparr>"

definition openvpnService :: "tunnelOptions \<Rightarrow> service" where
  "openvpnService o1 = tunnelService o1 serviceName [serverPort serviceName (toServerPort o1)] ''LoadBalancer''"

definition proxiedService :: "tunnelOptions \<Rightarrow> service" where
  "proxiedService o1 = tunnelService o1 ''proxied-cluster'' [serverPort ''api'' 8443, serverPort ''image-registry'' 5000] ''ClusterIP''"

definition serverConfigMap :: "tunnelOptions \<Rightarrow> configMap" where
  "serverConfigMap o1 = \<lparr>cmMeta = tunnelMeta o1 serviceName,
     cmData = fmupd ''openvpn.conf'' (openvpnServerConf (itoa (sint (toServerPort o1)))) fmempty\<rparr>"

definition serverSecret :: "tunnelOptions \<Rightarrow> secret result" where
  "serverSecret o1 =
     bindR (bufBytes (toCACrt o1)) (\<lambda>ca. bindR (bufBytes (toRSADHKey o1)) (\<lambda>dh.
     bindR (bufBytes (toServerCrt o1)) (\<lambda>crt. bindR (bufBytes (toServerKey o1)) (\<lambda>key.
     Inr \<lparr>secMeta = tunnelMeta o1 serviceName,
       secData = fmupd ''server.key'' key (fmupd ''server.crt'' crt (fmupd ''dh.pem'' dh (fmupd ''ca.crt'' ca fmempty)))\<rparr>))))"

definition createOpenVPNServer :: "'s tunnel \<Rightarrow> ('s, unit) act" where
  "createOpenVPNServer tun = (let o1 = tuOptions tun; c = tuDst tun in
     bindA (pureA (serverSecret o1)) (\<lambda>sec.
     thenA (tcCreate c (ONamespace (toNamespace o1)))
     (thenA (tcCreate c (OConfigMap (serverConfigMap o1)))
     (thenA (tcCreate c (OService (openvpnService o1)))
     (thenA (tcCreate c (OService (proxiedService o1)))
     (thenA (createRBAC tun ''dst'')
     (thenA (tcCreate c (OSecret sec))
       (tcCreate c (ODeployment (tunnelDeploymentOf o1 (tuDstMinor tun) (serverPod o1)))))))))))"

section \<open>The client\<close>

text \<open>
  The loop over \<open>i\<close>: the service is read at most 40 times, three seconds apart. The value after the
  loop's bound is the empty service the loop started with; no run gets there.
\<close>

definition emptyService :: service where
  "emptyService = \<lparr>svcMeta = objectMetaOf '''' '''' fmempty, svcPorts = [], svcSelector = fmempty, svcType = '''',
     svcClusterIP = '''', svcIngress = []\<rparr>"

function awaitIngress :: "('s, service) act \<Rightarrow> (nat \<Rightarrow> ('s, unit) act) \<Rightarrow> nat \<Rightarrow> ('s, service) act" where
  "awaitIngress get sleep i =
     (if i < 40 then bindA get (\<lambda>svc.
        if svcIngress svc \<noteq> [] then retA svc
        else if i = 39 then failA (Error (errorf ''Unable to determine ingress address on destination cluster.''))
        else thenA (sleep 3) (awaitIngress get sleep (Suc i)))
      else retA emptyService)"
  by pat_completeness auto
termination by (relation "measure (\<lambda>(get, sleep, i). 40 - i)") auto

declare awaitIngress.simps [simp del]

text \<open>The first ingress of the service; the index is not checked.\<close>

definition ingressAddress :: "service \<Rightarrow> string result" where
  "ingressAddress svc = (case svcIngress svc of
     [] \<Rightarrow> Inl (Panic ''index out of range'')
   | (host, ip) # _ \<Rightarrow> if host \<noteq> '''' then Inr host else if ip \<noteq> '''' then Inr ip
       else Inl (Error (errorf ''The service endpoint has no hostname or IP address associated with it.'')))"

definition proxyPortOf :: "tunnelOptions \<Rightarrow> string" where
  "proxyPortOf o1 = (if toProxyPort o1 = '''' then ''3128'' else toProxyPort o1)"

definition proxyLine :: "tunnelOptions \<Rightarrow> string" where
  "proxyLine o1 =
     (if toProxyHost o1 \<noteq> '''' \<and> toProxyUser o1 \<noteq> '''' \<and> toProxyPass o1 \<noteq> '''' then
        ''http-proxy '' @ toProxyHost o1 @ '' '' @ proxyPortOf o1 @ '' /proxy.secret basic''
      else if toProxyHost o1 \<noteq> '''' then ''http-proxy '' @ toProxyHost o1 @ '' '' @ proxyPortOf o1
      else '''')"

definition clientConfigData :: "tunnelOptions \<Rightarrow> string \<Rightarrow> openvpnConfigData" where
  "clientConfigData o1 endpoint = \<lparr>ocPort = itoa (sint (toServerPort o1)), ocCA = bufString (toCACrt o1),
     ocCrt = bufString (toClientCrt o1), ocKey = bufString (toClientKey o1), ocEndpoint = endpoint, ocProxy = proxyLine o1\<rparr>"

definition clientSecret :: "tunnelOptions \<Rightarrow> string \<Rightarrow> secret" where
  "clientSecret o1 endpoint = \<lparr>secMeta = tunnelMeta o1 serviceName,
     secData = fmupd ''openvpn.conf'' (openvpnClientConf (clientConfigData o1 endpoint)) fmempty\<rparr>"

definition proxySecret :: "tunnelOptions \<Rightarrow> secret" where
  "proxySecret o1 = \<lparr>secMeta = tunnelMeta o1 proxyConfig,
     secData = fmupd ''proxy.secret'' (toProxyUser o1 @ [CHR 0x0A] @ toProxyPass o1) fmempty\<rparr>"

definition createOpenVPNClient :: "(nat \<Rightarrow> ('s, unit) act) \<Rightarrow> 's tunnel \<Rightarrow> ('s, unit) act" where
  "createOpenVPNClient sleep tun = (let o1 = tuOptions tun; c = tuSrc tun in
     bindA (awaitIngress (tcGetService (tuDst tun) \<lparr>nnNamespace = toNamespace o1, nnName = serviceName\<rparr>) sleep 0) (\<lambda>svc.
     bindA (pureA (ingressAddress svc)) (\<lambda>endpoint.
     thenA (tcCreate c (ONamespace (toNamespace o1)))
     (thenA (createRBAC tun ''src'')
     (thenA (tcCreate c (OSecret (clientSecret o1 endpoint)))
     (thenA (if toProxyUser o1 \<noteq> '''' \<and> toProxyPass o1 \<noteq> '''' then tcCreate c (OSecret (proxySecret o1)) else retA ())
       (tcCreate c (ODeployment (tunnelDeploymentOf o1 (tuSrcMinor tun) (clientPod o1 (tuSrcMinor tun)))))))))))"

section \<open>Certificates\<close>

text \<open>\<open>certTemplate\<close> is the one of the transports; a certificate is signed with a parent template.\<close>

record tunnelCert = certTemplate +
  tcIPs :: "string list"
  tcSubjectKeyId :: "nat list"

record ('s, 'k, 'd) tunnel_crypto =
  tkGenerateKey :: "nat \<Rightarrow> ('s, 'k) act"
  tkCertificate :: "tunnelCert \<Rightarrow> tunnelCert \<Rightarrow> 'k \<Rightarrow> 'k \<Rightarrow> ('s, string) act" \<comment> \<open>template, parent, key, signer\<close>
  tkPkcs1 :: "'k \<Rightarrow> string"
  tkPem :: "string \<Rightarrow> string \<Rightarrow> string ret"
  dhGenerate :: "nat \<Rightarrow> nat \<Rightarrow> ('s, 'd) act"
  dhToPEM :: "'d \<Rightarrow> string ret"

definition tunnelCertOf :: "int \<Rightarrow> string \<Rightarrow> bool \<Rightarrow> string list \<Rightarrow> string list \<Rightarrow> nat list \<Rightarrow> tunnelCert" where
  "tunnelCertOf serial cn ca usage ips keyId = \<lparr>certSerial = serial, certCommonName = cn, certCountry = [''US''],
     certProvince = [''NC''], certLocality = [''RDU''], certOrganization = [''Engineering''], certOrganizationalUnit = [''Crane''],
     certYears = 10, certIsCA = ca, certExtKeyUsage = [''ClientAuth'', ''ServerAuth''], certKeyUsage = usage,
     certBasicConstraintsValid = ca, tcIPs = ips, tcSubjectKeyId = keyId\<rparr>"

definition caCrtTemp :: tunnelCert where
  "caCrtTemp = tunnelCertOf 2021 ''CA'' True [''DigitalSignature'', ''CertSign''] [] []"

definition serverCrtTemp :: tunnelCert where
  "serverCrtTemp = tunnelCertOf 2022 ''Server'' False [''DigitalSignature'', ''KeyEncipherment''] [''127.0.0.1'', ''::1''] [1, 2, 3, 4, 6]"

definition clientCrtTemp :: tunnelCert where
  "clientCrtTemp = tunnelCertOf 2023 ''Client'' False [''DigitalSignature'', ''KeyEncipherment''] [''127.0.0.1'', ''::1''] [1, 2, 3, 4, 6]"

definition createCACrtKeyPair :: "('s, 'k, 'd) tunnel_crypto \<Rightarrow> tunnelCert \<Rightarrow> ('s, string \<times> 'k) act" where
  "createCACrtKeyPair K temp =
     bindA (tkGenerateKey K tunnelKeySize) (\<lambda>key.
     bindA (tkCertificate K temp temp key key) (\<lambda>crtBytes.
     pureA (liftR (bindR (tkPem K ''CERTIFICATE'' crtBytes) (\<lambda>crt.
       bindR (tkPem K ''RSA PRIVATE KEY'' (tkPkcs1 K key)) (\<lambda>_. Inr (crt, key)))))))"

definition createCrtKeyPair :: "('s, 'k, 'd) tunnel_crypto \<Rightarrow> tunnelCert \<Rightarrow> tunnelCert \<Rightarrow> 'k \<Rightarrow> ('s, string \<times> string) act" where
  "createCrtKeyPair K temp caTemp caKey =
     bindA (tkGenerateKey K tunnelKeySize) (\<lambda>key.
     bindA (tkCertificate K temp caTemp key caKey) (\<lambda>crtBytes.
     pureA (liftR (bindR (tkPem K ''CERTIFICATE'' crtBytes) (\<lambda>crt.
       bindR (tkPem K ''RSA PRIVATE KEY'' (tkPkcs1 K key)) (\<lambda>keyPem. Inr (crt, keyPem)))))))"

text \<open>CA, server certificate and key, client certificate and key, Diffie-Hellman parameters.\<close>

definition GenOpenvpnSSLCrts :: "('s, 'k, 'd) tunnel_crypto
    \<Rightarrow> ('s, string \<times> string \<times> string \<times> string \<times> string \<times> string) act" where
  "GenOpenvpnSSLCrts K =
     bindA (createCACrtKeyPair K caCrtTemp) (\<lambda>(ca, caKey).
     bindA (createCrtKeyPair K serverCrtTemp caCrtTemp caKey) (\<lambda>(serverCrt, serverKey).
     bindA (createCrtKeyPair K clientCrtTemp caCrtTemp caKey) (\<lambda>(clientCrt, clientKey).
     bindA (dhGenerate K tunnelKeySize 2) (\<lambda>dh.
     bindA (pureA (liftR (dhToPEM K dh))) (\<lambda>dhCrt.
     retA (ca, serverCrt, serverKey, clientCrt, clientKey, dhCrt))))))"

section \<open>The whole tunnel\<close>

text \<open>
  What \<open>Openvpn\<close> calls: the registrations of the schemes, one client per cluster, the minor version
  the discovery client of a cluster answers, and sleeping.
\<close>

record ('s, 'k, 'd) tunnel_env =
  teCrypto :: "('s, 'k, 'd) tunnel_crypto"
  teSchemes :: "goerror option list"
  teDstClient :: "('s, 's tunnel_client) act"
  teSrcClient :: "('s, 's tunnel_client) act"
  teSrcVersion :: "('s, string) act"
  teDstVersion :: "('s, string) act"
  teSleep :: "nat \<Rightarrow> ('s, unit) act"

definition tunnelDefaults :: "tunnelOptions \<Rightarrow> tunnelOptions" where
  "tunnelDefaults o1 = o1\<lparr>
     toNamespace := (if toNamespace o1 = '''' then serviceName else toNamespace o1),
     toClientImage := (if toClientImage o1 = '''' then ''quay.io/konveyor/openvpn:latest'' else toClientImage o1),
     toServerImage := (if toServerImage o1 = '''' then ''quay.io/konveyor/openvpn:latest'' else toServerImage o1),
     toServerPort := (if toServerPort o1 = 0 then 443 else toServerPort o1)\<rparr>"

definition tunnelCrts :: "('s, 'k, 'd) tunnel_crypto \<Rightarrow> tunnelOptions \<Rightarrow> ('s, tunnelOptions) act" where
  "tunnelCrts K o1 =
     (if toCACrt o1 = None then bindA (GenOpenvpnSSLCrts K) (\<lambda>(ca, serverCrt, serverKey, clientCrt, clientKey, dh).
        retA (o1\<lparr>toCACrt := Some ca, toServerCrt := Some serverCrt, toServerKey := Some serverKey,
          toClientCrt := Some clientCrt, toClientKey := Some clientKey, toRSADHKey := Some dh\<rparr>))
      else retA o1)"

definition minorOf :: "string \<Rightarrow> int ret" where
  "minorOf v = atoi (trimS [CHR ''+''] v)"

definition Openvpn :: "('s, 'k, 'd) tunnel_env \<Rightarrow> tunnelOptions \<Rightarrow> ('s, unit) act" where
  "Openvpn E o0 =
     bindA (tunnelCrts (teCrypto E) (tunnelDefaults o0)) (\<lambda>o1.
     thenA (forA errorA (teSchemes E))
     (bindA (teDstClient E) (\<lambda>dst.
     bindA (teSrcClient E) (\<lambda>src.
     bindA (bindA (teSrcVersion E) (\<lambda>v. pureA (liftR (minorOf v)))) (\<lambda>srcMinor.
     bindA (bindA (teDstVersion E) (\<lambda>v. pureA (liftR (minorOf v)))) (\<lambda>dstMinor.
     let tun = \<lparr>tuDst = dst, tuDstMinor = dstMinor, tuSrc = src, tuSrcMinor = srcMinor, tuOptions = o1\<rparr> in
     thenA (createOpenVPNServer tun) (createOpenVPNClient (teSleep E) tun)))))))"

end
