(* ===== verification/TunnelProps.thy ===== *)
theory TunnelProps
  imports Tunnel
begin

text \<open>
  What a tunnel run leaves on the two clusters, how long it waits for the load balancer, and how the
  certificates hang together. A cluster is a store of objects by kind and name.
\<close>

section \<open>Clusters\<close>

fun objectKey :: "tunnelObject \<Rightarrow> string \<times> namespacedName" where
  "objectKey (ONamespace n) = (''Namespace'', \<lparr>nnNamespace = [], nnName = n\<rparr>)"
| "objectKey (OConfigMap c) = (''ConfigMap'', nnOf (cmMeta c))"
| "objectKey (OService s) = (''Service'', nnOf (svcMeta s))"
| "objectKey (OSecret s) = (''Secret'', nnOf (secMeta s))"
| "objectKey (OServiceAccount m) = (''ServiceAccount'', nnOf m)"
| "objectKey (OContext c) = (''SecurityContextConstraints'', \<lparr>nnNamespace = [], nnName = sccName c\<rparr>)"
| "objectKey (ORole r) = (''Role'', nnOf (trMeta r))"
| "objectKey (OBinding b) = (''RoleBinding'', nnOf (tbMeta b))"
| "objectKey (ODeployment d) = (''Deployment'', nnOf (tdMeta d))"

type_synonym objects = "string \<times> namespacedName \<Rightarrow> tunnelObject option"

text \<open>
  A client of a cluster: \<open>v\<close> is what the cluster holds, \<open>w\<close> what the other one does. Creating adds
  an object unless its name is taken.
\<close>

definition tunnel_store :: "'s tunnel_client \<Rightarrow> ('s \<Rightarrow> objects) \<Rightarrow> ('s \<Rightarrow> objects) \<Rightarrow> bool" where
  "tunnel_store c v w \<longleftrightarrow> (\<forall>x s.
     if v s (objectKey x) = None
     then \<exists>s'. tcCreate c x s = (Inr (), s') \<and> v s' = (v s)(objectKey x \<mapsto> x) \<and> w s' = w s
     else \<exists>e. tcCreate c x s = (Inl (Error e), s) \<and> errorCause e = AlreadyExists)"

lemma tunnel_store_new: "tunnel_store c v w \<Longrightarrow> v s (objectKey x) = None \<Longrightarrow>
   \<exists>s'. tcCreate c x s = (Inr (), s') \<and> v s' = (v s)(objectKey x \<mapsto> x) \<and> w s' = w s"
  unfolding tunnel_store_def by presburger

lemma tunnel_store_taken: "tunnel_store c v w \<Longrightarrow> v s (objectKey x) \<noteq> None \<Longrightarrow>
   \<exists>e. tcCreate c x s = (Inl (Error e), s) \<and> errorCause e = AlreadyExists"
  unfolding tunnel_store_def by presburger

text \<open>\<open>makes v w xs m\<close>: where the names are free, \<open>m\<close> succeeds and adds exactly \<open>xs\<close>.\<close>

definition holding :: "objects \<Rightarrow> tunnelObject list \<Rightarrow> objects" where
  "holding st xs = foldl (\<lambda>st x. st(objectKey x \<mapsto> x)) st xs"

definition free_for :: "objects \<Rightarrow> tunnelObject list \<Rightarrow> bool" where
  "free_for st xs \<longleftrightarrow> distinct (map objectKey xs) \<and> list_all (\<lambda>x. st (objectKey x) = None) xs"

definition makes :: "('s \<Rightarrow> objects) \<Rightarrow> ('s \<Rightarrow> objects) \<Rightarrow> tunnelObject list \<Rightarrow> ('s, unit) act \<Rightarrow> bool" where
  "makes v w xs m \<longleftrightarrow> (\<forall>s. free_for (v s) xs \<longrightarrow>
     (\<exists>s'. m s = (Inr (), s') \<and> v s' = holding (v s) xs \<and> w s' = w s))"

lemma holding_simps [simp]:
  "holding st [] = st" "holding st (x # xs) = holding (st(objectKey x \<mapsto> x)) xs" "holding st (xs @ ys) = holding (holding st xs) ys"
  by (simp_all add: holding_def)

lemma holding_other: "k \<notin> objectKey ` set xs \<Longrightarrow> holding st xs k = st k"
  by (induction xs arbitrary: st) auto

lemma holding_mem: "distinct (map objectKey xs) \<Longrightarrow> x \<in> set xs \<Longrightarrow> holding st xs (objectKey x) = Some x"
proof (induction xs arbitrary: st)
  case (Cons y ys)
  show ?case
  proof (cases "x = y")
    case True
    then have "objectKey x \<notin> objectKey ` set ys" using Cons.prems by auto
    then show ?thesis using holding_other[of "objectKey x" ys] True by simp
  next
    case False
    then show ?thesis using Cons by auto
  qed
qed simp

lemma makes_create: "tunnel_store c v w \<Longrightarrow> makes v w [x] (tcCreate c x)"
  unfolding makes_def free_for_def by (auto dest: tunnel_store_new[of c v w _ x])

lemma makes_ret: "makes v w [] (retA ())"
  by (simp add: makes_def retA_def)

lemma makes_tolerant:
  assumes "tunnel_store c v w"
  shows "makes v w [x] (createOrKeep c x)"
proof -
  have "\<exists>s'. createOrKeep c x s = (Inr (), s') \<and> v s' = (v s)(objectKey x \<mapsto> x) \<and> w s' = w s"
    if n: "v s (objectKey x) = None" for s
  proof -
    obtain s' where "tcCreate c x s = (Inr (), s')" "v s' = (v s)(objectKey x \<mapsto> x)" "w s' = w s"
      using tunnel_store_new[OF assms n] by blast
    then show ?thesis by (simp add: createOrKeep_def bindA_def tryA_def retA_def)
  qed
  then show ?thesis by (simp add: makes_def free_for_def)
qed

lemma free_for_append:
  assumes "free_for st (xs @ ys)"
  shows "free_for st xs" "free_for (holding st xs) ys"
proof -
  show "free_for st xs" using assms by (simp add: free_for_def)
  have "holding st xs (objectKey y) = None" if y: "y \<in> set ys" for y
  proof -
    have "objectKey y \<notin> objectKey ` set xs" using assms y by (auto simp: free_for_def)
    then show ?thesis using assms y by (simp add: holding_other free_for_def list_all_iff)
  qed
  then show "free_for (holding st xs) ys" using assms by (simp add: free_for_def list_all_iff)
qed

lemma makes_then:
  assumes "makes v w xs m" and "makes v w ys n"
  shows "makes v w (xs @ ys) (thenA m n)"
  unfolding makes_def
proof (intro allI impI)
  fix s assume f: "free_for (v s) (xs @ ys)"
  obtain s1 where 1: "m s = (Inr (), s1)" "v s1 = holding (v s) xs" "w s1 = w s"
    using assms(1) free_for_append(1)[OF f] unfolding makes_def by blast
  obtain s2 where 2: "n s1 = (Inr (), s2)" "v s2 = holding (v s1) ys" "w s2 = w s1"
    using assms(2) free_for_append(2)[OF f] 1(2) unfolding makes_def by metis
  show "\<exists>s'. thenA m n s = (Inr (), s') \<and> v s' = holding (v s) (xs @ ys) \<and> w s' = w s"
    using 1 2 by (simp add: thenA_def bindA_def)
qed

lemma makes_Cons: "tunnel_store c v w \<Longrightarrow> makes v w ys n \<Longrightarrow> makes v w (x # ys) (thenA (tcCreate c x) n)"
  using makes_then[OF makes_create] by fastforce

section \<open>The objects of a tunnel\<close>

definition accessObjects :: "tunnelOptions \<Rightarrow> int \<Rightarrow> tunnelObject list" where
  "accessObjects o1 minor = OServiceAccount (tunnelMeta o1 serviceName) #
     (if minor \<le> 11 then [OContext (tunnelContextOf o1)] else [ORole (tunnelRoleOf o1), OBinding (tunnelBindingOf o1)])"

definition serverObjects :: "tunnelOptions \<Rightarrow> int \<Rightarrow> secret \<Rightarrow> tunnelObject list" where
  "serverObjects o1 minor sec = [ONamespace (toNamespace o1), OConfigMap (serverConfigMap o1), OService (openvpnService o1),
     OService (proxiedService o1)] @ accessObjects o1 minor @
     [OSecret sec, ODeployment (tunnelDeploymentOf o1 minor (serverPod o1))]"

definition clientObjects :: "tunnelOptions \<Rightarrow> int \<Rightarrow> string \<Rightarrow> tunnelObject list" where
  "clientObjects o1 minor endpoint = ONamespace (toNamespace o1) # accessObjects o1 minor @ OSecret (clientSecret o1 endpoint) #
     (if toProxyUser o1 \<noteq> [] \<and> toProxyPass o1 \<noteq> [] then [OSecret (proxySecret o1)] else []) @
     [ODeployment (tunnelDeploymentOf o1 minor (clientPod o1 minor))]"

lemma createRBAC_makes:
  "tunnel_store (tuSrc tun) v w \<Longrightarrow> makes v w (accessObjects (tuOptions tun) (tuSrcMinor tun)) (createRBAC tun ''src'')"
  "tunnel_store (tuDst tun) v w \<Longrightarrow> makes v w (accessObjects (tuOptions tun) (tuDstMinor tun)) (createRBAC tun ''dst'')"
  by (auto simp: createRBAC_def accessObjects_def Let_def intro!: makes_Cons makes_create makes_tolerant)

lemma server_makes:
  assumes "tunnel_store (tuDst tun) v w" and "serverSecret (tuOptions tun) = Inr sec"
  shows "makes v w (serverObjects (tuOptions tun) (tuDstMinor tun) sec) (createOpenVPNServer tun)"
proof -
  let ?o = "tuOptions tun" and ?c = "tuDst tun"
  have "createOpenVPNServer tun = thenA (tcCreate ?c (ONamespace (toNamespace ?o)))
     (thenA (tcCreate ?c (OConfigMap (serverConfigMap ?o))) (thenA (tcCreate ?c (OService (openvpnService ?o)))
     (thenA (tcCreate ?c (OService (proxiedService ?o))) (thenA (createRBAC tun ''dst'')
     (thenA (tcCreate ?c (OSecret sec)) (tcCreate ?c (ODeployment (tunnelDeploymentOf ?o (tuDstMinor tun) (serverPod ?o)))))))))"
    using assms(2) by (auto simp: createOpenVPNServer_def Let_def bindA_def pureA_def)
  then show ?thesis unfolding serverObjects_def
    by (auto intro!: makes_Cons makes_create makes_then createRBAC_makes assms(1))
qed

lemma client_makes:
  assumes "tunnel_store (tuSrc tun) v w"
  shows "makes v w (clientObjects (tuOptions tun) (tuSrcMinor tun) endpoint)
    (let o1 = tuOptions tun; c = tuSrc tun in thenA (tcCreate c (ONamespace (toNamespace o1)))
     (thenA (createRBAC tun ''src'')
     (thenA (tcCreate c (OSecret (clientSecret o1 endpoint)))
     (thenA (if toProxyUser o1 \<noteq> [] \<and> toProxyPass o1 \<noteq> [] then tcCreate c (OSecret (proxySecret o1)) else retA ())
       (tcCreate c (ODeployment (tunnelDeploymentOf o1 (tuSrcMinor tun) (clientPod o1 (tuSrcMinor tun)))))))))"
  unfolding clientObjects_def Let_def
  by (intro makes_Cons makes_then createRBAC_makes makes_create assms) (auto intro: makes_create makes_ret assms)

section \<open>Waiting for the load balancer\<close>

text \<open>
  The polls see the service as it is after each sleep. The run ends with the first one that shows
  an address, or with an error after the fortieth.
\<close>

lemma awaitIngress_step:
  assumes "get s = (Inr (svc s), s)" and "sleep 3 s = (Inr (), tick s)"
  shows "awaitIngress get sleep i s =
    (if i < 40 then
       (if svcIngress (svc s) \<noteq> [] then (Inr (svc s), s)
        else if i = 39 then (Inl (Error (errorf ''Unable to determine ingress address on destination cluster.'')), s)
        else awaitIngress get sleep (Suc i) (tick s))
     else (Inr emptyService, s))"
  using assms by (subst awaitIngress.simps) (simp add: bindA_def thenA_def act_run)

lemma await_found:
  assumes "\<And>s. get s = (Inr (svc s), s)" and "\<And>s. sleep 3 s = (Inr (), tick s)"
    and "i + n < 40" and "svcIngress (svc ((tick ^^ n) s)) \<noteq> []" and "\<And>k. k < n \<Longrightarrow> svcIngress (svc ((tick ^^ k) s)) = []"
  shows "awaitIngress get sleep i s = (Inr (svc ((tick ^^ n) s)), (tick ^^ n) s)"
  using assms(3-5)
proof (induction n arbitrary: i s)
  case 0
  then show ?case using assms(1,2) by (subst awaitIngress_step[of get s svc sleep tick]) simp_all
next
  case (Suc n)
  have "svcIngress (svc s) = []" using Suc.prems(3)[of 0] by simp
  moreover have "awaitIngress get sleep (Suc i) (tick s) = (Inr (svc ((tick ^^ n) (tick s))), (tick ^^ n) (tick s))"
  proof (rule Suc.IH)
    show "Suc i + n < 40" using Suc.prems(1) by simp
    show "svcIngress (svc ((tick ^^ n) (tick s))) \<noteq> []" using Suc.prems(2) by (simp add: funpow_swap1)
    show "svcIngress (svc ((tick ^^ k) (tick s))) = []" if "k < n" for k
      using Suc.prems(3)[of "Suc k"] that by (simp add: funpow_swap1)
  qed
  ultimately show ?case using Suc.prems(1) assms(1,2)
    by (subst awaitIngress_step[of get s svc sleep tick]) (simp_all add: funpow_swap1)
qed

lemma await_none:
  assumes "\<And>s. get s = (Inr (svc s), s)" and "\<And>s. sleep 3 s = (Inr (), tick s)"
    and "i + n = 39" and "\<And>k. k \<le> n \<Longrightarrow> svcIngress (svc ((tick ^^ k) s)) = []"
  shows "awaitIngress get sleep i s = (Inl (Error (errorf ''Unable to determine ingress address on destination cluster.'')), (tick ^^ n) s)"
  using assms(3,4)
proof (induction n arbitrary: i s)
  case 0
  have "svcIngress (svc s) = []" using 0(2)[of 0] by simp
  then show ?case using 0(1) assms(1,2) by (subst awaitIngress_step[of get s svc sleep tick]) simp_all
next
  case (Suc n)
  have "svcIngress (svc s) = []" using Suc.prems(2)[of 0] by simp
  moreover have "awaitIngress get sleep (Suc i) (tick s) =
      (Inl (Error (errorf ''Unable to determine ingress address on destination cluster.'')), (tick ^^ n) (tick s))"
  proof (rule Suc.IH)
    show "Suc i + n = 39" using Suc.prems(1) by simp
    show "svcIngress (svc ((tick ^^ k) (tick s))) = []" if "k \<le> n" for k
      using Suc.prems(2)[of "Suc k"] that by (simp add: funpow_swap1)
  qed
  ultimately show ?case using Suc.prems(1) assms(1,2)
    by (subst awaitIngress_step[of get s svc sleep tick]) (simp_all add: funpow_swap1)
qed

section \<open>A run\<close>

lemma tunnel_names [simp]: "serviceName \<noteq> proxyConfig" "serviceName \<noteq> ''proxied-cluster''"
  by (simp_all add: serviceName_def proxyConfig_def)

lemma nnOf_tunnelMeta [simp]: "nnOf (tunnelMeta o1 n) = \<lparr>nnNamespace = toNamespace o1, nnName = n\<rparr>"
  by (simp add: tunnelMeta_def nnOf_def objectMetaOf_def)

lemma meta_simps [simp]:
  "cmMeta (serverConfigMap o1) = tunnelMeta o1 serviceName" "svcMeta (openvpnService o1) = tunnelMeta o1 serviceName"
  "svcMeta (proxiedService o1) = tunnelMeta o1 ''proxied-cluster''" "trMeta (tunnelRoleOf o1) = tunnelMeta o1 serviceName"
  "tbMeta (tunnelBindingOf o1) = tunnelMeta o1 serviceName" "tdMeta (tunnelDeploymentOf o1 m p) = tunnelMeta o1 serviceName"
  "secMeta (clientSecret o1 e) = tunnelMeta o1 serviceName" "secMeta (proxySecret o1) = tunnelMeta o1 proxyConfig"
  by (simp_all add: serverConfigMap_def openvpnService_def proxiedService_def tunnelService_def tunnelRoleOf_def
      tunnelBindingOf_def tunnelDeploymentOf_def clientSecret_def proxySecret_def)

lemma serverSecret_meta: "serverSecret o1 = Inr sec \<Longrightarrow> secMeta sec = tunnelMeta o1 serviceName"
  by (auto simp: serverSecret_def bindR_eq_Inr)

lemma server_keys: "secMeta sec = tunnelMeta o1 serviceName \<Longrightarrow> distinct (map objectKey (serverObjects o1 m sec))"
  by (simp add: serverObjects_def accessObjects_def)

lemma client_keys: "distinct (map objectKey (clientObjects o1 m e))"
  by (simp add: clientObjects_def accessObjects_def)

lemma client_keys_endpoint: "map objectKey (clientObjects o1 m e) = map objectKey (clientObjects o1 m e')"
  by (simp add: clientObjects_def)

text \<open>No object of these names is there yet.\<close>

definition untouched :: "objects \<Rightarrow> tunnelObject list \<Rightarrow> bool" where
  "untouched st xs \<longleftrightarrow> list_all (\<lambda>k. st k = None) (map objectKey xs)"

text \<open>
  The load balancer: a service that exists is read back with the addresses \<open>addr\<close> it has at the
  moment, sleeping lets time pass and changes no object, and within 39 sleeps an address appears.
\<close>

definition balances :: "'s tunnel_client \<Rightarrow> (nat \<Rightarrow> ('s, unit) act) \<Rightarrow> ('s \<Rightarrow> objects) \<Rightarrow> ('s \<Rightarrow> objects)
    \<Rightarrow> ('s \<Rightarrow> (string \<times> string) list) \<Rightarrow> ('s \<Rightarrow> 's) \<Rightarrow> bool" where
  "balances c sleep v w addr tick \<longleftrightarrow>
     (\<forall>n s svc. v s (''Service'', n) = Some (OService svc) \<longrightarrow> tcGetService c n s = (Inr (svc\<lparr>svcIngress := addr s\<rparr>), s)) \<and>
     (\<forall>s. sleep 3 s = (Inr (), tick s) \<and> v (tick s) = v s \<and> w (tick s) = w s) \<and>
     (\<forall>s. \<exists>n<40. addr ((tick ^^ n) s) \<noteq> []) \<and> (\<forall>s x xs. addr s = x # xs \<longrightarrow> fst x \<noteq> [] \<or> snd x \<noteq> [])"

lemma tick_keeps: "balances c sleep v w addr tick \<Longrightarrow> v ((tick ^^ n) s) = v s \<and> w ((tick ^^ n) s) = w s"
  by (induction n) (auto simp: balances_def)

text \<open>The service may only be there from some state on, so the wait starts in a state that has it.\<close>

lemma await_addr:
  assumes b: "balances c sleep v w addr tick" and svc: "v s (''Service'', k) = Some (OService svc)" and "i + n < 40"
    and "addr ((tick ^^ n) s) \<noteq> []" and "\<And>j. j < n \<Longrightarrow> addr ((tick ^^ j) s) = []"
  shows "awaitIngress (tcGetService c k) sleep i s = (Inr (svc\<lparr>svcIngress := addr ((tick ^^ n) s)\<rparr>), (tick ^^ n) s)"
  using svc assms(3-5)
proof (induction n arbitrary: i s)
  case 0
  have "tcGetService c k s = (Inr (svc\<lparr>svcIngress := addr s\<rparr>), s)" using b 0(1) by (auto simp: balances_def)
  then show ?case using 0 by (subst awaitIngress.simps) (simp add: bindA_def act_run)
next
  case (Suc n)
  have get: "tcGetService c k s = (Inr (svc\<lparr>svcIngress := addr s\<rparr>), s)" and sl: "sleep 3 s = (Inr (), tick s)"
    and v: "v (tick s) = v s" using b Suc.prems(1) by (auto simp: balances_def)
  have "awaitIngress (tcGetService c k) sleep (Suc i) (tick s) =
      (Inr (svc\<lparr>svcIngress := addr ((tick ^^ n) (tick s))\<rparr>), (tick ^^ n) (tick s))"
  proof (rule Suc.IH)
    show "v (tick s) (''Service'', k) = Some (OService svc)" using v Suc.prems(1) by simp
    show "Suc i + n < 40" using Suc.prems(2) by simp
    show "addr ((tick ^^ n) (tick s)) \<noteq> []" using Suc.prems(3) by (simp add: funpow_swap1)
    show "addr ((tick ^^ j) (tick s)) = []" if "j < n" for j
      using Suc.prems(4)[of "Suc j"] that by (simp add: funpow_swap1)
  qed
  then show ?case using get sl Suc.prems(2) Suc.prems(4)[of 0]
    by (subst awaitIngress.simps) (simp add: bindA_def thenA_def funpow_swap1)
qed

lemma await_balanced:
  assumes b: "balances c sleep v w addr tick" and svc: "v s (''Service'', k) = Some (OService svc)"
  shows "\<exists>s' endpoint. awaitIngress (tcGetService c k) sleep 0 s = (Inr (svc\<lparr>svcIngress := addr s'\<rparr>), s') \<and>
    ingressAddress (svc\<lparr>svcIngress := addr s'\<rparr>) = Inr endpoint \<and> endpoint \<noteq> [] \<and> v s' = v s \<and> w s' = w s"
proof -
  define n where "n = (LEAST n. addr ((tick ^^ n) s) \<noteq> [])"
  obtain m where m: "m < 40" "addr ((tick ^^ m) s) \<noteq> []" using b unfolding balances_def by blast
  have n: "addr ((tick ^^ n) s) \<noteq> []" unfolding n_def by (rule LeastI[of _ m]) (rule m(2))
  have least: "addr ((tick ^^ j) s) = []" if "j < n" for j using not_less_Least[of j] that unfolding n_def by blast
  have "n \<le> m" unfolding n_def by (rule Least_le) (rule m(2))
  then have "awaitIngress (tcGetService c k) sleep 0 s = (Inr (svc\<lparr>svcIngress := addr ((tick ^^ n) s)\<rparr>), (tick ^^ n) s)"
    using await_addr[where n = n and i = 0 and s = s and v = v, OF b svc] n least m(1) by simp
  moreover obtain h a xs where x: "addr ((tick ^^ n) s) = (h, a) # xs" using n by (metis list.exhaust surj_pair)
  moreover have "h \<noteq> [] \<or> a \<noteq> []" using b x unfolding balances_def by (metis fst_conv snd_conv)
  ultimately show ?thesis using tick_keeps[OF b, of n s]
    by (intro exI[of _ "(tick ^^ n) s"] exI[of _ "if h \<noteq> [] then h else a"]) (auto simp: ingressAddress_def)
qed

lemma tunnel_run:
  assumes "tunnel_store (tuDst tun) dst src" "tunnel_store (tuSrc tun) src dst"
    and "balances (tuDst tun) sleep dst src addr tick" and sec: "serverSecret (tuOptions tun) = Inr sec"
    and "untouched (dst s) (serverObjects (tuOptions tun) (tuDstMinor tun) sec)"
    and "untouched (src s) (clientObjects (tuOptions tun) (tuSrcMinor tun) [])"
  shows "\<exists>s' endpoint. thenA (createOpenVPNServer tun) (createOpenVPNClient sleep tun) s = (Inr (), s') \<and> endpoint \<noteq> [] \<and>
    dst s' = holding (dst s) (serverObjects (tuOptions tun) (tuDstMinor tun) sec) \<and>
    src s' = holding (src s) (clientObjects (tuOptions tun) (tuSrcMinor tun) endpoint)"
proof -
  let ?o = "tuOptions tun"
  let ?so = "serverObjects ?o (tuDstMinor tun) sec"
  have dk: "distinct (map objectKey ?so)" using server_keys serverSecret_meta[OF sec] by blast
  then have "free_for (dst s) ?so" using assms(5) by (simp add: free_for_def untouched_def list_all_iff)
  then obtain s1 where 1: "createOpenVPNServer tun s = (Inr (), s1)" "dst s1 = holding (dst s) ?so" "src s1 = src s"
    using server_makes[OF assms(1) sec] unfolding makes_def by blast
  have "dst s1 (objectKey (OService (openvpnService ?o))) = Some (OService (openvpnService ?o))"
    unfolding 1(2) by (rule holding_mem[OF dk]) (simp add: serverObjects_def)
  then have svc: "dst s1 (''Service'', \<lparr>nnNamespace = toNamespace ?o, nnName = serviceName\<rparr>) = Some (OService (openvpnService ?o))" by simp
  obtain s2 endpoint where 2: "awaitIngress (tcGetService (tuDst tun) \<lparr>nnNamespace = toNamespace ?o, nnName = serviceName\<rparr>) sleep 0 s1
      = (Inr ((openvpnService ?o)\<lparr>svcIngress := addr s2\<rparr>), s2)"
      "ingressAddress ((openvpnService ?o)\<lparr>svcIngress := addr s2\<rparr>) = Inr endpoint" "endpoint \<noteq> []" "dst s2 = dst s1" "src s2 = src s1"
    using await_balanced[where v = dst and w = src and s = s1, OF assms(3) svc] by (elim exE conjE) (rule that; assumption)
  let ?co = "clientObjects ?o (tuSrcMinor tun) endpoint"
  have "untouched (src s2) ?co"
    using assms(6) client_keys_endpoint[of ?o "tuSrcMinor tun" endpoint "[]"] 1(3) 2(5) by (simp add: untouched_def)
  then have "free_for (src s2) ?co" using client_keys by (simp add: free_for_def untouched_def list_all_iff)
  then obtain s3 where 3: "(let o1 = ?o; c = tuSrc tun in thenA (tcCreate c (ONamespace (toNamespace o1)))
     (thenA (createRBAC tun ''src'')
     (thenA (tcCreate c (OSecret (clientSecret o1 endpoint)))
     (thenA (if toProxyUser o1 \<noteq> [] \<and> toProxyPass o1 \<noteq> [] then tcCreate c (OSecret (proxySecret o1)) else retA ())
       (tcCreate c (ODeployment (tunnelDeploymentOf o1 (tuSrcMinor tun) (clientPod o1 (tuSrcMinor tun))))))))) s2 = (Inr (), s3)"
      "src s3 = holding (src s2) ?co" "dst s3 = dst s2"
    using client_makes[OF assms(2)] unfolding makes_def by blast
  have "createOpenVPNClient sleep tun s1 = (Inr (), s3)"
    using 2(1,2) 3(1) by (simp add: createOpenVPNClient_def Let_def bindA_def pureA_def)
  then have "thenA (createOpenVPNServer tun) (createOpenVPNClient sleep tun) s = (Inr (), s3)"
    using 1(1) by (simp add: thenA_def bindA_def)
  then show ?thesis using 1(2,3) 2(3-5) 3(2,3) by auto
qed

end
