(* ===== verification/TunnelRuns.thy ===== *)
theory TunnelRuns
  imports TunnelProps
begin

text \<open>The properties of the tunnel, with two clusters in memory for their witnesses.\<close>

section \<open>Two clusters in memory\<close>

definition refCreate :: "('s \<Rightarrow> objects) \<Rightarrow> (objects \<Rightarrow> 's \<Rightarrow> 's) \<Rightarrow> tunnelObject \<Rightarrow> ('s, unit) act" where
  "refCreate get put x = (\<lambda>s. if get s (objectKey x) = None then (Inr (), put ((get s)(objectKey x \<mapsto> x)) s)
     else (Inl (Error (GoError ''already exists'' AlreadyExists)), s))"

definition refService :: "('s \<Rightarrow> objects) \<Rightarrow> namespacedName \<Rightarrow> ('s, service) act" where
  "refService get n = (\<lambda>s. case get s (''Service'', n) of
     Some (OService svc) \<Rightarrow> (Inr (svc\<lparr>svcIngress := [(''lb'', [])]\<rparr>), s)
   | _ \<Rightarrow> (Inl (Error (GoError ''not found'' NotFound)), s))"

definition refDst :: "(objects \<times> objects) tunnel_client" where
  "refDst = \<lparr>tcCreate = refCreate fst (\<lambda>d s. (d, snd s)), tcGetService = refService fst\<rparr>"

definition refSrc :: "(objects \<times> objects) tunnel_client" where
  "refSrc = \<lparr>tcCreate = refCreate snd (\<lambda>d s. (fst s, d)), tcGetService = refService snd\<rparr>"

definition refSleep :: "nat \<Rightarrow> (objects \<times> objects, unit) act" where
  "refSleep n = retA ()"

definition refTunnelOptions :: tunnelOptions where
  "refTunnelOptions = \<lparr>toNamespace = ''vpn'', toCACrt = Some ''ca'', toClientCrt = Some ''cc'', toClientKey = Some ''ck'',
     toServerCrt = Some ''sc'', toServerKey = Some ''sk'', toRSADHKey = Some ''dh'', toClientImage = ''client'', toServerImage = ''server'',
     toServerPort = 443, toProxyHost = ''proxy'', toProxyPort = [], toProxyUser = ''u'', toProxyPass = ''p''\<rparr>"

definition refTunnel :: "(objects \<times> objects) tunnel" where
  "refTunnel = \<lparr>tuDst = refDst, tuDstMinor = 12, tuSrc = refSrc, tuSrcMinor = 11, tuOptions = refTunnelOptions\<rparr>"

definition emptyClusters :: "objects \<times> objects" where
  "emptyClusters = (Map.empty, Map.empty)"

lemma refTunnel_laws:
  "tunnel_store (tuDst refTunnel) fst snd" "tunnel_store (tuSrc refTunnel) snd fst"
  "balances (tuDst refTunnel) refSleep fst snd (\<lambda>_. [(''lb'', [])]) id"
  by (auto simp: tunnel_store_def balances_def refTunnel_def refDst_def refSrc_def refCreate_def refService_def refSleep_def
      retA_def intro!: exI[of _ 0])

definition refServerSecret :: secret where
  "refServerSecret = projr (serverSecret refTunnelOptions)"

lemma refTunnel_ready:
  "serverSecret (tuOptions refTunnel) = Inr refServerSecret"
  "untouched (fst emptyClusters) xs" "untouched (snd emptyClusters) xs"
  by (simp_all add: refServerSecret_def refTunnel_def refTunnelOptions_def serverSecret_def bufBytes_def untouched_def
      emptyClusters_def list_all_iff)

section \<open>From the options to the two clusters\<close>

text \<open>
  \<open>Openvpn\<close> got its options and keys, both clients and both versions: what it does then.
\<close>

definition connects :: "('s, 'k, 'd) tunnel_env \<Rightarrow> tunnelOptions \<Rightarrow> 's \<Rightarrow> 's tunnel \<Rightarrow> 's \<Rightarrow> bool" where
  "connects E o0 s tun s1 \<longleftrightarrow>
     tunnelCrts (teCrypto E) (tunnelDefaults o0) s = (Inr (tuOptions tun), s1) \<and> list_all (\<lambda>e. e = None) (teSchemes E) \<and>
     teDstClient E s1 = (Inr (tuDst tun), s1) \<and> teSrcClient E s1 = (Inr (tuSrc tun), s1) \<and>
     (\<exists>v. teSrcVersion E s1 = (Inr v, s1) \<and> minorOf v = Inr (tuSrcMinor tun)) \<and>
     (\<exists>v. teDstVersion E s1 = (Inr v, s1) \<and> minorOf v = Inr (tuDstMinor tun))"

lemma openvpn_run:
  assumes "connects E o0 s tun s1"
  shows "Openvpn E o0 s = thenA (createOpenVPNServer tun) (createOpenVPNClient (teSleep E) tun) s1"
proof -
  have fa: "forA errorA es t = (Inr (), t)" if "list_all (\<lambda>e. e = None) es" for es and t :: 's
    using that by (induction es) (simp_all add: errorA_def retA_def)
  obtain v w where c: "tunnelCrts (teCrypto E) (tunnelDefaults o0) s = (Inr (tuOptions tun), s1)" "list_all (\<lambda>e. e = None) (teSchemes E)"
     "teDstClient E s1 = (Inr (tuDst tun), s1)" "teSrcClient E s1 = (Inr (tuSrc tun), s1)"
     "teSrcVersion E s1 = (Inr v, s1)" "minorOf v = Inr (tuSrcMinor tun)"
     "teDstVersion E s1 = (Inr w, s1)" "minorOf w = Inr (tuDstMinor tun)"
    using assms by (auto simp: connects_def)
  have tun: "\<lparr>tuDst = tuDst tun, tuDstMinor = tuDstMinor tun, tuSrc = tuSrc tun, tuSrcMinor = tuSrcMinor tun, tuOptions = tuOptions tun\<rparr> = tun"
    by (cases tun) simp
  show ?thesis using c
    by (simp add: tun Openvpn_def bindA_def thenA_def[of "forA _ _"] act_run Let_def fa[OF c(2)])
qed

definition refTunnelEnv :: "(objects \<times> objects, nat, nat) tunnel_env" where
  "refTunnelEnv = \<lparr>teCrypto = \<lparr>tkGenerateKey = (\<lambda>_ s. (Inr 0, s)), tkCertificate = (\<lambda>_ _ _ _ s. (Inr ''crt'', s)),
       tkPkcs1 = (\<lambda>_. ''key''), tkPem = (\<lambda>_ x. Inr x), dhGenerate = (\<lambda>_ _ s. (Inr 0, s)), dhToPEM = (\<lambda>_. Inr ''dh'')\<rparr>,
     teSchemes = [None], teDstClient = retA refDst, teSrcClient = retA refSrc, teSrcVersion = retA ''11+'', teDstVersion = retA ''12'',
     teSleep = refSleep\<rparr>"

lemma refTunnel_connects: "connects refTunnelEnv refTunnelOptions emptyClusters refTunnel emptyClusters"
  by (simp add: connects_def refTunnelEnv_def tunnelCrts_def tunnelDefaults_def refTunnelOptions_def refTunnel_def act_run
      minorOf_def trimS_def trimRight_def atoi_def readNat_def is_digit_def digit_val_def)

section \<open>The two ends meet\<close>

definition vpnName :: "tunnelOptions \<Rightarrow> namespacedName" where
  "vpnName o1 = \<lparr>nnNamespace = toNamespace o1, nnName = serviceName\<rparr>"

text \<open>The ports, the certificate authority, the client's key pair and the selector fit together.\<close>

definition ends_meet :: "tunnelOptions \<Rightarrow> string \<Rightarrow> objects \<Rightarrow> objects \<Rightarrow> bool" where
  "ends_meet o1 endpoint d s \<longleftrightarrow>
     (\<exists>cm svc ssec sd csec cd p ca crt key.
        d (''ConfigMap'', vpnName o1) = Some (OConfigMap cm) \<and> d (''Service'', vpnName o1) = Some (OService svc) \<and>
        d (''Secret'', vpnName o1) = Some (OSecret ssec) \<and> d (''Deployment'', vpnName o1) = Some (ODeployment sd) \<and>
        s (''Secret'', vpnName o1) = Some (OSecret csec) \<and> s (''Deployment'', vpnName o1) = Some (ODeployment cd) \<and>
        map spPort (svcPorts svc) = [p] \<and> map spTargetPort (svcPorts svc) = [p] \<and> svcSelector svc = tdPodLabels sd \<and>
        fmlookup (cmData cm) ''openvpn.conf'' = Some (openvpnServerConf (itoa (sint p))) \<and>
        fmlookup (secData ssec) ''ca.crt'' = Some ca \<and>
        fmlookup (secData csec) ''openvpn.conf'' = Some (openvpnClientConf
          \<lparr>ocPort = itoa (sint p), ocCA = ca, ocCrt = crt, ocKey = key, ocEndpoint = endpoint, ocProxy = proxyLine o1\<rparr>) \<and>
        toClientCrt o1 = Some crt \<and> toClientKey o1 = Some key)"

lemma objects_of_run:
  assumes sec: "serverSecret o1 = Inr sec"
    and d: "d = holding d0 (serverObjects o1 m sec)" and s: "s = holding s0 (clientObjects o1 m' endpoint)"
  shows "d (''ConfigMap'', vpnName o1) = Some (OConfigMap (serverConfigMap o1))"
    "d (''Service'', vpnName o1) = Some (OService (openvpnService o1))"
    "d (''Secret'', vpnName o1) = Some (OSecret sec)"
    "d (''ServiceAccount'', vpnName o1) = Some (OServiceAccount (tunnelMeta o1 serviceName))"
    "d (''Deployment'', vpnName o1) = Some (ODeployment (tunnelDeploymentOf o1 m (serverPod o1)))"
    "s (''Secret'', vpnName o1) = Some (OSecret (clientSecret o1 endpoint))"
    "s (''ServiceAccount'', vpnName o1) = Some (OServiceAccount (tunnelMeta o1 serviceName))"
    "s (''Deployment'', vpnName o1) = Some (ODeployment (tunnelDeploymentOf o1 m' (clientPod o1 m')))"
    "toProxyUser o1 \<noteq> [] \<and> toProxyPass o1 \<noteq> [] \<Longrightarrow>
      s (''Secret'', \<lparr>nnNamespace = toNamespace o1, nnName = proxyConfig\<rparr>) = Some (OSecret (proxySecret o1))"
proof -
  have dk: "distinct (map objectKey (serverObjects o1 m sec))" using server_keys serverSecret_meta[OF sec] by blast
  have dm: "x \<in> set (serverObjects o1 m sec) \<Longrightarrow> d (objectKey x) = Some x" for x
    unfolding d by (rule holding_mem[OF dk])
  have sm: "x \<in> set (clientObjects o1 m' endpoint) \<Longrightarrow> s (objectKey x) = Some x" for x
    unfolding s by (rule holding_mem[OF client_keys])
  show "d (''ConfigMap'', vpnName o1) = Some (OConfigMap (serverConfigMap o1))"
    using dm[of "OConfigMap (serverConfigMap o1)"] by (simp add: serverObjects_def vpnName_def)
  show "d (''Service'', vpnName o1) = Some (OService (openvpnService o1))"
    using dm[of "OService (openvpnService o1)"] by (simp add: serverObjects_def vpnName_def)
  show "d (''Secret'', vpnName o1) = Some (OSecret sec)"
    using dm[of "OSecret sec"] serverSecret_meta[OF sec] by (simp add: serverObjects_def vpnName_def)
  show "d (''ServiceAccount'', vpnName o1) = Some (OServiceAccount (tunnelMeta o1 serviceName))"
    using dm[of "OServiceAccount (tunnelMeta o1 serviceName)"] by (simp add: serverObjects_def accessObjects_def vpnName_def)
  show "d (''Deployment'', vpnName o1) = Some (ODeployment (tunnelDeploymentOf o1 m (serverPod o1)))"
    using dm[of "ODeployment (tunnelDeploymentOf o1 m (serverPod o1))"] by (simp add: serverObjects_def vpnName_def)
  show "s (''Secret'', vpnName o1) = Some (OSecret (clientSecret o1 endpoint))"
    using sm[of "OSecret (clientSecret o1 endpoint)"] by (simp add: clientObjects_def vpnName_def)
  show "s (''ServiceAccount'', vpnName o1) = Some (OServiceAccount (tunnelMeta o1 serviceName))"
    using sm[of "OServiceAccount (tunnelMeta o1 serviceName)"] by (simp add: clientObjects_def accessObjects_def vpnName_def)
  show "s (''Deployment'', vpnName o1) = Some (ODeployment (tunnelDeploymentOf o1 m' (clientPod o1 m')))"
    using sm[of "ODeployment (tunnelDeploymentOf o1 m' (clientPod o1 m'))"] by (simp add: clientObjects_def vpnName_def)
  show "s (''Secret'', \<lparr>nnNamespace = toNamespace o1, nnName = proxyConfig\<rparr>) = Some (OSecret (proxySecret o1))"
    if "toProxyUser o1 \<noteq> [] \<and> toProxyPass o1 \<noteq> []"
    using sm[of "OSecret (proxySecret o1)"] that by (simp add: clientObjects_def vpnName_def)
qed



section \<open>Nothing dangles\<close>

definition volume_exists :: "objects \<Rightarrow> string \<Rightarrow> volume \<Rightarrow> bool" where
  "volume_exists st ns v = (case volSource v of
     FromSecret n _ _ \<Rightarrow> st (''Secret'', \<lparr>nnNamespace = ns, nnName = n\<rparr>) \<noteq> None
   | FromConfigMap n \<Rightarrow> st (''ConfigMap'', \<lparr>nnNamespace = ns, nnName = n\<rparr>) \<noteq> None
   | _ \<Rightarrow> False)"

text \<open>Every volume and the service account of a deployment exist, and every mount is of one of its volumes.\<close>

definition deployable :: "objects \<Rightarrow> string \<Rightarrow> tunnelDeployment \<Rightarrow> bool" where
  "deployable st ns d \<longleftrightarrow>
     st (''ServiceAccount'', \<lparr>nnNamespace = ns, nnName = tdServiceAccount d\<rparr>) \<noteq> None \<and>
     list_all (volume_exists st ns) (psVolumes (tdPod d)) \<and>
     list_all (\<lambda>c. list_all (\<lambda>m. vmName m \<in> set (map volName (psVolumes (tdPod d)))) (ctMounts c)) (psContainers (tdPod d)) \<and>
     tdSelector d = tdPodLabels d"

text \<open>
  C36. After a run both deployments can start: their service accounts, every secret and configuration map
  their volumes name, and the volumes their containers mount exist, with and without proxy credentials.
\<close>

theorem tunnel_deployments_are_complete:
  assumes "tunnel_store (tuDst tun) dst src" and "tunnel_store (tuSrc tun) src dst"
    and "balances (tuDst tun) sleep dst src addr tick" and "serverSecret (tuOptions tun) = Inr sec"
    and "untouched (dst s) (serverObjects (tuOptions tun) (tuDstMinor tun) sec)"
    and "untouched (src s) (clientObjects (tuOptions tun) (tuSrcMinor tun) [])"
  shows "\<exists>s' sd cd. thenA (createOpenVPNServer tun) (createOpenVPNClient sleep tun) s = (Inr (), s') \<and>
    dst s' (''Deployment'', vpnName (tuOptions tun)) = Some (ODeployment sd) \<and> deployable (dst s') (toNamespace (tuOptions tun)) sd \<and>
    src s' (''Deployment'', vpnName (tuOptions tun)) = Some (ODeployment cd) \<and> deployable (src s') (toNamespace (tuOptions tun)) cd"
proof -
  let ?o = "tuOptions tun"
  obtain s' endpoint where r: "thenA (createOpenVPNServer tun) (createOpenVPNClient sleep tun) s = (Inr (), s')"
      "dst s' = holding (dst s) (serverObjects ?o (tuDstMinor tun) sec)"
      "src s' = holding (src s) (clientObjects ?o (tuSrcMinor tun) endpoint)"
    using tunnel_run[OF assms] by blast
  note obj = objects_of_run[OF assms(4) r(2,3), unfolded vpnName_def]
  have "deployable (dst s') (toNamespace ?o) (tunnelDeploymentOf ?o (tuDstMinor tun) (serverPod ?o))"
    using obj(1,3,4) by (simp add: deployable_def tunnelDeploymentOf_def serverPod_def tunnelPod_def openvpnContainer_def
        containerOf_def mountOf_def secretVolume_def volume_exists_def)
  moreover have "deployable (src s') (toNamespace ?o) (tunnelDeploymentOf ?o (tuSrcMinor tun) (clientPod ?o (tuSrcMinor tun)))"
    using obj(6,7,9) by (auto simp: deployable_def tunnelDeploymentOf_def clientPod_def Let_def tunnelPod_def openvpnContainer_def
        containerOf_def mountOf_def secretVolume_def volume_exists_def)
  ultimately show ?thesis using r(1) obj(5,8) unfolding vpnName_def by blast
qed

theorem tunnel_deployments_are_complete_witness:
  "\<exists>s' sd cd. thenA (createOpenVPNServer refTunnel) (createOpenVPNClient refSleep refTunnel) emptyClusters = (Inr (), s') \<and>
    fst s' (''Deployment'', vpnName (tuOptions refTunnel)) = Some (ODeployment sd) \<and> deployable (fst s') (toNamespace (tuOptions refTunnel)) sd \<and>
    snd s' (''Deployment'', vpnName (tuOptions refTunnel)) = Some (ODeployment cd) \<and> deployable (snd s') (toNamespace (tuOptions refTunnel)) cd"
  by (rule tunnel_deployments_are_complete[OF refTunnel_laws refTunnel_ready(1) refTunnel_ready(2) refTunnel_ready(3)])

section \<open>Waiting\<close>

text \<open>
  C35. The wait for the load balancer ends: with the service as the first of 40 polls that shows an address
  sees it, or with an error after the 40th poll and the 39th sleep when none does.
\<close>

theorem tunnel_wait_ends:
  assumes "\<And>s. get s = (Inr (svc s), s)" and "\<And>s. sleep 3 s = (Inr (), tick s)"
  shows "awaitIngress get sleep 0 s = (case List.find (\<lambda>n. svcIngress (svc ((tick ^^ n) s)) \<noteq> []) [0..<40] of
     Some n \<Rightarrow> (Inr (svc ((tick ^^ n) s)), (tick ^^ n) s)
   | None \<Rightarrow> (Inl (Error (errorf ''Unable to determine ingress address on destination cluster.'')), (tick ^^ 39) s))"
proof (cases "List.find (\<lambda>n. svcIngress (svc ((tick ^^ n) s)) \<noteq> []) [0..<40]")
  case None
  then have "svcIngress (svc ((tick ^^ k) s)) = []" if "k \<le> 39" for k using that by (simp add: find_None_iff)
  then show ?thesis using None await_none[where i = 0 and n = 39 and get = get and svc = svc and tick = tick and sleep = sleep and s = s, OF assms] by simp
next
  case (Some n)
  then obtain i where i: "i < 40" "n = i" "svcIngress (svc ((tick ^^ n) s)) \<noteq> []" "\<forall>j<i. svcIngress (svc ((tick ^^ j) s)) = []"
    by (auto simp: find_Some_iff)
  then show ?thesis using Some await_found[where i = 0 and n = n and get = get and svc = svc and tick = tick and sleep = sleep and s = s, OF assms] by simp
qed

text \<open>A load balancer whose address appears when the clock, the state here, reaches 2.\<close>

definition lateService :: "nat \<Rightarrow> service" where
  "lateService now = emptyService\<lparr>svcIngress := (if now < 2 then [] else [(''lb'', [])])\<rparr>"

theorem tunnel_wait_ends_witness:
  "awaitIngress (\<lambda>s. (Inr (lateService s), s)) (\<lambda>n s. (Inr (), Suc s)) 0 0 = (Inr (lateService 2), 2)"
proof -
  have "List.find (\<lambda>n. svcIngress (lateService ((Suc ^^ n) 0)) \<noteq> []) [0..<40] = Some 2"
    by (simp add: lateService_def upt_rec)
  then show ?thesis
    using tunnel_wait_ends[of "\<lambda>s. (Inr (lateService s), s)" lateService "\<lambda>n s. (Inr (), Suc s)" Suc 0] by simp
qed

section \<open>Certificates\<close>

definition issued :: "('s, 'k, 'd) tunnel_crypto \<Rightarrow> tunnelCert \<Rightarrow> tunnelCert \<Rightarrow> 'k \<Rightarrow> 'k \<Rightarrow> string \<Rightarrow> bool" where
  "issued K temp parent key signer crt \<longleftrightarrow>
     (\<exists>s bytes s'. tkCertificate K temp parent key signer s = (Inr bytes, s') \<and> tkPem K ''CERTIFICATE'' bytes = Inr crt)"

definition subjectText :: "tunnelCert \<Rightarrow> string" where
  "subjectText t = ''C='' @ concat (certCountry t) @ '', ST='' @ concat (certProvince t) @ '', L='' @ concat (certLocality t) @
     '', O='' @ concat (certOrganization t) @ '', OU='' @ concat (certOrganizationalUnit t) @ '', CN='' @ certCommonName t"

lemma createCACrtKeyPair_issued:
  "createCACrtKeyPair K temp s = (Inr (crt, key), s') \<Longrightarrow> issued K temp temp key key crt"
  unfolding issued_def by (auto simp: createCACrtKeyPair_def bindA_eq_Inr act_run bindR_eq_Inr)

lemma createCrtKeyPair_issued:
  "createCrtKeyPair K temp caTemp caKey s = (Inr (crt, pem), s') \<Longrightarrow>
   \<exists>key. issued K temp caTemp key caKey crt \<and> tkPem K ''RSA PRIVATE KEY'' (tkPkcs1 K key) = Inr pem"
  unfolding issued_def by (auto simp: createCrtKeyPair_def bindA_eq_Inr act_run bindR_eq_Inr)

lemma client_conf_verifies: "\<exists>pre. openvpnClientConf d = pre @ ''verify-x509-name \"'' @ subjectText serverCrtTemp @ ''\"'' @ [CHR 0x0A]"
proof -
  have t: "''verify-x509-name \"C=US, ST=NC, L=RDU, O=Engineering, OU=Crane, CN=Server\"'' =
      ''verify-x509-name \"'' @ subjectText serverCrtTemp @ ''\"''"
    by (simp add: subjectText_def serverCrtTemp_def tunnelCertOf_def)
  show ?thesis unfolding openvpnClientConf_def t
    by (rule exI[of _ "concat (map (\<lambda>l. l @ [CHR 0x0A])
     [''client'', ''cipher AES-256-GCM'', ''dev tun'', ''proto tcp4'', ''remote '' @ ocEndpoint d @ '' '' @ ocPort d @ '' tcp-client'',
      ocProxy d, ''<ca>'', ocCA d, ''</ca>'', ''<key>'', ocKey d, ''</key>'', ''<cert>'', ocCrt d, ''</cert>''])"])
      (simp only: list.map concat.simps append_assoc append.simps append_Nil2)
qed

text \<open>
  C17. The generated certificates belong together: the CA certificate is self-signed, the server's and the
  client's are signed with its key and name it as their parent, each comes with its own private key,
  and the name every client configuration verifies is the subject of the server's certificate.
\<close>

theorem tunnel_certificates_share_the_authority:
  assumes "GenOpenvpnSSLCrts K s = (Inr (ca, serverCrt, serverKey, clientCrt, clientKey, dh), s')"
  shows "\<exists>caKey sKey cKey pre. issued K caCrtTemp caCrtTemp caKey caKey ca \<and>
    issued K serverCrtTemp caCrtTemp sKey caKey serverCrt \<and> tkPem K ''RSA PRIVATE KEY'' (tkPkcs1 K sKey) = Inr serverKey \<and>
    issued K clientCrtTemp caCrtTemp cKey caKey clientCrt \<and> tkPem K ''RSA PRIVATE KEY'' (tkPkcs1 K cKey) = Inr clientKey \<and>
    openvpnClientConf (clientConfigData o1 endpoint) = pre @ ''verify-x509-name \"'' @ subjectText serverCrtTemp @ ''\"'' @ [CHR 0x0A]"
proof -
  obtain caKey s1 s2 s3 where 1: "createCACrtKeyPair K caCrtTemp s = (Inr (ca, caKey), s1)"
      "createCrtKeyPair K serverCrtTemp caCrtTemp caKey s1 = (Inr (serverCrt, serverKey), s2)"
      "createCrtKeyPair K clientCrtTemp caCrtTemp caKey s2 = (Inr (clientCrt, clientKey), s3)"
    using assms by (auto simp: GenOpenvpnSSLCrts_def bindA_eq_Inr act_run)
  obtain pre where "openvpnClientConf (clientConfigData o1 endpoint) = pre @ ''verify-x509-name \"'' @ subjectText serverCrtTemp @ ''\"'' @ [CHR 0x0A]"
    using client_conf_verifies by blast
  then show ?thesis using createCACrtKeyPair_issued[OF 1(1)] createCrtKeyPair_issued[OF 1(2)] createCrtKeyPair_issued[OF 1(3)] by blast
qed

definition refTunnelCrypto :: "(nat, nat, nat) tunnel_crypto" where
  "refTunnelCrypto = \<lparr>tkGenerateKey = (\<lambda>_ s. (Inr s, Suc s)), tkCertificate = (\<lambda>temp _ k _ s. (Inr (certCommonName temp), s)),
     tkPkcs1 = (\<lambda>k. replicate k CHR ''k''), tkPem = (\<lambda>_ x. Inr x), dhGenerate = (\<lambda>_ _ s. (Inr s, Suc s)), dhToPEM = (\<lambda>_. Inr ''dh'')\<rparr>"

lemma refTunnelCrypto_run: "GenOpenvpnSSLCrts refTunnelCrypto 0 = (Inr (''CA'', ''Server'', ''k'', ''Client'', ''kk'', ''dh''), 4)"
  by (simp add: GenOpenvpnSSLCrts_def createCACrtKeyPair_def createCrtKeyPair_def bindA_def act_run refTunnelCrypto_def
      caCrtTemp_def serverCrtTemp_def clientCrtTemp_def tunnelCertOf_def numeral_eq_Suc)

theorem tunnel_certificates_share_the_authority_witness:
  "\<exists>caKey sKey. issued refTunnelCrypto caCrtTemp caCrtTemp caKey caKey ''CA'' \<and>
     issued refTunnelCrypto serverCrtTemp caCrtTemp sKey caKey ''Server''"
  using tunnel_certificates_share_the_authority[OF refTunnelCrypto_run, of refTunnelOptions "''lb''"] by blast

section \<open>What goes wrong\<close>



text \<open>Only the CA certificate is looked at: a client key that is missing beside it ends up as the text of nil.\<close>

lemma missing_client_key_is_written: "toClientKey o1 = None \<Longrightarrow> ocKey (clientConfigData o1 endpoint) = ''<nil>''"
  by (simp add: clientConfigData_def bufString_def)

lemma missing_server_key_panics: "toCACrt o1 = Some ca \<Longrightarrow> toServerKey o1 = None \<Longrightarrow> \<exists>w. serverSecret o1 = Inl (Panic w)"
  by (cases "toRSADHKey o1"; cases "toServerCrt o1") (simp_all add: serverSecret_def bufBytes_def derefR_def)

text \<open>The image of the client is never used.\<close>

lemma client_image_is_ignored:
  "createOpenVPNClient sleep (tun\<lparr>tuOptions := (tuOptions tun)\<lparr>toClientImage := img\<rparr>\<rparr>) = createOpenVPNClient sleep tun"
proof -
  have "proxyLine (o1\<lparr>toClientImage := img\<rparr>) = proxyLine o1" for o1 :: tunnelOptions
    by (simp add: proxyLine_def proxyPortOf_def)
  moreover have "clientPod (o1\<lparr>toClientImage := img\<rparr>) m = clientPod o1 m" for o1 :: tunnelOptions and m
    unfolding clientPod_def by simp
  ultimately show ?thesis
    by (simp add: createOpenVPNClient_def createRBAC_def clientSecret_def clientConfigData_def proxySecret_def tunnelMeta_def
        tunnelDeploymentOf_def tunnelContextOf_def tunnelRoleOf_def tunnelBindingOf_def Let_def)
qed

end
