(* ===== verification/NewResource.thy ===== *)
theory NewResource
  imports KubeProps
begin

text \<open>
  \<open>transform/new_resource.go\<close>: a resource made by a plugin is split into a skeleton and a patch
  that adds the rest. The patch is printed with \<open>json.Marshal\<close> and read back with
  \<open>DecodePatch\<close>; the printer is an argument, and \<open>print_law\<close> says that the patch package
  reads what it prints.
\<close>

section \<open>Model\<close>

record patchOp =
  poOp :: string
  poPath :: string
  poValue :: json

definition sortedKeys :: "jobject \<Rightarrow> string list" where
  "sortedKeys m = sorted_list_of_set (fset (fmdom m))"

text \<open>\<open>if v, ok := src[key]; ok { dst[key] = v }\<close>\<close>

definition copyKey :: "jobject \<Rightarrow> string \<Rightarrow> jobject \<Rightarrow> jobject" where
  "copyKey src key dst = (case fmlookup src key of None \<Rightarrow> dst | Some v \<Rightarrow> fmupd key v dst)"

definition metaOf :: "jobject \<Rightarrow> jobject option" where
  "metaOf m = Option.bind (fmlookup m ''metadata'') asObject"

definition buildSkeleton :: "jobject \<Rightarrow> jobject" where
  "buildSkeleton full =
     (let skel = copyKey full ''kind'' (copyKey full ''apiVersion'' fmempty)
      in case metaOf full of None \<Rightarrow> skel
         | Some fullMeta \<Rightarrow>
             fmupd ''metadata''
               (JObject (copyKey fullMeta ''namespace'' (copyKey fullMeta ''name'' fmempty))) skel)"

definition addOps :: "string \<Rightarrow> jobject \<Rightarrow> jobject \<Rightarrow> patchOp list" where
  "addOps prefix full skeleton =
     map (\<lambda>key. \<lparr>poOp = ''add'', poPath = prefix @ escapeJSONPointer key, poValue = the (fmlookup full key)\<rparr>)
       (filter (\<lambda>key. fmlookup skeleton key = None) (sortedKeys full))"

definition buildPatchOps :: "jobject \<Rightarrow> jobject \<Rightarrow> patchOp list" where
  "buildPatchOps full skeleton =
     (case (metaOf full, metaOf skeleton) of
        (Some fullMeta, Some skelMeta) \<Rightarrow> addOps ''/metadata/'' fullMeta skelMeta
      | _ \<Rightarrow> []) @ addOps ''/'' full skeleton"

definition SplitNewResourceToSkeletonAndPatch ::
  "kube_lib \<Rightarrow> (patchOp list \<Rightarrow> string ret) \<Rightarrow> unstructured \<Rightarrow> (unstructured \<times> patch) ret" where
  "SplitNewResourceToSkeletonAndPatch L marshal resource =
     (case resource of None \<Rightarrow> Inl (errorf ''resource has nil Object'')
      | Some full \<Rightarrow>
          (let skeleton = buildSkeleton full; ops = buildPatchOps full skeleton
           in if length ops = 0 then Inr (Some skeleton, [])
              else (case marshal ops of
                Inl err \<Rightarrow> Inl (errorf (''failed to marshal patch ops: '' @ errorText err))
              | Inr opsJSON \<Rightarrow> (case decodePatch L opsJSON of
                  Inl err \<Rightarrow> Inl (errorf (''failed to decode patch: '' @ errorText err))
                | Inr patch \<Rightarrow> Inr (Some skeleton, patch)))))"

section \<open>The parts put together again\<close>

definition add_step :: "patchOp \<Rightarrow> patch_step" where
  "add_step p = Add (poPath p) (poValue p)"

lemma set_sortedKeys: "k \<in> set (sortedKeys m) \<longleftrightarrow> fmlookup m k \<noteq> None"
  by (simp add: sortedKeys_def fset_fmdom_iff)

lemma top_tokens: "pointer_tokens (''/'' @ escapeJSONPointer k) = Some [k]"
  using pointer_tokens_pointer[of "[k]"] by (simp add: pointer_Cons escape_is)

lemma meta_tokens: "pointer_tokens (''/metadata/'' @ escapeJSONPointer k) = Some [''metadata'', k]"
proof -
  have "''/metadata/'' @ escapeJSONPointer k = pointer [''metadata'', k]"
    by (simp add: pointer_Cons escape_is escapeToken_Cons)
  then show ?thesis by (simp only: pointer_tokens_pointer)
qed

lemma apply_top:
  "apply_steps (map add_step (map (\<lambda>k. \<lparr>poOp = ''add'', poPath = ''/'' @ escapeJSONPointer k, poValue = f k\<rparr>) ks)) (JObject m) =
   Some (JObject (foldl (\<lambda>m k. fmupd k (f k) m) m ks))"
proof (induction ks arbitrary: m)
  case (Cons k ks)
  then show ?case using top_tokens[of k] by (simp add: add_step_def)
qed simp

lemma apply_meta:
  "fmlookup m ''metadata'' = Some (JObject a) \<Longrightarrow>
   apply_steps (map add_step (map (\<lambda>k. \<lparr>poOp = ''add'', poPath = ''/metadata/'' @ escapeJSONPointer k, poValue = f k\<rparr>) ks)) (JObject m) =
   Some (JObject (fmupd ''metadata'' (JObject (foldl (\<lambda>m k. fmupd k (f k) m) a ks)) m))"
proof (induction ks arbitrary: m a)
  case Nil
  then show ?case by (simp add: fmupd_same)
next
  case (Cons k ks)
  have "fmupd x v (fmupd x w m) = fmupd x v m" for x v w by (rule fmap_ext) auto
  with Cons.IH[of "fmupd ''metadata'' (JObject (fmupd k (f k) a)) m" "fmupd k (f k) a"] Cons.prems
  show ?case using meta_tokens[of k] by (simp add: add_step_def)
qed

lemma apply_addOps:
  "apply_steps (map add_step (addOps ''/'' full skel)) (JObject m) =
   Some (JObject (foldl (\<lambda>m k. fmupd k (the (fmlookup full k)) m) m
     (filter (\<lambda>k. fmlookup skel k = None) (sortedKeys full))))"
  "fmlookup m ''metadata'' = Some (JObject a) \<Longrightarrow>
   apply_steps (map add_step (addOps ''/metadata/'' full skel)) (JObject m) =
   Some (JObject (fmupd ''metadata'' (JObject (foldl (\<lambda>m k. fmupd k (the (fmlookup full k)) m) a
     (filter (\<lambda>k. fmlookup skel k = None) (sortedKeys full)))) m))"
  unfolding addOps_def by (rule apply_top, rule apply_meta)

text \<open>Adding what a part of a map lacks gives the whole map.\<close>

lemma complete_map:
  assumes "\<And>k v. fmlookup m0 k = Some v \<Longrightarrow> fmlookup full k = Some v"
  shows "foldl (\<lambda>m k. fmupd k (the (fmlookup full k)) m) m0 (filter (\<lambda>k. fmlookup m0 k = None) (sortedKeys full)) = full"
proof (rule fmap_ext)
  fix k
  show "fmlookup (foldl (\<lambda>m k. fmupd k (the (fmlookup full k)) m) m0
      (filter (\<lambda>k. fmlookup m0 k = None) (sortedKeys full))) k = fmlookup full k"
    using assms[of k] set_sortedKeys[of k full]
    by (cases "fmlookup m0 k"; cases "fmlookup full k") (auto simp: foldl_fmupd_keys)
qed

lemma copyKey_lookup: "fmlookup (copyKey src key dst) k =
   (if k = key \<and> fmlookup src key \<noteq> None then fmlookup src key else fmlookup dst k)"
  by (auto simp: copyKey_def split: option.splits)

lemma metaOf_Some: "metaOf m = Some a \<longleftrightarrow> fmlookup m ''metadata'' = Some (JObject a)"
  by (auto simp: metaOf_def bind_eq_Some_conv)

lemma metaOf_None: "metaOf m = None \<longleftrightarrow> (\<forall>a. fmlookup m ''metadata'' \<noteq> Some (JObject a))"
  using metaOf_Some[of m] by (metis not_Some_eq)

lemma buildSkeleton_meta:
  "metaOf (buildSkeleton full) = map_option (\<lambda>a. copyKey a ''namespace'' (copyKey a ''name'' fmempty)) (metaOf full)"
  by (auto simp: buildSkeleton_def metaOf_def Let_def copyKey_lookup split: option.split)

lemma skeleton_lookup:
  "fmlookup (buildSkeleton full) k =
    (if k = ''metadata'' then map_option (\<lambda>a. JObject (copyKey a ''namespace'' (copyKey a ''name'' fmempty))) (metaOf full)
     else if k \<in> {''apiVersion'', ''kind''} then fmlookup full k else None)"
  by (auto simp: buildSkeleton_def Let_def copyKey_lookup split: option.split)

text \<open>
  Nothing is lost in the split: applying the add operations to the skeleton gives back
  the complete resource, whatever it holds.
\<close>

theorem buildPatchOps_roundtrip:
  "apply_steps (map add_step (buildPatchOps full (buildSkeleton full))) (JObject (buildSkeleton full)) =
   Some (JObject full)"
proof (cases "metaOf full")
  case None
  have "foldl (\<lambda>m k. fmupd k (the (fmlookup full k)) m) (buildSkeleton full)
      (filter (\<lambda>k. fmlookup (buildSkeleton full) k = None) (sortedKeys full)) = full"
    using None by (intro complete_map) (auto simp: skeleton_lookup split: if_splits)
  with None show ?thesis by (simp add: buildPatchOps_def apply_addOps)
next
  case (Some a)
  let ?a = "copyKey a ''namespace'' (copyKey a ''name'' fmempty)" and ?skel = "buildSkeleton full"
  let ?rest = "filter (\<lambda>k. fmlookup ?skel k = None) (sortedKeys full)"
  have a: "foldl (\<lambda>m k. fmupd k (the (fmlookup a k)) m) ?a (filter (\<lambda>k. fmlookup ?a k = None) (sortedKeys a)) = a"
    by (intro complete_map) (auto simp: copyKey_lookup split: if_splits)
  let ?mid = "fmupd ''metadata'' (JObject a) ?skel"
  have "fmlookup ?skel ''metadata'' = Some (JObject ?a)" using Some by (simp add: skeleton_lookup)
  from apply_addOps(2)[OF this] a
  have 1: "apply_steps (map add_step (addOps ''/metadata/'' a ?a)) (JObject ?skel) = Some (JObject ?mid)"
    by simp
  have "?rest = filter (\<lambda>k. fmlookup ?mid k = None) (sortedKeys full)"
    using Some by (intro filter_cong) (auto simp: skeleton_lookup)
  moreover have "foldl (\<lambda>m k. fmupd k (the (fmlookup full k)) m) ?mid (filter (\<lambda>k. fmlookup ?mid k = None) (sortedKeys full)) = full"
    using Some by (intro complete_map) (auto simp: skeleton_lookup metaOf_Some split: if_splits)
  ultimately have "apply_steps (map add_step (addOps ''/'' full ?skel)) (JObject ?mid) = Some (JObject full)"
    by (simp add: apply_addOps(1))
  with 1 Some show ?thesis
    by (simp add: buildPatchOps_def buildSkeleton_meta apply_steps_append)
qed

text \<open>
  The skeleton is the part kustomize selects by, and only that: its keys are
  \<open>apiVersion\<close>, \<open>kind\<close> and \<open>metadata\<close>, the latter with a name and a namespace at most, all as
  in the resource.
\<close>

lemma buildSkeleton_minimal:
  "fset (fmdom (buildSkeleton full)) \<subseteq> {''apiVersion'', ''kind'', ''metadata''} \<and>
   (\<forall>a. metaOf (buildSkeleton full) = Some a \<longrightarrow> fset (fmdom a) \<subseteq> {''name'', ''namespace''}) \<and>
   (\<forall>ks\<in>{[''apiVersion''], [''kind''], [''metadata'', ''name''], [''metadata'', ''namespace'']}.
      metaOf full \<noteq> None \<or> length ks = 1 \<longrightarrow>
      follow (JObject (buildSkeleton full)) ks = follow (JObject full) ks)"
  by (auto simp: fset_fmdom_iff skeleton_lookup buildSkeleton_meta copyKey_lookup metaOf_Some metaOf_None
      split: if_splits option.splits)

text \<open>What the patch package reads from the print of the operations.\<close>

definition print_law :: "kube_lib \<Rightarrow> (patchOp list \<Rightarrow> string ret) \<Rightarrow> patchOp list \<Rightarrow> bool" where
  "print_law L marshal ops \<longleftrightarrow> (\<exists>t. marshal ops = Inr t \<and>
     decodePatch L t = Inr (map (\<lambda>p. valueOp L (poOp p) (poPath p) (poValue p)) ops))"

lemma buildPatchOps_add: "p \<in> set (buildPatchOps full skel) \<Longrightarrow> poOp p = ''add''"
  by (auto simp: buildPatchOps_def addOps_def split: option.splits prod.splits)

text \<open>
  C8. Splitting a resource that is not nil and whose operations are read as printed cannot
  fail, and the returned patch, applied to the
  returned skeleton, gives the resource back.
\<close>

theorem SplitNewResource_roundtrip:
  assumes "print_law L marshal (buildPatchOps full (buildSkeleton full))"
  shows "\<exists>skel ps st. SplitNewResourceToSkeletonAndPatch L marshal (Some full) = Inr (Some skel, ps) \<and>
    steps_of ps = Some st \<and> apply_steps st (JObject skel) = Some (JObject full)"
proof -
  let ?skel = "buildSkeleton full" and ?ops = "buildPatchOps full (buildSkeleton full)"
  obtain t where t: "marshal ?ops = Inr t"
    "decodePatch L t = Inr (map (\<lambda>p. valueOp L (poOp p) (poPath p) (poValue p)) ?ops)"
    using assms by (auto simp: print_law_def)
  have steps: "steps_of (map (\<lambda>p. valueOp L (poOp p) (poPath p) (poValue p)) ops) = Some (map add_step ops)"
    if "\<forall>p\<in>set ops. poOp p = ''add''" for ops
    using that by (induction ops) (auto simp: steps_of_def add_step_def)
  show ?thesis
  proof (cases "?ops = []")
    case True
    then have "SplitNewResourceToSkeletonAndPatch L marshal (Some full) = Inr (Some ?skel, [])"
      by (simp add: SplitNewResourceToSkeletonAndPatch_def Let_def)
    with True buildPatchOps_roundtrip[of full] show ?thesis by (simp add: steps_of_def)
  next
    case False
    then have "SplitNewResourceToSkeletonAndPatch L marshal (Some full) =
        Inr (Some ?skel, map (\<lambda>p. valueOp L (poOp p) (poPath p) (poValue p)) ?ops)"
      using t by (simp add: SplitNewResourceToSkeletonAndPatch_def Let_def)
    with steps[of ?ops] buildPatchOps_add buildPatchOps_roundtrip[of full] show ?thesis by blast
  qed
qed

section \<open>Witness\<close>

definition example_full :: jobject where
  "example_full = fmap_of_list [(''kind'', JString ''Note''), (''data'', JString ''x'')]"

definition example_marshal :: "patchOp list \<Rightarrow> string ret" where
  "example_marshal ops = Inr (itemsText (map (\<lambda>p. (poPath p, asString (poValue p))) ops))"

lemma example_full_ops:
  "buildPatchOps example_full (buildSkeleton example_full) =
   [\<lparr>poOp = ''add'', poPath = ''/data'', poValue = JString ''x''\<rparr>]"
  by (simp add: buildPatchOps_def addOps_def example_full_def metaOf_def sortedKeys_def skeleton_lookup
      escape_is escapeToken_Cons)

lemma SplitNewResource_roundtrip_witness:
  "\<exists>skel ps st. SplitNewResourceToSkeletonAndPatch ref_lib example_marshal (Some example_full) = Inr (Some skel, ps) \<and>
    steps_of ps = Some st \<and> apply_steps st (JObject skel) = Some (JObject example_full)"
proof (rule SplitNewResource_roundtrip)
  have "list_all plain_item [(''/data'', Some ''x'')]" by (simp add: plain_Cons plain_char_def)
  from decode_items[OF ref_decode_law this]
  show "print_law ref_lib example_marshal (buildPatchOps example_full (buildSkeleton example_full))"
    unfolding example_full_ops print_law_def by (simp add: example_marshal_def)
qed

end
