(* ===== verification/Grouping.thy ===== *)
theory Grouping
  imports ResourceTypes
begin

text \<open>
  \<open>transform/grouping.go\<close>: grouping resources by type, and the multi-document YAML files the
  groups are kept in. YAML printing and parsing belong to a third-party package: they are
  arguments, with the facts about their text as \<open>yaml_law\<close>. A file system is a map from names
  to contents; that a write or a read fails for another reason is not modelled.
\<close>

section \<open>Model\<close>

fun groupLoop :: "kube_lib \<Rightarrow> (string, unstructured list) fmap \<Rightarrow> unstructured list
    \<Rightarrow> (string, unstructured list) fmap result" where
  "groupLoop L groupMap [] = Inr groupMap"
| "groupLoop L groupMap (r # rs) =
     bindR (GetResourceTypeKey L r) (\<lambda>key.
     groupLoop L (fmupd key ((case fmlookup groupMap key of None \<Rightarrow> [] | Some xs \<Rightarrow> xs) @ [r]) groupMap) rs)"

text \<open>\<open>ord\<close> is the order in which the map of groups is ranged over, before the sort.\<close>

definition GroupResourcesByType :: "kube_lib \<Rightarrow> ((string, unstructured list) fmap \<Rightarrow> string list)
    \<Rightarrow> unstructured list \<Rightarrow> resourceGroup list result" where
  "GroupResourcesByType L ord resources =
     bindR (groupLoop L fmempty resources) (\<lambda>groupMap.
     Inr (sort_key typeKey (map (\<lambda>key. \<lparr>typeKey = key, groupResources = the (fmlookup groupMap key)\<rparr>)
       (ord groupMap))))"

record yaml_lib =
  yamlMarshal :: "unstructured \<Rightarrow> string ret"
  yamlUnmarshal :: "string \<Rightarrow> jobject ret"

type_synonym files = "(string, string) fmap"

fun writeDocs :: "kube_lib \<Rightarrow> yaml_lib \<Rightarrow> nat \<Rightarrow> string \<Rightarrow> unstructured list \<Rightarrow> string ret" where
  "writeDocs L Y i buf [] = Inr buf"
| "writeDocs L Y i buf (r # rs) =
     (let buf1 = (if i > 0 then buf @ ''---'' @ [CHR 0x0A] else buf)
      in case yamlMarshal Y r of
           Inl err \<Rightarrow> Inl (errorf (''failed to marshal resource '' @ getNamespace L r @ ''/'' @ getName L r @
             '' to YAML: '' @ errorText err))
         | Inr yamlBytes \<Rightarrow> writeDocs L Y (Suc i) (buf1 @ yamlBytes) rs)"

definition WriteResourceTypeFile :: "kube_lib \<Rightarrow> yaml_lib \<Rightarrow> string \<Rightarrow> unstructured list \<Rightarrow> files \<Rightarrow> files ret" where
  "WriteResourceTypeFile L Y filename resources fs =
     (if length resources = 0 then Inr fs
      else bindR (writeDocs L Y 0 [] resources) (\<lambda>buf. Inr (fmupd filename buf fs)))"

definition separator :: string where "separator = CHR 0x0A # ''---'' @ [CHR 0x0A]"
definition altSeparator :: string where "altSeparator = CHR 0x0A # ''---''"
definition altSeparator2 :: string where "altSeparator2 = ''---'' @ [CHR 0x0A]"

definition keepDoc :: "string \<Rightarrow> string list" where
  "keepDoc d = (if length (trimSpace d) > 0 then [d] else [])"

function splitYAMLDocuments :: "string \<Rightarrow> string list" where
  "splitYAMLDocuments remaining =
     (if remaining = [] then []
      else case indexOf separator remaining of
        Some idx \<Rightarrow> keepDoc (take idx remaining) @
          (if idx + length separator \<le> length remaining
           then splitYAMLDocuments (drop (idx + length separator) remaining) else [])
      | None \<Rightarrow> (case indexOf altSeparator remaining of
          None \<Rightarrow> (if hasPrefix altSeparator2 remaining then splitYAMLDocuments (drop 4 remaining) else [remaining])
        | Some idx \<Rightarrow> keepDoc (take idx remaining) @
            (if idx + length altSeparator \<le> length remaining
             then splitYAMLDocuments (drop (idx + length altSeparator) remaining) else [])))"
  by pat_completeness auto
termination
  by (relation "measure length") (auto simp: separator_def altSeparator_def)

declare splitYAMLDocuments.simps [simp del]

fun readDocs :: "yaml_lib \<Rightarrow> string \<Rightarrow> string list \<Rightarrow> unstructured list ret" where
  "readDocs Y filename [] = Inr []"
| "readDocs Y filename (d # docs) =
     (if length (trimSpace d) = 0 then readDocs Y filename docs
      else case yamlUnmarshal Y d of
          Inl err \<Rightarrow> Inl (errorf (''failed to unmarshal document in '' @ filename @ '': '' @ errorText err))
        | Inr obj \<Rightarrow> if obj = fmempty then readDocs Y filename docs
            else bindR (readDocs Y filename docs) (\<lambda>rs. Inr (Some obj # rs)))"

definition ReadResourceTypeFile :: "yaml_lib \<Rightarrow> string \<Rightarrow> files \<Rightarrow> unstructured list ret" where
  "ReadResourceTypeFile Y filename fs =
     (case fmlookup fs filename of
        None \<Rightarrow> Inl (errorf (''failed to read file '' @ filename))
      | Some data \<Rightarrow> readDocs Y filename (splitYAMLDocuments data))"

section \<open>Grouping is a sorted partition\<close>

definition keyed :: "kube_lib \<Rightarrow> unstructured list \<Rightarrow> bool" where
  "keyed L rs \<longleftrightarrow> (\<forall>r\<in>set rs. \<exists>key. GetResourceTypeKey L r = Inr key)"

definition key_of :: "kube_lib \<Rightarrow> unstructured \<Rightarrow> string" where
  "key_of L r = (case GetResourceTypeKey L r of Inr key \<Rightarrow> key | Inl _ \<Rightarrow> [])"

lemma groupLoop_lookup:
  "keyed L rs \<Longrightarrow> \<exists>m'. groupLoop L m rs = Inr m' \<and> (\<forall>k. fmlookup m' k =
     (if k \<in> key_of L ` set rs
      then Some ((case fmlookup m k of None \<Rightarrow> [] | Some xs \<Rightarrow> xs) @ filter (\<lambda>r. key_of L r = k) rs)
      else fmlookup m k))"
proof (induction rs arbitrary: m)
  case (Cons r rs)
  then obtain key where key: "GetResourceTypeKey L r = Inr key" "key_of L r = key"
    by (auto simp: keyed_def key_of_def)
  let ?m = "fmupd key ((case fmlookup m key of None \<Rightarrow> [] | Some xs \<Rightarrow> xs) @ [r]) m"
  have "keyed L rs" using Cons.prems by (simp add: keyed_def)
  from Cons.IH[OF this, of ?m] obtain m' where m': "groupLoop L ?m rs = Inr m'"
    "\<forall>k. fmlookup m' k = (if k \<in> key_of L ` set rs
      then Some ((case fmlookup ?m k of None \<Rightarrow> [] | Some xs \<Rightarrow> xs) @ filter (\<lambda>r. key_of L r = k) rs)
      else fmlookup ?m k)" by blast
  have "filter (\<lambda>r. key_of L r = key) rs = []" if "key \<notin> key_of L ` set rs"
    using that by (auto simp: filter_empty_conv)
  with key m' show ?case by auto
qed simp

lemma sort_key_map: "sort_key f (map g ks) = map g (sort_key (f \<circ> g) ks)"
proof (induction ks)
  case (Cons k ks)
  have "insort_key f (g k) (map g xs) = map g (insort_key (f \<circ> g) k xs)" for xs by (induction xs) auto
  with Cons show ?case by (simp add: comp_def)
qed simp

text \<open>
  Grouping is independent of the map's iteration order: the groups are the types that
  occur, once each, sorted by key, and each holds the resources of its type in their order.
\<close>

theorem GroupResourcesByType_partition:
  assumes "ranges_map ord" and "\<forall>r\<in>set rs. GetResourceTypeKey L r = Inr (key_of L r)"
  shows "GroupResourcesByType L ord rs =
    Inr (map (\<lambda>key. \<lparr>typeKey = key, groupResources = filter (\<lambda>r. key_of L r = key) rs\<rparr>)
      (sorted_list_of_set (key_of L ` set rs)))"
proof -
  have "keyed L rs" using assms(2) by (auto simp: keyed_def)
  from groupLoop_lookup[OF this, of fmempty] obtain m where m: "groupLoop L fmempty rs = Inr m"
    "\<forall>k. fmlookup m k = (if k \<in> key_of L ` set rs then Some (filter (\<lambda>r. key_of L r = k) rs) else None)"
    by auto
  have "enumerates (ord m) m" using assms(1) by (simp add: ranges_map_def)
  then have ord: "distinct (ord m)" "set (ord m) = key_of L ` set rs"
    using m(2) by (auto simp: enumerates_def fset_fmdom_iff split: if_splits)
  then have "sort (ord m) = sorted_list_of_set (key_of L ` set rs)"
    by (metis sorted_list_of_set_sort_remdups distinct_remdups_id)
  moreover have "sort_key typeKey (map (\<lambda>key. \<lparr>typeKey = key, groupResources = the (fmlookup m key)\<rparr>) (ord m)) =
      map (\<lambda>key. \<lparr>typeKey = key, groupResources = the (fmlookup m key)\<rparr>) (sort (ord m))"
    by (simp add: sort_key_map comp_def)
  ultimately show ?thesis using m ord by (simp add: GroupResourcesByType_def)
qed

section \<open>Writing and reading back\<close>

text \<open>
  What the round trip asks of the YAML package for one resource: its text ends with a line
  break, no line of it starts with three dashes, it is not blank, and it is read back as the
  object with and without the final line break.
\<close>

definition yaml_law :: "yaml_lib \<Rightarrow> unstructured \<Rightarrow> bool" where
  "yaml_law Y r \<longleftrightarrow> (\<exists>obj z. r = Some obj \<and> obj \<noteq> fmempty \<and> yamlMarshal Y r = Inr (z @ [CHR 0x0A]) \<and>
     \<not> containsS (CHR 0x0A # z) altSeparator \<and> trimSpace z \<noteq> [] \<and> trimSpace (z @ [CHR 0x0A]) \<noteq> [] \<and>
     yamlUnmarshal Y z = Inr obj \<and> yamlUnmarshal Y (z @ [CHR 0x0A]) = Inr obj)"

definition body :: "yaml_lib \<Rightarrow> unstructured \<Rightarrow> string" where
  "body Y r = (case yamlMarshal Y r of Inr t \<Rightarrow> butlast t | Inl _ \<Rightarrow> [])"

lemma yaml_law_body:
  assumes "yaml_law Y r"
  shows "yamlMarshal Y r = Inr (body Y r @ [CHR 0x0A])" "\<not> containsS (CHR 0x0A # body Y r) altSeparator"
    "trimSpace (body Y r) \<noteq> []" "trimSpace (body Y r @ [CHR 0x0A]) \<noteq> []"
    "\<exists>obj. r = Some obj \<and> obj \<noteq> fmempty \<and> yamlUnmarshal Y (body Y r) = Inr obj \<and>
       yamlUnmarshal Y (body Y r @ [CHR 0x0A]) = Inr obj"
  using assms by (auto simp: yaml_law_def body_def)

lemma no_alt_inside:
  assumes "\<not> containsS z altSeparator" and "i < length z"
  shows "\<not> hasPrefix altSeparator (drop i (z @ CHR 0x0A # rest))"
proof
  assume p: "hasPrefix altSeparator (drop i (z @ CHR 0x0A # rest))"
  obtain c d where d: "drop i z = c # d" using assms(2) by (cases "drop i z") auto
  have "hasPrefix altSeparator ((c # d) @ CHR 0x0A # rest)" using p assms(2) d by simp
  then obtain e where "c # d = altSeparator @ e"
    by (cases d; cases "tl d"; cases "tl (tl d)") (auto simp: altSeparator_def hasPrefix_append)
  then have "z = take i z @ altSeparator @ e" using d by (metis append_take_drop_id)
  with assms(1) show False by (auto simp: containsS_iff)
qed

lemma separator_alt: "hasPrefix separator s \<Longrightarrow> hasPrefix altSeparator s"
  by (auto simp: separator_def altSeparator_def hasPrefix_append)

lemma containsS_Cons: "\<not> containsS (c # z) p \<Longrightarrow> \<not> containsS z p"
  by (metis append_Cons containsS_iff)

lemma split_first:
  assumes "\<not> containsS (CHR 0x0A # z) altSeparator" and "trimSpace z \<noteq> []"
  shows "splitYAMLDocuments (z @ separator @ rest) = z # splitYAMLDocuments rest"
proof -
  have z: "z @ separator @ rest = z @ CHR 0x0A # (''---'' @ CHR 0x0A # rest)" by (simp add: separator_def)
  have "\<not> hasPrefix separator (drop i (z @ separator @ rest))" if "i < length z" for i
    using separator_alt no_alt_inside[OF containsS_Cons[OF assms(1)] that, of "''---'' @ CHR 0x0A # rest"]
    unfolding z by blast
  then have "indexOf separator (z @ separator @ rest) = Some (length z)" by (rule indexOf_append)
  then show ?thesis using assms(2)
    by (subst splitYAMLDocuments.simps) (simp add: keepDoc_def separator_def)
qed

lemma split_last:
  assumes "\<not> containsS (CHR 0x0A # z) altSeparator"
  shows "splitYAMLDocuments (z @ [CHR 0x0A]) = [z @ [CHR 0x0A]]"
proof -
  have no: "\<not> containsS (z @ [CHR 0x0A]) altSeparator"
  proof
    assume "containsS (z @ [CHR 0x0A]) altSeparator"
    then obtain a b where ab: "z @ [CHR 0x0A] = a @ altSeparator @ b" by (auto simp: containsS_iff)
    then have "length (z @ [CHR 0x0A]) = length (a @ altSeparator @ b)" by (rule arg_cong)
    then have "length a < length z" by (simp add: altSeparator_def)
    moreover have "hasPrefix altSeparator (drop (length a) (z @ CHR 0x0A # []))" using ab by simp
    ultimately show False using no_alt_inside[OF containsS_Cons[OF assms]] by blast
  qed
  then have "indexOf altSeparator (z @ [CHR 0x0A]) = None" by (simp add: containsS_def)
  moreover have "\<not> containsS (z @ [CHR 0x0A]) separator"
    using no unfolding containsS_iff separator_def altSeparator_def by (metis append_Cons append.assoc append_Nil)
  then have "indexOf separator (z @ [CHR 0x0A]) = None" by (simp add: containsS_def)
  moreover have "\<not> hasPrefix altSeparator2 (z @ [CHR 0x0A])"
  proof
    assume "hasPrefix altSeparator2 (z @ [CHR 0x0A])"
    then obtain t where "z @ [CHR 0x0A] = ''---'' @ CHR 0x0A # t" by (auto simp: hasPrefix_append altSeparator2_def)
    then have "\<exists>u. z = ''---'' @ u" by (cases t rule: rev_cases) (auto simp: append_eq_Cons_conv Cons_eq_append_conv)
    with assms show False by (auto simp: containsS_iff altSeparator_def)
  qed
  ultimately show ?thesis by (subst splitYAMLDocuments.simps) simp
qed

text \<open>The text of a file of documents.\<close>

fun fileText :: "string list \<Rightarrow> string" where
  "fileText [] = []"
| "fileText [z] = z @ [CHR 0x0A]"
| "fileText (z # zs) = z @ separator @ fileText zs"

fun fileDocs :: "string list \<Rightarrow> string list" where
  "fileDocs [] = []"
| "fileDocs [z] = [z @ [CHR 0x0A]]"
| "fileDocs (z # zs) = z # fileDocs zs"

lemma split_fileText:
  "\<forall>z\<in>set zs. \<not> containsS (CHR 0x0A # z) altSeparator \<and> trimSpace z \<noteq> [] \<Longrightarrow>
   splitYAMLDocuments (fileText zs) = fileDocs zs"
proof (induction zs rule: fileText.induct)
  case 1
  then show ?case by (simp add: splitYAMLDocuments.simps)
qed (simp_all add: split_last split_first)

lemma writeDocs_next:
  "\<forall>r\<in>set rs. yaml_law Y r \<Longrightarrow> writeDocs L Y (Suc i) buf rs =
   Inr (buf @ concat (map (\<lambda>r. ''---'' @ CHR 0x0A # body Y r @ [CHR 0x0A]) rs))"
  by (induction rs arbitrary: i buf) (simp_all add: yaml_law_body(1))

lemma fileText_next:
  "fileText (z # zs) = z @ CHR 0x0A # concat (map (\<lambda>z. ''---'' @ CHR 0x0A # z @ [CHR 0x0A]) zs)"
  by (induction zs arbitrary: z) (simp_all add: separator_def)

lemma writeDocs_text:
  assumes "rs \<noteq> []" and "\<forall>r\<in>set rs. yaml_law Y r"
  shows "writeDocs L Y 0 [] rs = Inr (fileText (map (body Y) rs))"
proof -
  obtain r rs' where rs: "rs = r # rs'" using assms(1) by (cases rs) auto
  with assms(2) show ?thesis
    by (simp add: yaml_law_body(1) writeDocs_next fileText_next comp_def del: fileText.simps)
qed

lemma readDocs_docs:
  "\<forall>r\<in>set rs. yaml_law Y r \<Longrightarrow> readDocs Y f (fileDocs (map (body Y) rs)) = Inr rs"
proof (induction rs rule: induct_list012)
  case (2 r)
  then obtain obj where "r = Some obj" "obj \<noteq> fmempty" "yamlUnmarshal Y (body Y r @ [CHR 0x0A]) = Inr obj"
    "trimSpace (body Y r @ [CHR 0x0A]) \<noteq> []"
    using yaml_law_body(4,5)[of Y r] by auto
  then show ?case by simp
next
  case (3 r r' rs)
  then obtain obj where "r = Some obj" "obj \<noteq> fmempty" "yamlUnmarshal Y (body Y r) = Inr obj"
    "trimSpace (body Y r) \<noteq> []"
    using yaml_law_body(3,5)[of Y r] by auto
  with 3 show ?case by simp
qed simp


section \<open>Witnesses\<close>

definition example_yaml :: yaml_lib where
  "example_yaml = \<lparr>yamlMarshal = (\<lambda>r. Inr (''kind: '' @ getKind ref_lib r @ [CHR 0x0A])),
     yamlUnmarshal = (\<lambda>t. Inr (fmupd ''kind'' (JString (trimSpace (drop 6 t))) fmempty))\<rparr>"

definition example_doc :: "string \<Rightarrow> unstructured" where
  "example_doc k = Some (fmupd ''kind'' (JString k) fmempty)"

lemma example_yaml_law: "yaml_law example_yaml (example_doc ''Pod'')" "yaml_law example_yaml (example_doc ''Job'')"
  by (simp_all add: yaml_law_def example_yaml_def example_doc_def ref_str_def doc_def content_def
      containsS_def altSeparator_def trimSpace_def trimS_def trimRight_def white_def)


lemma GroupResourcesByType_partition_witness:
  "GroupResourcesByType ref_lib sorted_keys
     [example_typed ''v1'' ''Pod'', example_typed ''apps/v1'' ''Deployment'', example_typed ''v1'' ''Pod''] =
   Inr [\<lparr>typeKey = ''Deployment.apps'', groupResources = [example_typed ''apps/v1'' ''Deployment'']\<rparr>,
        \<lparr>typeKey = ''Pod'', groupResources = [example_typed ''v1'' ''Pod'', example_typed ''v1'' ''Pod'']\<rparr>]"
proof -
  have "versioned ref_lib (example_typed ''v1'' k) []" for k
    using plain_part_examples by (auto simp: versioned_def example_typed_fields)
  from GetResourceTypeKey_versioned[OF this]
  have k1: "GetResourceTypeKey ref_lib (example_typed ''v1'' k) = Inr k" for k
    by (simp add: example_typed_fields)
  have "versioned ref_lib (example_typed ''apps/v1'' k) ''apps''" for k
    using plain_part_examples by (auto simp: versioned_def example_typed_fields intro!: exI[of _ "''v1''"])
  from GetResourceTypeKey_versioned[OF this]
  have k2: "GetResourceTypeKey ref_lib (example_typed ''apps/v1'' k) = Inr (k @ CHR ''.'' # ''apps'')" for k
    by (simp add: example_typed_fields)
  note k = k1 k2
  let ?rs = "[example_typed ''v1'' ''Pod'', example_typed ''apps/v1'' ''Deployment'', example_typed ''v1'' ''Pod'']"
  have "\<forall>r\<in>set ?rs. GetResourceTypeKey ref_lib r = Inr (key_of ref_lib r)" by (simp add: k key_of_def)
  note part = GroupResourcesByType_partition[OF ranges_sorted_keys this]
  have kk: "key_of ref_lib (example_typed ''v1'' k) = k"
    "key_of ref_lib (example_typed ''apps/v1'' k) = k @ CHR ''.'' # ''apps''" for k
    by (simp_all add: key_of_def k)
  have "key_of ref_lib ` set ?rs = {''Deployment.apps'', ''Pod''}" by (auto simp: kk)
  moreover have "sorted_list_of_set {''Deployment.apps'', ''Pod''} = [''Deployment.apps'', ''Pod'']" by simp
  ultimately show ?thesis using part by (simp add: kk)
qed

end
