(* ===== verification/Kustomize.thy ===== *)
theory Kustomize
  imports RefLib JsonPatchCompare
begin

text \<open>
  \<open>transform/kustomize\<close>: the names of resource type files and patch files (\<open>naming.go\<close>,
  \<open>serializer.go\<close>), the objects a patch is serialized to, and the kustomization file
  (\<open>kustomization.go\<close>). YAML printing is the argument \<open>marshal\<close>; \<open>srt\<close> is \<open>sort.Slice\<close> by path,
  which fixes no order between equal paths.
\<close>

section \<open>Names\<close>

definition GetResourceTypeFilename :: "(string \<Rightarrow> string) \<Rightarrow> string \<Rightarrow> string \<Rightarrow> string" where
  "GetResourceTypeFilename uni kind grp =
     (let kindLower = toLower uni kind in
      if grp = [] then kindLower @ ''.yaml'' else kindLower @ ''.'' @ grp @ ''.yaml'')"

definition ParseResourceTypeFilename :: "string \<Rightarrow> string \<times> string" where
  "ParseResourceTypeFilename filename =
     (let filename1 = (if hasSuffix ''.yaml'' filename then trimSuffix ''.yaml'' filename else filename);
          parts = splitN2 CHR ''.'' filename1
      in if length parts = 1 then (parts ! 0, []) else (parts ! 0, parts ! 1))"

definition unsafeChars :: "char list" where
  "unsafeChars = [CHR ''/'', CHR 0x5C, CHR '':'', CHR ''*'', CHR ''?'', CHR 0x22, CHR ''<'', CHR ''>'', CHR ''|'']"

definition dashes :: "char list \<Rightarrow> string \<Rightarrow> string" where
  "dashes cs s = foldl (\<lambda>s c. replaceAll c ''-'' s) s cs"

definition SanitizeFilename :: "string \<Rightarrow> string" where
  "SanitizeFilename filename = trimS [CHR ''.'', CHR '' ''] (dashes unsafeChars filename)"

definition sanitizeComponent :: "string \<Rightarrow> string" where
  "sanitizeComponent s = dashes (unsafeChars @ [CHR '' '']) s"

definition GeneratePatchFilename :: "string \<Rightarrow> string \<Rightarrow> string \<Rightarrow> string \<Rightarrow> string \<Rightarrow> string" where
  "GeneratePatchFilename grp version kind name namespace =
     (let sanitizedKind = sanitizeComponent kind; sanitizedName = sanitizeComponent name;
          sanitizedGroup = sanitizeComponent grp
      in if namespace \<noteq> [] then
           (let sanitizedNamespace = sanitizeComponent namespace in
            if grp = [] then sanitizedNamespace @ ''--'' @ version @ ''--'' @ sanitizedKind @ ''--'' @ sanitizedName @ ''.patch.yaml''
            else sanitizedNamespace @ ''--'' @ sanitizedGroup @ ''-'' @ version @ ''--'' @ sanitizedKind @ ''--'' @ sanitizedName @ ''.patch.yaml'')
         else
           (if grp = [] then version @ ''--'' @ sanitizedKind @ ''--'' @ sanitizedName @ ''.patch.yaml''
            else sanitizedGroup @ ''-'' @ version @ ''--'' @ sanitizedKind @ ''--'' @ sanitizedName @ ''.patch.yaml''))"

section \<open>Patches and the kustomization file\<close>

definition opMap :: "operation \<Rightarrow> jobject ret" where
  "opMap op =
     (case opPath op of
        Inl err \<Rightarrow> Inl (errorf (''failed to get operation path: '' @ errorText err))
      | Inr path \<Rightarrow>
          (let m1 = fmupd ''path'' (JString path) (fmupd ''op'' (JString (opKind op)) fmempty);
               m2 = (if opKind op \<noteq> ''remove'' then (case opValue op of Inr v \<Rightarrow> fmupd ''value'' v m1 | Inl _ \<Rightarrow> m1) else m1)
           in Inr (if opKind op = ''move'' \<or> opKind op = ''copy''
                   then (case opFrom op of Inr f \<Rightarrow> fmupd ''from'' (JString f) m2 | Inl _ \<Rightarrow> m2) else m2)))"

fun opMaps :: "patch \<Rightarrow> jobject list ret" where
  "opMaps [] = Inr []"
| "opMaps (op # ops) = bindR (opMap op) (\<lambda>m. bindR (opMaps ops) (\<lambda>ms. Inr (m # ms)))"

definition SerializePatchToYAML :: "(jobject list \<Rightarrow> string ret) \<Rightarrow> patch \<Rightarrow> string ret" where
  "SerializePatchToYAML marshal ops =
     (if length ops = 0 then Inr (''[]'' @ [CHR 0x0A])
      else bindR (opMaps ops) (\<lambda>operations. case marshal operations of
          Inl err \<Rightarrow> Inl (errorf (''failed to marshal patch to YAML: '' @ errorText err))
        | Inr t \<Rightarrow> Inr t))"

record kPatchTarget =
  ktGroup :: string
  ktVersion :: string
  ktKind :: string
  ktName :: string
  ktNamespace :: string

record kPatch =
  kpPath :: string
  kpTarget :: kPatchTarget

record kustomizationFile =
  kfAPIVersion :: string
  kfKind :: string
  kfResources :: "string list"
  kfPatches :: "kPatch list"

definition NewPatch :: "string \<Rightarrow> string \<Rightarrow> string \<Rightarrow> string \<Rightarrow> string \<Rightarrow> string \<Rightarrow> kPatch" where
  "NewPatch path grp version kind name namespace = \<lparr>kpPath = path,
     kpTarget = \<lparr>ktGroup = grp, ktVersion = version, ktKind = kind, ktName = name, ktNamespace = namespace\<rparr>\<rparr>"

definition GenerateKustomization :: "(kPatch list \<Rightarrow> kPatch list) \<Rightarrow> (kustomizationFile \<Rightarrow> string ret)
    \<Rightarrow> string list \<Rightarrow> kPatch list \<Rightarrow> string ret" where
  "GenerateKustomization srt marshal resources patches =
     (case marshal \<lparr>kfAPIVersion = ''kustomize.config.k8s.io/v1beta1'', kfKind = ''Kustomization'',
          kfResources = sort resources, kfPatches = srt patches\<rparr> of
        Inl err \<Rightarrow> Inl (errorf (''failed to marshal kustomization.yaml: '' @ errorText err))
      | Inr t \<Rightarrow> Inr t)"

section \<open>Type file names are read back\<close>

lemma splitN2_lower: "CHR ''.'' \<notin> set k \<Longrightarrow> is_ascii k \<Longrightarrow> CHR ''.'' \<notin> set (toLower uni k)"
  by (auto simp: toLower_def lower_char_eq_iff[of "CHR ''.''", simplified] dest!: sym[of "CHR ''.''"])

text \<open>
  \<open>ParseResourceTypeFilename\<close> inverts \<open>GetResourceTypeFilename\<close>, up to the lower case of
  the kind: for a kind without a dot, every group, with dots or without, is read back.
\<close>

theorem ResourceTypeFilename_roundtrip:
  assumes "is_ascii kind" and "CHR ''.'' \<notin> set kind"
  shows "ParseResourceTypeFilename (GetResourceTypeFilename uni kind grp) = (map lower_char kind, grp)"
proof -
  let ?k = "toLower uni kind"
  have k: "?k = map lower_char kind" using assms(1) by (simp add: toLower_def)
  have nd: "CHR ''.'' \<notin> set ?k" using splitN2_lower assms by blast
  show ?thesis
  proof (cases "grp = []")
    case True
    then show ?thesis using nd k
      by (simp add: GetResourceTypeFilename_def ParseResourceTypeFilename_def Let_def splitN2_no_sep)
  next
    case False
    have "hasSuffix ''.yaml'' (?k @ CHR ''.'' # grp @ ''.yaml'')"
      "trimSuffix ''.yaml'' (?k @ CHR ''.'' # grp @ ''.yaml'') = ?k @ CHR ''.'' # grp"
      using hasSuffix_self[of "''.yaml''" "?k @ CHR ''.'' # grp"] trimSuffix_append[of "''.yaml''" "?k @ CHR ''.'' # grp"] by simp_all
    with False show ?thesis using nd k
      by (simp add: GetResourceTypeFilename_def ParseResourceTypeFilename_def Let_def splitN2_append)
  qed
qed

section \<open>Patch file names\<close>

text \<open>
  A component that needs no sanitizing and has no empty part between dashes: names of
  Kubernetes objects without two dashes in a row. A version has no dash at all.
\<close>

definition sane :: "string \<Rightarrow> bool" where
  "sane s \<longleftrightarrow> sanitizeComponent s = s \<and> [] \<notin> set (split1 CHR ''-'' s)"

lemma sane_nonempty: "sane s \<Longrightarrow> s \<noteq> []"
  by (auto simp: sane_def)

lemma split_dash2:
  "split1 CHR ''-'' (x @ ''--'' @ s) = split1 CHR ''-'' x @ [] # split1 CHR ''-'' s"
proof -
  have "split1 CHR ''-'' (x @ CHR ''-'' # (CHR ''-'' # s)) = split1 CHR ''-'' x @ split1 CHR ''-'' (CHR ''-'' # s)"
    by (induction x) (auto split: list.splits)
  then show ?thesis by simp
qed

lemma split1_inj: "split1 c s = split1 c t \<Longrightarrow> s = t"
  by (metis join_split1)

lemma first_gap: "g \<notin> set xs \<Longrightarrow> g \<notin> set xs' \<Longrightarrow> xs @ g # ys = xs' @ g # ys' \<Longrightarrow> xs = xs' \<and> ys = ys'"
proof (induction xs arbitrary: xs')
  case (Cons x xs)
  then show ?case by (cases xs') auto
next
  case Nil
  then show ?case by (cases xs') auto
qed

lemma dash2_inj:
  assumes "[] \<notin> set (split1 CHR ''-'' x)" and "[] \<notin> set (split1 CHR ''-'' y)"
    and "x @ ''--'' @ s = y @ ''--'' @ t"
  shows "x = y \<and> s = t"
proof -
  have "split1 CHR ''-'' x @ [] # split1 CHR ''-'' s = split1 CHR ''-'' y @ [] # split1 CHR ''-'' t"
    using arg_cong[OF assms(3), of "split1 CHR ''-''"] unfolding split_dash2 .
  from first_gap[OF assms(1,2) this]
  have "split1 CHR ''-'' x = split1 CHR ''-'' y" "split1 CHR ''-'' s = split1 CHR ''-'' t" by auto
  from split1_inj[OF this(1)] split1_inj[OF this(2)] show ?thesis ..
qed

text \<open>The group and version in the file name.\<close>

definition groupVersion :: "string \<Rightarrow> string \<Rightarrow> string" where
  "groupVersion grp version = (if grp = [] then version else grp @ CHR ''-'' # version)"

definition sane_version :: "string \<Rightarrow> bool" where
  "sane_version v \<longleftrightarrow> v \<noteq> [] \<and> CHR ''-'' \<notin> set v"

lemma split_groupVersion:
  "sane_version v \<Longrightarrow> split1 CHR ''-'' (groupVersion grp v) = (if grp = [] then [] else split1 CHR ''-'' grp) @ [v]"
proof -
  assume v: "sane_version v"
  have "split1 CHR ''-'' (x @ CHR ''-'' # v) = split1 CHR ''-'' x @ [v]" for x
    using v by (induction x) (auto simp: split1_no_sep sane_version_def split: list.splits)
  then show ?thesis using v by (simp add: groupVersion_def split1_no_sep sane_version_def)
qed

lemma groupVersion_inj:
  assumes "sane_version v" and "sane_version w" and "groupVersion g v = groupVersion h w"
  shows "g = h \<and> v = w"
proof -
  have "(if g = [] then [] else split1 CHR ''-'' g) @ [v] = (if h = [] then [] else split1 CHR ''-'' h) @ [w]"
    using split_groupVersion[OF assms(1), of g] split_groupVersion[OF assms(2), of h] assms(3) by simp
  moreover have "[] \<noteq> split1 CHR ''-'' x" for x using split1_nonempty by metis
  ultimately show ?thesis using split1_inj[of "CHR ''-''" g h] by (cases "g = []"; cases "h = []") auto
qed

definition sane_target :: "string \<times> string \<times> string \<times> string \<times> string \<Rightarrow> bool" where
  "sane_target t = (case t of (g, v, k, n, ns) \<Rightarrow>
     (g = [] \<or> sane g) \<and> sane_version v \<and> sane k \<and> sane n \<and> (ns = [] \<or> sane ns))"

lemma GeneratePatchFilename_sane:
  "sane_target (g, v, k, n, ns) \<Longrightarrow> GeneratePatchFilename g v k n ns =
   (if ns = [] then [] else ns @ ''--'') @ groupVersion g v @ ''--'' @ k @ ''--'' @ n @ ''.patch.yaml''"
  by (cases "g = []"; cases "ns = []")
    (simp_all add: sane_target_def sane_def GeneratePatchFilename_def groupVersion_def Let_def)

lemma groupVersion_no_gap: "sane_version v \<Longrightarrow> g = [] \<or> sane g \<Longrightarrow> [] \<notin> set (split1 CHR ''-'' (groupVersion g v))"
  by (auto simp: split_groupVersion sane_def sane_version_def split: if_splits)

text \<open>Without the extension, the parts between the gaps are namespace, type, kind and name.\<close>

lemma four_parts_not_three:
  assumes "sane_target (g, v, k, n, ns)" and "sane_target (g', v', k', n', ns')" and "ns \<noteq> []" and "ns' = []"
  shows "GeneratePatchFilename g v k n ns \<noteq> GeneratePatchFilename g' v' k' n' ns'"
proof
  assume "GeneratePatchFilename g v k n ns = GeneratePatchFilename g' v' k' n' ns'"
  then have eq: "ns @ ''--'' @ (groupVersion g v @ ''--'' @ k @ ''--'' @ n) = groupVersion g' v' @ ''--'' @ (k' @ ''--'' @ n')"
    using assms(3,4) unfolding GeneratePatchFilename_sane[OF assms(1)] GeneratePatchFilename_sane[OF assms(2)] by simp
  have 1: "groupVersion g v @ ''--'' @ k @ ''--'' @ n = k' @ ''--'' @ n'"
    using dash2_inj[OF _ _ eq] assms groupVersion_no_gap by (auto simp: sane_target_def sane_def)
  have "k @ ''--'' @ n = n'"
    using dash2_inj[OF _ _ 1] assms groupVersion_no_gap by (auto simp: sane_target_def sane_def)
  then have "split1 CHR ''-'' n' = split1 CHR ''-'' k @ [] # split1 CHR ''-'' n" using split_dash2 by metis
  with assms(2) show False by (simp add: sane_target_def sane_def)
qed

text \<open>
  Patch files of different targets have different names, as long as the parts are plain
  object names: group, version, kind, name and namespace can be told from the file name.
\<close>

theorem GeneratePatchFilename_injective:
  assumes "sane_target (g, v, k, n, ns)" and "sane_target (g', v', k', n', ns')"
    and "GeneratePatchFilename g v k n ns = GeneratePatchFilename g' v' k' n' ns'"
  shows "(g, v, k, n, ns) = (g', v', k', n', ns')"
proof -
  have gap: "[] \<notin> set (split1 CHR ''-'' ns)" "[] \<notin> set (split1 CHR ''-'' ns')" if "ns \<noteq> []" "ns' \<noteq> []"
    using assms(1,2) that by (auto simp: sane_target_def sane_def)
  have gaps: "[] \<notin> set (split1 CHR ''-'' (groupVersion g v))" "[] \<notin> set (split1 CHR ''-'' (groupVersion g' v'))"
    "[] \<notin> set (split1 CHR ''-'' k)" "[] \<notin> set (split1 CHR ''-'' k')"
    using assms(1,2) groupVersion_no_gap by (auto simp: sane_target_def sane_def)
  have rest: "g = g' \<and> v = v' \<and> k = k' \<and> n = n'"
    if "groupVersion g v @ ''--'' @ k @ ''--'' @ n = groupVersion g' v' @ ''--'' @ k' @ ''--'' @ n'"
  proof -
    from dash2_inj[OF gaps(1,2) that] have "groupVersion g v = groupVersion g' v'" "k @ ''--'' @ n = k' @ ''--'' @ n'" by auto
    moreover from dash2_inj[OF gaps(3,4) this(2)] have "k = k'" "n = n'" by auto
    moreover have "sane_version v" "sane_version v'" using assms(1,2) by (simp_all add: sane_target_def)
    ultimately show ?thesis using groupVersion_inj by blast
  qed
  consider "ns = []" "ns' = []" | "ns \<noteq> []" "ns' \<noteq> []" | "ns \<noteq> []" "ns' = []" | "ns = []" "ns' \<noteq> []" by blast
  then show ?thesis
  proof cases
    case 1
    then show ?thesis using assms(3) rest
      unfolding GeneratePatchFilename_sane[OF assms(1)] GeneratePatchFilename_sane[OF assms(2)] by simp
  next
    case 2
    then have "ns @ ''--'' @ (groupVersion g v @ ''--'' @ k @ ''--'' @ n) = ns' @ ''--'' @ (groupVersion g' v' @ ''--'' @ k' @ ''--'' @ n')"
      using assms(3) unfolding GeneratePatchFilename_sane[OF assms(1)] GeneratePatchFilename_sane[OF assms(2)] by simp
    from dash2_inj[OF gap[OF 2] this] rest show ?thesis by simp
  qed (use four_parts_not_three[OF assms(1,2)] four_parts_not_three[OF assms(2,1)] assms(3) in auto)
qed

text \<open>
  Sanitizing maps a colon and a dash to the same character: the roles \<open>system:node\<close> and
  \<open>system-node\<close> have one patch file.
\<close>

lemma GeneratePatchFilename_collides:
  "GeneratePatchFilename g v k (a @ '':'' @ b) ns = GeneratePatchFilename g v k (a @ ''-'' @ b) ns"
  by (simp add: GeneratePatchFilename_def sanitizeComponent_def dashes_def unsafeChars_def replaceAll_append
      replaceAll_Cons Let_def)

section \<open>Serialized operations\<close>

definition serializable :: "operation \<Rightarrow> bool" where
  "serializable op \<longleftrightarrow> (\<exists>p. opPath op = Inr p) \<and>
     (if opKind op = ''remove'' then isMissing (opValue op)
      else (\<exists>v. opValue op = Inr v) \<or> isMissing (opValue op)) \<and>
     (opKind op \<in> {''move'', ''copy''} \<longrightarrow> (\<exists>f. opFrom op = Inr f))"

lemma isMissing_Inl: "isMissing r \<Longrightarrow> \<exists>e. r = Inl e"
  by (auto simp: isMissing_def split: sum.splits)

lemma opMap_reads_back:
  assumes "serializable op" and "\<And>k. errorCause (err k) = ErrMissing"
  shows "\<exists>m. opMap op = Inr m \<and> EqualOperation op (op_of err m)"
proof -
  have mis: "isMissing (Inl (err k))" for k using assms(2) by (simp add: isMissing_def)
  have notmis: "\<not> isMissing (Inr v)" for v :: json by (simp add: isMissing_def)
  show ?thesis
    using assms(1) mis notmis isMissing_Inl[of "opValue op"]
    by (cases "opValue op")
      (auto simp: serializable_def opMap_def op_of_def member_string_def EqualOperation_iff valueOr_nil_def Let_def)
qed

text \<open>
  Serializing a patch keeps its meaning: the printer gets one object per operation, in
  order, and an operation read from such an object is equal to the original one.
\<close>

theorem SerializePatch_keeps_operations:
  assumes "ops \<noteq> []" and "\<forall>op\<in>set ops. serializable op" and "\<And>k. errorCause (err k) = ErrMissing"
  shows "\<exists>ms. SerializePatchToYAML marshal ops = (case marshal ms of
      Inl e \<Rightarrow> Inl (errorf (''failed to marshal patch to YAML: '' @ errorText e)) | Inr t \<Rightarrow> Inr t) \<and>
    list_all2 (\<lambda>op m. EqualOperation op (op_of err m)) ops ms"
proof -
  have "\<exists>ms. opMaps ops = Inr ms \<and> list_all2 (\<lambda>op m. EqualOperation op (op_of err m)) ops ms"
    using assms(2)
  proof (induction ops)
    case (Cons op ops)
    then obtain ms where "opMaps ops = Inr ms" "list_all2 (\<lambda>op m. EqualOperation op (op_of err m)) ops ms" by auto
    with opMap_reads_back[of op err] assms(3) Cons.prems show ?case by auto
  qed simp
  then show ?thesis using assms(1) by (auto simp: SerializePatchToYAML_def)
qed

section \<open>The kustomization file is deterministic\<close>

definition sorts_patches :: "(kPatch list \<Rightarrow> kPatch list) \<Rightarrow> bool" where
  "sorts_patches srt \<longleftrightarrow> (\<forall>ps. mset (srt ps) = mset ps \<and> sorted (map kpPath (srt ps)))"

text \<open>
  The kustomization file does not depend on the order the resources and the patches are
  given in, nor on how the sort treats equal keys, when the patch paths are distinct.
\<close>

theorem GenerateKustomization_deterministic:
  assumes "sorts_patches srt" and "sorts_patches srt'" and "mset rs = mset rs'" and "mset ps = mset ps'"
    and "distinct (map kpPath ps)"
  shows "GenerateKustomization srt marshal rs ps = GenerateKustomization srt' marshal rs' ps'"
proof -
  have "srt ps = srt' ps'"
  proof (rule map_sorted_distinct_set_unique)
    show "inj_on kpPath (set (srt ps) \<union> set (srt' ps'))"
      using assms(1,2,4,5) unfolding sorts_patches_def by (metis distinct_map mset_eq_setD sup.idem)
    have "mset (map kpPath (srt ps)) = mset (map kpPath ps)" "mset (map kpPath (srt' ps')) = mset (map kpPath ps)"
      using assms(1,2,4) by (simp_all add: sorts_patches_def)
    then show "distinct (map kpPath (srt ps))" "distinct (map kpPath (srt' ps'))"
      using assms(5) mset_eq_imp_distinct_iff by blast+
    show "set (srt ps) = set (srt' ps')"
      using assms(1,2,4) unfolding sorts_patches_def by (metis mset_eq_setD)
  qed (use assms(1,2) in \<open>auto simp: sorts_patches_def\<close>)
  moreover have "sort rs = sort rs'"
    using assms(3) by (intro properties_for_sort) simp_all
  ultimately show ?thesis by (simp add: GenerateKustomization_def)
qed

section \<open>Witnesses\<close>

lemma ResourceTypeFilename_roundtrip_witness:
  "ParseResourceTypeFilename (GetResourceTypeFilename id ''Route'' ''route.openshift.io'') = (''route'', ''route.openshift.io'')"
proof -
  have "map lower_char ''Route'' = ''route''" by code_simp
  moreover have "is_ascii ''Route''" "CHR ''.'' \<notin> set ''Route''" by (simp_all add: is_ascii_def)
  ultimately show ?thesis using ResourceTypeFilename_roundtrip[of "''Route''" id "''route.openshift.io''"] by simp
qed

lemma GeneratePatchFilename_injective_witness:
  "GeneratePatchFilename ''apps'' ''v1'' ''Deployment'' ''web'' ''ns'' \<noteq> GeneratePatchFilename '''' ''v1'' ''Service'' ''web'' ''''"
proof -
  have "sane_target (''apps'', ''v1'', ''Deployment'', ''web'', ''ns'')" "sane_target ('''', ''v1'', ''Service'', ''web'', '''')"
    by (simp_all add: sane_target_def sane_def sane_version_def sanitizeComponent_def dashes_def unsafeChars_def replaceAll_def)
  from GeneratePatchFilename_injective[OF this] show ?thesis by blast
qed

lemma SerializePatch_keeps_operations_witness:
  "\<exists>ms. SerializePatchToYAML (\<lambda>_. Inr ''text'') [example_add, example_remove] = Inr ''text'' \<and>
    list_all2 (\<lambda>op m. EqualOperation op (op_of ref_missing m)) [example_add, example_remove] ms"
proof -
  have "\<forall>op\<in>set [example_add, example_remove]. serializable op"
    by (simp add: example_add_def example_remove_def serializable_def isMissing_def)
  from SerializePatch_keeps_operations[OF _ this, of ref_missing "\<lambda>_. Inr ''text''"] show ?thesis
    by (simp add: ref_missing_def)
qed

definition example_patches :: "kPatch list" where
  "example_patches = [NewPatch ''b'' '''' ''v1'' ''Pod'' ''p'' '''', NewPatch ''a'' '''' ''v1'' ''Pod'' ''q'' '''']"

lemma sort_key_sorts: "sorts_patches (sort_key kpPath)"
  unfolding sorts_patches_def using sorted_sort_key mset_sort by blast

lemma GenerateKustomization_deterministic_witness:
  "GenerateKustomization (sort_key kpPath) (\<lambda>f. Inr (concat (kfResources f))) [''y'', ''x''] example_patches =
   GenerateKustomization (sort_key kpPath) (\<lambda>f. Inr (concat (kfResources f))) [''x'', ''y''] (rev example_patches)"
  by (rule GenerateKustomization_deterministic[OF sort_key_sorts sort_key_sorts])
    (simp_all add: example_patches_def NewPatch_def)

end
