(* ===== verification/Quiesce.thy ===== *)
theory Quiesce
  imports Effects GoConv
begin

text \<open>
  \<open>state_transfer/quiesce.go\<close>: scaling the workloads of a namespace down before its data is
  moved, and back up. The Kubernetes client is a parameter; an object is the part of its
  typed struct the code reads or writes. Every function of the file is a definition here,
  the body of each loop as a function on one object: \<open>None\<close> is \<open>continue\<close>, \<open>Some o\<close> is
  \<open>c.Update(&o)\<close>.
\<close>

section \<open>Objects\<close>

text \<open>
  A nil annotation map is the empty one here: it reads the same, and the code makes a map
  before every write.
\<close>

record objectMeta =
  metaNamespace :: string
  metaName :: string
  metaAnnotations :: "(string, string) fmap"
  metaOwners :: "string list" \<comment> \<open>the kinds of the owner references\<close>

record deploymentConfig =
  dcMeta :: objectMeta
  dcReplicas :: "32 word"

text \<open>Deployments, stateful sets and replica sets have \<open>Replicas *int32\<close>, jobs \<open>Parallelism *int32\<close>.\<close>

record workload =
  wMeta :: objectMeta
  wReplicas :: "32 word option"

record daemonSet =
  dsMeta :: objectMeta
  dsNodeSelector :: "(string, string) fmap"

record cronJob =
  cjMeta :: objectMeta
  cjSuspend :: "bool option"

record podObject =
  podMeta :: objectMeta
  podPhase :: string

section \<open>The client\<close>

record ('s, 'o) objects =
  api_list :: "string \<Rightarrow> ('s, 'o list) act"
  api_update :: "'o \<Rightarrow> ('s, unit) act"

record 's client =
  cCronJobs :: "('s, cronJob) objects"
  cDeploymentConfigs :: "('s, deploymentConfig) objects"
  cDeployments :: "('s, workload) objects"
  cStatefulSets :: "('s, workload) objects"
  cReplicaSets :: "('s, workload) objects"
  cDaemonSets :: "('s, daemonSet) objects"
  cJobs :: "('s, workload) objects"
  cPods :: "('s, podObject) objects"

text \<open>\<open>json.Marshal\<close> and \<open>json.Unmarshal\<close> of a \<open>map[string]string\<close>.\<close>

record map_json =
  marshalMap :: "(string, string) fmap \<Rightarrow> string"
  unmarshalMap :: "string \<Rightarrow> (string, string) fmap ret"

definition NodeSelectorAnnotation :: string where
  "NodeSelectorAnnotation = ''migration.openshift.io/preQuiesceNodeSelector''"
definition QuiesceNodeSelector :: string where
  "QuiesceNodeSelector = ''migration.openshift.io/quiesceDaemonSet''"
definition ReplicasAnnotation :: string where
  "ReplicasAnnotation = ''migration.openshift.io/preQuiesceReplicas''"
definition SuspendAnnotation :: string where
  "SuspendAnnotation = ''migration.openshift.io/preQuiesceSuspend''"

definition annotate :: "string \<Rightarrow> string \<Rightarrow> objectMeta \<Rightarrow> objectMeta" where
  "annotate k v m = m\<lparr>metaAnnotations := fmupd k v (metaAnnotations m)\<rparr>"

definition unannotate :: "string \<Rightarrow> objectMeta \<Rightarrow> objectMeta" where
  "unannotate k m = m\<lparr>metaAnnotations := fmdrop k (metaAnnotations m)\<rparr>"

text \<open>The loop all the functions have: list, then update what the body returns.\<close>

fun updateEach :: "('s, 'o) objects \<Rightarrow> ('o \<Rightarrow> 'o option result) \<Rightarrow> 'o list \<Rightarrow> ('s, unit) act" where
  "updateEach api body [] s = (Inr (), s)"
| "updateEach api body (x # xs) s = (case body x of
     Inl e \<Rightarrow> (Inl e, s)
   | Inr None \<Rightarrow> updateEach api body xs s
   | Inr (Some x') \<Rightarrow> (case api_update api x' s of
        (Inl e, s') \<Rightarrow> (Inl e, s')
      | (Inr _, s') \<Rightarrow> updateEach api body xs s'))"

definition listAndUpdate :: "('s, 'o) objects \<Rightarrow> ('o \<Rightarrow> 'o option result) \<Rightarrow> string \<Rightarrow> ('s, unit) act" where
  "listAndUpdate api body ns = bindA (api_list api ns) (updateEach api body)"

definition nilDeref :: fault where
  "nilDeref = Panic ''nil pointer dereference''"

section \<open>Deployment configurations\<close>

definition quiesceDC :: "deploymentConfig \<Rightarrow> deploymentConfig option result" where
  "quiesceDC dc =
     (if dcReplicas dc = 0 then Inr None
      else Inr (Some (dc\<lparr>dcMeta := annotate ReplicasAnnotation (itoa (sint (dcReplicas dc))) (dcMeta dc),
                         dcReplicas := 0\<rparr>)))"

definition unQuiesceDC :: "deploymentConfig \<Rightarrow> deploymentConfig option result" where
  "unQuiesceDC dc = (case fmlookup (metaAnnotations (dcMeta dc)) ReplicasAnnotation of
     None \<Rightarrow> Inr None
   | Some replicas \<Rightarrow> bindR (liftR (atoi replicas)) (\<lambda>number.
       let dc' = dc\<lparr>dcMeta := unannotate ReplicasAnnotation (dcMeta dc)\<rparr>
       in Inr (Some (if dcReplicas dc' = 0 then dc'\<lparr>dcReplicas := word_of_int number\<rparr> else dc'))))"

definition quiesceDeploymentConfigs :: "'s client \<Rightarrow> string \<Rightarrow> ('s, unit) act" where
  "quiesceDeploymentConfigs c = listAndUpdate (cDeploymentConfigs c) quiesceDC"

definition unQuiesceDeploymentConfigs :: "'s client \<Rightarrow> string \<Rightarrow> ('s, unit) act" where
  "unQuiesceDeploymentConfigs c = listAndUpdate (cDeploymentConfigs c) unQuiesceDC"

section \<open>Deployments and stateful sets\<close>

definition quiesceDeployment :: "workload \<Rightarrow> workload option result" where
  "quiesceDeployment w = (case wReplicas w of
     None \<Rightarrow> Inl nilDeref
   | Some n \<Rightarrow> if n = 0 then Inr None
       else Inr (Some (w\<lparr>wMeta := annotate ReplicasAnnotation (itoa (sint n)) (wMeta w), wReplicas := Some 0\<rparr>)))"

definition unQuiesceDeployment :: "workload \<Rightarrow> workload option result" where
  "unQuiesceDeployment w = (case fmlookup (metaAnnotations (wMeta w)) ReplicasAnnotation of
     None \<Rightarrow> Inr None
   | Some replicas \<Rightarrow> bindR (liftR (atoi replicas)) (\<lambda>number.
       case wReplicas w of
         None \<Rightarrow> Inl nilDeref
       | Some n \<Rightarrow> Inr (Some (w\<lparr>wMeta := unannotate ReplicasAnnotation (wMeta w),
           wReplicas := Some (if n = 0 then word_of_int number else n)\<rparr>))))"

definition quiesceDeployments :: "'s client \<Rightarrow> string \<Rightarrow> ('s, unit) act" where
  "quiesceDeployments c = listAndUpdate (cDeployments c) quiesceDeployment"

definition unQuiesceDeployments :: "'s client \<Rightarrow> string \<Rightarrow> ('s, unit) act" where
  "unQuiesceDeployments c = listAndUpdate (cDeployments c) unQuiesceDeployment"

text \<open>The loops over stateful sets have the same bodies.\<close>

definition quiesceStatefulSets :: "'s client \<Rightarrow> string \<Rightarrow> ('s, unit) act" where
  "quiesceStatefulSets c = listAndUpdate (cStatefulSets c) quiesceDeployment"

definition unQuiesceStatefulSets :: "'s client \<Rightarrow> string \<Rightarrow> ('s, unit) act" where
  "unQuiesceStatefulSets c = listAndUpdate (cStatefulSets c) unQuiesceDeployment"

section \<open>Replica sets\<close>

text \<open>A replica set with an owner is left to its owner.\<close>

definition quiesceReplicaSet :: "workload \<Rightarrow> workload option result" where
  "quiesceReplicaSet w = (if length (metaOwners (wMeta w)) > 0 then Inr None else quiesceDeployment w)"

definition unQuiesceReplicaSet :: "workload \<Rightarrow> workload option result" where
  "unQuiesceReplicaSet w = (if length (metaOwners (wMeta w)) > 0 then Inr None else unQuiesceDeployment w)"

definition quiesceReplicaSets :: "'s client \<Rightarrow> string \<Rightarrow> ('s, unit) act" where
  "quiesceReplicaSets c = listAndUpdate (cReplicaSets c) quiesceReplicaSet"

definition unQuiesceReplicaSets :: "'s client \<Rightarrow> string \<Rightarrow> ('s, unit) act" where
  "unQuiesceReplicaSets c = listAndUpdate (cReplicaSets c) unQuiesceReplicaSet"

section \<open>Daemon sets\<close>

definition quiesceDaemonSet :: "map_json \<Rightarrow> daemonSet \<Rightarrow> daemonSet option result" where
  "quiesceDaemonSet J d =
     (if fmlookup (dsNodeSelector d) QuiesceNodeSelector \<noteq> None then Inr None
      else Inr (Some (d\<lparr>
        dsMeta := annotate NodeSelectorAnnotation (marshalMap J (dsNodeSelector d)) (dsMeta d),
        dsNodeSelector := fmupd QuiesceNodeSelector ''true'' (dsNodeSelector d)\<rparr>)))"

definition unQuiesceDaemonSet :: "map_json \<Rightarrow> daemonSet \<Rightarrow> daemonSet option result" where
  "unQuiesceDaemonSet J d = (case fmlookup (metaAnnotations (dsMeta d)) NodeSelectorAnnotation of
     None \<Rightarrow> Inr None
   | Some selector \<Rightarrow> bindR (liftR (unmarshalMap J selector)) (\<lambda>nodeSelector.
       if fmlookup (dsNodeSelector d) QuiesceNodeSelector = None then Inr None
       else Inr (Some (d\<lparr>dsMeta := unannotate NodeSelectorAnnotation (dsMeta d),
                        dsNodeSelector := nodeSelector\<rparr>))))"

definition quiesceDaemonSets :: "map_json \<Rightarrow> 's client \<Rightarrow> string \<Rightarrow> ('s, unit) act" where
  "quiesceDaemonSets J c = listAndUpdate (cDaemonSets c) (quiesceDaemonSet J)"

definition unQuiesceDaemonSets :: "map_json \<Rightarrow> 's client \<Rightarrow> string \<Rightarrow> ('s, unit) act" where
  "unQuiesceDaemonSets J c = listAndUpdate (cDaemonSets c) (unQuiesceDaemonSet J)"

section \<open>Cron jobs and jobs\<close>

text \<open>
  \<open>r.Spec.Suspend == pointer.BoolPtr(true)\<close> and \<open>job.Spec.Parallelism == &zero\<close> compare the
  address of a new variable with an older pointer, so neither is ever true and neither loop
  skips anything.
\<close>

definition quiesceCronJob :: "cronJob \<Rightarrow> cronJob option result" where
  "quiesceCronJob r = Inr (Some (r\<lparr>cjMeta := annotate SuspendAnnotation ''true'' (cjMeta r),
     cjSuspend := Some True\<rparr>))"

definition unQuiesceCronJob :: "cronJob \<Rightarrow> cronJob option result" where
  "unQuiesceCronJob r =
     (if fmlookup (metaAnnotations (cjMeta r)) SuspendAnnotation = None then Inr None
      else Inr (Some (r\<lparr>cjMeta := unannotate SuspendAnnotation (cjMeta r), cjSuspend := Some False\<rparr>)))"

definition quiesceCronJobs :: "'s client \<Rightarrow> string \<Rightarrow> ('s, unit) act" where
  "quiesceCronJobs c = listAndUpdate (cCronJobs c) quiesceCronJob"

definition unQuiesceCronJobs :: "'s client \<Rightarrow> string \<Rightarrow> ('s, unit) act" where
  "unQuiesceCronJobs c = listAndUpdate (cCronJobs c) unQuiesceCronJob"

definition quiesceJob :: "workload \<Rightarrow> workload option result" where
  "quiesceJob w = (case wReplicas w of
     None \<Rightarrow> Inl nilDeref
   | Some n \<Rightarrow> Inr (Some (w\<lparr>wMeta := annotate ReplicasAnnotation (itoa (sint n)) (wMeta w), wReplicas := Some 0\<rparr>)))"

definition quiesceJobs :: "'s client \<Rightarrow> string \<Rightarrow> ('s, unit) act" where
  "quiesceJobs c = listAndUpdate (cJobs c) quiesceJob"

text \<open>The loop that scales jobs up again has the body of the one over deployments.\<close>

definition unQuiesceJobs :: "'s client \<Rightarrow> string \<Rightarrow> ('s, unit) act" where
  "unQuiesceJobs c = listAndUpdate (cJobs c) unQuiesceDeployment"

section \<open>Waiting for the pods\<close>

definition controllerKinds :: "string set" where
  "controllerKinds = {''ReplicationController'', ''StatefulSet'', ''ReplicaSet'', ''DaemonSet'', ''Job''}"

definition skippedPhases :: "string set" where
  "skippedPhases = {''Succeeded'', ''Failed'', ''Unknown''}"

fun podsTerminated :: "podObject list \<Rightarrow> bool" where
  "podsTerminated [] = True"
| "podsTerminated (p # ps) =
     (if podPhase p \<in> skippedPhases then podsTerminated ps
      else if list_ex (\<lambda>k. k \<in> controllerKinds) (metaOwners (podMeta p)) then False
      else podsTerminated ps)"

definition ensureQuiescedPodsTerminated :: "'s client \<Rightarrow> string \<Rightarrow> ('s, bool) act" where
  "ensureQuiescedPodsTerminated c ns = bindA (api_list (cPods c) ns) (\<lambda>pods. retA (podsTerminated pods))"

text \<open>
  The polling loop. \<open>sleep\<close> is what five seconds do to the cluster. The loop may run for
  ever: not returning is \<open>None\<close>.
\<close>

partial_function (option) awaitPods :: "('s \<Rightarrow> 's) \<Rightarrow> 's client \<Rightarrow> string \<Rightarrow> 's \<Rightarrow> (unit result \<times> 's) option" where
  "awaitPods sleep c ns s = (case ensureQuiescedPodsTerminated c ns s of
     (Inl err, s') \<Rightarrow> Some (Inl err, s')
   | (Inr quiesced, s') \<Rightarrow> if quiesced then Some (Inr (), s') else awaitPods sleep c ns (sleep s'))"

section \<open>The two entry points\<close>

definition quiesceWorkloads :: "map_json \<Rightarrow> 's client \<Rightarrow> string \<Rightarrow> ('s, unit) act" where
  "quiesceWorkloads J c ns =
     thenA (quiesceCronJobs c ns)
    (thenA (quiesceDeploymentConfigs c ns)
    (thenA (quiesceDeployments c ns)
    (thenA (quiesceStatefulSets c ns)
    (thenA (quiesceReplicaSets c ns)
    (thenA (quiesceDaemonSets J c ns)
           (quiesceJobs c ns))))))"

text \<open>
  \<open>newClient\<close> stands for the registration of the schemes and \<open>client.New\<close>, whose errors the
  function returns alike.
\<close>

definition QuiesceApplications :: "map_json \<Rightarrow> ('s \<Rightarrow> 's) \<Rightarrow> 's client ret \<Rightarrow> string \<Rightarrow> 's \<Rightarrow> (unit result \<times> 's) option" where
  "QuiesceApplications J sleep newClient ns s = (case newClient of
     Inl err \<Rightarrow> Some (Inl (Error err), s)
   | Inr c \<Rightarrow> (case quiesceWorkloads J c ns s of
        (Inl err, s') \<Rightarrow> Some (Inl err, s')
      | (Inr _, s') \<Rightarrow> awaitPods sleep c ns s'))"

definition unQuiesceApplications :: "map_json \<Rightarrow> 's client \<Rightarrow> string \<Rightarrow> ('s, unit) act" where
  "unQuiesceApplications J c ns =
     thenA (unQuiesceCronJobs c ns)
    (thenA (unQuiesceDeploymentConfigs c ns)
    (thenA (unQuiesceDeployments c ns)
    (thenA (unQuiesceStatefulSets c ns)
    (thenA (unQuiesceReplicaSets c ns)
    (thenA (unQuiesceDaemonSets J c ns)
           (unQuiesceJobs c ns))))))"

definition UnQuiesceApplications :: "map_json \<Rightarrow> 's client \<Rightarrow> string \<Rightarrow> ('s, unit) act" where
  "UnQuiesceApplications J c ns = unQuiesceApplications J c ns"



end
