(* ===== verification/StringMaps.thy ===== *)
theory StringMaps
  imports PatchText
begin

text \<open>
  A JSON reader and writer for maps of strings, the instance of the parameter \<open>map_json\<close> of
  the quiesce code that witnesses use, and the proof that reading gives back what was written.
\<close>

definition quoteS :: "string \<Rightarrow> string" where
  "quoteS s = CHR 0x22 # s @ [CHR 0x22]"

definition memberText :: "string \<times> string \<Rightarrow> string" where
  "memberText kv = quoteS (fst kv) @ '':'' @ quoteS (snd kv)"

definition membersText :: "(string \<times> string) list \<Rightarrow> string" where
  "membersText kvs = ''{'' @ joinS '','' (map memberText kvs) @ ''}''"

definition memberTokens :: "string \<times> string \<Rightarrow> token list" where
  "memberTokens kv = [TStr (fst kv), TColon, TStr (snd kv)]"

fun membersTokens :: "(string \<times> string) list \<Rightarrow> token list" where
  "membersTokens [] = []"
| "membersTokens [kv] = memberTokens kv"
| "membersTokens (kv # kvs) = memberTokens kv @ TComma # membersTokens kvs"

definition plain_pair :: "string \<times> string \<Rightarrow> bool" where
  "plain_pair kv \<longleftrightarrow> plain (fst kv) \<and> plain (snd kv)"

lemma lexes_quoteS: "plain p \<Longrightarrow> lexes LNone (quoteS p @ s) = map_option ((#) (TStr p)) (lexes LNone s)"
  using lex_string[of p s] by (simp add: quoteS_def lex_defs)

lemma lexes_memberText:
  "plain_pair kv \<Longrightarrow> lexes LNone (memberText kv @ s) = map_option ((@) (memberTokens kv)) (lexes LNone s)"
proof -
  assume p: "plain_pair kv"
  have "lexes LNone (CHR '':'' # t) = map_option ((#) TColon) (lexes LNone t)" for t
    by (cases "lexes LNone t") (simp_all add: lex_defs)
  then show ?thesis using p
    by (cases "lexes LNone s") (simp_all add: memberText_def memberTokens_def plain_pair_def lexes_quoteS del: lexes.simps)
qed

lemma lexes_members:
  "list_all plain_pair kvs \<Longrightarrow> lexes LNone (joinS '','' (map memberText kvs) @ ''}'') = Some (membersTokens kvs @ [TRBrace])"
proof (induction kvs rule: membersTokens.induct)
  case 1
  then show ?case by (simp add: lex_defs)
next
  case (2 kv)
  then show ?case by (simp add: lexes_memberText del: lexes.simps) (simp add: lex_defs)
next
  case (3 kv kv' kvs)
  have "lexes LNone (CHR '','' # t) = map_option ((#) TComma) (lexes LNone t)" for t
    by (cases "lexes LNone t") (simp_all add: lex_defs)
  with 3 show ?case by (simp add: lexes_memberText del: lexes.simps)
qed

lemma pmembers_members:
  "kvs \<noteq> [] \<Longrightarrow> pmembers (Suc (length kvs)) (membersTokens kvs @ [TRBrace]) =
   Some (map (\<lambda>kv. (fst kv, JString (snd kv))) kvs, [])"
  by (induction kvs rule: membersTokens.induct) (simp_all add: memberTokens_def)

lemma json_members:
  assumes "list_all plain_pair kvs"
  shows "json_parse (membersText kvs) = Some (object_of (map (\<lambda>kv. (fst kv, JString (snd kv))) kvs))"
proof -
  have lx: "lexes LNone (membersText kvs) = Some (TLBrace # membersTokens kvs @ [TRBrace])"
    using lexes_members[OF assms] by (simp add: membersText_def lex_defs)
  show ?thesis
  proof (cases "kvs = []")
    case True
    with lx show ?thesis by (simp add: json_parse_def eval_nat_numeral object_of_def)
  next
    case False
    let ?ts = "membersTokens kvs @ [TRBrace]"
    have "length kvs \<le> length (membersTokens kvs)"
      by (induction kvs rule: membersTokens.induct) (simp_all add: memberTokens_def)
    then have "Suc (length kvs) \<le> 2 * length (TLBrace # ?ts) + 1" by simp
    with pmembers_members[OF False] parse_fuel_mono
    have "pmembers (2 * length (TLBrace # ?ts) + 1) ?ts = Some (map (\<lambda>kv. (fst kv, JString (snd kv))) kvs, [])"
      by blast
    moreover obtain k ts where "membersTokens kvs = TStr k # ts"
      using False by (cases kvs rule: membersTokens.cases) (auto simp: memberTokens_def)
    ultimately show ?thesis using lx by (auto simp: json_parse_def simp del: pmembers.simps)
  qed
qed

definition showMap :: "(string, string) fmap \<Rightarrow> string" where
  "showMap m = membersText (map (\<lambda>k. (k, the (fmlookup m k))) (sorted_keys m))"

definition strings_of :: "jobject \<Rightarrow> (string, string) fmap" where
  "strings_of o1 = fmmap (\<lambda>v. case v of JString s \<Rightarrow> s | _ \<Rightarrow> []) o1"

definition readMap :: "string \<Rightarrow> (string, string) fmap ret" where
  "readMap s = (case json_parse s of
     Some (JObject o1) \<Rightarrow> if fmpred (\<lambda>_ v. asString v \<noteq> None) o1 then Inr (strings_of o1)
       else Inl (errorf ''json: cannot unmarshal into a string'')
   | _ \<Rightarrow> Inl (errorf ''json: invalid object''))"

lemma fold_fmupd_lookup:
  "fmlookup (fold (\<lambda>(k, v) m. fmupd k v m) kvs m0) x =
   (case map_of (rev kvs) x of None \<Rightarrow> fmlookup m0 x | Some v \<Rightarrow> Some v)"
  using foldl_fmupd_lookup[of m0 kvs x] by (simp add: foldl_conv_fold case_prod_unfold)

lemma readMap_showMap:
  assumes "\<forall>k v. fmlookup m k = Some v \<longrightarrow> plain k \<and> plain v"
  shows "readMap (showMap m) = Inr m"
proof -
  let ?kvs = "map (\<lambda>k. (k, the (fmlookup m k))) (sorted_keys m)"
  have en: "enumerates (sorted_keys m) m" by simp
  then have d: "distinct (sorted_keys m)" by (simp add: enumerates_def)
  have mem: "k \<in> set (sorted_keys m) \<longleftrightarrow> fmlookup m k \<noteq> None" for k by (rule enumerates_mem[OF en])
  have "list_all plain_pair ?kvs" using assms mem by (auto simp: list_all_iff plain_pair_def)
  from json_members[OF this]
  obtain o1 where o1: "json_parse (showMap m) = Some (JObject o1)"
    and o1_def: "o1 = fold (\<lambda>(k, v) m. fmupd k v m) (map (\<lambda>k. (k, JString (the (fmlookup m k)))) (sorted_keys m)) fmempty"
    by (simp add: showMap_def object_of_def comp_def)
  have l: "fmlookup o1 k = map_option JString (fmlookup m k)" for k
  proof -
    have "map_of (map (\<lambda>k. (k, JString (the (fmlookup m k)))) ks) k =
        (if k \<in> set ks then Some (JString (the (fmlookup m k))) else None)" for ks
      by (induction ks) auto
    then show ?thesis using mem[of k] unfolding o1_def fold_fmupd_lookup rev_map
      by (cases "fmlookup m k") (simp_all add: set_rev)
  qed
  have "fmpred (\<lambda>_ v. asString v \<noteq> None) o1" by (rule fmpred_iff[THEN iffD2]) (auto simp: l)
  moreover have "strings_of o1 = m"
    by (rule fmap_ext) (simp add: strings_of_def l option.map_comp comp_def map_option.identity)
  ultimately show ?thesis using o1 by (simp add: readMap_def)
qed

end
