(* ===== verification/QuiesceProps.thy ===== *)
theory QuiesceProps
  imports Quiesce StringMaps
begin

text \<open>
  What quiescing promises: a namespace that was scaled down and up again is as it was. The
  contract of one kind is the locale \<open>quiescing\<close>, interpreted on the loop bodies of every
  kind; the cluster behind the client is described by \<open>serves\<close>.
\<close>

section \<open>The cluster behind the client\<close>

definition objKey :: "objectMeta \<Rightarrow> string \<times> string" where
  "objKey m = (metaNamespace m, metaName m)"

text \<open>
  Listing a namespace returns its objects and changes nothing; updating an existing object
  replaces the one of that name, as nobody else writes in between.
\<close>

definition serves :: "('s, 'o) objects \<Rightarrow> ('o \<Rightarrow> objectMeta) \<Rightarrow> ('c \<Rightarrow> 'o list) \<Rightarrow> ('o list \<Rightarrow> 'c \<Rightarrow> 'c)
    \<Rightarrow> ('s \<Rightarrow> 'c) \<Rightarrow> bool" where
  "serves api meta get put view \<longleftrightarrow>
     (\<forall>s ns. ns \<noteq> [] \<longrightarrow> api_list api ns s = (Inr (filter (\<lambda>x. metaNamespace (meta x) = ns) (get (view s))), s)) \<and>
     (\<forall>s x. objKey (meta x) \<in> (objKey \<circ> meta) ` set (get (view s)) \<longrightarrow>
        (\<exists>s'. api_update api x s = (Inr (), s') \<and>
           view s' = put (map (\<lambda>y. if objKey (meta y) = objKey (meta x) then x else y) (get (view s))) (view s)))"

definition lens :: "('c \<Rightarrow> 'l) \<Rightarrow> ('l \<Rightarrow> 'c \<Rightarrow> 'c) \<Rightarrow> bool" where
  "lens get put \<longleftrightarrow> (\<forall>x v. get (put x v) = x) \<and> (\<forall>x y v. put x (put y v) = put x v) \<and> (\<forall>v. put (get v) v = v)"

definition after :: "('o \<Rightarrow> 'o option result) \<Rightarrow> 'o \<Rightarrow> 'o" where
  "after body x = (case body x of Inr (Some x') \<Rightarrow> x' | _ \<Rightarrow> x)"

definition keeps_key :: "('o \<Rightarrow> objectMeta) \<Rightarrow> ('o \<Rightarrow> 'o option result) \<Rightarrow> bool" where
  "keeps_key meta body \<longleftrightarrow> (\<forall>x x'. body x = Inr (Some x') \<longrightarrow> objKey (meta x') = objKey (meta x))"

lemma after_key: "keeps_key meta body \<Longrightarrow> objKey (meta (after body x)) = objKey (meta x)"
  by (auto simp: after_def keeps_key_def split: sum.split option.split)

lemma after_ns: "keeps_key meta body \<Longrightarrow> metaNamespace (meta (after body x)) = metaNamespace (meta x)"
  using after_key[of meta body x] by (simp add: objKey_def)

lemma updateEach_effect:
  assumes "serves api meta get put view" and "lens get put" and "keeps_key meta body"
    and "distinct (map (objKey \<circ> meta) (get (view s)))" and "distinct xs" and "set xs \<subseteq> set (get (view s))"
    and "\<And>x. x \<in> set xs \<Longrightarrow> \<exists>r. body x = Inr r"
  shows "\<exists>s'. updateEach api body xs s = (Inr (), s') \<and>
    view s' = put (map (\<lambda>y. if y \<in> set xs then after body y else y) (get (view s))) (view s)"
  using assms(4-)
proof (induction xs arbitrary: s)
  case Nil
  then show ?case using assms(2) by (simp add: lens_def)
next
  case (Cons x xs)
  let ?L = "get (view s)" and ?k = "objKey \<circ> meta"
  have inj: "y = x" if "y \<in> set ?L" "?k y = ?k x" for y
  proof -
    have "inj_on ?k (set ?L)" using Cons.prems(1) by (simp add: distinct_map comp_def)
    moreover have "x \<in> set ?L" using Cons.prems(3) by simp
    ultimately show ?thesis using that by (metis inj_onD)
  qed
  from Cons.prems(4)[of x] obtain r where r: "body x = Inr r" by auto
  show ?case
  proof (cases r)
    case None
    then have "after body x = x" using r by (simp add: after_def)
    then have e: "map (\<lambda>y. if y \<in> set xs then after body y else y) ?L =
      map (\<lambda>y. if y \<in> set (x # xs) then after body y else y) ?L" by auto
    have "updateEach api body (x # xs) s = updateEach api body xs s" using r None by simp
    then show ?thesis using Cons.IH[of s, OF Cons.prems(1)] Cons.prems(2-4) unfolding e by simp
  next
    case (Some x')
    then have x': "x' = after body x" using r by (simp add: after_def)
    have k: "?k x' = ?k x" using after_key[OF assms(3)] x' by simp
    let ?M = "map (\<lambda>y. if y = x then x' else y) ?L"
    have "objKey (meta x') \<in> ?k ` set ?L" using k Cons.prems(3) by (auto simp: image_iff)
    then have "\<exists>s1. api_update api x' s = (Inr (), s1) \<and>
        view s1 = put (map (\<lambda>y. if objKey (meta y) = objKey (meta x') then x' else y) ?L) (view s)"
      using assms(1) unfolding serves_def by blast
    moreover have "map (\<lambda>y. if objKey (meta y) = objKey (meta x') then x' else y) ?L = ?M"
      using inj k by (auto simp: comp_def)
    ultimately obtain s1 where s1: "api_update api x' s = (Inr (), s1)" "view s1 = put ?M (view s)" by auto
    have g: "get (view s1) = ?M" using s1(2) assms(2) by (simp add: lens_def)
    have "map ?k ?M = map ?k ?L" using k by auto
    then have d: "distinct (map ?k (get (view s1)))" using Cons.prems(1) g by (simp only:)
    have sub: "set xs \<subseteq> set (get (view s1))" using Cons.prems(2,3) g by (auto simp: image_iff)
    from Cons.IH[OF d _ sub] Cons.prems(2,4) obtain s2 where s2: "updateEach api body xs s1 = (Inr (), s2)"
      "view s2 = put (map (\<lambda>y. if y \<in> set xs then after body y else y) (get (view s1))) (view s1)" by auto
    have "x' \<notin> set xs"
    proof
      assume a: "x' \<in> set xs"
      then have "x' = x" using inj[of x'] k Cons.prems(3) by auto
      then show False using a Cons.prems(2) by simp
    qed
    then have e: "map (\<lambda>y. if y \<in> set xs then after body y else y) ?M =
      map (\<lambda>y. if y \<in> set (x # xs) then after body y else y) ?L"
      using x' Cons.prems(2) by auto
    have pp: "put z (put z' u) = put z u" for z z' u using assms(2) by (simp add: lens_def)
    from s2(2)[unfolded g e, unfolded s1(2) pp]
    have "view s2 = put (map (\<lambda>y. if y \<in> set (x # xs) then after body y else y) ?L) (view s)" .
    moreover have "updateEach api body (x # xs) s = (Inr (), s2)" using r Some s1(1) s2(1) by simp
    ultimately show ?thesis by blast
  qed
qed

definition in_ns :: "string \<Rightarrow> ('o \<Rightarrow> objectMeta) \<Rightarrow> ('o \<Rightarrow> 'o) \<Rightarrow> 'o \<Rightarrow> 'o" where
  "in_ns ns meta f x = (if metaNamespace (meta x) = ns then f x else x)"

lemma listAndUpdate_effect:
  assumes "serves api meta get put view" and "lens get put" and "keeps_key meta body" and "ns \<noteq> []"
    and "distinct (map (objKey \<circ> meta) (get (view s)))"
    and "\<And>x. x \<in> set (get (view s)) \<Longrightarrow> metaNamespace (meta x) = ns \<Longrightarrow> \<exists>r. body x = Inr r"
  shows "\<exists>s'. listAndUpdate api body ns s = (Inr (), s') \<and>
    view s' = put (map (in_ns ns meta (after body)) (get (view s))) (view s)"
proof -
  let ?xs = "filter (\<lambda>x. metaNamespace (meta x) = ns) (get (view s))"
  have l: "api_list api ns s = (Inr ?xs, s)" using assms(1,4) by (simp add: serves_def)
  have "distinct ?xs" using assms(5) by (simp add: distinct_map)
  then obtain s' where s': "updateEach api body ?xs s = (Inr (), s')"
    "view s' = put (map (\<lambda>y. if y \<in> set ?xs then after body y else y) (get (view s))) (view s)"
    using updateEach_effect[OF assms(1-3,5), of ?xs] assms(6) by auto
  have "map (\<lambda>y. if y \<in> set ?xs then after body y else y) (get (view s)) = map (in_ns ns meta (after body)) (get (view s))"
    by (simp add: in_ns_def)
  note s'(2)[unfolded this]
  moreover have "listAndUpdate api body ns s = (Inr (), s')" using s'(1) l by (simp add: listAndUpdate_def bindA_def)
  ultimately show ?thesis by blast
qed

definition runs :: "('s \<Rightarrow> 'c) \<Rightarrow> ('s, unit) act \<Rightarrow> 'c \<Rightarrow> 'c \<Rightarrow> bool" where
  "runs view a v v' \<longleftrightarrow> (\<forall>s. view s = v \<longrightarrow> (\<exists>s'. a s = (Inr (), s') \<and> view s' = v'))"

lemma runs_then: "runs view a v v1 \<Longrightarrow> runs view b v1 v2 \<Longrightarrow> runs view (thenA a b) v v2"
  unfolding runs_def by (metis thenA_Inr)

lemma runs_list:
  assumes "serves api meta get put view" and "lens get put" and "keeps_key meta body" and "ns \<noteq> []"
    and "distinct (map (objKey \<circ> meta) (get v))"
    and "\<And>x. x \<in> set (get v) \<Longrightarrow> metaNamespace (meta x) = ns \<Longrightarrow> \<exists>r. body x = Inr r"
    and "v' = put (map (in_ns ns meta (after body)) (get v)) v"
  shows "runs view (listAndUpdate api body ns) v v'"
  unfolding runs_def using listAndUpdate_effect[OF assms(1-4)] assms(5-) by blast

text \<open>Names are unique, and every object of the namespace is complete and untouched.\<close>

definition ready_list :: "string \<Rightarrow> ('o \<Rightarrow> objectMeta) \<Rightarrow> ('o \<Rightarrow> bool) \<Rightarrow> 'o list \<Rightarrow> bool" where
  "ready_list ns meta ready xs \<longleftrightarrow> distinct (map (objKey \<circ> meta) xs) \<and>
     (\<forall>x\<in>set xs. metaNamespace (meta x) = ns \<longrightarrow> ready x)"

lemma ready_listD:
  "ready_list ns meta ready xs \<Longrightarrow> distinct (map (objKey \<circ> meta) xs)"
  "ready_list ns meta ready xs \<Longrightarrow> x \<in> set xs \<Longrightarrow> metaNamespace (meta x) = ns \<Longrightarrow> ready x"
  by (simp_all add: ready_list_def)

section \<open>The contract of one kind\<close>

text \<open>
  \<open>down\<close> and \<open>up\<close> are the bodies of the two loops. On an object that is \<open>ready\<close> (complete,
  and without a trace of an earlier run) they undo each other up to \<open>norm\<close>.
\<close>

locale quiescing =
  fixes down up :: "'o \<Rightarrow> 'o option result" and meta :: "'o \<Rightarrow> objectMeta"
    and ready :: "'o \<Rightarrow> bool" and norm :: "'o \<Rightarrow> 'o"
  assumes down_ok: "ready x \<Longrightarrow> \<exists>r. down x = Inr r"
    and stays: "ready x \<Longrightarrow> down x = Inr None \<Longrightarrow> up x = Inr None \<and> norm x = x"
    and restores: "ready x \<Longrightarrow> down x = Inr (Some y) \<Longrightarrow> up y = Inr (Some (norm x))"
    and down_key: "keeps_key meta down"
    and up_key: "keeps_key meta up"
begin

lemma up_ok: "ready x \<Longrightarrow> \<exists>r. up (after down x) = Inr r"
  using down_ok[of x] stays[of x] restores[of x] by (auto simp: after_def split: option.splits)

lemma restored: "ready x \<Longrightarrow> after up (after down x) = norm x"
  using down_ok[of x] stays[of x] restores[of x] by (auto simp: after_def split: option.splits)

lemma in_ns_restored:
  assumes "\<And>x. x \<in> set xs \<Longrightarrow> metaNamespace (meta x) = ns \<Longrightarrow> ready x"
  shows "map (in_ns ns meta (after up)) (map (in_ns ns meta (after down)) xs) = map (in_ns ns meta norm) xs"
  using assms restored after_ns[OF down_key] by (auto simp: in_ns_def)

lemma in_ns_key: "objKey (meta (in_ns ns meta (after down) x)) = objKey (meta x)"
  using after_key[OF down_key] by (simp add: in_ns_def)

lemma in_ns_keys:
  "distinct (map (objKey \<circ> meta) xs) \<Longrightarrow> distinct (map (objKey \<circ> meta) (map (in_ns ns meta (after down)) xs))"
  using in_ns_key by (simp add: comp_def)

lemma in_ns_up_ok:
  assumes "\<And>x. x \<in> set xs \<Longrightarrow> metaNamespace (meta x) = ns \<Longrightarrow> ready x"
    and "y \<in> set (map (in_ns ns meta (after down)) xs)" and "metaNamespace (meta y) = ns"
  shows "\<exists>r. up y = Inr r"
proof -
  from assms(2) obtain x where x: "x \<in> set xs" "y = in_ns ns meta (after down) x" by auto
  with assms(3) have "metaNamespace (meta x) = ns" using after_ns[OF down_key] by (auto simp: in_ns_def split: if_splits)
  with x assms(1) up_ok show ?thesis by (simp add: in_ns_def)
qed

lemma run_down:
  assumes "serves api meta get put view" and "lens get put" and "ns \<noteq> []"
    and "ready_list ns meta ready (get v)"
  shows "runs view (listAndUpdate api down ns) v (put (map (in_ns ns meta (after down)) (get v)) v)"
  using assms down_ok ready_listD[OF assms(4)] by (intro runs_list[OF _ _ down_key]) auto

lemma run_up:
  assumes "serves api meta get put view" and "lens get put" and "ns \<noteq> []"
    and "ready_list ns meta ready xs" and "get v = map (in_ns ns meta (after down)) xs"
  shows "runs view (listAndUpdate api up ns) v (put (map (in_ns ns meta norm) xs) v)"
proof (rule runs_list[OF assms(1,2) up_key assms(3)])
  show "distinct (map (objKey \<circ> meta) (get v))"
    unfolding assms(5) by (rule in_ns_keys[OF ready_listD(1)[OF assms(4)]])
  show "\<exists>r. up y = Inr r" if "y \<in> set (get v)" "metaNamespace (meta y) = ns" for y
    using in_ns_up_ok[OF ready_listD(2)[OF assms(4)]] that unfolding assms(5) by blast
  show "put (map (in_ns ns meta norm) xs) v = put (map (in_ns ns meta (after up)) (get v)) v"
    unfolding assms(5) by (subst in_ns_restored) (use ready_listD(2)[OF assms(4)] in simp_all)
qed

end

section \<open>The kinds\<close>

lemma atoi_sint: "atoi (itoa (sint (n :: 32 word))) = Inr (sint n)"
  using sint_ge[of n] sint_less[of n] by (intro atoi_itoa) simp_all

lemma fmdrop_fmupd_new: "fmlookup m k = None \<Longrightarrow> fmdrop k (fmupd k v m) = m"
  by (rule fmap_ext) auto

lemma annotate_simps [simp]:
  "metaNamespace (annotate k v m) = metaNamespace m" "metaName (annotate k v m) = metaName m"
  "metaOwners (annotate k v m) = metaOwners m" "fmlookup (metaAnnotations (annotate k v m)) k = Some v"
  "metaNamespace (unannotate k m) = metaNamespace m" "metaName (unannotate k m) = metaName m"
  "metaOwners (unannotate k m) = metaOwners m"
  by (simp_all add: annotate_def unannotate_def)

lemma unannotate_annotate [simp]:
  "fmlookup (metaAnnotations m) k = None \<Longrightarrow> unannotate k (annotate k v m) = m"
  by (simp add: annotate_def unannotate_def fmdrop_fmupd_new)

definition readyDC :: "deploymentConfig \<Rightarrow> bool" where
  "readyDC dc \<longleftrightarrow> fmlookup (metaAnnotations (dcMeta dc)) ReplicasAnnotation = None"

definition readyWorkload :: "workload \<Rightarrow> bool" where
  "readyWorkload w \<longleftrightarrow> wReplicas w \<noteq> None \<and> fmlookup (metaAnnotations (wMeta w)) ReplicasAnnotation = None"

definition readyDaemonSet :: "daemonSet \<Rightarrow> bool" where
  "readyDaemonSet d \<longleftrightarrow> fmlookup (dsNodeSelector d) QuiesceNodeSelector = None \<and>
     fmlookup (metaAnnotations (dsMeta d)) NodeSelectorAnnotation = None \<and>
     (\<forall>k v. fmlookup (dsNodeSelector d) k = Some v \<longrightarrow> plain k \<and> plain v)"

definition readyCronJob :: "cronJob \<Rightarrow> bool" where
  "readyCronJob r \<longleftrightarrow> cjSuspend r \<noteq> Some True \<and> fmlookup (metaAnnotations (cjMeta r)) SuspendAnnotation = None"

lemma quiesceDC_cases:
  "quiesceDC x = (if dcReplicas x = 0 then Inr None else
     Inr (Some (dcReplicas_update (\<lambda>_. 0) (dcMeta_update (annotate ReplicasAnnotation (itoa (sint (dcReplicas x)))) x))))"
  by (simp add: quiesceDC_def)

interpretation dc: quiescing quiesceDC unQuiesceDC dcMeta readyDC id
proof
  fix x y assume r: "readyDC x"
  show "\<exists>r. quiesceDC x = Inr r" by (simp add: quiesceDC_def)
  show "unQuiesceDC x = Inr None \<and> id x = x" using r by (simp add: unQuiesceDC_def readyDC_def)
  assume "quiesceDC x = Inr (Some y)"
  then have y: "y = x\<lparr>dcMeta := annotate ReplicasAnnotation (itoa (sint (dcReplicas x))) (dcMeta x), dcReplicas := 0\<rparr>"
    by (simp add: quiesceDC_def split: if_splits)
  show "unQuiesceDC y = Inr (Some (id x))"
    using r unfolding y by (simp add: unQuiesceDC_def readyDC_def atoi_sint Let_def)
next
  show "keeps_key dcMeta quiesceDC"
    by (simp add: keeps_key_def objKey_def quiesceDC_def)
  show "keeps_key dcMeta unQuiesceDC"
    unfolding keeps_key_def
  proof (intro allI impI)
    fix x x' assume "unQuiesceDC x = Inr (Some x')"
    then show "objKey (dcMeta x') = objKey (dcMeta x)"
      by (simp add: unQuiesceDC_def objKey_def Let_def result_simps split: option.splits) force
  qed
qed

lemma keeps_key_unQuiesceDeployment: "keeps_key wMeta unQuiesceDeployment"
  unfolding keeps_key_def
proof (intro allI impI)
  fix x x' assume "unQuiesceDeployment x = Inr (Some x')"
  then show "objKey (wMeta x') = objKey (wMeta x)"
    by (simp add: unQuiesceDeployment_def objKey_def nilDeref_def result_simps split: option.splits) force
qed

lemma unQuiesce_annotated:
  assumes "readyWorkload x" and "wReplicas x = Some n"
  shows "unQuiesceDeployment (x\<lparr>wMeta := annotate ReplicasAnnotation (itoa (sint n)) (wMeta x), wReplicas := Some 0\<rparr>) =
    Inr (Some (id x))"
  using assms by (simp add: unQuiesceDeployment_def readyWorkload_def atoi_sint)

lemma unQuiesce_ready: "readyWorkload x \<Longrightarrow> unQuiesceDeployment x = Inr None"
  by (simp add: unQuiesceDeployment_def readyWorkload_def)

lemma readyWorkload_replicas: "readyWorkload x \<Longrightarrow> \<exists>n. wReplicas x = Some n"
  by (simp add: readyWorkload_def)

lemma quiesceDeployment_ready:
  assumes "readyWorkload x"
  shows "\<exists>r. quiesceDeployment x = Inr r" and "\<exists>r. quiesceJob x = Inr r"
  using readyWorkload_replicas[OF assms] by (auto simp: quiesceDeployment_def quiesceJob_def)

lemma quiesceDeployment_Some:
  "quiesceDeployment x = Inr (Some y) \<Longrightarrow> \<exists>n. wReplicas x = Some n \<and>
     y = x\<lparr>wMeta := annotate ReplicasAnnotation (itoa (sint n)) (wMeta x), wReplicas := Some 0\<rparr>"
  by (simp add: quiesceDeployment_def nilDeref_def split: option.splits if_splits)

lemma quiesceJob_Some:
  "quiesceJob x = Inr (Some y) \<Longrightarrow> \<exists>n. wReplicas x = Some n \<and>
     y = x\<lparr>wMeta := annotate ReplicasAnnotation (itoa (sint n)) (wMeta x), wReplicas := Some 0\<rparr>"
  by (simp add: quiesceJob_def nilDeref_def split: option.splits if_splits)

lemma keeps_key_quiesce: "keeps_key wMeta quiesceDeployment" "keeps_key wMeta quiesceJob"
  unfolding keeps_key_def using quiesceDeployment_Some quiesceJob_Some by (fastforce simp: objKey_def)+

interpretation deployment: quiescing quiesceDeployment unQuiesceDeployment wMeta readyWorkload id
proof
  fix x y assume "readyWorkload x" and "quiesceDeployment x = Inr (Some y)"
  then show "unQuiesceDeployment y = Inr (Some (id x))"
    using unQuiesce_annotated quiesceDeployment_Some by blast
qed (simp_all add: quiesceDeployment_ready unQuiesce_ready keeps_key_quiesce keeps_key_unQuiesceDeployment)

interpretation job: quiescing quiesceJob unQuiesceDeployment wMeta readyWorkload id
proof
  fix x y assume "readyWorkload x" and "quiesceJob x = Inr (Some y)"
  then show "unQuiesceDeployment y = Inr (Some (id x))"
    using unQuiesce_annotated quiesceJob_Some by blast
qed (simp_all add: quiesceDeployment_ready unQuiesce_ready keeps_key_quiesce keeps_key_unQuiesceDeployment)

lemma keeps_key_if: "keeps_key meta f \<Longrightarrow> keeps_key meta (\<lambda>w. if b w then Inr None else f w)"
  by (simp add: keeps_key_def)

interpretation replicaSet: quiescing quiesceReplicaSet unQuiesceReplicaSet wMeta readyWorkload id
proof
  fix x y assume r: "readyWorkload x" and q: "quiesceReplicaSet x = Inr (Some y)"
  then have o: "metaOwners (wMeta x) = []" and "quiesceDeployment x = Inr (Some y)"
    by (simp_all add: quiesceReplicaSet_def split: if_splits)
  with quiesceDeployment_Some have "metaOwners (wMeta y) = []" by fastforce
  moreover have "unQuiesceDeployment y = Inr (Some (id x))"
    using deployment.restores[OF r \<open>quiesceDeployment x = Inr (Some y)\<close>] .
  ultimately show "unQuiesceReplicaSet y = Inr (Some (id x))" by (simp add: unQuiesceReplicaSet_def)
next
  show "keeps_key wMeta quiesceReplicaSet" "keeps_key wMeta unQuiesceReplicaSet"
    unfolding quiesceReplicaSet_def[abs_def] unQuiesceReplicaSet_def[abs_def]
    by (intro keeps_key_if keeps_key_quiesce keeps_key_unQuiesceDeployment)+
qed (simp_all add: quiesceReplicaSet_def unQuiesceReplicaSet_def quiesceDeployment_ready unQuiesce_ready)

interpretation cronJob: quiescing quiesceCronJob unQuiesceCronJob cjMeta readyCronJob
    "\<lambda>r. r\<lparr>cjSuspend := Some False\<rparr>"
proof
  show "keeps_key cjMeta quiesceCronJob" "keeps_key cjMeta unQuiesceCronJob"
    by (auto simp: keeps_key_def objKey_def quiesceCronJob_def unQuiesceCronJob_def)
qed (auto simp: quiesceCronJob_def unQuiesceCronJob_def readyCronJob_def)

text \<open>
  \<open>json.Unmarshal\<close> reads back what \<open>json.Marshal\<close> wrote, at least where nothing needs an
  escape, as in the keys and values of labels.
\<close>

definition map_law :: "map_json \<Rightarrow> bool" where
  "map_law J \<longleftrightarrow> (\<forall>m. (\<forall>k v. fmlookup m k = Some v \<longrightarrow> plain k \<and> plain v) \<longrightarrow>
     unmarshalMap J (marshalMap J m) = Inr m)"

text \<open>The law as a value: a pair of functions that have it, to be a parameter of the contract.\<close>

lemma daemonSet_restores:
  assumes "map_law J" and "readyDaemonSet d"
  shows "quiesceDaemonSet J d = Inr (Some d') \<Longrightarrow> unQuiesceDaemonSet J d' = Inr (Some d)"
    and "\<exists>d'. quiesceDaemonSet J d = Inr (Some d')"
proof -
  have "unmarshalMap J (marshalMap J (dsNodeSelector d)) = Inr (dsNodeSelector d)"
    using assms unfolding map_law_def readyDaemonSet_def by blast
  then show "quiesceDaemonSet J d = Inr (Some d') \<Longrightarrow> unQuiesceDaemonSet J d' = Inr (Some d)"
    using assms(2) by (auto simp: quiesceDaemonSet_def unQuiesceDaemonSet_def readyDaemonSet_def)
  show "\<exists>d'. quiesceDaemonSet J d = Inr (Some d')"
    using assms(2) by (simp add: quiesceDaemonSet_def readyDaemonSet_def)
qed

lemma keeps_key_daemonSet:
  "keeps_key dsMeta (quiesceDaemonSet J)" "keeps_key dsMeta (unQuiesceDaemonSet J)"
proof -
  show "keeps_key dsMeta (quiesceDaemonSet J)"
    by (auto simp: keeps_key_def objKey_def quiesceDaemonSet_def)
  show "keeps_key dsMeta (unQuiesceDaemonSet J)"
    unfolding keeps_key_def
  proof (intro allI impI)
    fix x x' assume "unQuiesceDaemonSet J x = Inr (Some x')"
    then show "objKey (dsMeta x') = objKey (dsMeta x)"
      by (simp add: unQuiesceDaemonSet_def objKey_def result_simps split: option.splits if_splits) force
  qed
qed

text \<open>
  The contract needs the law, so its \<open>ready\<close> carries it: for functions without it no daemon
  set is ready.
\<close>

interpretation daemonSet: quiescing "quiesceDaemonSet J" "unQuiesceDaemonSet J" dsMeta
    "\<lambda>d. map_law J \<and> readyDaemonSet d" id for J
proof
  fix d d' assume r: "map_law J \<and> readyDaemonSet d"
  show "\<exists>r. quiesceDaemonSet J d = Inr r" using r daemonSet_restores(2) by blast
  show "quiesceDaemonSet J d = Inr (Some d') \<Longrightarrow> unQuiesceDaemonSet J d' = Inr (Some (id d))"
    using r daemonSet_restores(1) by simp
  show "quiesceDaemonSet J d = Inr None \<Longrightarrow> unQuiesceDaemonSet J d = Inr None \<and> id d = d"
    using r daemonSet_restores(2)[of J d] by auto
qed (rule keeps_key_daemonSet)+

section \<open>The whole namespace\<close>

record cluster =
  clCronJobs :: "cronJob list"
  clDCs :: "deploymentConfig list"
  clDeployments :: "workload list"
  clStatefulSets :: "workload list"
  clReplicaSets :: "workload list"
  clDaemonSets :: "daemonSet list"
  clJobs :: "workload list"

definition serves_cluster :: "'s client \<Rightarrow> ('s \<Rightarrow> cluster) \<Rightarrow> bool" where
  "serves_cluster c view \<longleftrightarrow>
     serves (cCronJobs c) cjMeta clCronJobs (\<lambda>x. clCronJobs_update (\<lambda>_. x)) view \<and>
     serves (cDeploymentConfigs c) dcMeta clDCs (\<lambda>x. clDCs_update (\<lambda>_. x)) view \<and>
     serves (cDeployments c) wMeta clDeployments (\<lambda>x. clDeployments_update (\<lambda>_. x)) view \<and>
     serves (cStatefulSets c) wMeta clStatefulSets (\<lambda>x. clStatefulSets_update (\<lambda>_. x)) view \<and>
     serves (cReplicaSets c) wMeta clReplicaSets (\<lambda>x. clReplicaSets_update (\<lambda>_. x)) view \<and>
     serves (cDaemonSets c) dsMeta clDaemonSets (\<lambda>x. clDaemonSets_update (\<lambda>_. x)) view \<and>
     serves (cJobs c) wMeta clJobs (\<lambda>x. clJobs_update (\<lambda>_. x)) view"

definition ready_cluster :: "string \<Rightarrow> cluster \<Rightarrow> bool" where
  "ready_cluster ns v \<longleftrightarrow>
     ready_list ns cjMeta readyCronJob (clCronJobs v) \<and> ready_list ns dcMeta readyDC (clDCs v) \<and>
     ready_list ns wMeta readyWorkload (clDeployments v) \<and> ready_list ns wMeta readyWorkload (clStatefulSets v) \<and>
     ready_list ns wMeta readyWorkload (clReplicaSets v) \<and> ready_list ns dsMeta readyDaemonSet (clDaemonSets v) \<and>
     ready_list ns wMeta readyWorkload (clJobs v)"

definition down_cluster :: "map_json \<Rightarrow> string \<Rightarrow> cluster \<Rightarrow> cluster" where
  "down_cluster J ns v = \<lparr>
     clCronJobs = map (in_ns ns cjMeta (after quiesceCronJob)) (clCronJobs v),
     clDCs = map (in_ns ns dcMeta (after quiesceDC)) (clDCs v),
     clDeployments = map (in_ns ns wMeta (after quiesceDeployment)) (clDeployments v),
     clStatefulSets = map (in_ns ns wMeta (after quiesceDeployment)) (clStatefulSets v),
     clReplicaSets = map (in_ns ns wMeta (after quiesceReplicaSet)) (clReplicaSets v),
     clDaemonSets = map (in_ns ns dsMeta (after (quiesceDaemonSet J))) (clDaemonSets v),
     clJobs = map (in_ns ns wMeta (after quiesceJob)) (clJobs v)\<rparr>"

lemma cluster_lenses:
  "lens clCronJobs (\<lambda>x. clCronJobs_update (\<lambda>_. x))" "lens clDCs (\<lambda>x. clDCs_update (\<lambda>_. x))"
  "lens clDeployments (\<lambda>x. clDeployments_update (\<lambda>_. x))" "lens clStatefulSets (\<lambda>x. clStatefulSets_update (\<lambda>_. x))"
  "lens clReplicaSets (\<lambda>x. clReplicaSets_update (\<lambda>_. x))" "lens clDaemonSets (\<lambda>x. clDaemonSets_update (\<lambda>_. x))"
  "lens clJobs (\<lambda>x. clJobs_update (\<lambda>_. x))"
  by (simp_all add: lens_def)

lemma runs_eq: "runs view a v v1 \<Longrightarrow> v1 = v' \<Longrightarrow> runs view a v v'"
  by simp

lemma quiesceWorkloads_effect:
  assumes "serves_cluster c view" and "map_law J" and "ns \<noteq> []" and "ready_cluster ns v"
  shows "runs view (quiesceWorkloads J c ns) v (down_cluster J ns v)"
proof -
  note sv = assms(1)[unfolded serves_cluster_def] and rd = assms(4)[unfolded ready_cluster_def]
  have ds: "ready_list ns dsMeta (\<lambda>d. map_law J \<and> readyDaemonSet d) (clDaemonSets v)"
    using rd assms(2) by (simp add: ready_list_def)
  note steps = cronJob.run_down[OF _ cluster_lenses(1) assms(3)] dc.run_down[OF _ cluster_lenses(2) assms(3)]
    deployment.run_down[OF _ cluster_lenses(3) assms(3)] deployment.run_down[OF _ cluster_lenses(4) assms(3)]
    replicaSet.run_down[OF _ cluster_lenses(5) assms(3)] daemonSet.run_down[OF _ cluster_lenses(6) assms(3)]
    job.run_down[OF _ cluster_lenses(7) assms(3)]
  show ?thesis
    unfolding quiesceWorkloads_def quiesceCronJobs_def quiesceDeploymentConfigs_def quiesceDeployments_def
      quiesceStatefulSets_def quiesceReplicaSets_def quiesceDaemonSets_def quiesceJobs_def
    by (rule runs_eq, rule runs_then, rule steps(1), use sv rd in simp, use rd in simp,
        rule runs_then, rule steps(2), use sv in simp, use rd in simp,
        rule runs_then, rule steps(3), use sv in simp, use rd in simp,
        rule runs_then, rule steps(4), use sv in simp, use rd in simp,
        rule runs_then, rule steps(5), use sv in simp, use rd in simp,
        rule runs_then, rule steps(6)[of _ _ J], use sv in simp, use ds in simp,
        rule steps(7), use sv in simp, use rd in simp) (simp add: down_cluster_def)
qed

lemma in_ns_id [simp]: "map (in_ns ns meta id) xs = xs"
  by (rule map_idI) (simp add: in_ns_def)

definition restored_cluster :: "string \<Rightarrow> cluster \<Rightarrow> cluster" where
  "restored_cluster ns v =
     v\<lparr>clCronJobs := map (in_ns ns cjMeta (\<lambda>r. r\<lparr>cjSuspend := Some False\<rparr>)) (clCronJobs v)\<rparr>"

lemma unQuiesce_effect:
  assumes "serves_cluster c view" and "map_law J" and "ns \<noteq> []" and "ready_cluster ns v"
  shows "runs view (unQuiesceApplications J c ns) (down_cluster J ns v) (restored_cluster ns v)"
proof -
  note sv = assms(1)[unfolded serves_cluster_def] and rd = assms(4)[unfolded ready_cluster_def]
  have ds: "ready_list ns dsMeta (\<lambda>d. map_law J \<and> readyDaemonSet d) (clDaemonSets v)"
    using rd assms(2) by (simp add: ready_list_def)
  note ups = cronJob.run_up[OF _ cluster_lenses(1) assms(3), where xs = "clCronJobs v"]
    dc.run_up[OF _ cluster_lenses(2) assms(3), where xs = "clDCs v"]
    deployment.run_up[OF _ cluster_lenses(3) assms(3), where xs = "clDeployments v"]
    deployment.run_up[OF _ cluster_lenses(4) assms(3), where xs = "clStatefulSets v"]
    replicaSet.run_up[OF _ cluster_lenses(5) assms(3), where xs = "clReplicaSets v"]
    daemonSet.run_up[OF _ cluster_lenses(6) assms(3), where xs = "clDaemonSets v"]
    job.run_up[OF _ cluster_lenses(7) assms(3), where xs = "clJobs v"]
  show ?thesis
    unfolding unQuiesceApplications_def unQuiesceCronJobs_def unQuiesceDeploymentConfigs_def
      unQuiesceDeployments_def unQuiesceStatefulSets_def unQuiesceReplicaSets_def
      unQuiesceDaemonSets_def unQuiesceJobs_def
    by (rule runs_eq,
        rule runs_then, rule ups(1), use sv in simp, use rd in simp, simp add: down_cluster_def,
        rule runs_then, rule ups(2), use sv in simp, use rd in simp, simp add: down_cluster_def,
        rule runs_then, rule ups(3), use sv in simp, use rd in simp, simp add: down_cluster_def,
        rule runs_then, rule ups(4), use sv in simp, use rd in simp, simp add: down_cluster_def,
        rule runs_then, rule ups(5), use sv in simp, use rd in simp, simp add: down_cluster_def,
        rule runs_then, rule ups(6)[of _ _ J], use sv in simp, use ds in simp, simp add: down_cluster_def,
        rule ups(7), use sv in simp, use rd in simp, simp add: down_cluster_def)
      (simp add: down_cluster_def restored_cluster_def)
qed

text \<open>
  C9. Quiescing a namespace and unquiescing it again succeeds and leaves every object as it
  was, the replica counts at their 32-bit width and the annotations included, when no
  object carries a trace of an earlier run and no cron job was suspended. In between, every
  object of the namespace is as its loop body makes it and nothing outside the namespace
  has changed; at the end the only difference is that an unset \<open>suspend\<close> of a cron job is
  explicitly false.
\<close>

theorem quiesce_unQuiesce:
  assumes "serves_cluster c view" and "map_law J" and "ns \<noteq> []" and "ready_cluster ns (view s)"
  shows "\<exists>s1 s2. quiesceWorkloads J c ns s = (Inr (), s1) \<and> view s1 = down_cluster J ns (view s) \<and>
    UnQuiesceApplications J c ns s1 = (Inr (), s2) \<and> view s2 = restored_cluster ns (view s)"
  using quiesceWorkloads_effect[OF assms] unQuiesce_effect[OF assms]
  unfolding runs_def UnQuiesceApplications_def by blast

text \<open>A cluster to apply the theorem to: the state is the cluster itself.\<close>

definition ref_objects :: "('o \<Rightarrow> objectMeta) \<Rightarrow> (cluster \<Rightarrow> 'o list) \<Rightarrow> ('o list \<Rightarrow> cluster \<Rightarrow> cluster) \<Rightarrow> (cluster, 'o) objects" where
  "ref_objects meta get put = \<lparr>
     api_list = (\<lambda>ns s. (Inr (filter (\<lambda>x. metaNamespace (meta x) = ns) (get s)), s)),
     api_update = (\<lambda>x s. if objKey (meta x) \<in> (objKey \<circ> meta) ` set (get s)
       then (Inr (), put (map (\<lambda>y. if objKey (meta y) = objKey (meta x) then x else y) (get s)) s)
       else (Inl (Error (GoError ''not found'' NotFound)), s))\<rparr>"

definition ref_client :: "cluster client" where
  "ref_client = \<lparr>
     cCronJobs = ref_objects cjMeta clCronJobs (\<lambda>x. clCronJobs_update (\<lambda>_. x)),
     cDeploymentConfigs = ref_objects dcMeta clDCs (\<lambda>x. clDCs_update (\<lambda>_. x)),
     cDeployments = ref_objects wMeta clDeployments (\<lambda>x. clDeployments_update (\<lambda>_. x)),
     cStatefulSets = ref_objects wMeta clStatefulSets (\<lambda>x. clStatefulSets_update (\<lambda>_. x)),
     cReplicaSets = ref_objects wMeta clReplicaSets (\<lambda>x. clReplicaSets_update (\<lambda>_. x)),
     cDaemonSets = ref_objects dsMeta clDaemonSets (\<lambda>x. clDaemonSets_update (\<lambda>_. x)),
     cJobs = ref_objects wMeta clJobs (\<lambda>x. clJobs_update (\<lambda>_. x)),
     cPods = \<lparr>api_list = (\<lambda>ns s. (Inr [], s)), api_update = (\<lambda>x s. (Inr (), s))\<rparr>\<rparr>"

lemma serves_ref_objects: "serves (ref_objects meta get put) meta get put id"
  by (auto simp: serves_def ref_objects_def)

lemma serves_ref_client: "serves_cluster ref_client id"
  unfolding serves_cluster_def ref_client_def client.simps by (intro conjI serves_ref_objects)

lemma map_law_ref: "map_law \<lparr>marshalMap = showMap, unmarshalMap = readMap\<rparr>"
  by (simp add: map_law_def readMap_showMap)

definition ex_meta :: "string \<Rightarrow> objectMeta" where
  "ex_meta n = \<lparr>metaNamespace = ''app'', metaName = n, metaAnnotations = fmempty, metaOwners = []\<rparr>"

definition ex_cluster :: cluster where
  "ex_cluster = \<lparr>clCronJobs = [\<lparr>cjMeta = ex_meta ''backup'', cjSuspend = None\<rparr>],
     clDCs = [\<lparr>dcMeta = ex_meta ''old'', dcReplicas = 2\<rparr>],
     clDeployments = [\<lparr>wMeta = ex_meta ''web'', wReplicas = Some 3\<rparr>], clStatefulSets = [],
     clReplicaSets = [], clDaemonSets = [\<lparr>dsMeta = ex_meta ''agent'', dsNodeSelector = fmempty\<rparr>],
     clJobs = [\<lparr>wMeta = ex_meta ''import'', wReplicas = Some 1\<rparr>]\<rparr>"

lemma ready_ex_cluster: "ready_cluster ''app'' ex_cluster"
  by (simp add: ready_cluster_def ready_list_def ex_cluster_def ex_meta_def readyCronJob_def readyDC_def
      readyWorkload_def readyDaemonSet_def)

lemma quiesce_unQuiesce_witness:
  "\<exists>s1 s2. quiesceWorkloads \<lparr>marshalMap = showMap, unmarshalMap = readMap\<rparr> ref_client ''app'' ex_cluster = (Inr (), s1) \<and>
     clDeployments s1 = [\<lparr>wMeta = annotate ReplicasAnnotation ''3'' (ex_meta ''web''), wReplicas = Some 0\<rparr>] \<and>
     UnQuiesceApplications \<lparr>marshalMap = showMap, unmarshalMap = readMap\<rparr> ref_client ''app'' s1 = (Inr (), s2) \<and>
     clDeployments s2 = [\<lparr>wMeta = ex_meta ''web'', wReplicas = Some 3\<rparr>]"
proof -
  let ?J = "\<lparr>marshalMap = showMap, unmarshalMap = readMap\<rparr>"
  from quiesce_unQuiesce[OF serves_ref_client map_law_ref, of "''app''" ex_cluster] ready_ex_cluster
  obtain s1 s2 where s: "quiesceWorkloads ?J ref_client ''app'' ex_cluster = (Inr (), s1)"
    "s1 = down_cluster ?J ''app'' ex_cluster" "UnQuiesceApplications ?J ref_client ''app'' s1 = (Inr (), s2)"
    "s2 = restored_cluster ''app'' ex_cluster" by auto
  moreover have "itoa 3 = ''3''" by code_simp
  then have "clDeployments s1 = [\<lparr>wMeta = annotate ReplicasAnnotation ''3'' (ex_meta ''web''), wReplicas = Some 0\<rparr>]"
    unfolding s(2) by (simp add: down_cluster_def ex_cluster_def in_ns_def ex_meta_def after_def
        quiesceDeployment_def)
  moreover have "clDeployments s2 = [\<lparr>wMeta = ex_meta ''web'', wReplicas = Some 3\<rparr>]"
    unfolding s(4) by (simp add: restored_cluster_def ex_cluster_def)
  ultimately show ?thesis by blast
qed

section \<open>What the contract excludes\<close>

text \<open>
  A cron job that was suspended before is running after quiescing and unquiescing: the
  guard that should skip it compares pointers and never holds.
\<close>

theorem suspended_cronJob_is_resumed:
  assumes "cjSuspend r = Some True"
  shows "\<exists>r' r''. quiesceCronJob r = Inr (Some r') \<and> unQuiesceCronJob r' = Inr (Some r'') \<and>
    cjSuspend r'' = Some False"
  by (simp add: quiesceCronJob_def unQuiesceCronJob_def)

lemma suspended_cronJob_is_resumed_witness:
  "\<exists>r' r''. quiesceCronJob \<lparr>cjMeta = ex_meta ''backup'', cjSuspend = Some True\<rparr> = Inr (Some r') \<and>
     unQuiesceCronJob r' = Inr (Some r'') \<and> cjSuspend r'' = Some False"
  by (rule suspended_cronJob_is_resumed) simp

text \<open>
  Quiescing a namespace twice, say after a failed transfer, loses the parallelism of
  every job: the second run records 0 over the first one's record, and unquiescing restores
  0. A deployment keeps its count, since the second run skips it.
\<close>

theorem quiesceJob_twice_forgets:
  assumes "wReplicas w = Some n" and "n \<noteq> 0"
  shows "(\<exists>w1 w2 w3. quiesceJob w = Inr (Some w1) \<and> quiesceJob w1 = Inr (Some w2) \<and>
      unQuiesceDeployment w2 = Inr (Some w3) \<and> wReplicas w3 = Some 0) \<and>
    (\<exists>w1 w2. quiesceDeployment w = Inr (Some w1) \<and> quiesceDeployment w1 = Inr None \<and>
      unQuiesceDeployment w1 = Inr (Some w2) \<and> wReplicas w2 = Some n)"
proof
  have "atoi (itoa 0) = Inr 0" by simp
  then show "\<exists>w1 w2 w3. quiesceJob w = Inr (Some w1) \<and> quiesceJob w1 = Inr (Some w2) \<and>
      unQuiesceDeployment w2 = Inr (Some w3) \<and> wReplicas w3 = Some 0"
    using assms by (simp add: quiesceJob_def unQuiesceDeployment_def)
  show "\<exists>w1 w2. quiesceDeployment w = Inr (Some w1) \<and> quiesceDeployment w1 = Inr None \<and>
      unQuiesceDeployment w1 = Inr (Some w2) \<and> wReplicas w2 = Some n"
    using assms atoi_sint[of n] by (simp add: quiesceDeployment_def unQuiesceDeployment_def)
qed

lemma quiesceJob_twice_forgets_witness:
  "(\<exists>w1 w2 w3. quiesceJob \<lparr>wMeta = ex_meta ''import'', wReplicas = Some 4\<rparr> = Inr (Some w1) \<and>
      quiesceJob w1 = Inr (Some w2) \<and> unQuiesceDeployment w2 = Inr (Some w3) \<and> wReplicas w3 = Some 0)"
  using quiesceJob_twice_forgets[of "\<lparr>wMeta = ex_meta ''import'', wReplicas = Some 4\<rparr>" 4] by simp

text \<open>
  A workload whose replica count is not set, or an annotation that is no number: the first
  panics, the second stops the loop.
\<close>

lemma quiesceDeployment_nil: "wReplicas w = None \<Longrightarrow> quiesceDeployment w = Inl nilDeref"
  by (simp add: quiesceDeployment_def)

lemma unQuiesce_bad_annotation:
  "fmlookup (metaAnnotations (wMeta w)) ReplicasAnnotation = Some a \<Longrightarrow> atoi a = Inl e \<Longrightarrow>
   unQuiesceDeployment w = Inl (Error e)"
  by (simp add: unQuiesceDeployment_def)

section \<open>Waiting\<close>

text \<open>The pods that keep the loop waiting.\<close>

definition blocking :: "podObject \<Rightarrow> bool" where
  "blocking p \<longleftrightarrow> podPhase p \<notin> skippedPhases \<and> (\<exists>k\<in>set (metaOwners (podMeta p)). k \<in> controllerKinds)"

lemma podsTerminated_iff: "podsTerminated ps \<longleftrightarrow> (\<forall>p\<in>set ps. \<not> blocking p)"
  by (induction ps) (auto simp: blocking_def list_ex_iff)

lemma ensure_run:
  "api_list (cPods c) ns s = (Inr ps, s) \<Longrightarrow>
   ensureQuiescedPodsTerminated c ns s = (Inr (podsTerminated ps), s)"
  by (simp add: ensureQuiescedPodsTerminated_def bindA_def retA_def)

definition pods_at :: "('s \<Rightarrow> podObject list) \<Rightarrow> 's client \<Rightarrow> string \<Rightarrow> bool" where
  "pods_at pods c ns \<longleftrightarrow> (\<forall>s. api_list (cPods c) ns s = (Inr (pods s), s))"

lemma awaitPods_within:
  assumes "pods_at pods c ns" and "\<forall>p\<in>set (pods ((sleep ^^ n) s)). \<not> blocking p"
  shows "\<exists>m\<le>n. awaitPods sleep c ns s = Some (Inr (), (sleep ^^ m) s)"
  using assms(2)
proof (induction n arbitrary: s)
  case 0
  then show ?case using ensure_run[of c ns s "pods s"] assms(1)
    by (auto simp: awaitPods.simps pods_at_def podsTerminated_iff)
next
  case (Suc n)
  have e: "ensureQuiescedPodsTerminated c ns s = (Inr (podsTerminated (pods s)), s)"
    using ensure_run[of c ns s "pods s"] assms(1) by (simp add: pods_at_def)
  show ?case
  proof (cases "podsTerminated (pods s)")
    case True
    then show ?thesis using e by (auto simp: awaitPods.simps intro: exI[of _ 0])
  next
    case False
    from Suc.prems have "\<forall>p\<in>set (pods ((sleep ^^ n) (sleep s))). \<not> blocking p"
      by (simp add: funpow_swap1)
    from Suc.IH[OF this] obtain m where "m \<le> n" "awaitPods sleep c ns (sleep s) = Some (Inr (), (sleep ^^ m) (sleep s))"
      by blast
    then show ?thesis using e False by (auto simp: awaitPods.simps[of sleep c ns s] funpow_swap1 intro!: exI[of _ "Suc m"])
  qed
qed

lemma awaitPods_returns:
  assumes "awaitPods sleep c ns s = Some r" and "pods_at pods c ns"
  shows "\<exists>n. r = (Inr (), (sleep ^^ n) s) \<and> (\<forall>p\<in>set (pods ((sleep ^^ n) s)). \<not> blocking p)"
  using assms
proof (induction rule: awaitPods.raw_induct[rotated 1, consumes 1, case_names 1])
  case (1 rec sleep c ns s r)
  have e: "ensureQuiescedPodsTerminated c ns s = (Inr (podsTerminated (pods s)), s)"
    using ensure_run[of c ns s "pods s"] 1(3) by (simp add: pods_at_def)
  show ?case
  proof (cases "podsTerminated (pods s)")
    case True
    with 1(2) e have "r = (Inr (), s)" by simp
    with True show ?thesis by (intro exI[of _ 0]) (simp add: podsTerminated_iff)
  next
    case False
    with 1(2) e have "rec sleep c ns (sleep s) = Some r" by simp
    from 1(1)[OF this 1(3)] obtain n where "r = (Inr (), (sleep ^^ n) (sleep s))"
      "\<forall>p\<in>set (pods ((sleep ^^ n) (sleep s))). \<not> blocking p" by blast
    then show ?thesis by (intro exI[of _ "Suc n"]) (simp add: funpow_swap1)
  qed
qed

text \<open>
  C28. The polling loop returns exactly when, after some number of pauses, no running pod of
  the namespace has an owner of a kind that was scaled down; when it returns, that is so.
\<close>

theorem awaitPods_terminates:
  assumes "pods_at pods c ns"
  shows "((\<exists>r. awaitPods sleep c ns s = Some r) \<longleftrightarrow> (\<exists>n. \<forall>p\<in>set (pods ((sleep ^^ n) s)). \<not> blocking p)) \<and>
    (\<forall>r s'. awaitPods sleep c ns s = Some (r, s') \<longrightarrow> r = Inr () \<and> (\<forall>p\<in>set (pods s'). \<not> blocking p))"
proof (intro conjI allI impI)
  show "(\<exists>r. awaitPods sleep c ns s = Some r) \<longleftrightarrow> (\<exists>n. \<forall>p\<in>set (pods ((sleep ^^ n) s)). \<not> blocking p)"
    using awaitPods_returns[OF _ assms] awaitPods_within[OF assms] by blast
  fix r s' assume "awaitPods sleep c ns s = Some (r, s')"
  from awaitPods_returns[OF this assms] show "r = Inr ()" "\<forall>p\<in>set (pods s'). \<not> blocking p" by auto
qed

text \<open>Pods that end one after the other, a pause apart: the state is how many are left.\<close>

definition no_objects :: "('s, 'o) objects" where
  "no_objects = \<lparr>api_list = (\<lambda>ns s. (Inr [], s)), api_update = (\<lambda>x s. (Inr (), s))\<rparr>"

definition ex_pod :: podObject where
  "ex_pod = \<lparr>podMeta = (ex_meta ''web-1'')\<lparr>metaOwners := [''ReplicaSet'']\<rparr>, podPhase = ''Running''\<rparr>"

definition ending_pods :: "nat client" where
  "ending_pods = \<lparr>cCronJobs = no_objects, cDeploymentConfigs = no_objects, cDeployments = no_objects,
     cStatefulSets = no_objects, cReplicaSets = no_objects, cDaemonSets = no_objects, cJobs = no_objects,
     cPods = \<lparr>api_list = (\<lambda>ns n. (Inr (replicate n ex_pod), n)), api_update = (\<lambda>x s. (Inr (), s))\<rparr>\<rparr>"

lemma awaitPods_terminates_witness:
  "\<exists>r. awaitPods (\<lambda>n. n - 1) ending_pods ''app'' 2 = Some r"
proof -
  have "pods_at (\<lambda>n. replicate n ex_pod) ending_pods ''app''"
    by (simp add: pods_at_def ending_pods_def)
  moreover have "\<exists>n. \<forall>p\<in>set (replicate (((\<lambda>n. n - 1) ^^ n) 2) ex_pod). \<not> blocking p"
    by (intro exI[of _ 2]) (simp add: eval_nat_numeral)
  ultimately show ?thesis using awaitPods_terminates[of "\<lambda>n. replicate n ex_pod" ending_pods "''app''" "\<lambda>n. n - 1" 2] by blast
qed

end
