(* ===== verification/QuiesceHistory.thy ===== *)
theory QuiesceHistory
  imports QuiesceProps
begin

text \<open>
  Quiescing that is interrupted: every call to the cluster may fail, and a failed update may
  have been applied or not. A history is any sequence of calls of the two entry points of
  \<open>state_transfer/quiesce.go\<close> with whatever results; the invariant says what each workload can
  look like on the way, and what it looks like once a last call has succeeded.
\<close>

section \<open>A cluster that fails\<close>

text \<open>
  A list that is returned is the current one. An update of an existing object is applied, or
  answered with an error and not applied; an error does not tell which.
\<close>

definition faulty :: "('s, 'o) objects \<Rightarrow> ('o \<Rightarrow> objectMeta) \<Rightarrow> ('c \<Rightarrow> 'o list) \<Rightarrow> ('o list \<Rightarrow> 'c \<Rightarrow> 'c)
    \<Rightarrow> ('s \<Rightarrow> 'c) \<Rightarrow> bool" where
  "faulty api meta get put view \<longleftrightarrow>
     (\<forall>s ns r s'. ns \<noteq> [] \<longrightarrow> api_list api ns s = (r, s') \<longrightarrow> view s' = view s \<and>
        (\<forall>xs. r = Inr xs \<longrightarrow> xs = filter (\<lambda>x. metaNamespace (meta x) = ns) (get (view s)))) \<and>
     (\<forall>s x r s'. objKey (meta x) \<in> (objKey \<circ> meta) ` set (get (view s)) \<longrightarrow> api_update api x s = (r, s') \<longrightarrow>
        view s' = put (map (\<lambda>y. if objKey (meta y) = objKey (meta x) then x else y) (get (view s))) (view s) \<or>
        view s' = view s \<and> (\<exists>e. r = Inl e))"

text \<open>\<open>rel\<close> holds between an object as it was at first and as it is now, in the namespace.\<close>

definition traced :: "string \<Rightarrow> ('o \<Rightarrow> objectMeta) \<Rightarrow> ('o \<Rightarrow> 'o \<Rightarrow> bool) \<Rightarrow> 'o \<Rightarrow> 'o \<Rightarrow> bool" where
  "traced ns meta rel x y \<longleftrightarrow> objKey (meta y) = objKey (meta x) \<and>
     (if metaNamespace (meta x) = ns then rel x y else y = x)"

lemma list_all2_replace:
  assumes "list_all2 R xs ys" and "\<And>x y. x \<in> set xs \<Longrightarrow> y \<in> set ys \<Longrightarrow> R x y \<Longrightarrow> S x (f y)"
  shows "list_all2 S xs (map f ys)"
  using assms by (induction rule: list_all2_induct) auto

lemma list_all2_left: "list_all2 R xs ys \<Longrightarrow> x \<in> set xs \<Longrightarrow> \<exists>y\<in>set ys. R x y"
  by (induction rule: list_all2_induct) auto

lemma list_all2_right: "list_all2 R xs ys \<Longrightarrow> y \<in> set ys \<Longrightarrow> \<exists>x\<in>set xs. R x y"
  by (induction rule: list_all2_induct) auto

text \<open>Replacing the object \<open>b\<close>, which came from \<open>a\<close>, takes it off the list of what is to do.\<close>

lemma replace_one:
  assumes dist: "distinct (map (objKey \<circ> meta) L)"
    and key: "\<And>x y. P x y \<Longrightarrow> objKey (meta y) = objKey (meta x)"
    and a: "a \<in> set L" "P a b" and new: "P a b'" "Q a b'"
    and inv: "list_all2 (\<lambda>x y. P x y \<and> (y \<in> set (b # bs) \<or> Q x y)) L ys"
  shows "list_all2 (\<lambda>x y. P x y \<and> (y \<in> set bs \<or> Q x y)) L
    (map (\<lambda>y. if objKey (meta y) = objKey (meta b') then b' else y) ys)"
proof (rule list_all2_replace[OF inv])
  let ?new = "\<lambda>y. if objKey (meta y) = objKey (meta b') then b' else y"
  have kb: "objKey (meta b') = objKey (meta a)" "objKey (meta b) = objKey (meta a)" using key new(1) a(2) by auto
  fix x y assume x: "x \<in> set L" and r: "P x y \<and> (y \<in> set (b # bs) \<or> Q x y)"
  have "x = a" if "objKey (meta y) = objKey (meta b')"
    using dist a(1) x key[of x y] r that kb by (auto simp: distinct_map inj_on_def)
  moreover have "y \<noteq> b" if "objKey (meta y) \<noteq> objKey (meta b')" using that kb by auto
  ultimately show "P x (?new y) \<and> (?new y \<in> set bs \<or> Q x (?new y))" using new r by auto
qed

text \<open>
  One loop, with any outcome. \<open>P\<close> is what each object keeps, \<open>Q\<close> what it has once the loop
  body has been applied to it.
\<close>

lemma updateEach_any:
  assumes api: "faulty api meta get put view" and len: "lens get put"
    and dist: "distinct (map (objKey \<circ> meta) L)"
    and key: "\<And>x y. P x y \<Longrightarrow> objKey (meta y) = objKey (meta x)"
    and step: "\<And>x y r. x \<in> set L \<Longrightarrow> y \<in> set xs \<Longrightarrow> P x y \<Longrightarrow> body y = Inr r \<Longrightarrow> P x (after body y) \<and> Q x (after body y)"
    and orig: "\<And>y. y \<in> set xs \<Longrightarrow> \<exists>x\<in>set L. P x y"
    and inv: "list_all2 (\<lambda>x y. P x y \<and> (y \<in> set xs \<or> Q x y)) L (get (view s))"
    and run: "updateEach api body xs s = (r, s')"
  shows "list_all2 (\<lambda>x y. P x y \<and> (r = Inr () \<longrightarrow> Q x y)) L (get (view s'))"
    and "view s' = put (get (view s')) (view s)"
proof -
  have "list_all2 (\<lambda>x y. P x y \<and> (r = Inr () \<longrightarrow> Q x y)) L (get (view s')) \<and> view s' = put (get (view s')) (view s)"
    using step orig inv run
  proof (induction xs arbitrary: s)
    case Nil
    then show ?case using len by (auto simp: lens_def elim: list.rel_mono_strong)
  next
    case (Cons b bs)
    note step = Cons.prems(1) and orig = Cons.prems(2) and inv = Cons.prems(3) and run = Cons.prems(4)
    obtain a where a: "a \<in> set L" "P a b" using orig[of b] by auto
    consider e where "body b = Inl e" | "body b = Inr None" | b' where "body b = Inr (Some b')"
      by (metis not_None_eq sumE)
    then show ?case
    proof cases
      case 1
      then show ?thesis using run inv len by (auto simp: lens_def elim: list.rel_mono_strong)
    next
      case 2
      then have "after body b = b" by (simp add: after_def)
      with step[of _ b] 2 have "list_all2 (\<lambda>x y. P x y \<and> (y \<in> set bs \<or> Q x y)) L (get (view s))"
        by (intro list.rel_mono_strong[OF inv]) (metis list.set_intros(1) set_ConsD)
      then show ?thesis using Cons.IH[of s] step orig run 2 by simp
    next
      case 3
      then have b': "after body b = b'" by (simp add: after_def)
      have new: "P a b'" "Q a b'" using step[OF a(1) _ a(2) 3] b' by auto
      obtain r1 s1 where u: "api_update api b' s = (r1, s1)" by fastforce
      obtain c where "c \<in> set (get (view s))" "P a c" using list_all2_left[OF inv a(1)] by auto
      with key[of a c] key[OF new(1)] have "objKey (meta b') \<in> (objKey \<circ> meta) ` set (get (view s))"
        by (intro image_eqI[of _ _ c]) simp_all
      with api u have "view s1 = put (map (\<lambda>y. if objKey (meta y) = objKey (meta b') then b' else y) (get (view s))) (view s)
          \<or> view s1 = view s \<and> (\<exists>e. r1 = Inl e)" unfolding faulty_def by blast
      then show ?thesis
      proof
        let ?new = "\<lambda>y. if objKey (meta y) = objKey (meta b') then b' else y"
        assume v: "view s1 = put (map ?new (get (view s))) (view s)"
        have getput: "get (put l v) = l" for l v using len by (simp add: lens_def)
        have inv1: "list_all2 (\<lambda>x y. P x y \<and> (y \<in> set bs \<or> Q x y)) L (get (view s1))"
          unfolding v getput
          by (rule replace_one[OF dist key a new inv])
        have pp: "put (get (view s')) (view s1) = put (get (view s')) (view s)"
          unfolding v using len by (simp add: lens_def)
        have id: "put (get (view s1)) (view s1) = view s1" using len by (simp add: lens_def)
        show ?thesis
        proof (cases r1)
          case (Inl e)
          then have "s' = s1" "r = Inl e" using run u 3 by auto
          then show ?thesis using inv1 pp id by (auto elim: list.rel_mono_strong)
        next
          case (Inr z)
          then have "updateEach api body bs s1 = (r, s')" using run u 3 by simp
          from Cons.IH[OF _ _ inv1 this] step orig show ?thesis using pp by simp
        qed
      next
        assume "view s1 = view s \<and> (\<exists>e. r1 = Inl e)"
        then show ?thesis using run u 3 inv len by (auto simp: lens_def elim: list.rel_mono_strong)
      qed
    qed
  qed
  then show "list_all2 (\<lambda>x y. P x y \<and> (r = Inr () \<longrightarrow> Q x y)) L (get (view s'))"
    and "view s' = put (get (view s')) (view s)" by auto
qed


lemma listAndUpdate_any:
  assumes api: "faulty api meta get put view" and len: "lens get put" and ns: "ns \<noteq> []"
    and dist: "distinct (map (objKey \<circ> meta) L)" and keys: "keeps_key meta body"
    and step: "\<And>x y r. x \<in> set L \<Longrightarrow> metaNamespace (meta x) = ns \<Longrightarrow> stage x y \<Longrightarrow> body y = Inr r \<Longrightarrow>
      stage x (after body y) \<and> final x (after body y)"
    and inv: "list_all2 (traced ns meta stage) L (get (view s))"
    and run: "listAndUpdate api body ns s = (r, s')"
  shows "list_all2 (\<lambda>x y. traced ns meta stage x y \<and> (r = Inr () \<longrightarrow> traced ns meta final x y)) L (get (view s'))"
    and "view s' = put (get (view s')) (view s)"
proof -
  let ?T = "traced ns meta"
  have tns: "metaNamespace (meta y) = metaNamespace (meta x)" if "?T R x y" for R x y
    using that by (simp add: traced_def objKey_def)
  obtain r1 s1 where l: "api_list api ns s = (r1, s1)" by fastforce
  with api ns have v: "view s1 = view s"
    and xs: "r1 = Inr xs \<Longrightarrow> xs = filter (\<lambda>x. metaNamespace (meta x) = ns) (get (view s))" for xs
    unfolding faulty_def by blast+
  have "list_all2 (\<lambda>x y. ?T stage x y \<and> (r = Inr () \<longrightarrow> ?T final x y)) L (get (view s')) \<and>
    view s' = put (get (view s')) (view s)"
  proof (cases r1)
    case (Inl e)
    then show ?thesis using run l v inv len by (auto simp: listAndUpdate_def bindA_def lens_def elim: list.rel_mono_strong)
  next
    case (Inr xs)
    with xs have xs: "xs = filter (\<lambda>x. metaNamespace (meta x) = ns) (get (view s1))" using v by simp
    have u: "updateEach api body xs s1 = (r, s')" using run l Inr by (simp add: listAndUpdate_def bindA_def)
    have st: "?T stage x (after body y) \<and> ?T final x (after body y)"
      if "x \<in> set L" "y \<in> set xs" "?T stage x y" "body y = Inr z" for x y z
      using that xs tns[OF that(3)] step[of x y z] after_key[OF keys, of y] by (simp add: traced_def)
    have orig: "\<exists>x\<in>set L. ?T stage x y" if "y \<in> set xs" for y
      using that v xs list_all2_right[OF inv] by simp
    have "list_all2 (\<lambda>x y. ?T stage x y \<and> (y \<in> set xs \<or> ?T final x y)) L (get (view s1))"
      using inv unfolding v xs
      by (rule list.rel_mono_strong) (auto simp: traced_def objKey_def split: if_splits)
    from updateEach_any[OF api len dist _ st orig this u] show ?thesis using v by (simp add: traced_def)
  qed
  then show "list_all2 (\<lambda>x y. ?T stage x y \<and> (r = Inr () \<longrightarrow> ?T final x y)) L (get (view s'))"
    and "view s' = put (get (view s')) (view s)" by auto
qed


section \<open>What one kind goes through\<close>

text \<open>
  The contract of a kind that survives interruptions: \<open>stage x\<close> are the forms an object that
  was \<open>x\<close> can have, and \<open>final x\<close> those after a complete way up.
\<close>

locale reentrant =
  fixes down up :: "'o \<Rightarrow> 'o option result" and meta :: "'o \<Rightarrow> objectMeta"
    and ready :: "'o \<Rightarrow> bool" and stage final :: "'o \<Rightarrow> 'o \<Rightarrow> bool"
  assumes begins: "ready x \<Longrightarrow> stage x x"
    and goes_down: "ready x \<Longrightarrow> stage x y \<Longrightarrow> down y = Inr r \<Longrightarrow> stage x (after down y)"
    and comes_up: "ready x \<Longrightarrow> stage x y \<Longrightarrow> up y = Inr r \<Longrightarrow> final x (after up y)"
    and final_stage: "final x y \<Longrightarrow> stage x y"
    and keys: "keeps_key meta down" "keeps_key meta up"
begin

lemma start:
  assumes "ready_list ns meta ready xs"
  shows "list_all2 (traced ns meta stage) xs xs"
  using ready_listD(2)[OF assms] begins by (intro list.rel_refl_strong) (simp add: traced_def)

lemma weaken: "list_all2 (traced ns meta final) xs ys \<Longrightarrow> list_all2 (traced ns meta stage) xs ys"
  by (erule list_all2_mono) (simp add: traced_def final_stage split: if_splits)

text \<open>The loop down keeps the stages, however it ends.\<close>

lemma down_any:
  assumes "faulty api meta get put view" and "lens get put" and "ns \<noteq> []" and rl: "ready_list ns meta ready L"
    and "list_all2 (traced ns meta stage) L (get (view s))" and "listAndUpdate api down ns s = (r, s')"
  shows "list_all2 (traced ns meta stage) L (get (view s'))" and "view s' = put (get (view s')) (view s)"
proof -
  have step: "stage x (after down y) \<and> True" if "x \<in> set L" "metaNamespace (meta x) = ns" "stage x y" "down y = Inr z" for x y z
    using that goes_down ready_listD(2)[OF rl] by blast
  note rule = listAndUpdate_any[OF assms(1,2,3) ready_listD(1)[OF rl] keys(1) _ assms(5,6), where final = "\<lambda>_ _. True"]
  show "list_all2 (traced ns meta stage) L (get (view s'))"
    by (rule list_all2_mono, rule rule(1), fact step, erule conjunct1)
  show "view s' = put (get (view s')) (view s)" by (rule rule(2), fact step)
qed

text \<open>The loop up keeps them too, and finishes when it succeeds.\<close>

lemma up_any:
  assumes "faulty api meta get put view" and "lens get put" and "ns \<noteq> []" and rl: "ready_list ns meta ready L"
    and "list_all2 (traced ns meta stage) L (get (view s))" and "listAndUpdate api up ns s = (r, s')"
  shows "list_all2 (traced ns meta stage) L (get (view s'))"
    and "r = Inr () \<Longrightarrow> list_all2 (traced ns meta final) L (get (view s'))"
    and "view s' = put (get (view s')) (view s)"
proof -
  have step: "stage x (after up y) \<and> final x (after up y)"
    if "x \<in> set L" "metaNamespace (meta x) = ns" "stage x y" "up y = Inr z" for x y z
    using that comes_up final_stage ready_listD(2)[OF rl] by blast
  note rule = listAndUpdate_any[OF assms(1,2,3) ready_listD(1)[OF rl] keys(2) _ assms(5,6), where final = final]
  show "list_all2 (traced ns meta stage) L (get (view s'))"
    by (rule list_all2_mono, rule rule(1), fact step, erule conjunct1)
  show "list_all2 (traced ns meta final) L (get (view s'))" if "r = Inr ()"
    by (rule list_all2_mono, rule rule(1), fact step) (use that in blast)
  show "view s' = put (get (view s')) (view s)" by (rule rule(2), fact step)
qed

end

text \<open>
  A kind whose way down can be taken twice without loss, and whose way up leaves an untouched
  object alone, is of that sort: an object is as it was, as it was but for \<open>norm\<close>, or down.
\<close>

definition downStage :: "('o \<Rightarrow> 'o option result) \<Rightarrow> ('o \<Rightarrow> 'o) \<Rightarrow> 'o \<Rightarrow> 'o \<Rightarrow> bool" where
  "downStage down rest x y \<longleftrightarrow> y = x \<or> y = rest x \<or> y = after down x"

definition settled :: "('o \<Rightarrow> 'o) \<Rightarrow> 'o \<Rightarrow> 'o \<Rightarrow> bool" where
  "settled rest x y \<longleftrightarrow> y = x \<or> y = rest x"

locale requiescing = quiescing +
  assumes again: "ready x \<Longrightarrow> down x = Inr (Some y) \<Longrightarrow> after down y = y"
    and untouched: "ready x \<Longrightarrow> up x = Inr None"
    and norm_ready: "ready x \<Longrightarrow> ready (norm x)"
    and down_norm: "ready x \<Longrightarrow> after down (norm x) = after down x"
begin

lemma down_twice: "ready x \<Longrightarrow> after down (after down x) = after down x"
  using down_ok[of x] again[of x] by (cases "down x") (auto simp: after_def split: sum.splits option.splits)

lemma up_untouched: "ready x \<Longrightarrow> after up x = x" "ready x \<Longrightarrow> after up (norm x) = norm x"
  using untouched norm_ready by (simp_all add: after_def)

end

sublocale requiescing \<subseteq> reentrant down up meta ready "downStage down norm" "settled norm"
proof
  fix x y r assume r: "ready x"
  show "downStage down norm x x" by (simp add: downStage_def)
  assume "downStage down norm x y"
  then show "downStage down norm x (after down y)" "settled norm x (after up y)"
    using r down_twice down_norm up_untouched restored by (auto simp: downStage_def settled_def)
next
  show "settled norm x y \<Longrightarrow> downStage down norm x y" for x y by (auto simp: downStage_def settled_def)
qed (rule down_key up_key)+

section \<open>The kinds\<close>

lemma annotate_annotate [simp]: "annotate k v (annotate k u m) = annotate k v m"
  by (simp add: annotate_def)

interpretation dc_again: requiescing quiesceDC unQuiesceDC dcMeta readyDC id
  by unfold_locales (auto simp: quiesceDC_def unQuiesceDC_def readyDC_def after_def split: if_splits)

lemma quiesceDeployment_again: "quiesceDeployment x = Inr (Some y) \<Longrightarrow> quiesceDeployment y = Inr None"
  using quiesceDeployment_Some by (force simp: quiesceDeployment_def)

interpretation deployment_again: requiescing quiesceDeployment unQuiesceDeployment wMeta readyWorkload id
  by unfold_locales (auto simp: unQuiesce_ready after_def dest: quiesceDeployment_again)

interpretation replicaSet_again: requiescing quiesceReplicaSet unQuiesceReplicaSet wMeta readyWorkload id
proof unfold_locales
  fix x y assume "quiesceReplicaSet x = Inr (Some y)"
  then have "quiesceReplicaSet y = Inr None \<or> quiesceDeployment y = Inr None"
    using quiesceDeployment_again by (auto simp: quiesceReplicaSet_def split: if_splits)
  then show "after quiesceReplicaSet y = y" by (auto simp: after_def quiesceReplicaSet_def)
qed (simp_all add: unQuiesceReplicaSet_def unQuiesce_ready)

interpretation daemonSet_again: requiescing "quiesceDaemonSet J" "unQuiesceDaemonSet J" dsMeta
    "\<lambda>d. map_law J \<and> readyDaemonSet d" id for J
proof unfold_locales
  show "quiesceDaemonSet J d = Inr (Some d') \<Longrightarrow> after (quiesceDaemonSet J) d' = d'" for d d'
    by (auto simp: quiesceDaemonSet_def after_def split: if_splits)
  show "map_law J \<and> readyDaemonSet d \<Longrightarrow> unQuiesceDaemonSet J d = Inr None" for d
    by (simp add: unQuiesceDaemonSet_def readyDaemonSet_def)
qed simp_all

definition resumed :: "cronJob \<Rightarrow> cronJob" where
  "resumed r = r\<lparr>cjSuspend := Some False\<rparr>"

interpretation cronJob_again: requiescing quiesceCronJob unQuiesceCronJob cjMeta readyCronJob resumed
  unfolding resumed_def[abs_def]
  by unfold_locales (auto simp: quiesceCronJob_def unQuiesceCronJob_def readyCronJob_def after_def)

text \<open>
  A job does not survive a second way down: its count is recorded as 0. So it can also be
  in the forms of the job it then becomes, the one with no parallelism.
\<close>

definition stopped :: "workload \<Rightarrow> workload" where
  "stopped w = w\<lparr>wReplicas := Some 0\<rparr>"

definition jobStage :: "workload \<Rightarrow> workload \<Rightarrow> bool" where
  "jobStage x y \<longleftrightarrow> y = x \<or> y = after quiesceJob x \<or> y = stopped x \<or> y = after quiesceJob (stopped x)"

lemma stopped_ready: "readyWorkload x \<Longrightarrow> readyWorkload (stopped x)"
  by (simp add: readyWorkload_def stopped_def)

lemma quiesceJob_stopped:
  assumes "readyWorkload x"
  shows "after quiesceJob (after quiesceJob x) = after quiesceJob (stopped x)"
  using readyWorkload_replicas[OF assms] by (auto simp: after_def quiesceJob_def stopped_def)

lemma stopped_stopped: "stopped (stopped x) = stopped x"
  by (simp add: stopped_def)

interpretation job_again: reentrant quiesceJob unQuiesceDeployment wMeta readyWorkload jobStage "settled stopped"
proof
  fix x y r assume r: "readyWorkload x"
  note twice = quiesceJob_stopped[OF r] quiesceJob_stopped[OF stopped_ready[OF r], unfolded stopped_stopped]
  have up: "after unQuiesceDeployment x = x" "after unQuiesceDeployment (stopped x) = stopped x"
    using unQuiesce_ready r stopped_ready by (simp_all add: after_def)
  note down = job.restored[OF r] job.restored[OF stopped_ready[OF r]]
  show "jobStage x x" by (simp add: jobStage_def)
  assume "jobStage x y"
  then show "jobStage x (after quiesceJob y)" "settled stopped x (after unQuiesceDeployment y)"
    using twice up down by (auto simp: jobStage_def settled_def)
next
  show "settled stopped x y \<Longrightarrow> jobStage x y" for x y by (auto simp: jobStage_def settled_def)
qed (rule keeps_key_quiesce keeps_key_unQuiesceDeployment)+

section \<open>The whole namespace\<close>

definition faulty_cluster :: "'s client \<Rightarrow> ('s \<Rightarrow> cluster) \<Rightarrow> bool" where
  "faulty_cluster c view \<longleftrightarrow>
     faulty (cCronJobs c) cjMeta clCronJobs (\<lambda>x. clCronJobs_update (\<lambda>_. x)) view \<and>
     faulty (cDeploymentConfigs c) dcMeta clDCs (\<lambda>x. clDCs_update (\<lambda>_. x)) view \<and>
     faulty (cDeployments c) wMeta clDeployments (\<lambda>x. clDeployments_update (\<lambda>_. x)) view \<and>
     faulty (cStatefulSets c) wMeta clStatefulSets (\<lambda>x. clStatefulSets_update (\<lambda>_. x)) view \<and>
     faulty (cReplicaSets c) wMeta clReplicaSets (\<lambda>x. clReplicaSets_update (\<lambda>_. x)) view \<and>
     faulty (cDaemonSets c) dsMeta clDaemonSets (\<lambda>x. clDaemonSets_update (\<lambda>_. x)) view \<and>
     faulty (cJobs c) wMeta clJobs (\<lambda>x. clJobs_update (\<lambda>_. x)) view"

text \<open>Waiting for the pods, and looking at them, changes no workload.\<close>

definition waiting_is_harmless :: "('s \<Rightarrow> 's) \<Rightarrow> 's client \<Rightarrow> string \<Rightarrow> ('s \<Rightarrow> cluster) \<Rightarrow> bool" where
  "waiting_is_harmless sleep c ns view \<longleftrightarrow>
     (\<forall>s. view (sleep s) = view s) \<and> (\<forall>s. view (snd (api_list (cPods c) ns s)) = view s)"

text \<open>
  The histories: any sequence of calls of the two entry points, whatever each returns. A call
  of the first that could not build its client does nothing.
\<close>

inductive history :: "map_json \<Rightarrow> ('s \<Rightarrow> 's) \<Rightarrow> 's client \<Rightarrow> string \<Rightarrow> 's \<Rightarrow> 's \<Rightarrow> bool"
  for J sleep c ns s where
  start: "history J sleep c ns s s"
| quiesce: "history J sleep c ns s s1 \<Longrightarrow> newClient = Inr c \<or> newClient = Inl e \<Longrightarrow>
    QuiesceApplications J sleep newClient ns s1 = Some (r, s2) \<Longrightarrow> history J sleep c ns s s2"
| unQuiesce: "history J sleep c ns s s1 \<Longrightarrow> UnQuiesceApplications J c ns s1 = (r, s2) \<Longrightarrow> history J sleep c ns s s2"

text \<open>
  From \<open>P\<close> an action leads to \<open>Q\<close>, or fails in \<open>E\<close>.
\<close>

definition leads :: "('s \<Rightarrow> 'c) \<Rightarrow> ('c \<Rightarrow> bool) \<Rightarrow> ('s, unit) act \<Rightarrow> ('c \<Rightarrow> bool) \<Rightarrow> ('c \<Rightarrow> bool) \<Rightarrow> bool" where
  "leads view P a Q E \<longleftrightarrow>
     (\<forall>s r s'. P (view s) \<longrightarrow> a s = (r, s') \<longrightarrow> (if r = Inr () then Q (view s') else E (view s')))"

lemma leads_then: "leads view P a Q E \<Longrightarrow> leads view Q b R E \<Longrightarrow> leads view P (thenA a b) R E"
  unfolding leads_def thenA_def bindA_def by (fastforce split: prod.splits sum.splits if_splits)

lemma leads_weaken: "leads view P a Q E \<Longrightarrow> (\<And>v. E v \<Longrightarrow> E' v) \<Longrightarrow> leads view P a Q E'"
  unfolding leads_def by presburger

lemma leadsD: "leads view P a Q E \<Longrightarrow> P (view s) \<Longrightarrow> a s = (r, s') \<Longrightarrow> if r = Inr () then Q (view s') else E (view s')"
  unfolding leads_def by blast

text \<open>The same for an action that touches one kind, with \<open>p\<close>, \<open>q\<close> and \<open>e\<close> about that kind's objects.\<close>

definition leads_in :: "('c \<Rightarrow> 'l) \<Rightarrow> ('l \<Rightarrow> 'c \<Rightarrow> 'c) \<Rightarrow> ('s \<Rightarrow> 'c) \<Rightarrow> ('l \<Rightarrow> bool) \<Rightarrow> ('s, unit) act
    \<Rightarrow> ('l \<Rightarrow> bool) \<Rightarrow> bool" where
  "leads_in get put view p a q \<longleftrightarrow> (\<forall>s r s'. p (get (view s)) \<longrightarrow> a s = (r, s') \<longrightarrow>
     (if r = Inr () then q (get (view s')) else p (get (view s'))) \<and> view s' = put (get (view s')) (view s))"

context reentrant
begin

lemma down_leads:
  assumes "faulty api meta get put view" and "lens get put" and "ns \<noteq> []" and "ready_list ns meta ready L"
  shows "leads_in get put view (list_all2 (traced ns meta stage) L) (listAndUpdate api down ns)
    (list_all2 (traced ns meta stage) L)"
  unfolding leads_in_def using down_any[OF assms] by simp

lemma up_leads:
  assumes "faulty api meta get put view" and "lens get put" and "ns \<noteq> []" and "ready_list ns meta ready L"
  shows "leads_in get put view (list_all2 (traced ns meta stage) L) (listAndUpdate api up ns)
    (list_all2 (traced ns meta final) L)"
  unfolding leads_in_def using up_any[OF assms] by simp

end

text \<open>A statement about the cluster, kind by kind, and how it changes with one of them.\<close>

definition parts :: "(cronJob list \<Rightarrow> bool) \<Rightarrow> (deploymentConfig list \<Rightarrow> bool) \<Rightarrow> (workload list \<Rightarrow> bool) \<Rightarrow>
    (workload list \<Rightarrow> bool) \<Rightarrow> (workload list \<Rightarrow> bool) \<Rightarrow> (daemonSet list \<Rightarrow> bool) \<Rightarrow> (workload list \<Rightarrow> bool) \<Rightarrow>
    cluster \<Rightarrow> bool" where
  "parts p1 p2 p3 p4 p5 p6 p7 v \<longleftrightarrow> p1 (clCronJobs v) \<and> p2 (clDCs v) \<and> p3 (clDeployments v) \<and>
     p4 (clStatefulSets v) \<and> p5 (clReplicaSets v) \<and> p6 (clDaemonSets v) \<and> p7 (clJobs v)"

lemma leads_in_parts:
  assumes "leads_in get put view p a q"
    and "\<And>l v. P (put l v) \<longleftrightarrow> p l \<and> R v" and "\<And>l v. Q (put l v) \<longleftrightarrow> q l \<and> R v" and "lens get put"
  shows "leads view P a Q P"
  unfolding leads_def
proof (intro allI impI)
  fix s r s' assume "P (view s)" "a s = (r, s')"
  moreover have "P (view s) \<longleftrightarrow> p (get (view s)) \<and> R (view s)"
    using assms(2)[of "get (view s)" "view s"] assms(4) by (simp add: lens_def)
  ultimately have "(if r = Inr () then q (get (view s')) else p (get (view s')))" and "R (view s)"
    and "view s' = put (get (view s')) (view s)" using assms(1) unfolding leads_in_def by blast+
  then show "if r = Inr () then Q (view s') else P (view s')" using assms(2,3) by metis
qed

text \<open>Seven actions, one per kind: each moves its kind on and leaves the others where they are.\<close>

lemma leads_chain:
  assumes "leads_in clCronJobs (\<lambda>x. clCronJobs_update (\<lambda>_. x)) view s1 a1 f1"
    and "leads_in clDCs (\<lambda>x. clDCs_update (\<lambda>_. x)) view s2 a2 f2"
    and "leads_in clDeployments (\<lambda>x. clDeployments_update (\<lambda>_. x)) view s3 a3 f3"
    and "leads_in clStatefulSets (\<lambda>x. clStatefulSets_update (\<lambda>_. x)) view s4 a4 f4"
    and "leads_in clReplicaSets (\<lambda>x. clReplicaSets_update (\<lambda>_. x)) view s5 a5 f5"
    and "leads_in clDaemonSets (\<lambda>x. clDaemonSets_update (\<lambda>_. x)) view s6 a6 f6"
    and "leads_in clJobs (\<lambda>x. clJobs_update (\<lambda>_. x)) view s7 a7 f7"
    and w: "\<And>l. f1 l \<Longrightarrow> s1 l" "\<And>l. f2 l \<Longrightarrow> s2 l" "\<And>l. f3 l \<Longrightarrow> s3 l" "\<And>l. f4 l \<Longrightarrow> s4 l"
      "\<And>l. f5 l \<Longrightarrow> s5 l" "\<And>l. f6 l \<Longrightarrow> s6 l" "\<And>l. f7 l \<Longrightarrow> s7 l"
  shows "leads view (parts s1 s2 s3 s4 s5 s6 s7) (thenA a1 (thenA a2 (thenA a3 (thenA a4 (thenA a5 (thenA a6 a7))))))
    (parts f1 f2 f3 f4 f5 f6 f7) (parts s1 s2 s3 s4 s5 s6 s7)"
proof -
  let ?E = "parts s1 s2 s3 s4 s5 s6 s7"
  have "leads view (parts s1 s2 s3 s4 s5 s6 s7) a1 (parts f1 s2 s3 s4 s5 s6 s7) ?E"
    by (rule leads_weaken[OF leads_in_parts[OF assms(1), where R = "parts (\<lambda>_. True) s2 s3 s4 s5 s6 s7"]])
      (auto simp: parts_def lens_def intro: w)
  moreover have "leads view (parts f1 s2 s3 s4 s5 s6 s7) a2 (parts f1 f2 s3 s4 s5 s6 s7) ?E"
    by (rule leads_weaken[OF leads_in_parts[OF assms(2), where R = "parts f1 (\<lambda>_. True) s3 s4 s5 s6 s7"]])
      (auto simp: parts_def lens_def intro: w)
  moreover have "leads view (parts f1 f2 s3 s4 s5 s6 s7) a3 (parts f1 f2 f3 s4 s5 s6 s7) ?E"
    by (rule leads_weaken[OF leads_in_parts[OF assms(3), where R = "parts f1 f2 (\<lambda>_. True) s4 s5 s6 s7"]])
      (auto simp: parts_def lens_def intro: w)
  moreover have "leads view (parts f1 f2 f3 s4 s5 s6 s7) a4 (parts f1 f2 f3 f4 s5 s6 s7) ?E"
    by (rule leads_weaken[OF leads_in_parts[OF assms(4), where R = "parts f1 f2 f3 (\<lambda>_. True) s5 s6 s7"]])
      (auto simp: parts_def lens_def intro: w)
  moreover have "leads view (parts f1 f2 f3 f4 s5 s6 s7) a5 (parts f1 f2 f3 f4 f5 s6 s7) ?E"
    by (rule leads_weaken[OF leads_in_parts[OF assms(5), where R = "parts f1 f2 f3 f4 (\<lambda>_. True) s6 s7"]])
      (auto simp: parts_def lens_def intro: w)
  moreover have "leads view (parts f1 f2 f3 f4 f5 s6 s7) a6 (parts f1 f2 f3 f4 f5 f6 s7) ?E"
    by (rule leads_weaken[OF leads_in_parts[OF assms(6), where R = "parts f1 f2 f3 f4 f5 (\<lambda>_. True) s7"]])
      (auto simp: parts_def lens_def intro: w)
  moreover have "leads view (parts f1 f2 f3 f4 f5 f6 s7) a7 (parts f1 f2 f3 f4 f5 f6 f7) ?E"
    by (rule leads_weaken[OF leads_in_parts[OF assms(7), where R = "parts f1 f2 f3 f4 f5 f6 (\<lambda>_. True)"]])
      (auto simp: parts_def lens_def intro: w)
  ultimately show ?thesis by (intro leads_then)
qed

text \<open>What each kind looks like on the way, and after a complete way up.\<close>

definition on_the_way :: "map_json \<Rightarrow> string \<Rightarrow> cluster \<Rightarrow> cluster \<Rightarrow> bool" where
  "on_the_way J ns v = parts
     (list_all2 (traced ns cjMeta (downStage quiesceCronJob resumed)) (clCronJobs v))
     (list_all2 (traced ns dcMeta (downStage quiesceDC id)) (clDCs v))
     (list_all2 (traced ns wMeta (downStage quiesceDeployment id)) (clDeployments v))
     (list_all2 (traced ns wMeta (downStage quiesceDeployment id)) (clStatefulSets v))
     (list_all2 (traced ns wMeta (downStage quiesceReplicaSet id)) (clReplicaSets v))
     (list_all2 (traced ns dsMeta (downStage (quiesceDaemonSet J) id)) (clDaemonSets v))
     (list_all2 (traced ns wMeta jobStage) (clJobs v))"

definition arrived :: "string \<Rightarrow> cluster \<Rightarrow> cluster \<Rightarrow> bool" where
  "arrived ns v = parts
     (list_all2 (traced ns cjMeta (settled resumed)) (clCronJobs v))
     (list_all2 (traced ns dcMeta (settled id)) (clDCs v))
     (list_all2 (traced ns wMeta (settled id)) (clDeployments v))
     (list_all2 (traced ns wMeta (settled id)) (clStatefulSets v))
     (list_all2 (traced ns wMeta (settled id)) (clReplicaSets v))
     (list_all2 (traced ns dsMeta (settled id)) (clDaemonSets v))
     (list_all2 (traced ns wMeta (settled stopped)) (clJobs v))"

lemma ready_daemonSets:
  "map_law J \<Longrightarrow> ready_list ns dsMeta readyDaemonSet xs \<Longrightarrow> ready_list ns dsMeta (\<lambda>d. map_law J \<and> readyDaemonSet d) xs"
  by (simp add: ready_list_def)

lemma quiesceWorkloads_leads:
  assumes "faulty_cluster c view" and "map_law J" and ns: "ns \<noteq> []" and "ready_cluster ns v"
  shows "leads view (on_the_way J ns v) (quiesceWorkloads J c ns) (on_the_way J ns v) (on_the_way J ns v)"
proof -
  note f = assms(1)[unfolded faulty_cluster_def] and rd = assms(4)[unfolded ready_cluster_def]
  show ?thesis
    unfolding on_the_way_def quiesceWorkloads_def quiesceCronJobs_def quiesceDeploymentConfigs_def quiesceDeployments_def
      quiesceStatefulSets_def quiesceReplicaSets_def quiesceDaemonSets_def quiesceJobs_def
    by (intro leads_chain cronJob_again.down_leads dc_again.down_leads deployment_again.down_leads
        replicaSet_again.down_leads daemonSet_again.down_leads job_again.down_leads cluster_lenses ns)
      (use f rd ready_daemonSets[OF assms(2)] in simp_all)
qed

lemma unQuiesceApplications_leads:
  assumes "faulty_cluster c view" and "map_law J" and ns: "ns \<noteq> []" and "ready_cluster ns v"
  shows "leads view (on_the_way J ns v) (unQuiesceApplications J c ns) (arrived ns v) (on_the_way J ns v)"
proof -
  note f = assms(1)[unfolded faulty_cluster_def] and rd = assms(4)[unfolded ready_cluster_def]
  note weak = cronJob_again.weaken dc_again.weaken deployment_again.weaken replicaSet_again.weaken
    daemonSet_again.weaken job_again.weaken
  show ?thesis
    unfolding on_the_way_def arrived_def unQuiesceApplications_def unQuiesceCronJobs_def
      unQuiesceDeploymentConfigs_def unQuiesceDeployments_def unQuiesceStatefulSets_def
      unQuiesceReplicaSets_def unQuiesceDaemonSets_def unQuiesceJobs_def
    by (intro leads_chain cronJob_again.up_leads dc_again.up_leads deployment_again.up_leads
        replicaSet_again.up_leads daemonSet_again.up_leads job_again.up_leads cluster_lenses ns; (erule weak)?)
      (use f rd ready_daemonSets[OF assms(2)] in simp_all)
qed

lemma on_the_way_start:
  assumes "map_law J" and "ready_cluster ns v"
  shows "on_the_way J ns v v"
  using assms(2)[unfolded ready_cluster_def] ready_daemonSets[OF assms(1)]
  by (simp add: on_the_way_def parts_def cronJob_again.start dc_again.start deployment_again.start
      replicaSet_again.start daemonSet_again.start job_again.start)

lemma awaitPods_view:
  assumes "waiting_is_harmless sleep c ns view" and "awaitPods sleep c ns s = Some (r, s')"
  shows "view s' = view s"
proof -
  let ?P = "\<lambda>sleep c ns s y. waiting_is_harmless sleep c ns view \<longrightarrow> view (snd y) = view s"
  have "?P sleep c ns s y" if "awaitPods sleep c ns s = Some y" for y
  proof (rule awaitPods.raw_induct[of ?P, OF _ that])
    fix ap sleep c ns s y
    assume ih: "\<And>sleep c ns s y. ap sleep c ns s = Some y \<Longrightarrow> ?P sleep c ns s y"
      and body: "(case ensureQuiescedPodsTerminated c ns s of
        (Inl err, s') \<Rightarrow> Some (Inl err, s')
      | (Inr quiesced, s') \<Rightarrow> if quiesced then Some (Inr (), s') else ap sleep c ns (sleep s')) = Some y"
    show "?P sleep c ns s y"
    proof
      assume w: "waiting_is_harmless sleep c ns view"
      obtain r1 s1 where e: "api_list (cPods c) ns s = (r1, s1)" by fastforce
      have "view s1 = view s" "view (sleep s1) = view s" using w e unfolding waiting_is_harmless_def by (metis snd_conv)+
      then show "view (snd y) = view s"
        using body e ih[of sleep c ns "sleep s1" y] w
        by (auto simp: ensureQuiescedPodsTerminated_def bindA_def retA_def split: sum.splits if_splits)
    qed
  qed
  then show ?thesis using assms by fastforce
qed

section \<open>Interrupted runs are undone\<close>

lemma arrived_on_the_way: "arrived ns v v' \<Longrightarrow> on_the_way J ns v v'"
  unfolding arrived_def on_the_way_def parts_def
  by (elim conjE, intro conjI)
    (erule cronJob_again.weaken dc_again.weaken deployment_again.weaken replicaSet_again.weaken
      daemonSet_again.weaken job_again.weaken)+

text \<open>The invariant of all histories.\<close>

lemma history_on_the_way:
  assumes "faulty_cluster c view" and "waiting_is_harmless sleep c ns view" and "map_law J" and "ns \<noteq> []"
    and "ready_cluster ns (view s)" and "history J sleep c ns s s1"
  shows "on_the_way J ns (view s) (view s1)"
  using assms(6)
proof (induction rule: history.induct)
  case start
  show ?case using assms(3,5) by (rule on_the_way_start)
next
  case (quiesce s1 newClient e r s2)
  show ?case
  proof (cases newClient)
    case (Inl e')
    then show ?thesis using quiesce by (simp add: QuiesceApplications_def)
  next
    case (Inr c')
    then have c': "c' = c" using quiesce.hyps(2) by simp
    obtain r1 s' where w: "quiesceWorkloads J c ns s1 = (r1, s')" by fastforce
    have "on_the_way J ns (view s) (view s')"
      using leadsD[OF quiesceWorkloads_leads[OF assms(1,3,4,5)] quiesce.IH w] by (simp split: if_splits)
    moreover have "view s2 = view s'"
      using quiesce.hyps(3) w awaitPods_view[OF assms(2)] unfolding Inr c' QuiesceApplications_def
      by (auto split: sum.splits)
    ultimately show ?thesis by simp
  qed
next
  case (unQuiesce s1 r s2)
  from leadsD[OF unQuiesceApplications_leads[OF assms(1,3,4,5)] unQuiesce.IH
      unQuiesce.hyps(2)[unfolded UnQuiesceApplications_def]]
  show ?case by (simp split: if_splits add: arrived_on_the_way)
qed

lemma settled_same: "list_all2 (traced ns meta (settled id)) xs ys \<Longrightarrow> ys = xs"
  by (induction rule: list_all2_induct) (auto simp: traced_def settled_def split: if_splits)

lemma arrived_parts:
  assumes "arrived ns v v'"
  shows "clDCs v' = clDCs v" and "clDeployments v' = clDeployments v" and "clStatefulSets v' = clStatefulSets v"
    and "clReplicaSets v' = clReplicaSets v" and "clDaemonSets v' = clDaemonSets v"
    and "list_all2 (\<lambda>x y. y = x \<or> y = x\<lparr>cjSuspend := Some False\<rparr>) (clCronJobs v) (clCronJobs v')"
    and "list_all2 (\<lambda>x y. y = x \<or> y = x\<lparr>wReplicas := Some 0\<rparr>) (clJobs v) (clJobs v')"
proof -
  note a = assms[unfolded arrived_def parts_def]
  show "clDCs v' = clDCs v" and "clDeployments v' = clDeployments v" and "clStatefulSets v' = clStatefulSets v"
    and "clReplicaSets v' = clReplicaSets v" and "clDaemonSets v' = clDaemonSets v"
    using a settled_same by blast+
  show "list_all2 (\<lambda>x y. y = x \<or> y = x\<lparr>cjSuspend := Some False\<rparr>) (clCronJobs v) (clCronJobs v')"
    by (rule list_all2_mono, rule a[THEN conjunct1]) (auto simp: traced_def settled_def resumed_def split: if_splits)
  show "list_all2 (\<lambda>x y. y = x \<or> y = x\<lparr>wReplicas := Some 0\<rparr>) (clJobs v) (clJobs v')"
    using a by (elim conjE) (erule list_all2_mono, auto simp: traced_def settled_def stopped_def split: if_splits)
qed

datatype answer = Answered | Refused | Lost

definition flaky_objects :: "('o \<Rightarrow> objectMeta) \<Rightarrow> (cluster \<Rightarrow> 'o list) \<Rightarrow> ('o list \<Rightarrow> cluster \<Rightarrow> cluster) \<Rightarrow>
    (cluster \<times> answer list, 'o) objects" where
  "flaky_objects meta get put = \<lparr>
     api_list = (\<lambda>ns (v, as). (Inr (filter (\<lambda>x. metaNamespace (meta x) = ns) (get v)), (v, as))),
     api_update = (\<lambda>x (v, as).
       let v' = put (map (\<lambda>y. if objKey (meta y) = objKey (meta x) then x else y) (get v)) v;
           timeout = Inl (Error (errorf ''the server was unable to return a response''))
       in case as of [] \<Rightarrow> (Inr (), (v', []))
          | Answered # as' \<Rightarrow> (Inr (), (v', as'))
          | Refused # as' \<Rightarrow> (timeout, (v, as'))
          | Lost # as' \<Rightarrow> (timeout, (v', as')))\<rparr>"

definition flaky_client :: "(cluster \<times> answer list) client" where
  "flaky_client = \<lparr>
     cCronJobs = flaky_objects cjMeta clCronJobs (\<lambda>x. clCronJobs_update (\<lambda>_. x)),
     cDeploymentConfigs = flaky_objects dcMeta clDCs (\<lambda>x. clDCs_update (\<lambda>_. x)),
     cDeployments = flaky_objects wMeta clDeployments (\<lambda>x. clDeployments_update (\<lambda>_. x)),
     cStatefulSets = flaky_objects wMeta clStatefulSets (\<lambda>x. clStatefulSets_update (\<lambda>_. x)),
     cReplicaSets = flaky_objects wMeta clReplicaSets (\<lambda>x. clReplicaSets_update (\<lambda>_. x)),
     cDaemonSets = flaky_objects dsMeta clDaemonSets (\<lambda>x. clDaemonSets_update (\<lambda>_. x)),
     cJobs = flaky_objects wMeta clJobs (\<lambda>x. clJobs_update (\<lambda>_. x)),
     cPods = \<lparr>api_list = (\<lambda>ns s. (Inr [], s)), api_update = (\<lambda>x s. (Inr (), s))\<rparr>\<rparr>"

lemma faulty_flaky_objects: "faulty (flaky_objects meta get put) meta get put fst"
  by (auto simp: faulty_def flaky_objects_def Let_def split: list.splits answer.splits)

lemma faulty_flaky_client: "faulty_cluster flaky_client fst"
  unfolding faulty_cluster_def flaky_client_def client.simps by (intro conjI faulty_flaky_objects)

text \<open>
  C10. However often the quiescing of a namespace and its reversal are called, in any order, and
  wherever each call is cut short by an error of the cluster, with the last update applied or
  not: one reversal that succeeds puts back every deployment configuration, deployment,
  stateful set, replica set and daemon set of the cluster exactly as it was before the first
  call. A cron job is as it was, but for an explicit \<open>suspend: false\<close>. A job is as it was or has
  parallelism 0: it is the one kind whose count an interrupted run can lose.
\<close>

theorem interrupted_quiescing_is_undone:
  assumes "faulty_cluster c view" and "waiting_is_harmless sleep c ns view" and "map_law J" and "ns \<noteq> []"
    and "ready_cluster ns (view s)" and "history J sleep c ns s s1"
    and "UnQuiesceApplications J c ns s1 = (Inr (), s2)"
  shows "clDCs (view s2) = clDCs (view s) \<and> clDeployments (view s2) = clDeployments (view s) \<and>
    clStatefulSets (view s2) = clStatefulSets (view s) \<and> clReplicaSets (view s2) = clReplicaSets (view s) \<and>
    clDaemonSets (view s2) = clDaemonSets (view s) \<and>
    list_all2 (\<lambda>x y. y = x \<or> y = x\<lparr>cjSuspend := Some False\<rparr>) (clCronJobs (view s)) (clCronJobs (view s2)) \<and>
    list_all2 (\<lambda>x y. y = x \<or> y = x\<lparr>wReplicas := Some 0\<rparr>) (clJobs (view s)) (clJobs (view s2))"
proof -
  from leadsD[OF unQuiesceApplications_leads[OF assms(1,3,4,5)] history_on_the_way[OF assms(1-6)]
      assms(7)[unfolded UnQuiesceApplications_def]]
  have "arrived ns (view s) (view s2)" by simp
  then show ?thesis by (intro conjI arrived_parts)
qed

text \<open>
  A run in which the cluster applies the update of a deployment configuration and does not
  say so, refuses that of a job in the second call, and that of the deployment on the way up.
\<close>

definition ex_flaky :: "cluster \<times> answer list" where
  "ex_flaky = (ex_cluster\<lparr>clDaemonSets := []\<rparr>,
     [Answered, Lost, Answered, Answered, Refused, Answered, Answered, Refused])"

definition ex_map_json :: map_json where
  "ex_map_json = \<lparr>marshalMap = showMap, unmarshalMap = readMap\<rparr>"

lemma ex_flaky_run:
  "case QuiesceApplications ex_map_json id (Inr flaky_client) ''app'' ex_flaky of None \<Rightarrow> False | Some (r1, s1) \<Rightarrow>
     isl r1 \<and> (case QuiesceApplications ex_map_json id (Inr flaky_client) ''app'' s1 of None \<Rightarrow> False | Some (r2, s2) \<Rightarrow>
     isl r2 \<and> (case UnQuiesceApplications ex_map_json flaky_client ''app'' s2 of (r3, s3) \<Rightarrow>
     isl r3 \<and> fst (UnQuiesceApplications ex_map_json flaky_client ''app'' s3) = Inr ()))"
  by code_simp

lemma interrupted_quiescing_is_undone_witness:
  "\<exists>s1 s2. history ex_map_json id flaky_client ''app'' ex_flaky s1 \<and>
     UnQuiesceApplications ex_map_json flaky_client ''app'' s1 = (Inr (), s2) \<and>
     clDCs (fst s2) = [\<lparr>dcMeta = ex_meta ''old'', dcReplicas = 2\<rparr>] \<and>
     clDeployments (fst s2) = [\<lparr>wMeta = ex_meta ''web'', wReplicas = Some 3\<rparr>]"
proof -
  let ?J = ex_map_json and ?c = flaky_client and ?ns = "''app''"
  from ex_flaky_run obtain r1 s1 r2 s2 r3 s3 s4 where
    s: "QuiesceApplications ?J id (Inr ?c) ?ns ex_flaky = Some (r1, s1)"
      "QuiesceApplications ?J id (Inr ?c) ?ns s1 = Some (r2, s2)"
      "UnQuiesceApplications ?J ?c ?ns s2 = (r3, s3)" "UnQuiesceApplications ?J ?c ?ns s3 = (Inr (), s4)"
    by (auto split: option.splits prod.splits) (metis prod.collapse)
  have h: "history ?J id ?c ?ns ex_flaky s3"
    using s by (meson history.intros)
  have w: "waiting_is_harmless id ?c ?ns fst" by (simp add: waiting_is_harmless_def flaky_client_def)
  have l: "map_law ?J" using map_law_ref by (simp add: ex_map_json_def)
  have r: "ready_cluster ?ns (fst ex_flaky)"
    using ready_ex_cluster by (simp add: ex_flaky_def ready_cluster_def ready_list_def)
  have "clDCs (fst s4) = clDCs (fst ex_flaky)" "clDeployments (fst s4) = clDeployments (fst ex_flaky)"
    using interrupted_quiescing_is_undone[OF faulty_flaky_client w l _ r h s(4)] by blast+
  then have "clDCs (fst s4) = [\<lparr>dcMeta = ex_meta ''old'', dcReplicas = 2\<rparr>]"
    and "clDeployments (fst s4) = [\<lparr>wMeta = ex_meta ''web'', wReplicas = Some 3\<rparr>]"
    by (simp_all add: ex_flaky_def ex_cluster_def)
  with h s(4) show ?thesis by blast
qed

end
