(* ===== verification/EndpointProps.thy ===== *)
theory EndpointProps
  imports Endpoints
begin

text \<open>What endpoints promise: names within bounds, and finding again what was created.\<close>

record endpoints_view =
  evServices :: "service store"
  evIngresses :: "ingress store"
  evRoutes :: "route store"

definition serves_endpoints :: "'s endpoint_client \<Rightarrow> ('s \<Rightarrow> endpoints_view) \<Rightarrow> bool" where
  "serves_endpoints c view \<longleftrightarrow>
     stores (eServices c) svcMeta evServices (\<lambda>x. evServices_update (\<lambda>_. x)) view \<and>
     stores (eIngresses c) ingMeta evIngresses (\<lambda>x. evIngresses_update (\<lambda>_. x)) view \<and>
     stores (eRoutes c) rtMeta evRoutes (\<lambda>x. evRoutes_update (\<lambda>_. x)) view"

definition ref_endpoint_client :: "endpoints_view endpoint_client" where
  "ref_endpoint_client = \<lparr>
     eServices = ref_kind svcMeta evServices (\<lambda>x. evServices_update (\<lambda>_. x)),
     eIngresses = ref_kind ingMeta evIngresses (\<lambda>x. evIngresses_update (\<lambda>_. x)),
     eRoutes = ref_kind rtMeta evRoutes (\<lambda>x. evRoutes_update (\<lambda>_. x))\<rparr>"

lemma serves_ref_endpoints: "serves_endpoints ref_endpoint_client id"
  unfolding serves_endpoints_def ref_endpoint_client_def endpoint_client.simps
  by (intro conjI stores_ref_kind)

section \<open>Host names\<close>

text \<open>
  C33. The first label of a route's host never exceeds 62 bytes. The price is paid by long
  names: from 62 bytes on the namespace's hash is cut off entirely, and routes of one name
  in different namespaces get the same host.
\<close>

theorem routePrefix_bounds:
  assumes "routePrefix md5 subdomain nn = Inr p"
  shows "length p \<le> 62 \<and> (62 \<le> length (nnName nn) \<longrightarrow> p = take 62 (nnName nn))"
  using assms by (auto simp: routePrefix_def Let_def split: if_splits)

definition ex_md5 :: "string \<Rightarrow> string" where
  "ex_md5 s = ''0123456789abcdef0123456789abcdef''"

lemma ex_md5_law: "md5_law ex_md5"
  by (auto simp: md5_law_def ex_md5_def)

definition nn1 :: namespacedName where
  "nn1 = \<lparr>nnNamespace = ''app'', nnName = replicate 64 CHR ''a''\<rparr>"

lemma routePrefix_bounds_witness:
  "routePrefix ex_md5 ''example.org'' nn1 = Inr (replicate 62 CHR ''a'')"
proof -
  have l: "length (nnName nn1) = 64" by (simp add: nn1_def)
  obtain p where p: "routePrefix ex_md5 ''example.org'' nn1 = Inr p" using l by (simp add: routePrefix_def Let_def)
  from routePrefix_bounds[OF p] l have "p = take 62 (nnName nn1)" by simp
  then show ?thesis using p by (simp add: nn1_def)
qed

text \<open>
  An ingress has no such bound: whenever the hash is used and the name is longer than 30
  bytes, the first label of its host is longer than the 63 bytes DNS allows.
\<close>

theorem ingressPrefix_exceeds_bound:
  assumes "md5_law md5" and "62 < length (nnName nn) + 1 + length (nnNamespace nn)" and "30 < length (nnName nn)"
  shows "63 < length (ingressPrefix md5 nn)"
  using assms by (simp add: ingressPrefix_def md5_law_def Let_def)

lemma ingressPrefix_exceeds_bound_witness: "63 < length (ingressPrefix ex_md5 nn1)"
  by (rule ingressPrefix_exceeds_bound[OF ex_md5_law]) (simp_all add: nn1_def)

section \<open>Routes\<close>

lemma routes_of:
  assumes "serves_endpoints c view"
  shows "stores (eRoutes c) rtMeta evRoutes (\<lambda>x. evRoutes_update (\<lambda>_. x)) view"
    and "stores (eServices c) svcMeta evServices (\<lambda>x. evServices_update (\<lambda>_. x)) view"
    and "stores (eIngresses c) ingMeta evIngresses (\<lambda>x. evIngresses_update (\<lambda>_. x)) view"
  using assms by (simp_all add: serves_endpoints_def)

lemma nnOf_objectMetaOf [simp]: "nnOf (objectMetaOf (nnNamespace nn) (nnName nn) ls) = nn"
  by (simp add: nnOf_def objectMetaOf_def)

lemma route_keeps_contract:
  assumes "serves_endpoints c view" and "newRouteEndpoint nn ty ls sub = Inr r" and "evRoutes (view s) nn = None"
    and "routePrefix md5 sub nn = Inr p" and "sub \<noteq> []"
  shows "\<exists>s' r' rt. routeCreate md5 agg c r s = (Inr (r', None), s') \<and> reHostname r' = p @ ''.'' @ sub \<and>
    evRoutes (view s') nn = Some rt \<and>
    (\<forall>s2 conds. evRoutes (view s2) nn = Some (rt\<lparr>rtConditions := Some conds\<rparr>) \<longrightarrow> (''Admitted'', ''True'') \<in> set conds \<longrightarrow>
      routeFromKube c nn s2 = (Inr (r'\<lparr>reSubdomain := []\<rparr>), s2))"
proof -
  have ty: "ty = EndpointTypePassthrough \<or> ty = EndpointTypeInsecureEdge"
    and r: "r = \<lparr>reHostname = [], reSubdomain = sub, reLabels = ls, rePort = 0, reType = ty, reName = nn\<rparr>"
    using assms(2) by (auto simp: newRouteEndpoint_def split: if_splits)
  obtain tmn port where tp: "routeTermination r = (tmn, r\<lparr>rePort := port\<rparr>)"
    and bk: "(if fst tmn = ''edge'' then EndpointTypeInsecureEdge else EndpointTypePassthrough) = ty"
    and known: "fst tmn = ''edge'' \<or> fst tmn = ''passthrough''"
  proof (cases "ty = EndpointTypeInsecureEdge")
    case True
    then show ?thesis using that[of "(''edge'', ''Allow'')" 8080] r by (simp add: routeTermination_def)
  next
    case False
    with ty have "ty = EndpointTypePassthrough" by blast
    then show ?thesis using that[of "(''passthrough'', [])" 6443] r
      by (simp add: routeTermination_def EndpointTypePassthrough_def EndpointTypeInsecureEdge_def)
  qed
  let ?r = "r\<lparr>rePort := port\<rparr>"
  let ?rt = "routeOf ?r tmn p" and ?r' = "?r\<lparr>reHostname := p @ ''.'' @ sub\<rparr>"
  have host: "rtHost ?rt = p @ ''.'' @ sub" using assms(5) r by (simp add: routeOf_def)
  have nn: "nnOf (rtMeta ?rt) = nn" using r by (simp add: routeOf_def)
  obtain s1 where s1: "createIfAbsent (eRoutes c) ?rt s = (Inr (), s1)" "evRoutes (view s1) nn = Some ?rt"
    using createIfAbsent_effect[OF routes_of(1)[OF assms(1)], of s ?rt] assms(3) nn by auto
  have get: "k_get (eRoutes c) nn s1 = (Inr ?rt, s1)"
    by (rule stores_get(1)[OF routes_of(1)[OF assms(1)] s1(2)])
  have sub: "reSubdomain ?r = sub" "reName ?r = nn" using r by simp_all
  have route: "createRoute md5 c r s = (Inr (?r', None), s1)"
    using tp assms(4) s1(1) get host sub
    by (simp add: createRoute_def bindA_def errOfA_def tryA_def retA_def)
  obtain s2 where s2: "createRouteService c ?r' s1 = (Inr (), s2)" "evRoutes (view s2) = evRoutes (view s1)"
    using createIfAbsent_effect[OF routes_of(2)[OF assms(1)], of s1] unfolding createRouteService_def by fastforce
  have create: "routeCreate md5 agg c r s = (Inr (?r', None), s2)"
    using route s2(1) by (simp add: routeCreate_def bindA_def errOfA_def tryA_def retA_def)
  have "routeFromKube c nn s3 = (Inr (?r'\<lparr>reSubdomain := []\<rparr>), s3)"
    if v: "evRoutes (view s3) nn = Some (?rt\<lparr>rtConditions := Some conds\<rparr>)" and a: "(''Admitted'', ''True'') \<in> set conds"
    for s3 conds
  proof -
    have g: "k_get (eRoutes c) nn s3 = (Inr (?rt\<lparr>rtConditions := Some conds\<rparr>), s3)"
      by (rule stores_get(1)[OF routes_of(1)[OF assms(1)] v])
    have "list_ex (\<lambda>(ty, status). ty = ''Admitted'' \<and> status = ''True'') conds"
      using a by (force simp: list_ex_iff)
    then have "routeHealth (?rt\<lparr>rtConditions := Some conds\<rparr>) = Inr True"
      using host by (simp add: routeHealth_def)
    moreover have "routeFields (?rt\<lparr>rtConditions := Some conds\<rparr>)
        \<lparr>reHostname = [], reSubdomain = [], reLabels = fmempty, rePort = 0, reType = [], reName = nn\<rparr> =
        Inr (?r'\<lparr>reSubdomain := []\<rparr>, None)"
      using host known bk r by (cases tmn) (auto simp: routeFields_def routeOf_def objectMetaOf_def split: if_splits)
    ultimately show ?thesis using g
      by (simp add: routeFromKube_def routeIsHealthy_def routeSetFields_def getRoute_def bindA_def tryA_def pureA_def retA_def Let_def)
  qed
  with create s1(2) s2(2) show ?thesis by (intro exI[of _ s2] exI[of _ ?r'] exI[of _ ?rt]) simp
qed

text \<open>
  Creating a route endpoint succeeds, gives it the host it asked for, and finding it
  again, once the cluster has admitted the route, returns the same endpoint: host, port, type and labels
  (the subdomain is not recorded).
\<close>

theorem route_create_then_find:
  assumes "serves_endpoints c view" and "newRouteEndpoint nn ty ls sub = Inr r" and "evRoutes (view s) nn = None"
    and "routePrefix md5 sub nn = Inr p" and "sub \<noteq> []"
  shows "\<exists>s' r' rt. routeCreate md5 agg c r s = (Inr (r', None), s') \<and> reHostname r' = p @ ''.'' @ sub \<and>
    evRoutes (view s') nn = Some rt \<and>
    (\<forall>s2 conds. evRoutes (view s2) nn = Some (rt\<lparr>rtConditions := Some conds\<rparr>) \<longrightarrow> (''Admitted'', ''True'') \<in> set conds \<longrightarrow>
      routeFromKube c nn s2 = (Inr (r'\<lparr>reSubdomain := []\<rparr>), s2))"
  by (rule route_keeps_contract[OF assms])

lemma route_create_then_find_witness:
  "\<exists>s' r'. routeCreate ex_md5 hd ref_endpoint_client
       \<lparr>reHostname = [], reSubdomain = ''example.org'', reLabels = fmempty, rePort = 0,
        reType = EndpointTypePassthrough, reName = \<lparr>nnNamespace = ''app'', nnName = ''data''\<rparr>\<rparr>
       \<lparr>evServices = Map.empty, evIngresses = Map.empty, evRoutes = Map.empty\<rparr> = (Inr (r', None), s') \<and>
     reHostname r' = ''data-app.example.org''"
proof -
  let ?nn = "\<lparr>nnNamespace = ''app'', nnName = ''data''\<rparr>"
  have "newRouteEndpoint ?nn EndpointTypePassthrough fmempty ''example.org'' =
    Inr \<lparr>reHostname = [], reSubdomain = ''example.org'', reLabels = fmempty, rePort = 0,
        reType = EndpointTypePassthrough, reName = ?nn\<rparr>" by (simp add: newRouteEndpoint_def)
  moreover have "routePrefix ex_md5 ''example.org'' ?nn = Inr ''data-app''" by (simp add: routePrefix_def)
  ultimately show ?thesis
    using route_create_then_find[OF serves_ref_endpoints, of ?nn EndpointTypePassthrough fmempty "''example.org''" _
        "\<lparr>evServices = Map.empty, evIngresses = Map.empty, evRoutes = Map.empty\<rparr>" ex_md5 "''data-app''" hd]
    by fastforce
qed

section \<open>Services\<close>

text \<open>
  A service endpoint is found again from the service it created, whatever address and
  node port the cluster assigned: the host name comes from the label, and a node port
  replaces the exposed port once the service has an address.
\<close>

theorem service_found_again:
  assumes "seHostname e \<noteq> []" and "seType e = ''ClusterIP'' \<or> seType e = ''NodePort''"
  shows "\<exists>e'. serviceHealth ((serviceOf e)\<lparr>svcClusterIP := ip,
        svcPorts := [(hd (svcPorts (serviceOf e)))\<lparr>spNodePort := np\<rparr>]\<rparr>) old =
      Inr (e', Inr True) \<and> seHostname e' = seHostname e \<and> seBackendPort e' = seBackendPort e \<and>
    seExposedPort e' = (if seType e = ''NodePort'' \<and> ip \<noteq> [] \<and> np \<noteq> 0 then np else seExposedPort e) \<and>
    seLabels e' = getSvcLabels e \<and> seName e' = seName old"
proof -
  have l: "labelOf (getSvcLabels e) ''hostname'' = seHostname e" by (simp add: labelOf_def getSvcLabels_def)
  from assms(2) show ?thesis
  proof
    assume "seType e = ''ClusterIP''"
    then show ?thesis using assms(1) l
      by (simp add: serviceHealth_def serviceOf_def clusterHost_def objectMetaOf_def Let_def)
  next
    assume "seType e = ''NodePort''"
    then show ?thesis using assms(1) l
      by (cases "ip = []"; cases "np = 0") (simp_all add: serviceHealth_def serviceOf_def clusterHost_def objectMetaOf_def Let_def)
  qed
qed

lemma service_found_again_witness:
  "\<exists>e'. serviceHealth ((serviceOf (newServiceEndpoint nn1 fmempty ''host.example.org'' ''NodePort''))\<lparr>svcClusterIP := ''10.0.0.1'',
        svcPorts := [\<lparr>spName = nnName nn1, spProtocol = ''TCP'', spPort = 6443, spTargetPort = 6443, spNodePort = 30080\<rparr>]\<rparr>)
      (newServiceEndpoint nn1 fmempty [] []) = Inr (e', Inr True) \<and> seExposedPort e' = 30080"
  using service_found_again[of "newServiceEndpoint nn1 fmempty ''host.example.org'' ''NodePort''", where ip = "''10.0.0.1''"
      and np = 30080 and old = "newServiceEndpoint nn1 fmempty [] []"]
  by (auto simp: newServiceEndpoint_def serviceOf_def)

section \<open>Ingresses\<close>

text \<open>
  An ingress that is healthy but has no rule is returned with an empty host name: the error
  that says so is dropped.
\<close>

lemma ingressFromKube_drops_error:
  assumes "serves_endpoints c view" and "evIngresses (view s) nn = Some ing" and "ingHosts ing = []"
    and "ingStatusHosts ing = h # hs" and "h \<noteq> []"
  shows "ingressFromKube c nn s = (Inr \<lparr>ieHostname = [], ieLabels = rmLabels (ingMeta ing), iePort = 6443, ieName = nn\<rparr>, s)"
proof -
  have "k_get (eIngresses c) nn s = (Inr ing, s)" by (rule stores_get(1)[OF routes_of(3)[OF assms(1)] assms(2)])
  then show ?thesis using assms(3-)
    by (simp add: ingressFromKube_def ingressIsHealthy_def ingressHealth_def ingressSetFields_def bindA_def
        tryA_def pureA_def retA_def Let_def)
qed

end
