(* ===== verification/Transfers.thy ===== *)
theory Transfers
  imports Claims Transports
begin

text \<open>
  \<open>state_transfer/transfer/transfer.go\<close>: what the transfers share. A transfer connects through
  its transport's local port, or straight to the endpoint when the transport is direct; its
  server is healthy when the two containers of its pod are ready. \<open>'s\<close> is the cluster.
\<close>

text \<open>Listing by labels or by fields, and deleting.\<close>

record ('s, 'o) list_api =
  listByLabels :: "string \<Rightarrow> labels \<Rightarrow> ('s, 'o list) act"
  listByFields :: "string \<Rightarrow> labels \<Rightarrow> ('s, 'o list) act"
  deleteObject :: "'o \<Rightarrow> ('s, unit) act"

text \<open>
  The scheme \<open>CreateServer\<close> builds is not used further; \<open>schemes\<close> are the answers of the three
  registrations.
\<close>

definition transferCreateServer :: "goerror option list \<Rightarrow> ('s, unit) act \<Rightarrow> ('s, unit) act" where
  "transferCreateServer schemes create = thenA (forA errorA schemes) create"

definition transferCreateClient :: "('s, unit) act \<Rightarrow> ('s, unit) act" where
  "transferCreateClient create = create"

definition ConnectionHostname :: "transport_info \<Rightarrow> endpoint_info \<Rightarrow> string" where
  "ConnectionHostname t e = (if tiDirect t then epHostname e else ''localhost'')"

definition ConnectionPort :: "transport_info \<Rightarrow> endpoint_info \<Rightarrow> 32 word" where
  "ConnectionPort t e = (if tiDirect t then epExposedPort e else tiPort t)"

definition areContainersReady :: "pod \<Rightarrow> bool ret" where
  "areContainersReady p =
     (if length (poStatuses p) \<noteq> 2 then Inl (errorf ''expected two container statuses'')
      else (case List.find (\<lambda>(n, ready). \<not> ready) (poStatuses p) of
          Some (n, _) \<Rightarrow> Inl (errorf (''container '' @ n @ '' is not ready''))
        | None \<Rightarrow> Inr True))"

definition IsPodHealthy :: "('s, pod) kind_api \<Rightarrow> namespacedName \<Rightarrow> ('s, bool) act" where
  "IsPodHealthy c pod = bindA (k_get c pod) (\<lambda>p. pureA (liftR (areContainersReady p)))"

text \<open>The first pod that is ready decides; without one, the errors of all are collected.\<close>

fun readyLoop :: "aggregator \<Rightarrow> goerror option list \<Rightarrow> pod list \<Rightarrow> bool \<times> goerror option" where
  "readyLoop agg errs [] = (False, newAggregate agg errs)"
| "readyLoop agg errs (p # ps) = (case areContainersReady p of
     Inr ready \<Rightarrow> if ready then (True, None) else readyLoop agg errs ps
   | Inl err \<Rightarrow> readyLoop agg (errs @ [Some err]) ps)"

definition AreFilteredPodsHealthy :: "aggregator \<Rightarrow> ('s, pod) list_api \<Rightarrow> string \<Rightarrow> labels \<Rightarrow> ('s, bool \<times> goerror option) act" where
  "AreFilteredPodsHealthy agg c ns ls = bindA (tryA (listByFields c ns ls)) (\<lambda>r. retA (case r of
     Inl err \<Rightarrow> (False, Some err) | Inr pods \<Rightarrow> readyLoop agg [] pods))"

text \<open>Whether a transfer takes a claim for a file system; the claim is read, so nil panics.\<close>

definition isFilesystem :: "claim \<Rightarrow> bool" where
  "isFilesystem c \<longleftrightarrow> (case pvcMode c of None \<Rightarrow> True | Some m \<Rightarrow> m = ''Filesystem'')"

definition nl :: "string \<Rightarrow> string" where
  "nl s = s @ [CHR 0x0A]"

lemma areContainersReady_iff:
  "areContainersReady p = Inr b \<longleftrightarrow> b \<and> length (poStatuses p) = 2 \<and> list_all snd (poStatuses p)"
proof -
  have "List.find (\<lambda>(n, ready). \<not> ready) xs = None \<longleftrightarrow> list_all snd xs" for xs :: "(string \<times> bool) list"
    by (induction xs) auto
  from this[of "poStatuses p"] show ?thesis
    by (cases "List.find (\<lambda>(n, ready). \<not> ready) (poStatuses p)") (auto simp: areContainersReady_def)
qed

lemma areContainersReady_cases: "areContainersReady p = Inr True \<or> (\<exists>e. areContainersReady p = Inl e)"
  by (metis areContainersReady_iff sum.exhaust)

lemma readyLoop_True: "readyLoop agg errs ps = (True, None) \<longleftrightarrow> list_ex (\<lambda>p. areContainersReady p = Inr True) ps"
proof (induction ps arbitrary: errs)
  case (Cons p ps)
  then show ?case using areContainersReady_cases[of p] by auto
qed simp

lemma readyLoop_False:
  "\<not> list_ex (\<lambda>p. areContainersReady p = Inr True) ps \<Longrightarrow>
   readyLoop agg errs ps = (False, newAggregate agg (errs @ map (\<lambda>p. Some (projl (areContainersReady p))) ps))"
proof (induction ps arbitrary: errs)
  case (Cons p ps)
  then show ?case using areContainersReady_cases[of p] by auto
qed simp

section \<open>The last container of a name\<close>

text \<open>The loop keeps a pointer to the last container that matches, and then writes through it.\<close>

fun updateFirst :: "('a \<Rightarrow> bool) \<Rightarrow> ('a \<Rightarrow> 'a) \<Rightarrow> 'a list \<Rightarrow> 'a list option" where
  "updateFirst P f [] = None"
| "updateFirst P f (x # xs) = (if P x then Some (f x # xs) else map_option (Cons x) (updateFirst P f xs))"

definition updateLast :: "('a \<Rightarrow> bool) \<Rightarrow> ('a \<Rightarrow> 'a) \<Rightarrow> 'a list \<Rightarrow> 'a list option" where
  "updateLast P f xs = map_option rev (updateFirst P f (rev xs))"

text \<open>
  A transfer makes the stunnel container of its client pods end with the transfer, and shares
  a directory with it: the transport's own container is changed in place. A transport
  without the container panics.
\<close>

definition customizeStunnel :: "string \<Rightarrow> string \<Rightarrow> string \<Rightarrow> container list \<Rightarrow> container list result" where
  "customizeStunnel script volume path cs = derefR (updateLast (\<lambda>c. ctName c = StunnelContainer)
     (\<lambda>c. c\<lparr>ctCommand := [''/bin/bash'', ''-c'', script], ctMounts := ctMounts c @ [mountOf volume path []]\<rparr>) cs)"

definition waitScript :: "string \<Rightarrow> string" where
  "waitScript file = nl ''/bin/stunnel /etc/stunnel/stunnel.conf'' @ nl ''while true'' @ nl (''do test -f '' @ file) @
     nl ''if [ $? -eq 0 ]'' @ nl ''then'' @ nl (CHR 0x09 # ''break'') @ nl ''else'' @ nl (CHR 0x09 # ''sleep 1'') @
     nl ''fi'' @ nl ''done'' @ ''exit 0''"

lemma updateLast_single: "P x \<Longrightarrow> updateLast P f [x] = Some [f x]"
  by (simp add: updateLast_def)

lemma updateFirst_None: "updateFirst P f xs = None \<longleftrightarrow> list_all (\<lambda>x. \<not> P x) xs"
  by (induction xs) auto

lemma updateLast_None: "updateLast P f xs = None \<longleftrightarrow> list_all (\<lambda>x. \<not> P x) xs"
  by (simp add: updateLast_def updateFirst_None)

end
