(* ===== verification/EndpointContract.thy ===== *)
theory EndpointContract
  imports EndpointProps Transfers
begin

text \<open>
  The contract behind Go's \<open>Endpoint\<close> interface and its \<open>GetEndpointFromKubeObjects\<close> functions,
  as a locale: an endpoint that was created is found again by name, once the cluster has admitted it,
  and reaches the same host and port. Services, ingresses and routes keep it.
\<close>

text \<open>
  \<open>later st st' n\<close>: what the cluster may have changed of the endpoint's objects between the state
  the creation left and a state in which the endpoint is looked up.
\<close>

locale endpoint_kind =
  fixes mk :: "'s endpoint_client \<Rightarrow> 'e \<Rightarrow> ('s, 'e) act"
    and lookup :: "'s endpoint_client \<Rightarrow> namespacedName \<Rightarrow> ('s, 'e) act"
    and info :: "'e \<Rightarrow> endpoint_info"
    and name :: "'e \<Rightarrow> namespacedName"
    and valid :: "'e \<Rightarrow> bool"
    and later :: "endpoints_view \<Rightarrow> endpoints_view \<Rightarrow> namespacedName \<Rightarrow> bool"
  assumes made: "serves_endpoints c view \<Longrightarrow> valid e \<Longrightarrow>
      evServices (view s) (name e) = None \<and> evIngresses (view s) (name e) = None \<and> evRoutes (view s) (name e) = None \<Longrightarrow>
      \<exists>s1 e1. mk c e s = (Inr e1, s1) \<and> epHostname (info e1) \<noteq> [] \<and>
        (\<forall>s2. later (view s1) (view s2) (name e) \<longrightarrow> (\<exists>e2. lookup c (name e) s2 = (Inr e2, s2) \<and> epName (info e2) = name e \<and>
           epHostname (info e2) = epHostname (info e1) \<and> epPort (info e2) = epPort (info e1)))"
begin

text \<open>
  What a transfer needs: the process that creates the endpoint and the one that finds it connect
  to the same host, whether the transport is direct or not.
\<close>

lemma same_connection:
  assumes "serves_endpoints c view" and "valid e"
    and "evServices (view s) (name e) = None \<and> evIngresses (view s) (name e) = None \<and> evRoutes (view s) (name e) = None"
  shows "\<exists>s1 e1. mk c e s = (Inr e1, s1) \<and>
    (\<forall>s2. later (view s1) (view s2) (name e) \<longrightarrow> (\<exists>e2. lookup c (name e) s2 = (Inr e2, s2) \<and>
       ConnectionHostname t (info e2) = ConnectionHostname t (info e1) \<and> ConnectionHostname t (info e2) \<noteq> []))"
proof -
  obtain s1 e1 where 1: "mk c e s = (Inr e1, s1)" "epHostname (info e1) \<noteq> []"
      "\<forall>s2. later (view s1) (view s2) (name e) \<longrightarrow> (\<exists>e2. lookup c (name e) s2 = (Inr e2, s2) \<and> epName (info e2) = name e \<and>
           epHostname (info e2) = epHostname (info e1) \<and> epPort (info e2) = epPort (info e1))"
    using made[OF assms] by blast
  then show ?thesis by (intro exI[of _ s1] exI[of _ e1]) (fastforce simp: ConnectionHostname_def)
qed

end

section \<open>Services\<close>

definition validService :: "serviceEndpoint \<Rightarrow> bool" where
  "validService e \<longleftrightarrow> seHostname e \<noteq> [] \<and> seType e \<in> {''ClusterIP'', ''NodePort''}"

text \<open>The cluster assigns an address and node ports.\<close>

definition assigned :: "service option \<Rightarrow> service option \<Rightarrow> bool" where
  "assigned a b = rel_option (\<lambda>x y. \<exists>ip np. y = x\<lparr>svcClusterIP := ip, svcPorts := map (\<lambda>p. p\<lparr>spNodePort := np\<rparr>) (svcPorts x)\<rparr>) a b"

definition laterService :: "endpoints_view \<Rightarrow> endpoints_view \<Rightarrow> namespacedName \<Rightarrow> bool" where
  "laterService st st' n \<longleftrightarrow> assigned (evServices st n) (evServices st' n)"

definition makeService :: "'s endpoint_client \<Rightarrow> serviceEndpoint \<Rightarrow> ('s, serviceEndpoint) act" where
  "makeService c e = thenA (serviceCreate c e) (retA e)"

lemma service_found:
  assumes "validService e"
  shows "\<exists>e'. serviceHealth ((serviceOf e)\<lparr>svcClusterIP := ip, svcPorts := map (\<lambda>p. p\<lparr>spNodePort := np\<rparr>) (svcPorts (serviceOf e))\<rparr>) old =
      Inr (e', Inr True) \<and> seHostname e' = seHostname e \<and> seBackendPort e' = seBackendPort e \<and> seName e' = seName old"
proof -
  have l: "labelOf (getSvcLabels e) ''hostname'' = seHostname e" by (simp add: labelOf_def getSvcLabels_def)
  show ?thesis using assms l
    by (cases "ip = []"; cases "np = 0")
      (auto simp: validService_def serviceHealth_def serviceOf_def clusterHost_def objectMetaOf_def Let_def)
qed

lemma service_keeps_contract:
  assumes "serves_endpoints c view" and v: "validService e" and f: "evServices (view s) (seName e) = None"
  shows "\<exists>s1. makeService c e s = (Inr e, s1) \<and> (\<forall>s2. laterService (view s1) (view s2) (seName e) \<longrightarrow>
    (\<exists>e2. serviceFromKube c (seName e) s2 = (Inr e2, s2) \<and> seName e2 = seName e \<and> seHostname e2 = seHostname e \<and>
      seBackendPort e2 = seBackendPort e))"
proof -
  have nn: "nnOf (svcMeta (serviceOf e)) = seName e" by (simp add: serviceOf_def)
  obtain s1 where s1: "createIfAbsent (eServices c) (serviceOf e) s = (Inr (), s1)" "evServices (view s1) (seName e) = Some (serviceOf e)"
    using createIfAbsent_effect[OF routes_of(2)[OF assms(1)], of s "serviceOf e"] f nn by auto
  have "\<exists>e2. serviceFromKube c (seName e) s2 = (Inr e2, s2) \<and> seName e2 = seName e \<and> seHostname e2 = seHostname e \<and>
      seBackendPort e2 = seBackendPort e" if l: "laterService (view s1) (view s2) (seName e)" for s2
  proof -
    obtain ip np where "evServices (view s2) (seName e) =
        Some ((serviceOf e)\<lparr>svcClusterIP := ip, svcPorts := map (\<lambda>p. p\<lparr>spNodePort := np\<rparr>) (svcPorts (serviceOf e))\<rparr>)"
      using l s1(2) by (auto simp: laterService_def assigned_def option_rel_Some1)
    from stores_get(1)[OF routes_of(2)[OF assms(1)] this]
    show ?thesis
      using service_found[OF v, where ip = ip and np = np and old = "\<lparr>seName = seName e, seHostname = [], seType = [], seLabels = fmempty, seBackendPort = 0, seExposedPort = 0\<rparr>"]
      by (auto simp: serviceFromKube_def serviceIsHealthy_def bindA_def tryA_def pureA_def retA_def)
  qed
  then show ?thesis using s1(1)
    by (intro exI[of _ s1]) (simp add: makeService_def serviceCreate_def createService_def thenA_def bindA_def retA_def)
qed

interpretation service_endpoint: endpoint_kind makeService serviceFromKube serviceInfo seName validService laterService
proof unfold_locales
  fix c :: "'s endpoint_client" and view e s
  assume a: "serves_endpoints c view" "validService e"
    "evServices (view s) (seName e) = None \<and> evIngresses (view s) (seName e) = None \<and> evRoutes (view s) (seName e) = None"
  then obtain s1 where "makeService c e s = (Inr e, s1)" "\<forall>s2. laterService (view s1) (view s2) (seName e) \<longrightarrow>
    (\<exists>e2. serviceFromKube c (seName e) s2 = (Inr e2, s2) \<and> seName e2 = seName e \<and> seHostname e2 = seHostname e \<and>
      seBackendPort e2 = seBackendPort e)" using service_keeps_contract[OF a(1,2)] by blast
  then show "\<exists>s1 e1. makeService c e s = (Inr e1, s1) \<and> epHostname (serviceInfo e1) \<noteq> [] \<and>
        (\<forall>s2. laterService (view s1) (view s2) (seName e) \<longrightarrow> (\<exists>e2. serviceFromKube c (seName e) s2 = (Inr e2, s2) \<and>
           epName (serviceInfo e2) = seName e \<and>
           epHostname (serviceInfo e2) = epHostname (serviceInfo e1) \<and> epPort (serviceInfo e2) = epPort (serviceInfo e1)))"
    using a(2) by (intro exI[of _ s1] exI[of _ e]) (auto simp: serviceInfo_def validService_def)
qed

section \<open>Ingresses\<close>

definition validIngress :: "ingressEndpoint \<Rightarrow> bool" where
  "validIngress e \<longleftrightarrow> ieHostname e \<noteq> [] \<and> iePort e = 6443"

text \<open>The controller writes the host it serves into the status.\<close>

definition laterIngress :: "endpoints_view \<Rightarrow> endpoints_view \<Rightarrow> namespacedName \<Rightarrow> bool" where
  "laterIngress st st' n \<longleftrightarrow> rel_option (\<lambda>x y. \<exists>h hs. h \<noteq> [] \<and> y = x\<lparr>ingStatusHosts := h # hs\<rparr>) (evIngresses st n) (evIngresses st' n)"

definition makeIngress :: "aggregator \<Rightarrow> 's endpoint_client \<Rightarrow> ingressEndpoint \<Rightarrow> ('s, ingressEndpoint) act" where
  "makeIngress agg c e = thenA (ingressCreate agg c e) (retA e)"

lemma ingress_keeps_contract:
  assumes "serves_endpoints c view" and v: "validIngress e" and f: "evIngresses (view s) (ieName e) = None"
  shows "\<exists>s1. makeIngress agg c e s = (Inr e, s1) \<and> (\<forall>s2. laterIngress (view s1) (view s2) (ieName e) \<longrightarrow>
    ingressFromKube c (ieName e) s2 = (Inr e, s2))"
proof -
  have nn: "nnOf (ingMeta (ingressOf e)) = ieName e" by (simp add: ingressOf_def nnOf_def objectMetaOf_def)
  obtain s0 where s0: "createIngressService c e s = (Inr (), s0)" "evIngresses (view s0) = evIngresses (view s)"
    using createIfAbsent_effect[OF routes_of(2)[OF assms(1)], of s] unfolding createIngressService_def by fastforce
  obtain s1 where s1: "createIfAbsent (eIngresses c) (ingressOf e) s0 = (Inr (), s1)" "evIngresses (view s1) (ieName e) = Some (ingressOf e)"
    using createIfAbsent_effect[OF routes_of(3)[OF assms(1)], of s0 "ingressOf e"] f nn s0(2) by auto
  have "ingressFromKube c (ieName e) s2 = (Inr e, s2)" if l: "laterIngress (view s1) (view s2) (ieName e)" for s2
  proof -
    obtain h hs where h: "h \<noteq> []" "evIngresses (view s2) (ieName e) = Some ((ingressOf e)\<lparr>ingStatusHosts := h # hs\<rparr>)"
      using l s1(2) by (auto simp: laterIngress_def option_rel_Some1)
    define x where "x = (ingressOf e)\<lparr>ingStatusHosts := h # hs\<rparr>"
    have g: "k_get (eIngresses c) (ieName e) s2 = (Inr x, s2)"
      unfolding x_def by (rule stores_get(1)[OF routes_of(3)[OF assms(1)] h(2)])
    have x: "ingHosts x = [ieHostname e]" "ingStatusHosts x = h # hs" "rmLabels (ingMeta x) = ieLabels e"
      by (simp_all add: x_def ingressOf_def objectMetaOf_def)
    have e: "\<lparr>ieHostname = ieHostname e, ieLabels = ieLabels e, iePort = 6443, ieName = ieName e\<rparr> = e"
      using v by (cases e) (simp add: validIngress_def)
    show ?thesis using v h(1)
      by (simp add: ingressFromKube_def ingressIsHealthy_def ingressHealth_def ingressSetFields_def bindA_def tryA_def
          pureA_def retA_def Let_def g x e validIngress_def)
  qed
  then show ?thesis using s0(1) s1(1)
    by (intro exI[of _ s1]) (simp add: makeIngress_def ingressCreate_def createIngress_def thenA_def bindA_def errOfA_def
        tryA_def retA_def errorA_def)
qed

interpretation ingress_endpoint: endpoint_kind "makeIngress agg" ingressFromKube ingressInfo ieName validIngress laterIngress for agg
proof unfold_locales
  fix c :: "'s endpoint_client" and view e s
  assume a: "serves_endpoints c view" "validIngress e"
    "evServices (view s) (ieName e) = None \<and> evIngresses (view s) (ieName e) = None \<and> evRoutes (view s) (ieName e) = None"
  then obtain s1 where "makeIngress agg c e s = (Inr e, s1)" "\<forall>s2. laterIngress (view s1) (view s2) (ieName e) \<longrightarrow>
    ingressFromKube c (ieName e) s2 = (Inr e, s2)" using ingress_keeps_contract[OF a(1,2)] by blast
  then show "\<exists>s1 e1. makeIngress agg c e s = (Inr e1, s1) \<and> epHostname (ingressInfo e1) \<noteq> [] \<and>
        (\<forall>s2. laterIngress (view s1) (view s2) (ieName e) \<longrightarrow> (\<exists>e2. ingressFromKube c (ieName e) s2 = (Inr e2, s2) \<and>
           epName (ingressInfo e2) = ieName e \<and>
           epHostname (ingressInfo e2) = epHostname (ingressInfo e1) \<and> epPort (ingressInfo e2) = epPort (ingressInfo e1)))"
    using a(2) by (intro exI[of _ s1] exI[of _ e]) (auto simp: ingressInfo_def validIngress_def)
qed

section \<open>Routes\<close>

definition validRoute :: "routeEndpoint \<Rightarrow> bool" where
  "validRoute e \<longleftrightarrow> reHostname e = [] \<and> rePort e = 0 \<and> reSubdomain e \<noteq> [] \<and>
     reType e \<in> {EndpointTypePassthrough, EndpointTypeInsecureEdge}"

text \<open>The router admits the route.\<close>

definition laterRoute :: "endpoints_view \<Rightarrow> endpoints_view \<Rightarrow> namespacedName \<Rightarrow> bool" where
  "laterRoute st st' n \<longleftrightarrow> rel_option (\<lambda>x y. \<exists>conds. (''Admitted'', ''True'') \<in> set conds \<and> y = x\<lparr>rtConditions := Some conds\<rparr>)
     (evRoutes st n) (evRoutes st' n)"

definition makeRoute :: "(string \<Rightarrow> string) \<Rightarrow> aggregator \<Rightarrow> 's endpoint_client \<Rightarrow> routeEndpoint \<Rightarrow> ('s, routeEndpoint) act" where
  "makeRoute md5 agg c e = endpointCreate (routeCreate md5 agg c e)"

interpretation route_endpoint: endpoint_kind "makeRoute md5 agg" routeFromKube routeInfo reName validRoute laterRoute for md5 agg
proof unfold_locales
  fix c :: "'s endpoint_client" and view e s
  assume a: "serves_endpoints c view" "validRoute e"
    "evServices (view s) (reName e) = None \<and> evIngresses (view s) (reName e) = None \<and> evRoutes (view s) (reName e) = None"
  have new: "newRouteEndpoint (reName e) (reType e) (reLabels e) (reSubdomain e) = Inr e" and sub: "reSubdomain e \<noteq> []"
    using a(2) by (cases e; auto simp: validRoute_def newRouteEndpoint_def)+
  obtain p where p: "routePrefix md5 (reSubdomain e) (reName e) = Inr p"
    using sub by (cases "routePrefix md5 (reSubdomain e) (reName e)") (auto simp: routePrefix_def Let_def split: if_splits)
  obtain s1 e1 rt where 1: "routeCreate md5 agg c e s = (Inr (e1, None), s1)" "reHostname e1 = p @ ''.'' @ reSubdomain e"
      "evRoutes (view s1) (reName e) = Some rt"
      "\<forall>s2 conds. evRoutes (view s2) (reName e) = Some (rt\<lparr>rtConditions := Some conds\<rparr>) \<longrightarrow> (''Admitted'', ''True'') \<in> set conds \<longrightarrow>
        routeFromKube c (reName e) s2 = (Inr (e1\<lparr>reSubdomain := []\<rparr>), s2)"
    using route_keeps_contract[OF a(1) new conjunct2[OF conjunct2[OF a(3)]] p sub] by blast
  have nm: "reName e1 = reName e" using 1(1)
    by (auto simp: routeCreate_def createRoute_def routeTermination_def bindA_def retA_def errOfA_def tryA_def
        split: sum.splits prod.splits option.splits if_splits fault.splits)
  have f: "routeFromKube c (reName e) s2 = (Inr (e1\<lparr>reSubdomain := []\<rparr>), s2)" if l: "laterRoute (view s1) (view s2) (reName e)" for s2
    using l 1(3,4) by (auto simp: laterRoute_def option_rel_Some1)
  have "makeRoute md5 agg c e s = (Inr e1, s1)" using 1(1) by (simp add: makeRoute_def endpointCreate_def bindA_def retA_def)
  then show "\<exists>s1 e1. makeRoute md5 agg c e s = (Inr e1, s1) \<and> epHostname (routeInfo e1) \<noteq> [] \<and>
        (\<forall>s2. laterRoute (view s1) (view s2) (reName e) \<longrightarrow> (\<exists>e2. routeFromKube c (reName e) s2 = (Inr e2, s2) \<and>
           epName (routeInfo e2) = reName e \<and>
           epHostname (routeInfo e2) = epHostname (routeInfo e1) \<and> epPort (routeInfo e2) = epPort (routeInfo e1)))"
    using f nm 1(2) by (intro exI[of _ s1] exI[of _ e1]) (auto simp: routeInfo_def)
qed

section \<open>All kinds\<close>

definition nothing_at :: "endpoints_view \<Rightarrow> namespacedName \<Rightarrow> bool" where
  "nothing_at st n \<longleftrightarrow> evServices st n = None \<and> evIngresses st n = None \<and> evRoutes st n = None"

text \<open>creating succeeds, and whoever finds the endpoint later connects to the host it was made with.\<close>

definition connects_again :: "transport_info \<Rightarrow> ('s, 'e) act \<Rightarrow> ('s, 'e) act \<Rightarrow> ('e \<Rightarrow> endpoint_info) \<Rightarrow> ('s \<Rightarrow> 's \<Rightarrow> bool) \<Rightarrow> 's \<Rightarrow> bool" where
  "connects_again t mk lookup info later s \<longleftrightarrow> (\<exists>s1 e1. mk s = (Inr e1, s1) \<and>
     (\<forall>s2. later s1 s2 \<longrightarrow> (\<exists>e2. lookup s2 = (Inr e2, s2) \<and>
        ConnectionHostname t (info e2) = ConnectionHostname t (info e1) \<and> ConnectionHostname t (info e2) \<noteq> [])))"



end
