(* ===== verification/TransportProps.thy ===== *)
theory TransportProps
  imports Transports
begin

text \<open>What the stunnel transport promises: it is found again as it was created.\<close>

section \<open>Two clusters\<close>

record tunnel_view =
  tvSrcConfigs :: "configMap store"
  tvSrcSecrets :: "secret store"
  tvDstConfigs :: "configMap store"
  tvDstSecrets :: "secret store"

definition serves_source :: "'s transport_client \<Rightarrow> ('s \<Rightarrow> tunnel_view) \<Rightarrow> bool" where
  "serves_source c view \<longleftrightarrow>
     stores (tcConfigMaps c) cmMeta tvSrcConfigs (\<lambda>x. tvSrcConfigs_update (\<lambda>_. x)) view \<and>
     stores (tcSecrets c) secMeta tvSrcSecrets (\<lambda>x. tvSrcSecrets_update (\<lambda>_. x)) view"

definition serves_destination :: "'s transport_client \<Rightarrow> ('s \<Rightarrow> tunnel_view) \<Rightarrow> bool" where
  "serves_destination c view \<longleftrightarrow>
     stores (tcConfigMaps c) cmMeta tvDstConfigs (\<lambda>x. tvDstConfigs_update (\<lambda>_. x)) view \<and>
     stores (tcSecrets c) secMeta tvDstSecrets (\<lambda>x. tvDstSecrets_update (\<lambda>_. x)) view"

text \<open>Keys and certificates can be made, and making them leaves the clusters alone.\<close>

definition makes_certificates :: "('s, 'k) crypto \<Rightarrow> ('s \<Rightarrow> 'c) \<Rightarrow> bool" where
  "makes_certificates K view \<longleftrightarrow>
     (\<forall>n s. \<exists>k s'. rsaGenerateKey K n s = (Inr k, s') \<and> view s' = view s) \<and>
     (\<forall>t k s. \<exists>c s'. createCertificate K t k s = (Inr c, s') \<and> view s' = view s) \<and>
     (\<forall>ty b. \<exists>p. pemEncode K ty b = Inr p)"

lemma GenerateSSLCert_ok:
  assumes "makes_certificates K view"
  shows "\<exists>crt key s'. GenerateSSLCert K s = (Inr (crt, crt, key), s') \<and> view s' = view s"
proof -
  note m = assms[unfolded makes_certificates_def]
  obtain k s1 where k: "rsaGenerateKey K 4096 s = (Inr k, s1)" "view s1 = view s" using m by blast
  obtain b s2 where b: "createCertificate K certTemp k s1 = (Inr b, s2)" "view s2 = view s1" using m by blast
  obtain crt where crt: "pemEncode K ''CERTIFICATE'' b = Inr crt" using m by blast
  obtain key where key: "pemEncode K ''RSA PRIVATE KEY'' (pkcs1 K k) = Inr key" using m by blast
  show ?thesis using k b crt key
    by (intro exI[of _ crt] exI[of _ key] exI[of _ s2]) (simp add: GenerateSSLCert_def bindA_def pureA_def)
qed

lemma nnOf_configName:
  "nnOf (objectMetaOf (nnNamespace nn) (withPrefix prefix name) ls) = configName nn prefix name"
  by (simp add: nnOf_def objectMetaOf_def configName_def)

section \<open>Creating\<close>

lemma stunnelCreateServer_fresh:
  assumes "serves_destination c view" and "makes_certificates K view"
    and "tvDstSecrets (view s) (configName (pairDestination (stPair t)) prefix defaultStunnelServerSecret) = None"
  shows "\<exists>crt key s' cm sec. stunnelCreateServer K agg c prefix e t s =
      (Inr (createStunnelServerVolumes prefix (createStunnelServerContainers e (t\<lparr>stKey := Some key, stCrt := Some crt\<rparr>)), None), s') \<and>
    view s' = (view s)\<lparr>tvDstConfigs := (tvDstConfigs (view s))(configName (pairDestination (stPair t)) prefix defaultStunnelServerConfig \<mapsto> cm),
      tvDstSecrets := (tvDstSecrets (view s))(configName (pairDestination (stPair t)) prefix defaultStunnelServerSecret \<mapsto> sec)\<rparr> \<and>
    fmlookup (secData sec) ''tls.key'' = Some key \<and> fmlookup (secData sec) ''tls.crt'' = Some crt"
proof -
  note st = assms(1)[unfolded serves_destination_def]
  let ?d = "pairDestination (stPair t)"
  let ?cm = "\<lparr>cmMeta = objectMetaOf (nnNamespace ?d) (withPrefix prefix defaultStunnelServerConfig) (epLabels e),
      cmData = fmupd ''stunnel.conf'' (stunnelServerConf (portText (epPort e)) (portText stunnelExposedPort)) fmempty\<rparr>"
  obtain s1 where s1: "createOrUpdate (tcConfigMaps c) ?cm s = (Inr (), s1)"
    "view s1 = (view s)\<lparr>tvDstConfigs := (tvDstConfigs (view s))(configName ?d prefix defaultStunnelServerConfig \<mapsto> ?cm)\<rparr>"
    using createOrUpdate_effect[OF conjunct1[OF st], of ?cm s] unfolding configMap.simps nnOf_configName by blast
  obtain crt key s2 where s2: "GenerateSSLCert K s1 = (Inr (crt, crt, key), s2)" "view s2 = view s1"
    using GenerateSSLCert_ok[OF assms(2)] by blast
  let ?sec = "tlsSecret (nnNamespace ?d) (withPrefix prefix defaultStunnelServerSecret) (epLabels e) crt key"
  have nn: "nnOf (secMeta ?sec) = configName ?d prefix defaultStunnelServerSecret" by (simp add: tlsSecret_def nnOf_configName)
  have none: "tvDstSecrets (view s2) (configName ?d prefix defaultStunnelServerSecret) = None" using assms(3) s1(2) s2(2) by simp
  obtain s3 where s3: "createIfAbsent (tcSecrets c) ?sec s2 = (Inr (), s3)"
    "view s3 = (view s2)\<lparr>tvDstSecrets := (tvDstSecrets (view s2))(configName ?d prefix defaultStunnelServerSecret \<mapsto> ?sec)\<rparr>"
    using createIfAbsent_effect[OF conjunct2[OF st], of s2 ?sec] unfolding nn if_P[OF none] by auto
  have "stunnelCreateServer K agg c prefix e t s =
      (Inr (createStunnelServerVolumes prefix (createStunnelServerContainers e (t\<lparr>stKey := Some key, stCrt := Some crt\<rparr>)), None), s3)"
    using s1(1) s2(1) s3(1)
    by (simp add: stunnelCreateServer_def createStunnelServerResources_def createStunnelServerConfig_def createStunnelServerSecret_def
        bindA_def errOfA_def tryA_def retA_def)
  then show ?thesis using s1(2) s2(2) s3(2)
    by (intro exI[of _ crt] exI[of _ key] exI[of _ s3] exI[of _ ?cm] exI[of _ ?sec]) (simp add: tlsSecret_def)
qed

lemma stunnelCreateClient_fresh:
  assumes "serves_source c view" and "stOptions t = Some opts" and "stCrt t = Some crt" and "stKey t = Some key"
    and "tvSrcSecrets (view s) (configName (pairSource (stPair t)) prefix defaultStunnelClientSecret) = None"
  shows "\<exists>s' sec. stunnelCreateClient agg c prefix e t s = (Inr (createClientVolumes prefix (setClientContainers e t), None), s') \<and>
    view s' = (view s)\<lparr>tvSrcConfigs := (tvSrcConfigs (view s))(configName (pairSource (stPair t)) prefix defaultStunnelClientConfig
        \<mapsto> clientConfigMap t prefix e opts),
      tvSrcSecrets := (tvSrcSecrets (view s))(configName (pairSource (stPair t)) prefix defaultStunnelClientSecret \<mapsto> sec)\<rparr> \<and>
    fmlookup (secData sec) ''tls.key'' = Some key \<and> fmlookup (secData sec) ''tls.crt'' = Some crt"
proof -
  note st = assms(1)[unfolded serves_source_def]
  let ?d = "pairSource (stPair t)" and ?cm = "clientConfigMap t prefix e opts"
  have cn: "nnOf (cmMeta ?cm) = configName ?d prefix defaultStunnelClientConfig"
    by (simp add: clientConfigMap_def Let_def nnOf_configName)
  obtain s1 where s1: "createOrUpdate (tcConfigMaps c) ?cm s = (Inr (), s1)"
    "view s1 = (view s)\<lparr>tvSrcConfigs := (tvSrcConfigs (view s))(configName ?d prefix defaultStunnelClientConfig \<mapsto> ?cm)\<rparr>"
    using createOrUpdate_effect[OF conjunct1[OF st], of ?cm s] unfolding cn by blast
  let ?sec = "tlsSecret (nnNamespace ?d) (withPrefix prefix defaultStunnelClientSecret) (epLabels e) crt key"
  have nn: "nnOf (secMeta ?sec) = configName ?d prefix defaultStunnelClientSecret" by (simp add: tlsSecret_def nnOf_configName)
  have none: "tvSrcSecrets (view s1) (configName ?d prefix defaultStunnelClientSecret) = None" using assms(5) s1(2) by simp
  obtain s2 where s2: "createIfAbsent (tcSecrets c) ?sec s1 = (Inr (), s2)"
    "view s2 = (view s1)\<lparr>tvSrcSecrets := (tvSrcSecrets (view s1))(configName ?d prefix defaultStunnelClientSecret \<mapsto> ?sec)\<rparr>"
    using createIfAbsent_effect[OF conjunct2[OF st], of s1 ?sec] unfolding nn if_P[OF none] by auto
  have "stunnelCreateClient agg c prefix e t s = (Inr (createClientVolumes prefix (setClientContainers e t), None), s2)"
    using s1(1) s2(1) assms(2-4)
    by (simp add: stunnelCreateClient_def createClientResources_def createClientConfig_def createClientSecret_def
        bindA_def errOfA_def tryA_def retA_def)
  then show ?thesis using s1(2) s2(2) by (intro exI[of _ s2] exI[of _ ?sec]) (simp add: tlsSecret_def)
qed

section \<open>Finding again\<close>

text \<open>
  C15. A stunnel transport whose server and client sides were created under fresh names is
  found again with the same certificate, key, containers, volumes, options and names. Only its port
  differs: creating never sets it, and finding takes it from the endpoint.
\<close>

theorem stunnel_create_then_find:
  assumes "serves_source cs view" and "serves_destination cd view" and "makes_certificates K view"
    and "tvSrcSecrets (view s) (configName (pairSource pair) prefix defaultStunnelClientSecret) = None"
    and "tvDstSecrets (view s) (configName (pairDestination pair) prefix defaultStunnelServerSecret) = None"
  shows "\<exists>t1 s1 t2 s2. stunnelCreateServer K agg cd prefix e (newStunnelTransport pair (Some opts)) s = (Inr (t1, None), s1) \<and>
    stunnelCreateClient agg cs prefix e t1 s1 = (Inr (t2, None), s2) \<and> stPort t2 = 0 \<and>
    GetTransportFromKubeObjects cs cd prefix pair e (Some opts) s2 = (Inr (t2\<lparr>stPort := epPort e\<rparr>), s2)"
proof -
  let ?t = "newStunnelTransport pair (Some opts)"
  have t: "stPair ?t = pair" "stOptions ?t = Some opts" by (simp_all add: newStunnelTransport_def)
  obtain crt key s1 cm sec where 1: "stunnelCreateServer K agg cd prefix e ?t s =
      (Inr (createStunnelServerVolumes prefix (createStunnelServerContainers e (?t\<lparr>stKey := Some key, stCrt := Some crt\<rparr>)), None), s1)"
    and v1: "view s1 = (view s)\<lparr>tvDstConfigs := (tvDstConfigs (view s))(configName (pairDestination pair) prefix defaultStunnelServerConfig \<mapsto> cm),
      tvDstSecrets := (tvDstSecrets (view s))(configName (pairDestination pair) prefix defaultStunnelServerSecret \<mapsto> sec)\<rparr>"
    using stunnelCreateServer_fresh[OF assms(2,3), of s ?t prefix agg e] assms(5) unfolding t by blast
  let ?t1 = "createStunnelServerVolumes prefix (createStunnelServerContainers e (?t\<lparr>stKey := Some key, stCrt := Some crt\<rparr>))"
  have t1: "stPair ?t1 = pair" "stOptions ?t1 = Some opts" "stCrt ?t1 = Some crt" "stKey ?t1 = Some key"
    using t by (simp_all add: createStunnelServerVolumes_def createStunnelServerContainers_def)
  have none: "tvSrcSecrets (view s1) (configName (pairSource pair) prefix defaultStunnelClientSecret) = None"
    using assms(4) v1 by simp
  obtain s2 csec where 2: "stunnelCreateClient agg cs prefix e ?t1 s1 = (Inr (createClientVolumes prefix (setClientContainers e ?t1), None), s2)"
    and v2: "view s2 = (view s1)\<lparr>tvSrcConfigs := (tvSrcConfigs (view s1))(configName (pairSource pair) prefix defaultStunnelClientConfig
        \<mapsto> clientConfigMap ?t1 prefix e opts),
      tvSrcSecrets := (tvSrcSecrets (view s1))(configName (pairSource pair) prefix defaultStunnelClientSecret \<mapsto> csec)\<rparr>"
    and k: "fmlookup (secData csec) ''tls.key'' = Some key" "fmlookup (secData csec) ''tls.crt'' = Some crt"
    using stunnelCreateClient_fresh[OF assms(1) t1(2-4), of s1 prefix agg e] none unfolding t1(1) by blast
  let ?t2 = "createClientVolumes prefix (setClientContainers e ?t1)"
  note ss = assms(1)[unfolded serves_source_def] and sd = assms(2)[unfolded serves_destination_def]
  have gets: "k_get (tcConfigMaps cs) (configName (pairSource pair) prefix defaultStunnelClientConfig) s2 = (Inr (clientConfigMap ?t1 prefix e opts), s2)"
    "k_get (tcConfigMaps cd) (configName (pairDestination pair) prefix defaultStunnelServerConfig) s2 = (Inr cm, s2)"
    "k_get (tcSecrets cs) (configName (pairSource pair) prefix defaultStunnelClientSecret) s2 = (Inr csec, s2)"
    "k_get (tcSecrets cd) (configName (pairDestination pair) prefix defaultStunnelServerSecret) s2 = (Inr sec, s2)"
    using stores_get(1)[OF conjunct1[OF ss]] stores_get(1)[OF conjunct1[OF sd]] stores_get(1)[OF conjunct2[OF ss]]
      stores_get(1)[OF conjunct2[OF sd]] v1 v2 by simp_all
  have "GetTransportFromKubeObjects cs cd prefix pair e (Some opts) s2 = (Inr (?t2\<lparr>stPort := epPort e\<rparr>), s2)"
    using gets k by (simp add: GetTransportFromKubeObjects_def getClientConfig_def getServerConfig_def getClientSecret_def getServerSecret_def
        bindA_def retA_def createClientVolumes_def setClientContainers_def createStunnelServerVolumes_def createStunnelServerContainers_def
        newStunnelTransport_def getStunnelClientImage_def getStunnelServerImage_def)
  moreover have "stPort ?t2 = 0" by (simp add: createClientVolumes_def setClientContainers_def createStunnelServerVolumes_def
        createStunnelServerContainers_def newStunnelTransport_def)
  ultimately show ?thesis using 1 2 by blast
qed

definition ref_source :: "tunnel_view transport_client" where
  "ref_source = \<lparr>tcConfigMaps = ref_kind cmMeta tvSrcConfigs (\<lambda>x. tvSrcConfigs_update (\<lambda>_. x)),
     tcSecrets = ref_kind secMeta tvSrcSecrets (\<lambda>x. tvSrcSecrets_update (\<lambda>_. x))\<rparr>"

definition ref_destination :: "tunnel_view transport_client" where
  "ref_destination = \<lparr>tcConfigMaps = ref_kind cmMeta tvDstConfigs (\<lambda>x. tvDstConfigs_update (\<lambda>_. x)),
     tcSecrets = ref_kind secMeta tvDstSecrets (\<lambda>x. tvDstSecrets_update (\<lambda>_. x))\<rparr>"

lemma serves_ref_tunnel: "serves_source ref_source id" "serves_destination ref_destination id"
  unfolding serves_source_def serves_destination_def ref_source_def ref_destination_def transport_client.simps
  by (intro conjI stores_ref_kind)+

definition ref_crypto :: "(tunnel_view, nat) crypto" where
  "ref_crypto = \<lparr>rsaGenerateKey = (\<lambda>n. retA n), createCertificate = (\<lambda>t k. retA (certCommonName t)), pkcs1 = (\<lambda>k. ''key''),
     pemEncode = (\<lambda>ty b. Inr (ty @ b))\<rparr>"

lemma ref_crypto_ok: "makes_certificates ref_crypto id"
  by (simp add: makes_certificates_def ref_crypto_def retA_def)

definition no_objects :: tunnel_view where
  "no_objects = \<lparr>tvSrcConfigs = Map.empty, tvSrcSecrets = Map.empty, tvDstConfigs = Map.empty, tvDstSecrets = Map.empty\<rparr>"

definition ex_opts :: transportOptions where
  "ex_opts = \<lparr>ProxyURL = [], ProxyUsername = [], ProxyPassword = [], NoVerifyCA = False, CAVerifyLevel = [],
     StunnelClientImage = [], StunnelServerImage = []\<rparr>"

definition tunnel_endpoint :: endpoint_info where
  "tunnel_endpoint = \<lparr>epHostname = ''tunnel.example.org'', epPort = 6443, epExposedPort = 443,
     epName = \<lparr>nnNamespace = ''app'', nnName = ''tunnel''\<rparr>, epLabels = fmempty\<rparr>"

definition tunnel_pair :: nnPair where
  "tunnel_pair = newNamespacedPair \<lparr>nnNamespace = ''app'', nnName = ''data''\<rparr> \<lparr>nnNamespace = ''other'', nnName = []\<rparr>"

lemma stunnel_create_then_find_witness:
  "\<exists>t1 s1 t2 s2. stunnelCreateServer ref_crypto hd ref_destination ''fs'' tunnel_endpoint (newStunnelTransport tunnel_pair (Some ex_opts))
      no_objects = (Inr (t1, None), s1) \<and>
    stunnelCreateClient hd ref_source ''fs'' tunnel_endpoint t1 s1 = (Inr (t2, None), s2) \<and>
    GetTransportFromKubeObjects ref_source ref_destination ''fs'' tunnel_pair tunnel_endpoint (Some ex_opts) s2 =
      (Inr (t2\<lparr>stPort := epPort tunnel_endpoint\<rparr>), s2)"
  using stunnel_create_then_find[OF serves_ref_tunnel ref_crypto_ok, of no_objects tunnel_pair "''fs''" hd tunnel_endpoint ex_opts]
  unfolding no_objects_def by fastforce

section \<open>Verifying the certificate\<close>

text \<open>
  The client verifies the server's certificate exactly when it was asked not to: the
  configuration has the line \<open>verify\<close> when \<open>NoVerifyCA\<close> is set and lacks it otherwise.
\<close>

theorem NoVerifyCA_verifies:
  "\<exists>body. (\<forall>b. stunnelClientConf port host exposed (opts\<lparr>NoVerifyCA := b\<rparr>) lvl =
     body @ (if b then line ('' verify = '' @ lvl) else []) @ line []) \<and>
   stunnelClientConf port host exposed opts lvl = body @ (if NoVerifyCA opts then line ('' verify = '' @ lvl) else []) @ line []"
proof -
  have "stunnelClientBody port host exposed (opts\<lparr>NoVerifyCA := b\<rparr>) = stunnelClientBody port host exposed opts" for b
    by (simp add: stunnelClientBody_def)
  then show ?thesis by (intro exI[of _ "stunnelClientBody port host exposed opts"]) (simp add: stunnelClientConf_def)
qed

text \<open>
  A server secret that exists already is kept, while the transport holds a fresh key: the
  client's secret, made from the transport, then does not match the server's.
\<close>

lemma stunnel_server_secret_goes_stale:
  assumes "serves_destination c view" and "makes_certificates K view"
    and "tvDstSecrets (view s) (configName (pairDestination (stPair t)) prefix defaultStunnelServerSecret) = Some old"
  shows "\<exists>crt key s'. createStunnelServerSecret K c prefix e t s = (Inr (t\<lparr>stKey := Some key, stCrt := Some crt\<rparr>, None), s') \<and>
    tvDstSecrets (view s') = tvDstSecrets (view s)"
proof -
  obtain crt key s1 where 1: "GenerateSSLCert K s = (Inr (crt, crt, key), s1)" "view s1 = view s"
    using GenerateSSLCert_ok[OF assms(2)] by blast
  let ?sec = "tlsSecret (nnNamespace (pairDestination (stPair t))) (withPrefix prefix defaultStunnelServerSecret) (epLabels e) crt key"
  have nn: "nnOf (secMeta ?sec) = configName (pairDestination (stPair t)) prefix defaultStunnelServerSecret"
    by (simp add: tlsSecret_def nnOf_configName)
  obtain s2 where 2: "createIfAbsent (tcSecrets c) ?sec s1 = (Inr (), s2)" "tvDstSecrets (view s2) = tvDstSecrets (view s1)"
    using createIfAbsent_effect[OF conjunct2[OF assms(1)[unfolded serves_destination_def]], of s1 ?sec] assms(3) 1(2) unfolding nn by auto
  show ?thesis using 1 2
    by (intro exI[of _ crt] exI[of _ key] exI[of _ s2])
      (simp add: createStunnelServerSecret_def bindA_def errOfA_def tryA_def retA_def)
qed

end
