(* ===== verification/RsyncOptions.thy ===== *)
theory RsyncOptions
  imports Mutations
begin

text \<open>
  \<open>state_transfer/transfer/rsync/options.go\<close>: the options of an rsync transfer, the options a caller
  applies to them, and the flags of the rsync command they stand for. The two regular
  expressions are written as predicates on strings.
\<close>

record resourceMetadata =
  rmdAnnotations :: labels
  rmdLabels :: labels
  rmdOwnerReferences :: "ownerReference list"

record commandOptions =
  Recursive :: bool
  SymLinks :: bool
  Permissions :: bool
  ModTimes :: bool
  DeviceFiles :: bool
  SpecialFiles :: bool
  Groups :: bool
  Owners :: bool
  HardLinks :: bool
  DeleteExtra :: bool
  Partial :: bool
  BwLimit :: "int option"
  HumanReadable :: bool
  LogFile :: string
  Info :: "string list"
  ExcludedFiles :: "string list"
  Extras :: "string list"

record transferOptions = commandOptions +
  SourcePodMeta :: resourceMetadata
  DestinationPodMeta :: resourceMetadata
  SourcePodMutations :: "podmutation list"
  DestinationPodMutations :: "podmutation list"
  SourceContainerMutations :: "containermutation list"
  DestContainerMutations :: "containermutation list"
  optUsername :: string
  optPassword :: string
  optRsyncServerImage :: string
  optRsyncClientImage :: string
  optMungeSymlinks :: bool

definition noMetadata :: resourceMetadata where
  "noMetadata = \<lparr>rmdAnnotations = fmempty, rmdLabels = fmempty, rmdOwnerReferences = []\<rparr>"

text \<open>\<open>TransferOptions{}\<close>.\<close>

definition zeroOptions :: transferOptions where
  "zeroOptions = \<lparr>Recursive = False, SymLinks = False, Permissions = False, ModTimes = False, DeviceFiles = False,
     SpecialFiles = False, Groups = False, Owners = False, HardLinks = False, DeleteExtra = False, Partial = False,
     BwLimit = None, HumanReadable = False, LogFile = [], Info = [], ExcludedFiles = [], Extras = [],
     SourcePodMeta = noMetadata, DestinationPodMeta = noMetadata, SourcePodMutations = [], DestinationPodMutations = [],
     SourceContainerMutations = [], DestContainerMutations = [], optUsername = [], optPassword = [],
     optRsyncServerImage = [], optRsyncClientImage = [], optMungeSymlinks = False\<rparr>"

section \<open>Flags\<close>

text \<open>\<open>^[A-Z]+\d?$\<close>\<close>

definition is_upper :: "char \<Rightarrow> bool" where
  "is_upper c \<longleftrightarrow> (65::nat) \<le> of_char c \<and> of_char c \<le> (90::nat)"

definition is_alnum :: "char \<Rightarrow> bool" where
  "is_alnum c \<longleftrightarrow> (97::nat) \<le> of_char c \<and> of_char c \<le> (122::nat) \<or> is_digit c"

definition infoOption :: "string \<Rightarrow> bool" where
  "infoOption s = (let d = dropWhile is_upper s in
     takeWhile is_upper s \<noteq> [] \<and> (case d of [] \<Rightarrow> True | [c] \<Rightarrow> is_digit c | _ \<Rightarrow> False))"

text \<open>
  \<open>^\-{1,2}([a-z0-9]+\-){0,}?[a-z0-9]+(=.*)?$\<close>: words joined by single dashes, then perhaps
  a value without a newline. \<open>inWord\<close>: the word that is being read has a character.
\<close>

fun dashedWords :: "bool \<Rightarrow> string \<Rightarrow> bool" where
  "dashedWords inWord [] = inWord"
| "dashedWords inWord (c # cs) = (if is_alnum c then dashedWords True cs
     else if c = CHR ''-'' then inWord \<and> dashedWords False cs
     else c = CHR ''='' \<and> inWord \<and> CHR 0x0A \<notin> set cs)"

definition extraOption :: "string \<Rightarrow> bool" where
  "extraOption s = (case s of [] \<Rightarrow> False
     | c # t \<Rightarrow> c = CHR ''-'' \<and> (case t of [] \<Rightarrow> False
         | d # u \<Rightarrow> if d = CHR ''-'' then dashedWords False u else dashedWords False t))"

definition invalidOptions :: "(string \<Rightarrow> bool) \<Rightarrow> (string \<Rightarrow> string) \<Rightarrow> aggregator \<Rightarrow> string list \<Rightarrow> goerror option" where
  "invalidOptions ok msg agg opts = newAggregate agg (map (\<lambda>x. Some (errorf (msg x))) (filter (\<lambda>x. \<not> ok x) opts))"

definition filterRsyncInfoOptions :: "aggregator \<Rightarrow> string list \<Rightarrow> string list \<times> goerror option" where
  "filterRsyncInfoOptions agg opts = (map trimSpace (filter infoOption opts),
     invalidOptions infoOption (\<lambda>x. ''invalid value '' @ x @ '' for Rsync option --info'') agg opts)"

definition filterRsyncExtraOptions :: "aggregator \<Rightarrow> string list \<Rightarrow> string list \<times> goerror option" where
  "filterRsyncExtraOptions agg opts = (filter extraOption opts,
     invalidOptions extraOption (\<lambda>x. ''invalid Rsync option '' @ x) agg opts)"

definition AsRsyncCommandOptions :: "aggregator \<Rightarrow> 'a commandOptions_scheme \<Rightarrow> string list \<times> goerror option" where
  "AsRsyncCommandOptions agg c =
     (let flag = (\<lambda>b name. if b then [name] else []);
          (bw, bwErr) = (case BwLimit c of None \<Rightarrow> ([], [])
             | Some n \<Rightarrow> if n > 0 then ([''--bwlimit='' @ itoa n], [])
                 else ([], [Some (errorf ''rsync bwlimit value must be a positive integer'')]));
          (info, infoErr) = (if length (Info c) > 0
             then (case filterRsyncInfoOptions agg (Info c) of (vs, err) \<Rightarrow> ([''--info='' @ joinS '','' vs], [err])) else ([], []));
          (extra, extraErr) = (if length (Extras c) > 0
             then (case filterRsyncExtraOptions agg (Extras c) of (vs, err) \<Rightarrow> (vs, [err])) else ([], []))
      in (flag (Recursive c) ''--recursive'' @ flag (SymLinks c) ''--links'' @ flag (Permissions c) ''--perms'' @
          flag (DeviceFiles c) ''--devices'' @ flag (SpecialFiles c) ''--specials'' @ flag (ModTimes c) ''--times'' @
          flag (Owners c) ''--owner'' @ flag (Groups c) ''--group'' @ flag (HardLinks c) ''--hard-links'' @
          flag (DeleteExtra c) ''--delete'' @ flag (Partial c) ''--partial'' @ bw @
          flag (HumanReadable c) ''--human-readable'' @ (if LogFile c \<noteq> [] then [''--log-file='' @ LogFile c] else []) @
          info @ extra @ map (\<lambda>file. ''--exclude='' @ file) (ExcludedFiles c),
        newAggregate agg (bwErr @ infoErr @ extraErr)))"

section \<open>Applying options\<close>

datatype transferOption =
    ArchiveFiles bool
  | PreserveOwnership bool
  | StandardProgress bool
  | DeleteDestination bool
  | WithSourcePodLabels labels
  | WithDestinationPodLabels labels
  | WithOwnerReferences "ownerReference list"
  | SourcePodSpecMutation "podSpecification option"
  | DestinationPodSpecMutation "podSpecification option"
  | SourceContainerMutation "container option"
  | DestinationContainerMutation "container option"
  | Username string
  | Password string
  | RsyncServerImage string
  | RsyncClientImage string
  | ExcludeFiles "string list"
  | MungeSymlinks bool

definition standardInfo :: "string list" where
  "standardInfo = [''COPY2'', ''DEL2'', ''REMOVE2'', ''SKIP2'', ''FLIST2'', ''PROGRESS2'', ''STATS2'']"

text \<open>
  \<open>ApplyTo\<close> of every kind of option: the options afterwards, and the error. \<open>ord\<close> visits the
  keys of a map of labels.
\<close>

fun ApplyTo :: "pod_validation \<Rightarrow> aggregator \<Rightarrow> (labels \<Rightarrow> string list) \<Rightarrow> transferOption \<Rightarrow> transferOptions
    \<Rightarrow> transferOptions \<times> goerror option" where
  "ApplyTo V agg ord (ArchiveFiles a) t = (t\<lparr>Recursive := a, SymLinks := a, Permissions := a, ModTimes := a, Groups := a,
      Owners := a, DeviceFiles := a, SpecialFiles := a\<rparr>, None)"
| "ApplyTo V agg ord (PreserveOwnership p) t = (t\<lparr>Owners := p, Groups := p\<rparr>, None)"
| "ApplyTo V agg ord (StandardProgress b) t = (t\<lparr>Info := standardInfo, HumanReadable := True, LogFile := ''/dev/stdout''\<rparr>, None)"
| "ApplyTo V agg ord (DeleteDestination d) t = (t\<lparr>DeleteExtra := d\<rparr>, None)"
| "ApplyTo V agg ord (WithSourcePodLabels w) t = (case ValidateLabels V agg (ord w) w of
      Some err \<Rightarrow> (t, Some err) | None \<Rightarrow> (t\<lparr>SourcePodMeta := (SourcePodMeta t)\<lparr>rmdLabels := w\<rparr>\<rparr>, None))"
| "ApplyTo V agg ord (WithDestinationPodLabels w) t = (case ValidateLabels V agg (ord w) w of
      Some err \<Rightarrow> (t, Some err) | None \<Rightarrow> (t\<lparr>DestinationPodMeta := (DestinationPodMeta t)\<lparr>rmdLabels := w\<rparr>\<rparr>, None))"
| "ApplyTo V agg ord (WithOwnerReferences w) t =
     (if list_ex (\<lambda>r. length (orKind r) * length (orName r) * length (orUID r) = 0) w
      then (t, Some (errorf ''all OwnerReferences must have Kind, Name and UID set''))
      else (t\<lparr>SourcePodMeta := (SourcePodMeta t)\<lparr>rmdOwnerReferences := w\<rparr>,
              DestinationPodMeta := (DestinationPodMeta t)\<lparr>rmdOwnerReferences := w\<rparr>\<rparr>, None))"
| "ApplyTo V agg ord (SourcePodSpecMutation s) t =
     (t\<lparr>SourcePodMutations := SourcePodMutations t @ [NewPodSpecMutation s MutationTypeReplace]\<rparr>, None)"
| "ApplyTo V agg ord (DestinationPodSpecMutation s) t =
     (t\<lparr>DestinationPodMutations := SourcePodMutations t @ [NewPodSpecMutation s MutationTypeReplace]\<rparr>, None)"
| "ApplyTo V agg ord (SourceContainerMutation c) t =
     (t\<lparr>SourceContainerMutations := SourceContainerMutations t @ [NewContainerMutation c MutationTypeReplace]\<rparr>, None)"
| "ApplyTo V agg ord (DestinationContainerMutation c) t =
     (t\<lparr>DestContainerMutations := SourceContainerMutations t @ [NewContainerMutation c MutationTypeReplace]\<rparr>, None)"
| "ApplyTo V agg ord (Username u) t = (t\<lparr>optUsername := u\<rparr>, None)"
| "ApplyTo V agg ord (Password p) t = (t\<lparr>optPassword := p\<rparr>, None)"
| "ApplyTo V agg ord (RsyncServerImage r) t = (t\<lparr>optRsyncServerImage := r\<rparr>, None)"
| "ApplyTo V agg ord (RsyncClientImage r) t = (t\<lparr>optRsyncClientImage := r\<rparr>, None)"
| "ApplyTo V agg ord (ExcludeFiles e) t = (t\<lparr>ExcludedFiles := ExcludedFiles t @ filter (\<lambda>f. f \<noteq> []) e\<rparr>, None)"
| "ApplyTo V agg ord (MungeSymlinks e) t = (t\<lparr>optMungeSymlinks := e\<rparr>, None)"

text \<open>Every option is applied, those after an error too; the errors are collected.\<close>

fun applyEach :: "pod_validation \<Rightarrow> aggregator \<Rightarrow> (labels \<Rightarrow> string list) \<Rightarrow> transferOption list \<Rightarrow> transferOptions
    \<Rightarrow> transferOptions \<times> goerror option list" where
  "applyEach V agg ord [] t = (t, [])"
| "applyEach V agg ord (x # xs) t = (case ApplyTo V agg ord x t of (t1, err) \<Rightarrow>
     (case applyEach V agg ord xs t1 of (t2, errs) \<Rightarrow> (t2, err # errs)))"

definition applyOptions :: "pod_validation \<Rightarrow> aggregator \<Rightarrow> (labels \<Rightarrow> string list) \<Rightarrow> transferOption list \<Rightarrow> transferOptions
    \<Rightarrow> transferOptions \<times> goerror option" where
  "applyOptions V agg ord opts t = (case applyEach V agg ord opts t of (t', errs) \<Rightarrow> (t', newAggregate agg errs))"

definition GetRsyncCommandDefaultOptions :: "transferOption list" where
  "GetRsyncCommandDefaultOptions = [ArchiveFiles True, StandardProgress True]"

end
