(* ===== verification/Rsync.thy ===== *)
theory Rsync
  imports Transfers RsyncOptions
begin

text \<open>
  \<open>state_transfer/transfer/rsync\<close>: the rsync transfer. Its server is one daemon pod in the
  destination namespace, its client one pod per file system claim of the source namespace.
  The transfer's own fields and the transport's containers are changed by the methods, which
  return them. \<open>draw n\<close> is \<open>rand.Intn(n)\<close>.
\<close>

record 's transfer_client =
  tfConfigMaps :: "('s, configMap) kind_api"
  tfSecrets :: "('s, secret) kind_api"
  tfPods :: "('s, pod) kind_api"

section \<open>Validation\<close>

definition nameError :: "pod_validation \<Rightarrow> pvc \<Rightarrow> goerror option list result" where
  "nameError V p = (if length (isValidLabelValue V (pLabelSafeName p)) > 0
     then bindR (derefR (pClaim p)) (\<lambda>c. Inr [Some (errorf (''labelSafeName() for '' @ claimName c @ '' must be a valid label value''))])
     else Inr [])"

definition validatePVCName :: "pod_validation \<Rightarrow> aggregator \<Rightarrow> pvcPair option \<Rightarrow> goerror option result" where
  "validatePVCName V agg p =
     bindR (derefR p) (\<lambda>x. bindR (derefR (ppSource x)) (\<lambda>src. bindR (nameError V src) (\<lambda>e1.
     bindR (derefR (ppDestination x)) (\<lambda>dest. bindR (nameError V dest) (\<lambda>e2. Inr (newAggregate agg (e1 @ e2)))))))"

definition pvcErrors :: "pod_validation \<Rightarrow> aggregator \<Rightarrow> pvcPairList \<Rightarrow> goerror option list result" where
  "pvcErrors V agg = concatR (\<lambda>p. bindR (validatePVCName V agg p) (\<lambda>err. case err of
     None \<Rightarrow> Inr []
   | Some e \<Rightarrow> bindR (sourceClaim p) (\<lambda>c. Inr [newAggregate agg
       [Some (errorf (''pvc name validation failed for pvc '' @ claimName c @ '' with error'')), Some e]])))"

definition validatePVCList :: "pod_validation \<Rightarrow> aggregator \<Rightarrow> pvcPairList \<Rightarrow> goerror option result" where
  "validatePVCList V agg l =
     bindR (GetDestinationNamespaces l) (\<lambda>dest.
     bindR (pvcErrors V agg l) (\<lambda>errs. Inr (newAggregate agg
       ((if length (GetSourceNamespaces l) > 1 \<or> length dest > 1
         then [Some (errorf ''rsync transfer does not support migrating PVCs belonging to multiple source/destination namespaces'')]
         else []) @
        (if length l = 0 then [Some (errorf ''at least one pvc must be provided'')] else []) @ errs))))"

section \<open>The transfer\<close>

definition RsyncContainer :: string where "RsyncContainer = ''rsync''"
definition defaultRsyncUser :: string where "defaultRsyncUser = ''crane2''"
definition rsyncPort :: "32 word" where "rsyncPort = 1873"
definition defaultRsyncServerConfig :: string where "defaultRsyncServerConfig = ''crane2-rsync-server-config''"
definition defaultRsyncServerSecret :: string where "defaultRsyncServerSecret = ''crane2-rsync-server-secret''"

record rsyncTransfer =
  rsUsername :: string
  rsPassword :: string
  rsPvcList :: pvcPairList
  rsTransport :: transport_info
  rsEndpoint :: endpoint_info
  rsPort :: "32 word"
  rsOptions :: RsyncOptions.transferOptions

definition newRsyncTransfer :: "pod_validation \<Rightarrow> aggregator \<Rightarrow> (labels \<Rightarrow> string list) \<Rightarrow> transport_info \<Rightarrow> endpoint_info
    \<Rightarrow> pvcPairList \<Rightarrow> transferOption list \<Rightarrow> rsyncTransfer result" where
  "newRsyncTransfer V agg ord t e l opts =
     bindR (validatePVCList V agg l) (\<lambda>err. case err of
       Some err' \<Rightarrow> Inl (Error err')
     | None \<Rightarrow> (case applyOptions V agg ord opts zeroOptions of (options, err2) \<Rightarrow> (case err2 of
           Some err' \<Rightarrow> Inl (Error err')
         | None \<Rightarrow> Inr \<lparr>rsUsername = [], rsPassword = [], rsPvcList = l, rsTransport = t, rsEndpoint = e, rsPort = 0,
             rsOptions = options\<rparr>)))"

text \<open>\<open>/mnt/<namespace>/<label safe name>\<close>\<close>

definition getMountPathForPVC :: "claim \<Rightarrow> string \<Rightarrow> string" where
  "getMountPathForPVC c label = ''/mnt/'' @ claimNamespace c @ ''/'' @ label"

definition getRsyncServerImage :: "rsyncTransfer \<Rightarrow> string" where
  "getRsyncServerImage r = (if optRsyncServerImage (rsOptions r) = [] then DefaultRsyncTransferImage
     else optRsyncServerImage (rsOptions r))"

definition getRsyncClientImage :: "rsyncTransfer \<Rightarrow> string" where
  "getRsyncClientImage r = (if optRsyncClientImage (rsOptions r) = [] then DefaultRsyncTransferImage
     else optRsyncClientImage (rsOptions r))"

section \<open>The server\<close>

definition rsyncModule :: "string \<Rightarrow> pvcPair option \<Rightarrow> string" where
  "rsyncModule user p = (let c = destOf p; label = destName p in
     nl [] @ nl (''['' @ label @ '']'') @ nl (''    comment = archive for '' @ claimNamespace c @ ''/'' @ claimName c) @
     nl (''    path = '' @ getMountPathForPVC c label) @ nl ''    list = yes'' @ nl ''    read only = false'' @
     nl (''    auth users = '' @ user) @ nl ''    secrets file = /etc/rsync-secret/rsyncd.secrets'')"

text \<open>The template, as it renders; every pair of the list has a destination.\<close>

definition rsyncServerConf :: "string \<Rightarrow> pvcPairList \<Rightarrow> bool \<Rightarrow> bool \<Rightarrow> bool \<Rightarrow> string" where
  "rsyncServerConf user l runAsRoot enableChroot mungeSymlinks =
     nl ''syslog facility = local7'' @ nl ''read only = no'' @ nl ''list = yes'' @ nl ''log file = /dev/stdout'' @
     nl ''max verbosity = 4'' @ nl (''auth users = '' @ user) @ nl ''hosts allow = ::1, 127.0.0.1, localhost'' @
     (if runAsRoot then nl [] @ nl ''uid = root'' @ nl ''gid = root'' else []) @ nl [] @
     (if enableChroot then nl [] @ nl ''use chroot = yes'' else nl [] @ nl ''use chroot = no'') @ nl [] @
     (if mungeSymlinks then nl [] @ nl ''munge symlinks = yes'' else nl [] @ nl ''munge symlinks = no'') @ nl [] @
     concat (map (rsyncModule user) l) @ nl []"

text \<open>A mutation without a security context is followed all the same.\<close>

fun asRootOrPrivileged :: "containermutation list \<Rightarrow> bool \<Rightarrow> bool \<Rightarrow> (bool \<times> bool) result" where
  "asRootOrPrivileged [] asRoot priv = Inr (asRoot, priv)"
| "asRootOrPrivileged (m # ms) asRoot priv = bindR (derefR (cmuSecurityContext m)) (\<lambda>sc.
     asRootOrPrivileged ms (asRoot \<or> runAsUser sc = Some 0) (priv \<or> privileged sc = Some True))"

definition createRsyncServerConfig :: "'s transfer_client \<Rightarrow> rsyncTransfer \<Rightarrow> string \<Rightarrow> ('s, unit) act" where
  "createRsyncServerConfig c r ns =
     bindA (pureA (asRootOrPrivileged (DestContainerMutations (rsOptions r)) False False)) (\<lambda>(asRoot, priv).
     bindA (pureA (InDestinationNamespace ns (rsPvcList r))) (\<lambda>l.
     createIfAbsent (tfConfigMaps c)
       \<lparr>cmMeta = objectMetaOf ns defaultRsyncServerConfig (rmdLabels (DestinationPodMeta (rsOptions r))),
        cmData = fmupd ''rsyncd.conf'' (rsyncServerConf (optUsername (rsOptions r)) l (asRoot \<or> priv) priv
          (optMungeSymlinks (rsOptions r))) fmempty\<rparr>))"

definition letters :: string where
  "letters = ''abcdefghijklmnopqrstuvwxyzABCDEFGHIJKLMNOPQRSTUVWXYZ''"

fun drawLetters :: "(nat \<Rightarrow> ('s, nat) act) \<Rightarrow> nat \<Rightarrow> ('s, string) act" where
  "drawLetters draw 0 = retA []"
| "drawLetters draw (Suc n) = bindA (draw (length letters)) (\<lambda>i.
     if i < length letters then bindA (drawLetters draw n) (\<lambda>cs. retA (letters ! i # cs))
     else failA (Panic ''index out of range''))"

text \<open>The password that is drawn is kept in the transfer; the secret holds the one of the options.\<close>

definition createRsyncServerSecret :: "(nat \<Rightarrow> ('s, nat) act) \<Rightarrow> 's transfer_client \<Rightarrow> rsyncTransfer \<Rightarrow> string
    \<Rightarrow> ('s, rsyncTransfer \<times> goerror option) act" where
  "createRsyncServerSecret draw c r ns =
     bindA (drawLetters draw 24) (\<lambda>password.
     bindA (errOfA (createIfAbsent (tfSecrets c)
       \<lparr>secMeta = objectMetaOf ns defaultRsyncServerSecret (rmdLabels (DestinationPodMeta (rsOptions r))),
        secData = fmupd ''credentials'' (optUsername (rsOptions r) @ '':'' @ optPassword (rsOptions r)) fmempty\<rparr>)) (\<lambda>err.
     retA (r\<lparr>rsPassword := password\<rparr>, err)))"

definition createRsyncServerResources :: "(nat \<Rightarrow> ('s, nat) act) \<Rightarrow> 's transfer_client \<Rightarrow> rsyncTransfer \<Rightarrow> string
    \<Rightarrow> ('s, rsyncTransfer \<times> goerror option) act" where
  "createRsyncServerResources draw c r0 ns =
     (let r = r0\<lparr>rsUsername := defaultRsyncUser, rsPort := rsyncPort\<rparr> in
      bindA (errOfA (createRsyncServerConfig c r ns)) (\<lambda>err. case err of
        Some e \<Rightarrow> retA (r, Some e)
      | None \<Rightarrow> createRsyncServerSecret draw c r ns))"

text \<open>The claims of the list that are file systems; both claims of a pair are read.\<close>

definition filesystemClaims :: "pvcPairList \<Rightarrow> pvcPairList result" where
  "filesystemClaims = concatR (\<lambda>p. bindR (sourceClaim p) (\<lambda>c. Inr (if isFilesystem c then [p] else [])))"

definition rsyncServerContainer :: "rsyncTransfer \<Rightarrow> pvcPairList \<Rightarrow> container" where
  "rsyncServerContainer r fs =
     (let port = tiExposedPort (rsTransport r) in
      (containerOf RsyncContainer (getRsyncServerImage r)
        [''/usr/bin/rsync'', ''--daemon'', ''--no-detach'', ''--port='' @ portText port, ''-vvv''])
      \<lparr>ctPorts := [(''rsyncd'', ''TCP'', port)],
       ctMounts := [mountOf defaultRsyncServerConfig ''/etc/rsyncd.conf'' ''rsyncd.conf'',
           mountOf defaultRsyncServerSecret ''/etc/rsync-secret'' []] @
         map (\<lambda>p. mountOf (destName p) (getMountPathForPVC (destOf p) (destName p)) []) fs\<rparr>)"

definition rsyncServerVolumes :: "rsyncTransfer \<Rightarrow> pvcPairList \<Rightarrow> volume list" where
  "rsyncServerVolumes r fs =
     map (\<lambda>p. \<lparr>volName = destName p, volSource = FromClaim (claimName (destOf p))\<rparr>) fs @
     [\<lparr>volName = defaultRsyncServerConfig, volSource = FromConfigMap defaultRsyncServerConfig\<rparr>,
      \<lparr>volName = defaultRsyncServerSecret,
       volSource = FromSecret defaultRsyncServerSecret [(''credentials'', ''rsyncd.secrets'')] (Some 384)\<rparr>] @
     tiServerVolumes (rsTransport r)"

definition rsyncServerPod :: "rsyncTransfer \<Rightarrow> string \<Rightarrow> pvcPairList \<Rightarrow> pod" where
  "rsyncServerPod r ns fs =
     \<lparr>poMeta = objectMetaOf ns ''rsync-server'' (rmdLabels (DestinationPodMeta (rsOptions r))), poGenerateName = [],
      poSpec = applyPodMutations (DestinationPodMutations (rsOptions r))
        \<lparr>psContainers = map (applyContainerMutations (DestContainerMutations (rsOptions r)))
           (rsyncServerContainer r fs # tiServerContainers (rsTransport r)),
         psVolumes = rsyncServerVolumes r fs, psRestartPolicy = [], psNodeSelector = fmempty, psNodeName = [], psSecurity = None\<rparr>,
      poStatuses = [], poPhase = []\<rparr>"

text \<open>An error that says the pod exists is returned too.\<close>

definition createRsyncServer :: "'s transfer_client \<Rightarrow> rsyncTransfer \<Rightarrow> string \<Rightarrow> ('s, unit) act" where
  "createRsyncServer c r ns =
     bindA (pureA (bindR (InDestinationNamespace ns (rsPvcList r)) filesystemClaims)) (\<lambda>fs.
     if length fs > 0 then k_create (tfPods c) (rsyncServerPod r ns fs) else retA ())"

definition firstR :: "string list \<Rightarrow> string result" where
  "firstR xs = (case xs of [] \<Rightarrow> Inl (Panic ''index out of range'') | x # _ \<Rightarrow> Inr x)"

definition rsyncCreateServer :: "aggregator \<Rightarrow> (nat \<Rightarrow> ('s, nat) act) \<Rightarrow> 's transfer_client \<Rightarrow> rsyncTransfer
    \<Rightarrow> ('s, rsyncTransfer \<times> goerror option) act" where
  "rsyncCreateServer agg draw c r =
     bindA (pureA (bindR (GetDestinationNamespaces (rsPvcList r)) firstR)) (\<lambda>destNs.
     bindA (createRsyncServerResources draw c r destNs) (\<lambda>(r', e1).
     bindA (errOfA (createRsyncServer c r' destNs)) (\<lambda>e2.
     retA (r', newAggregate agg [e1, e2]))))"

definition rsyncIsServerHealthy :: "'s transfer_client \<Rightarrow> rsyncTransfer \<Rightarrow> ('s, bool) act" where
  "rsyncIsServerHealthy c r =
     bindA (pureA (bindR (GetDestinationNamespaces (rsPvcList r)) firstR)) (\<lambda>ns.
     IsPodHealthy (tfPods c) \<lparr>nnNamespace = ns, nnName = ''rsync-server''\<rparr>)"

section \<open>The client\<close>

definition customizeTransportClientContainers :: "transport_info \<Rightarrow> transport_info result" where
  "customizeTransportClientContainers t = (if tiType t = TransportTypeStunnel
     then bindR (customizeStunnel (waitScript ''/usr/share/rsync/rsync-client-container-done'')
            ''rsync-communication'' ''/usr/share/rsync'' (tiClientContainers t)) (\<lambda>cs. Inr (t\<lparr>tiClientContainers := cs\<rparr>))
     else Inr t)"

definition rsyncCommand :: "rsyncTransfer \<Rightarrow> string list \<Rightarrow> claim \<Rightarrow> string \<Rightarrow> string \<Rightarrow> string" where
  "rsyncCommand r options c srcLabel destLabel = joinS '' '' ([''/usr/bin/rsync''] @ options @
     (if isFilesystem c then [getMountPathForPVC c srcLabel @ ''/''] else []) @
     [''rsync://'' @ optUsername (rsOptions r) @ ''@'' @ ConnectionHostname (rsTransport r) (rsEndpoint r) @ ''/'' @ destLabel @
      '' --port '' @ portText (tiPort (rsTransport r))])"

definition rsyncScript :: "32 word \<Rightarrow> string \<Rightarrow> string" where
  "rsyncScript port command =
     ''trap \"touch /usr/share/rsync/rsync-client-container-done\" EXIT SIGINT SIGTERM; timeout=120; SECONDS=0; while [ $SECONDS -lt $timeout ]; do nc -z localhost '' @
     portText port @ ''; rc=$?; if [ $rc -eq 0 ]; then '' @ command @ ''; rc=$?; break; fi; done; exit $rc;''"

definition rsyncClientContainer :: "rsyncTransfer \<Rightarrow> string list \<Rightarrow> claim \<Rightarrow> string \<Rightarrow> string \<Rightarrow> container" where
  "rsyncClientContainer r options c srcLabel destLabel =
     (containerOf RsyncContainer (getRsyncClientImage r)
        [''/bin/bash'', ''-c'', rsyncScript (tiPort (rsTransport r)) (rsyncCommand r options c srcLabel destLabel)])
     \<lparr>ctEnv := [(''RSYNC_PASSWORD'', optPassword (rsOptions r))],
      ctMounts := mountOf ''rsync-communication'' ''/usr/share/rsync'' [] #
        (if isFilesystem c then [mountOf ''mnt'' (getMountPathForPVC c srcLabel) []] else [])\<rparr>"

definition rsyncClientPod :: "rsyncTransfer \<Rightarrow> string list \<Rightarrow> claim \<Rightarrow> string \<Rightarrow> string \<Rightarrow> pod" where
  "rsyncClientPod r options c srcLabel destLabel =
     \<lparr>poMeta = objectMetaOf (claimNamespace c) [] (rmdLabels (SourcePodMeta (rsOptions r))), poGenerateName = ''rsync-'',
      poSpec = applyPodMutations (SourcePodMutations (rsOptions r))
        \<lparr>psContainers = map (applyContainerMutations (SourceContainerMutations (rsOptions r)))
           (rsyncClientContainer r options c srcLabel destLabel # tiClientContainers (rsTransport r)),
         psVolumes = \<lparr>volName = ''rsync-communication'', volSource = EmptyDir\<rparr> #
           (if isFilesystem c then [\<lparr>volName = ''mnt'', volSource = FromClaim (claimName c)\<rparr>] else []) @
           tiClientVolumes (rsTransport r),
         psRestartPolicy = ''Never'', psNodeSelector = fmempty, psNodeName = [], psSecurity = None\<rparr>,
      poStatuses = [], poPhase = []\<rparr>"

text \<open>
  One round of the loop: the transport's containers are customized again in each, and a pod is
  created for a file system.
\<close>

definition rsyncClientStep :: "'s transfer_client \<Rightarrow> string list \<Rightarrow> pvcPair option \<Rightarrow> rsyncTransfer
    \<Rightarrow> ('s, rsyncTransfer \<times> goerror option list) act" where
  "rsyncClientStep c options p r =
     bindA (pureA (sourceClaim p)) (\<lambda>src.
     bindA (pureA (bindR (derefR p) (\<lambda>x. derefR (ppDestination x)))) (\<lambda>dest.
     bindA (pureA (customizeTransportClientContainers (rsTransport r))) (\<lambda>t.
       (let r' = r\<lparr>rsTransport := t\<rparr> in
        if isFilesystem src
        then bindA (errOfA (k_create (tfPods c) (rsyncClientPod r' options src (srcName p) (pLabelSafeName dest)))) (\<lambda>err. retA (r', [err]))
        else retA (r', [])))))"

fun rsyncClientLoop :: "'s transfer_client \<Rightarrow> string list \<Rightarrow> pvcPairList \<Rightarrow> goerror option list \<Rightarrow> rsyncTransfer
    \<Rightarrow> ('s, rsyncTransfer \<times> goerror option list) act" where
  "rsyncClientLoop c options [] errs r = retA (r, errs)"
| "rsyncClientLoop c options (p # ps) errs r =
     bindA (rsyncClientStep c options p r) (\<lambda>(r', es). rsyncClientLoop c options ps (errs @ es) r')"

definition createRsyncClient :: "aggregator \<Rightarrow> 's transfer_client \<Rightarrow> string \<Rightarrow> rsyncTransfer
    \<Rightarrow> ('s, rsyncTransfer \<times> goerror option) act" where
  "createRsyncClient agg c ns r = (case AsRsyncCommandOptions agg (rsOptions r) of (options, err) \<Rightarrow> (case err of
       Some e \<Rightarrow> retA (r, Some e)
     | None \<Rightarrow>
         bindA (pureA (InSourceNamespace ns (rsPvcList r))) (\<lambda>l.
         bindA (rsyncClientLoop c options l [] r) (\<lambda>(r', errs).
         retA (r', newAggregate agg errs)))))"

text \<open>Nothing is created before the pods.\<close>

definition createRsyncClientResources :: "('s, unit) act" where
  "createRsyncClientResources = retA ()"

definition rsyncCreateClient :: "aggregator \<Rightarrow> 's transfer_client \<Rightarrow> rsyncTransfer \<Rightarrow> ('s, rsyncTransfer \<times> goerror option) act" where
  "rsyncCreateClient agg c r =
     bindA (pureA (firstR (GetSourceNamespaces (rsPvcList r)))) (\<lambda>sourceNs.
     bindA (errOfA createRsyncClientResources) (\<lambda>e1.
     bindA (createRsyncClient agg c sourceNs r) (\<lambda>(r', e2).
     retA (r', newAggregate agg [e1, e2]))))"

end
