(* ===== verification/Blockrsync.thy ===== *)
theory Blockrsync
  imports Transfers RsyncOptions Rsync
begin

text \<open>
  \<open>state_transfer/transfer/blockrsync\<close>: the transfer of block volumes and virtual machine disks. A
  label map is shared between the options (or the endpoint) and the objects made from it, and
  is written to; \<open>None\<close> is a nil map, which cannot be written. The methods of the transport and of the endpoint are
  arguments.
\<close>

record 's remote_methods =
  transportCreateClient :: "string \<Rightarrow> endpoint_info \<Rightarrow> transport_info \<Rightarrow> ('s, transport_info \<times> goerror option) act"
  endpointCreateMethod :: "endpoint_info \<Rightarrow> ('s, endpoint_info \<times> goerror option) act"

text \<open>\<open>m[k] = v\<close>\<close>

definition assignR :: "string \<Rightarrow> string \<Rightarrow> labels option \<Rightarrow> labels result" where
  "assignR k v m = (case m of None \<Rightarrow> Inl (Panic ''assignment to entry in nil map'') | Some ls \<Rightarrow> Inr (fmupd k v ls))"

definition labelsOf :: "labels option \<Rightarrow> labels" where
  "labelsOf m = (case m of None \<Rightarrow> fmempty | Some ls \<Rightarrow> ls)"

record blockOptions =
  boSourceLabels :: "labels option"
  boDestinationLabels :: "labels option"
  boServerImage :: string
  boClientImage :: string
  boNodeName :: string

definition GetBlockrsyncServerImage :: "blockOptions \<Rightarrow> string" where
  "GetBlockrsyncServerImage t = (if boServerImage t = [] then DefaultRsyncTransferImage else boServerImage t)"

definition GetBlockrsyncClientImage :: "blockOptions \<Rightarrow> string" where
  "GetBlockrsyncClientImage t = (if boClientImage t = [] then DefaultRsyncTransferImage else boClientImage t)"

definition applyServerImage :: "string \<Rightarrow> blockOptions \<Rightarrow> blockOptions" where
  "applyServerImage r opts = opts\<lparr>boServerImage := r\<rparr>"

definition applyClientImage :: "string \<Rightarrow> blockOptions \<Rightarrow> blockOptions" where
  "applyClientImage r opts = opts\<lparr>boClientImage := r\<rparr>"

record blockTransfer =
  btPvcList :: pvcPairList
  btTransport :: transport_info
  btEndpoint :: endpoint_info
  btEndpointLabels :: "labels option" \<comment> \<open>the map the endpoint's \<open>Labels()\<close> returns\<close>
  btOptions :: blockOptions

definition endpointNow :: "blockTransfer \<Rightarrow> endpoint_info" where
  "endpointNow r = (btEndpoint r)\<lparr>epLabels := labelsOf (btEndpointLabels r)\<rparr>"

section \<open>Validation\<close>

definition isPVCBlock :: "claim \<Rightarrow> bool" where
  "isPVCBlock c \<longleftrightarrow> pvcMode c = Some ''Block''"

definition isBlockOrKubeVirtDisk :: "claim \<Rightarrow> goerror option list" where
  "isBlockOrKubeVirtDisk c = (if \<not> isPVCBlock c \<and> fmlookup (rmAnnotations (pvcMeta c)) kubeVirtAnnKey \<noteq> Some kubevirtContentType
     then [Some (errorf (claimName c @ '' is not a block, or VM disk volume''))] else [])"

definition validateBlockName :: "pod_validation \<Rightarrow> aggregator \<Rightarrow> pvcPair option \<Rightarrow> goerror option result" where
  "validateBlockName V agg p =
     bindR (derefR p) (\<lambda>x. bindR (derefR (ppSource x)) (\<lambda>src. bindR (nameError V src) (\<lambda>e1.
     bindR (derefR (ppDestination x)) (\<lambda>dest. bindR (nameError V dest) (\<lambda>e2.
     bindR (derefR (pClaim src)) (\<lambda>c. bindR (derefR (pClaim dest)) (\<lambda>d.
     Inr (newAggregate agg (e1 @ e2 @ isBlockOrKubeVirtDisk c @ isBlockOrKubeVirtDisk d)))))))))"

text \<open>Only the first claim is looked at.\<close>

definition validateBlockList :: "pod_validation \<Rightarrow> aggregator \<Rightarrow> pvcPairList \<Rightarrow> goerror option result" where
  "validateBlockList V agg l =
     bindR (GetDestinationNamespaces l) (\<lambda>dest.
     bindR (case l of [] \<Rightarrow> Inr [Some (errorf ''at least one pvc must be provided'')]
       | p # _ \<Rightarrow> bindR (validateBlockName V agg p) (\<lambda>err. case err of
           None \<Rightarrow> Inr []
         | Some e \<Rightarrow> bindR (sourceClaim p) (\<lambda>c. Inr [newAggregate agg
             [Some (errorf (''pvc name validation failed for pvc '' @ claimName c @ '' with error'')), Some e]]))) (\<lambda>errs.
     Inr (newAggregate agg
       ((if length (GetSourceNamespaces l) > 1 \<or> length dest > 1
         then [Some (errorf ''rsync transfer does not support migrating PVCs belonging to multiple source/destination namespaces'')]
         else []) @ errs))))"

definition newBlockTransfer :: "pod_validation \<Rightarrow> aggregator \<Rightarrow> transport_info \<Rightarrow> endpoint_info \<Rightarrow> labels option
    \<Rightarrow> pvcPairList \<Rightarrow> blockOptions \<Rightarrow> blockTransfer result" where
  "newBlockTransfer V agg t e ls l opts = bindR (validateBlockList V agg l) (\<lambda>err. case err of
     Some err' \<Rightarrow> Inl (Error err')
   | None \<Rightarrow> Inr \<lparr>btPvcList = l, btTransport = t, btEndpoint = e, btEndpointLabels = ls, btOptions = opts\<rparr>)"

section \<open>Commands and volumes\<close>

definition stunnelCommunicationVolumeName :: string where "stunnelCommunicationVolumeName = ''stunnel-communication''"
definition stunnelCommunicationVolumePath :: string where "stunnelCommunicationVolumePath = ''/usr/share/stunnel-communication''"
definition rsyncDoneFile :: string where "rsyncDoneFile = ''blockrsync-done''"
definition proxyListenPort :: string where "proxyListenPort = ''9002''"
definition BlockRsyncContainer :: string where "BlockRsyncContainer = ''blockrsync''"
definition ProxyContainer :: string where "ProxyContainer = ''proxy''"
definition blockrsyncServerPodName :: string where "blockrsyncServerPodName = ''blockrsync-server''"

definition bashCommand :: "string list \<Rightarrow> string list" where
  "bashCommand cmd = [''/bin/bash'', ''-c'', joinS '' '' cmd]"

definition getProxyCommand :: "32 word \<Rightarrow> string \<Rightarrow> string list" where
  "getProxyCommand port identifier = bashCommand [''/proxy'', ''--source'', ''--target-address'', ''localhost'',
     ''--identifier'', identifier, ''--listen-port'', proxyListenPort, ''--target-port'', portText port,
     ''--control-file'', stunnelCommunicationVolumePath @ ''/'' @ rsyncDoneFile]"

definition getBlockrsyncCommand :: "string \<Rightarrow> string \<Rightarrow> string list" where
  "getBlockrsyncCommand port file = bashCommand [''/blockrsync'', file, ''--source'', ''--target-address'', ''localhost'',
     ''--port'', port, ''--zap-log-level'', ''3'', ''--block-size'', ''131072'']"

text \<open>The path of a volume in its container: a device, or the disk image of a file system.\<close>

definition volumePath :: "claim \<Rightarrow> string \<Rightarrow> string" where
  "volumePath c identifier = (if pvcMode c = Some ''Block'' then ''/dev/'' @ identifier else ''/mnt/'' @ identifier @ ''/disk.img'')"

definition addVolumeToContainer :: "claim \<Rightarrow> string \<Rightarrow> string \<Rightarrow> container \<Rightarrow> container" where
  "addVolumeToContainer c header identifier k =
     (let k1 = k\<lparr>ctEnv := ctEnv k @ [(''id-'' @ header, volumePath c identifier)]\<rparr> in
      if pvcMode c = Some ''Block'' then k1\<lparr>ctDevices := ctDevices k @ [(identifier, ''/dev/'' @ identifier)]\<rparr>
      else k1\<lparr>ctMounts := ctMounts k @ [mountOf identifier (''/mnt/'' @ identifier) []]\<rparr>)"

definition customizeTransportContainers :: "transport_info \<Rightarrow> transport_info result" where
  "customizeTransportContainers t = (if tiType t = TransportTypeStunnel
     then bindR (customizeStunnel (waitScript ''/usr/share/stunnel-communication/blockrsync-done'')
            stunnelCommunicationVolumeName stunnelCommunicationVolumePath (tiClientContainers t)) (\<lambda>cs. Inr (t\<lparr>tiClientContainers := cs\<rparr>))
     else Inr t)"

definition communicationMount :: volumeMount where
  "communicationMount = mountOf stunnelCommunicationVolumeName stunnelCommunicationVolumePath []"

section \<open>The client\<close>

definition proxyContainerOf :: "blockTransfer \<Rightarrow> string \<Rightarrow> container" where
  "proxyContainerOf r label = (containerOf ProxyContainer (GetBlockrsyncClientImage (btOptions r)) (getProxyCommand (tiPort (btTransport r)) label))
     \<lparr>ctPullPolicy := ''Always'', ctMounts := [communicationMount]\<rparr>"

definition blockClientContainer :: "blockTransfer \<Rightarrow> claim \<Rightarrow> string \<Rightarrow> container" where
  "blockClientContainer r c label =
     (let k = addVolumeToContainer c label label
            ((containerOf BlockRsyncContainer (GetBlockrsyncClientImage (btOptions r)) [])\<lparr>ctPullPolicy := ''Always''\<rparr>)
      in k\<lparr>ctCommand := getBlockrsyncCommand proxyListenPort (snd (ctEnv k ! 0))\<rparr>)"

definition blockClientPod :: "blockTransfer \<Rightarrow> claim \<Rightarrow> string \<Rightarrow> pod" where
  "blockClientPod r c label =
     \<lparr>poMeta = objectMetaOf (claimNamespace c) [] (labelsOf (boSourceLabels (btOptions r))), poGenerateName = ''blockrsync-'',
      poSpec = \<lparr>psContainers = [proxyContainerOf r label, blockClientContainer r c label] @ tiClientContainers (btTransport r),
        psVolumes = [\<lparr>volName = label, volSource = FromClaim (claimName c)\<rparr>,
          \<lparr>volName = stunnelCommunicationVolumeName, volSource = EmptyDir\<rparr>] @ tiClientVolumes (btTransport r),
        psRestartPolicy = ''OnFailure'', psNodeSelector = fmempty,
        psNodeName = (if boNodeName (btOptions r) \<noteq> [] then boNodeName (btOptions r) else []), psSecurity = None\<rparr>,
      poStatuses = [], poPhase = []\<rparr>"

text \<open>The label of the claim is written into the options' own map.\<close>

definition createBlockrsyncClient :: "'s transfer_client \<Rightarrow> pvcPair option \<Rightarrow> blockTransfer \<Rightarrow> ('s, blockTransfer \<times> goerror option) act" where
  "createBlockrsyncClient c p r =
     bindA (pureA (bindR (derefR p) (\<lambda>x. derefR (ppSource x)))) (\<lambda>src.
     bindA (pureA (assignR ''pvc'' (pLabelSafeName src) (boSourceLabels (btOptions r)))) (\<lambda>ls.
     bindA (pureA (derefR (pClaim src))) (\<lambda>cl.
     bindA (pureA (customizeTransportContainers (btTransport r))) (\<lambda>t.
       (let r' = r\<lparr>btOptions := (btOptions r)\<lparr>boSourceLabels := Some ls\<rparr>, btTransport := t\<rparr> in
        bindA (errOfA (k_create (tfPods c) (blockClientPod r' cl (pLabelSafeName src)))) (\<lambda>err. retA (r', err)))))))"

definition blockCreateClient :: "'s remote_methods \<Rightarrow> 's transfer_client \<Rightarrow> blockTransfer \<Rightarrow> ('s, blockTransfer \<times> goerror option) act" where
  "blockCreateClient M c r = (case btPvcList r of
     [] \<Rightarrow> failA (Panic ''index out of range'')
   | p # _ \<Rightarrow> bindA (transportCreateClient M ''block'' (endpointNow r) (btTransport r)) (\<lambda>(t, err).
       (let r' = r\<lparr>btTransport := t\<rparr> in case err of
          Some e \<Rightarrow> retA (r', Some e)
        | None \<Rightarrow> createBlockrsyncClient c p r')))"

section \<open>The server\<close>

definition blockServerCommand :: "transport_info \<Rightarrow> pvcPairList \<Rightarrow> string list" where
  "blockServerCommand t l = bashCommand ([''/proxy'', ''--target'', ''--listen-port'', portText (tiExposedPort t),
     ''--blockrsync-path'', ''/blockrsync'', ''--control-file'', stunnelCommunicationVolumePath @ ''/'' @ rsyncDoneFile,
     ''--block-size'', ''131072''] @ concat (map (\<lambda>p. [''--identifier'', srcName p]) l))"

definition blockServerContainer :: "blockTransfer \<Rightarrow> container" where
  "blockServerContainer r =
     (let t = btTransport r; l = btPvcList r;
          k = (containerOf BlockRsyncContainer (GetBlockrsyncServerImage (btOptions r)) [])
            \<lparr>ctPullPolicy := ''Always'', ctPorts := [(''blockrsync'', ''TCP'', tiExposedPort t)], ctMounts := [communicationMount]\<rparr>
      in (foldl (\<lambda>k p. addVolumeToContainer (destOf p) (srcName p) (destName p) k) k l)\<lparr>ctCommand := blockServerCommand t l\<rparr>)"

definition blockServerPod :: "blockTransfer \<Rightarrow> string \<Rightarrow> pod" where
  "blockServerPod r ns =
     \<lparr>poMeta = objectMetaOf ns blockrsyncServerPodName (labelsOf (boSourceLabels (btOptions r))), poGenerateName = [],
      poSpec = \<lparr>psContainers = blockServerContainer r # tiServerContainers (btTransport r),
        psVolumes = map (\<lambda>p. \<lparr>volName = destName p, volSource = FromClaim (claimName (destOf p))\<rparr>) (btPvcList r) @
          [\<lparr>volName = stunnelCommunicationVolumeName, volSource = EmptyDir\<rparr>] @ tiServerVolumes (btTransport r),
        psRestartPolicy = ''OnFailure'', psNodeSelector = fmempty, psNodeName = [], psSecurity = None\<rparr>,
      poStatuses = [], poPhase = []\<rparr>"

text \<open>The loop over the claims reads the label of each source and each destination claim.\<close>

definition readPair :: "pvcPair option \<Rightarrow> unit list result" where
  "readPair p = bindR (derefR p) (\<lambda>x. bindR (derefR (ppSource x)) (\<lambda>_. bindR (claimR (ppDestination x)) (\<lambda>_. Inr [])))"

definition createBlockrsyncServer :: "'s transfer_client \<Rightarrow> blockTransfer \<Rightarrow> ('s, unit) act" where
  "createBlockrsyncServer c r =
     bindA (pureA (bindR (GetDestinationNamespaces (btPvcList r)) firstR)) (\<lambda>destNs.
     bindA (pureA (concatR readPair (btPvcList r))) (\<lambda>_.
     k_create (tfPods c) (blockServerPod r destNs)))"

definition blockCreateServer :: "'s remote_methods \<Rightarrow> 's transfer_client \<Rightarrow> blockTransfer \<Rightarrow> ('s, blockTransfer \<times> goerror option) act" where
  "blockCreateServer M c r = bindA (errOfA (createBlockrsyncServer c r)) (\<lambda>err. case err of
     Some e \<Rightarrow> retA (r, Some e)
   | None \<Rightarrow> bindA (endpointCreateMethod M (endpointNow r)) (\<lambda>(e, err2). retA (r\<lparr>btEndpoint := e\<rparr>, err2)))"

definition blockIsServerHealthy :: "aggregator \<Rightarrow> ('s, pod) list_api \<Rightarrow> blockTransfer \<Rightarrow> ('s, blockTransfer \<times> bool \<times> goerror option) act" where
  "blockIsServerHealthy agg c r = (case btPvcList r of
     [] \<Rightarrow> failA (Panic ''index out of range'')
   | p # _ \<Rightarrow>
       bindA (pureA (bindR (derefR p) (\<lambda>x. derefR (ppDestination x)))) (\<lambda>dest.
       bindA (pureA (assignR ''pvc'' (pLabelSafeName dest) (btEndpointLabels r))) (\<lambda>ls.
       bindA (pureA (bindR (GetDestinationNamespaces (btPvcList r)) firstR)) (\<lambda>ns.
       bindA (AreFilteredPodsHealthy agg c ns ls) (\<lambda>res. retA (r\<lparr>btEndpointLabels := Some ls\<rparr>, res))))))"

end
