(* ===== verification/Rclone.thy ===== *)
theory Rclone
  imports Blockrsync
begin

text \<open>
  \<open>state_transfer/transfer/rclone\<close>: the transfer of one claim by rclone over HTTP. The server draws
  a password that the client's configuration repeats. The map of the endpoint's labels is
  written to by both sides; \<open>None\<close> is a nil map.
\<close>

record deployment =
  dpMeta :: resourceMeta
  dpSelector :: labels
  dpTemplateLabels :: labels
  dpSpec :: podSpecification

record 's rclone_client =
  rcConfigMaps :: "('s, configMap) kind_api"
  rcPods :: "('s, pod) kind_api"
  rcDeployments :: "('s, deployment) kind_api"

definition rcloneUser :: string where "rcloneUser = ''crane2''"
definition rcloneImage :: string where "rcloneImage = ''quay.io/jmontleon/rclone-transfer:latest''"
definition rclonePort :: "32 word" where "rclonePort = 8080"
definition rcloneConfigPrefix :: string where "rcloneConfigPrefix = ''crane2-rclone-config-''"

record rcloneTransfer =
  rcUsername :: string
  rcPassword :: string
  rcPvcList :: pvcPairList
  rcTransport :: transport_info
  rcEndpoint :: endpoint_info
  rcLabels :: "labels option" \<comment> \<open>the map the endpoint's \<open>Labels()\<close> returns\<close>
  rcPort :: "32 word"

definition rcEndpointNow :: "rcloneTransfer \<Rightarrow> endpoint_info" where
  "rcEndpointNow r = (rcEndpoint r)\<lparr>epLabels := labelsOf (rcLabels r)\<rparr>"

definition validateRcloneList :: "pvcPairList \<Rightarrow> goerror option" where
  "validateRcloneList l =
     (if length l > 1 then Some (errorf ''unimplemented: rclone transfer does not support multiple pvcs'')
      else if length l = 0 then Some (errorf ''at least one pvc must be provided'') else None)"

definition newRcloneTransfer :: "transport_info \<Rightarrow> endpoint_info \<Rightarrow> labels option \<Rightarrow> pvcPairList \<Rightarrow> rcloneTransfer ret" where
  "newRcloneTransfer t e ls l = (case validateRcloneList l of
     Some err \<Rightarrow> Inl err
   | None \<Rightarrow> Inr \<lparr>rcUsername = [], rcPassword = [], rcPvcList = l, rcTransport = t, rcEndpoint = e, rcLabels = ls, rcPort = 0\<rparr>)"

definition firstPair :: "pvcPairList \<Rightarrow> pvcPair option result" where
  "firstPair l = (case l of [] \<Rightarrow> Inl (Panic ''index out of range'') | p # _ \<Rightarrow> Inr p)"

definition labelR :: "pvc option \<Rightarrow> string result" where
  "labelR p = bindR (derefR p) (\<lambda>x. Inr (pLabelSafeName x))"

definition sourceLabel :: "pvcPair option \<Rightarrow> string result" where
  "sourceLabel p = bindR (derefR p) (\<lambda>x. labelR (ppSource x))"

definition destinationLabel :: "pvcPair option \<Rightarrow> string result" where
  "destinationLabel p = bindR (derefR p) (\<lambda>x. labelR (ppDestination x))"

section \<open>The server\<close>

definition rcloneServerConf :: string where
  "rcloneServerConf = nl ''[mnt]'' @ nl ''type = local''"

definition rcloneConfigMap :: "labels \<Rightarrow> claim \<Rightarrow> string \<Rightarrow> string \<Rightarrow> configMap" where
  "rcloneConfigMap ls c label conf = \<lparr>cmMeta = objectMetaOf (claimNamespace c) (rcloneConfigPrefix @ label) ls,
     cmData = fmupd ''rclone.conf'' conf fmempty\<rparr>"

definition createRcloneServerConfig :: "'s rclone_client \<Rightarrow> rcloneTransfer \<Rightarrow> pvcPair option \<Rightarrow> ('s, unit) act" where
  "createRcloneServerConfig c r p =
     bindA (pureA (destinationClaim p)) (\<lambda>cl. bindA (pureA (destinationLabel p)) (\<lambda>label.
     k_create (rcConfigMaps c) (rcloneConfigMap (labelsOf (rcLabels r)) cl label rcloneServerConf)))"

definition createRcloneServerResources :: "(nat \<Rightarrow> ('s, nat) act) \<Rightarrow> 's rclone_client \<Rightarrow> pvcPair option \<Rightarrow> rcloneTransfer
    \<Rightarrow> ('s, rcloneTransfer \<times> goerror option) act" where
  "createRcloneServerResources draw c p r =
     bindA (drawLetters draw 24) (\<lambda>password.
       (let r' = r\<lparr>rcPassword := password, rcPort := rclonePort, rcUsername := rcloneUser\<rparr> in
        bindA (errOfA (createRcloneServerConfig c r' p)) (\<lambda>err. retA (r', err))))"

definition rcloneMounts :: "string \<Rightarrow> volumeMount list" where
  "rcloneMounts label = [mountOf ''mnt'' ''/mnt'' [], mountOf (rcloneConfigPrefix @ label) ''/etc/rclone.conf'' ''rclone.conf'']"

definition rcloneVolumes :: "claim \<Rightarrow> string \<Rightarrow> volume list" where
  "rcloneVolumes c label = [\<lparr>volName = ''mnt'', volSource = FromClaim (claimName c)\<rparr>,
     \<lparr>volName = rcloneConfigPrefix @ label, volSource = FromConfigMap (rcloneConfigPrefix @ label)\<rparr>]"

definition podSpecOf :: "container list \<Rightarrow> volume list \<Rightarrow> string \<Rightarrow> podSpecification" where
  "podSpecOf cs vs policy = \<lparr>psContainers = cs, psVolumes = vs, psRestartPolicy = policy, psNodeSelector = fmempty,
     psNodeName = [], psSecurity = None\<rparr>"

definition rcloneServerContainer :: "rcloneTransfer \<Rightarrow> string \<Rightarrow> container" where
  "rcloneServerContainer r label =
     (containerOf ''rclone'' rcloneImage [''/usr/bin/rclone'', ''serve'', ''http'', ''mnt'', ''--user'', rcloneUser, ''--pass'',
        rcPassword r, ''--config'', ''/etc/rclone.conf'', ''--addr'', '':8080''])
     \<lparr>ctPorts := [(''rclone'', ''TCP'', rclonePort)], ctMounts := rcloneMounts label\<rparr>"

definition rcloneDeployment :: "rcloneTransfer \<Rightarrow> labels \<Rightarrow> claim \<Rightarrow> string \<Rightarrow> deployment" where
  "rcloneDeployment r ls c label = \<lparr>dpMeta = objectMetaOf (claimNamespace c) (claimName c) ls, dpSelector = ls, dpTemplateLabels = ls,
     dpSpec = podSpecOf (rcloneServerContainer r label # tiServerContainers (rcTransport r))
       (rcloneVolumes c label @ tiServerVolumes (rcTransport r)) []\<rparr>"

definition createRcloneServer :: "'s rclone_client \<Rightarrow> pvcPair option \<Rightarrow> rcloneTransfer \<Rightarrow> ('s, rcloneTransfer \<times> goerror option) act" where
  "createRcloneServer c p r =
     bindA (pureA (destinationLabel p)) (\<lambda>label.
     bindA (pureA (assignR ''pvc'' label (rcLabels r))) (\<lambda>ls.
     bindA (pureA (destinationClaim p)) (\<lambda>cl.
     bindA (errOfA (k_create (rcDeployments c) (rcloneDeployment r ls cl label))) (\<lambda>err.
     retA (r\<lparr>rcLabels := Some ls\<rparr>, err)))))"

definition rcloneCreateServer :: "'s remote_methods \<Rightarrow> (nat \<Rightarrow> ('s, nat) act) \<Rightarrow> 's rclone_client \<Rightarrow> rcloneTransfer
    \<Rightarrow> ('s, rcloneTransfer \<times> goerror option) act" where
  "rcloneCreateServer M draw c r =
     bindA (pureA (firstPair (rcPvcList r))) (\<lambda>p.
     bindA (createRcloneServerResources draw c p r) (\<lambda>(r1, err1). case err1 of
       Some e \<Rightarrow> retA (r1, Some e)
     | None \<Rightarrow> bindA (createRcloneServer c p r1) (\<lambda>(r2, err2). case err2 of
         Some e \<Rightarrow> retA (r2, Some e)
       | None \<Rightarrow> bindA (endpointCreateMethod M (rcEndpointNow r2)) (\<lambda>(e, err3). retA (r2\<lparr>rcEndpoint := e\<rparr>, err3)))))"

definition rcloneIsServerHealthy :: "aggregator \<Rightarrow> ('s, pod) list_api \<Rightarrow> rcloneTransfer \<Rightarrow> ('s, rcloneTransfer \<times> bool \<times> goerror option) act" where
  "rcloneIsServerHealthy agg c r =
     bindA (pureA (firstPair (rcPvcList r))) (\<lambda>p.
     bindA (pureA (destinationLabel p)) (\<lambda>label.
     bindA (pureA (assignR ''pvc'' label (rcLabels r))) (\<lambda>ls.
     bindA (pureA (bindR (GetDestinationNamespaces (rcPvcList r)) firstR)) (\<lambda>ns.
     bindA (AreFilteredPodsHealthy agg c ns ls) (\<lambda>res. retA (r\<lparr>rcLabels := Some ls\<rparr>, res))))))"

section \<open>The client\<close>

definition rcloneClientConf :: "string \<Rightarrow> string \<Rightarrow> string \<Rightarrow> string \<Rightarrow> string" where
  "rcloneClientConf username password hostname port = nl ''[remote]'' @ nl ''type = http'' @
     nl (''url = http://'' @ username @ '':'' @ password @ ''@'' @ hostname @ '':'' @ port)"

definition createRcloneClientConfig :: "'s rclone_client \<Rightarrow> rcloneTransfer \<Rightarrow> pvcPair option \<Rightarrow> ('s, unit) act" where
  "createRcloneClientConfig c r p =
     bindA (pureA (sourceClaim p)) (\<lambda>cl. bindA (pureA (sourceLabel p)) (\<lambda>label.
     k_create (rcConfigMaps c) (rcloneConfigMap (labelsOf (rcLabels r)) cl label
       (rcloneClientConf (rcUsername r) (rcPassword r) (ConnectionHostname (rcTransport r) (rcEndpointNow r))
         (portText (ConnectionPort (rcTransport r) (rcEndpointNow r)))))))"

definition createRcloneClientResources :: "'s rclone_client \<Rightarrow> rcloneTransfer \<Rightarrow> pvcPair option \<Rightarrow> ('s, unit) act" where
  "createRcloneClientResources c r p = createRcloneClientConfig c r p"

definition rcloneClientPod :: "rcloneTransfer \<Rightarrow> labels \<Rightarrow> claim \<Rightarrow> string \<Rightarrow> pod" where
  "rcloneClientPod r ls c label =
     \<lparr>poMeta = objectMetaOf (claimNamespace c) (claimName c) ls, poGenerateName = [],
      poSpec = podSpecOf
        ((containerOf ''rclone'' rcloneImage [''/usr/bin/rclone'', ''sync'', ''remote:/'', ''/mnt'', ''--config'', ''/etc/rclone.conf'',
            ''--http-headers'', ''Host,'' @ epHostname (rcEndpoint r)])\<lparr>ctMounts := rcloneMounts label\<rparr>
         # tiClientContainers (rcTransport r))
        (rcloneVolumes c label @ tiClientVolumes (rcTransport r)) ''OnFailure'',
      poStatuses = [], poPhase = []\<rparr>"

definition createRcloneClient :: "'s rclone_client \<Rightarrow> pvcPair option \<Rightarrow> rcloneTransfer \<Rightarrow> ('s, rcloneTransfer \<times> goerror option) act" where
  "createRcloneClient c p r =
     bindA (pureA (sourceLabel p)) (\<lambda>label.
     bindA (pureA (assignR ''pvc'' label (rcLabels r))) (\<lambda>ls.
     bindA (pureA (sourceClaim p)) (\<lambda>cl.
     bindA (errOfA (k_create (rcPods c) (rcloneClientPod r ls cl label))) (\<lambda>err.
     retA (r\<lparr>rcLabels := Some ls\<rparr>, err)))))"

definition rcloneCreateClient :: "'s remote_methods \<Rightarrow> 's rclone_client \<Rightarrow> rcloneTransfer \<Rightarrow> ('s, rcloneTransfer \<times> goerror option) act" where
  "rcloneCreateClient M c r =
     bindA (pureA (firstPair (rcPvcList r))) (\<lambda>p.
     bindA (errOfA (createRcloneClientResources c r p)) (\<lambda>err1. case err1 of
       Some e \<Rightarrow> retA (r, Some e)
     | None \<Rightarrow> bindA (transportCreateClient M [] (rcEndpointNow r) (rcTransport r)) (\<lambda>(t, err2).
         (let r' = r\<lparr>rcTransport := t\<rparr> in case err2 of
            Some e \<Rightarrow> retA (r', Some e)
          | None \<Rightarrow> createRcloneClient c p r'))))"

end
