(* ===== verification/RsyncOptionProps.thy ===== *)
theory RsyncOptionProps
  imports RsyncOptions
begin

text \<open>What the options promise: the filters are the regular expressions, and the flags what was asked for.\<close>

section \<open>The regular expressions\<close>

definition optionValue :: "string \<Rightarrow> bool" where
  "optionValue v \<longleftrightarrow> (case v of [] \<Rightarrow> True | c # u \<Rightarrow> c = CHR ''='' \<and> CHR 0x0A \<notin> set u)"

definition isWord :: "string \<Rightarrow> bool" where
  "isWord w \<longleftrightarrow> w \<noteq> [] \<and> list_all is_alnum w"

lemma not_alnum [simp]: "\<not> is_alnum CHR ''-''" "\<not> is_alnum CHR ''=''"
  by (simp_all add: is_alnum_def is_digit_def)

lemma joinS_concat: "joinS [c] (w # ws) = w @ concat (map (Cons c) ws)"
  by (induction ws arbitrary: w) auto

lemma optionValue_Cons [simp]: "optionValue (c # u) \<longleftrightarrow> c = CHR ''='' \<and> CHR 0x0A \<notin> set u" "optionValue []"
  by (simp_all add: optionValue_def)

lemma dashedWords_iff:
  "dashedWords b s \<longleftrightarrow> (\<exists>w ws v. list_all is_alnum w \<and> (b \<or> w \<noteq> []) \<and> list_all isWord ws \<and> optionValue v \<and>
     s = w @ concat (map (Cons CHR ''-'') ws) @ v)"
proof (induction b s rule: dashedWords.induct)
  case (1 b)
  show ?case by (auto intro: exI[of _ "[]"])
next
  case (2 b c cs)
  let ?f = "\<lambda>ws v. concat (map (Cons CHR ''-'') ws) @ v"
  consider (word) "is_alnum c" | (dash) "c = CHR ''-''" | (val) "\<not> is_alnum c" "c \<noteq> CHR ''-''" by blast
  then show ?case
  proof cases
    case word
    have "(\<exists>w ws v. list_all is_alnum w \<and> (b \<or> w \<noteq> []) \<and> list_all isWord ws \<and> optionValue v \<and> c # cs = w @ ?f ws v) \<longleftrightarrow>
      (\<exists>w ws v. list_all is_alnum w \<and> list_all isWord ws \<and> optionValue v \<and> cs = w @ ?f ws v)" (is "?L \<longleftrightarrow> ?R")
    proof
      assume ?L
      then obtain w ws v where *: "list_all is_alnum w" "list_all isWord ws" "optionValue v" "c # cs = w @ ?f ws v" by blast
      have "w \<noteq> []" using * word by (cases ws; cases v) auto
      then show ?R using * by (cases w) auto
    next
      assume ?R
      then obtain w ws v where "list_all is_alnum w" "list_all isWord ws" "optionValue v" "cs = w @ ?f ws v" by blast
      then show ?L using word by (intro exI[of _ "c # w"] exI[of _ ws] exI[of _ v]) simp
    qed
    then show ?thesis using 2(1)[OF word] word by simp
  next
    case dash
    have "(\<exists>w ws v. list_all is_alnum w \<and> (b \<or> w \<noteq> []) \<and> list_all isWord ws \<and> optionValue v \<and> c # cs = w @ ?f ws v) \<longleftrightarrow>
      b \<and> (\<exists>w ws v. list_all is_alnum w \<and> w \<noteq> [] \<and> list_all isWord ws \<and> optionValue v \<and> cs = w @ ?f ws v)" (is "?L \<longleftrightarrow> b \<and> ?R")
    proof
      assume ?L
      then obtain w ws v where *: "list_all is_alnum w" "b \<or> w \<noteq> []" "list_all isWord ws" "optionValue v" "c # cs = w @ ?f ws v" by blast
      have "w = []" using * dash by (cases w) auto
      moreover obtain x xs where "ws = x # xs" using * dash \<open>w = []\<close> by (cases ws; cases v) auto
      ultimately have "list_all is_alnum x" "x \<noteq> []" "list_all isWord xs" "cs = x @ ?f xs v" "b"
        using * by (simp_all add: isWord_def)
      then show "b \<and> ?R" using *(4) by blast
    next
      assume "b \<and> ?R"
      then obtain w ws v where "b" "list_all is_alnum w" "w \<noteq> []" "list_all isWord ws" "optionValue v" "cs = w @ ?f ws v" by blast
      then show ?L using dash by (intro exI[of _ "[]"] exI[of _ "w # ws"] exI[of _ v]) (simp add: isWord_def)
    qed
    then show ?thesis using 2(2) dash by (cases b) simp_all
  next
    case val
    have "(\<exists>w ws v. list_all is_alnum w \<and> (b \<or> w \<noteq> []) \<and> list_all isWord ws \<and> optionValue v \<and> c # cs = w @ ?f ws v) \<longleftrightarrow>
      b \<and> optionValue (c # cs)" (is "?L \<longleftrightarrow> _")
    proof
      assume ?L
      then obtain w ws v where *: "list_all is_alnum w" "b \<or> w \<noteq> []" "list_all isWord ws" "optionValue v" "c # cs = w @ ?f ws v" by blast
      have "w = []" using * val by (cases w) auto
      moreover have "ws = []" using * val \<open>w = []\<close> by (cases ws) auto
      ultimately show "b \<and> optionValue (c # cs)" using * by simp
    next
      assume "b \<and> optionValue (c # cs)"
      then show ?L by (intro exI[of _ "[]"] exI[of _ "[]"] exI[of _ "c # cs"]) simp
    qed
    then show ?thesis using val by auto
  qed
qed

text \<open>
  C27. The filter of extra options accepts exactly one or two dashes, words of lower case
  letters and digits joined by single dashes, and perhaps a value after an equals sign; the
  filter of info options exactly capitals and perhaps one digit. Nothing is said of the
  value, which later becomes part of a shell command.
\<close>

theorem option_filters_are_the_regexes:
  "(extraOption s \<longleftrightarrow> (\<exists>dashes ws v. dashes \<in> {''-'', ''--''} \<and> length ws > 0 \<and> list_all isWord ws \<and> optionValue v \<and>
     s = dashes @ joinS ''-'' ws @ v)) \<and>
   (infoOption s \<longleftrightarrow> (\<exists>u d. length u > 0 \<and> list_all is_upper u \<and> (d = [] \<or> (\<exists>c. is_digit c \<and> d = [c])) \<and> s = u @ d))"
proof (rule conjI)
  have words: "dashedWords False t \<longleftrightarrow> (\<exists>ws v. length ws > 0 \<and> list_all isWord ws \<and> optionValue v \<and> t = joinS ''-'' ws @ v)"
    (is "_ \<longleftrightarrow> ?R") for t
  proof
    assume "dashedWords False t"
    then obtain w ws v where "list_all is_alnum w" "w \<noteq> []" "list_all isWord ws" "optionValue v"
      "t = w @ concat (map (Cons CHR ''-'') ws) @ v" unfolding dashedWords_iff by blast
    then show ?R by (intro exI[of _ "w # ws"] exI[of _ v]) (simp add: joinS_concat isWord_def)
  next
    assume ?R
    then obtain w ws v where "isWord w" "list_all isWord ws" "optionValue v" "t = joinS ''-'' (w # ws) @ v"
      by (metis length_greater_0_conv list.exhaust list.pred_inject(2))
    then show "dashedWords False t" unfolding dashedWords_iff joinS_concat isWord_def by auto
  qed
  have nodash: "\<not> dashedWords False (CHR ''-'' # t)" for t by simp
  show "extraOption s \<longleftrightarrow> (\<exists>dashes ws v. dashes \<in> {''-'', ''--''} \<and> length ws > 0 \<and> list_all isWord ws \<and> optionValue v \<and>
     s = dashes @ joinS ''-'' ws @ v)" (is "_ \<longleftrightarrow> ?R")
  proof
    assume "extraOption s"
    then obtain dashes t where "dashes \<in> {''-'', ''--''}" "s = dashes @ t" "dashedWords False t"
    proof -
      from \<open>extraOption s\<close> obtain c d u where s: "s = c # d # u" "c = CHR ''-''"
        and dw: "if d = CHR ''-'' then dashedWords False u else dashedWords False (d # u)"
        unfolding extraOption_def by (fastforce simp del: dashedWords.simps split: list.splits)
      show thesis
      proof (cases "d = CHR ''-''")
        case True
        then show thesis using that[of "''--''" u] s dw by simp
      next
        case False
        then show thesis using that[of "''-''" "d # u"] s dw by simp
      qed
    qed
    then show ?R unfolding words by blast
  next
    assume ?R
    then obtain dashes t where *: "dashes \<in> {''-'', ''--''}" "s = dashes @ t" "dashedWords False t" unfolding words by blast
    have "t \<noteq> []" using *(3) by (cases t) auto
    then obtain c u where "t = c # u" by (cases t) auto
    then have t: "t = c # u" "c \<noteq> CHR ''-''" using nodash[of u] *(3) by auto
    show "extraOption s" using * t by (auto simp: extraOption_def)
  qed
  show "infoOption s \<longleftrightarrow> (\<exists>u d. length u > 0 \<and> list_all is_upper u \<and> (d = [] \<or> (\<exists>c. is_digit c \<and> d = [c])) \<and> s = u @ d)"
    (is "_ \<longleftrightarrow> ?R")
  proof
    assume "infoOption s"
    then have "takeWhile is_upper s \<noteq> []" "dropWhile is_upper s = [] \<or> (\<exists>c. is_digit c \<and> dropWhile is_upper s = [c])"
      by (auto simp: infoOption_def Let_def split: list.splits)
    then show ?R by (intro exI[of _ "takeWhile is_upper s"] exI[of _ "dropWhile is_upper s"])
        (auto simp: list_all_iff dest: set_takeWhileD)
  next
    assume ?R
    then obtain u d where *: "u \<noteq> []" "list_all is_upper u" "d = [] \<or> (\<exists>c. is_digit c \<and> d = [c])" "s = u @ d" by blast
    have "is_digit c \<Longrightarrow> \<not> is_upper c" for c by (simp add: is_digit_def is_upper_def)
    then have "takeWhile is_upper d = []" "dropWhile is_upper d = d" using *(3) by auto
    then have "takeWhile is_upper s = u" "dropWhile is_upper s = d"
      using * by (simp_all add: takeWhile_append dropWhile_append list_all_iff)
    then show "infoOption s" using * by (auto simp: infoOption_def Let_def)
  qed
qed

text \<open>So a value may hold any shell syntax.\<close>

lemma extraOption_accepts_shell: "extraOption ''--rsh=ssh; reboot''"
  by (simp add: extraOption_def is_alnum_def is_digit_def)

section \<open>Flags\<close>

text \<open>
  The command options are accepted exactly when the bandwidth limit, if there is one, is
  positive and every info option and every extra option passes its filter.
\<close>

theorem AsRsyncCommandOptions_valid:
  "snd (AsRsyncCommandOptions agg c) = None \<longleftrightarrow>
     (case BwLimit c of None \<Rightarrow> True | Some n \<Rightarrow> n > 0) \<and> list_all infoOption (Info c) \<and> list_all extraOption (Extras c)"
proof -
  have inv: "invalidOptions ok msg agg xs = None \<longleftrightarrow> list_all ok xs" for ok msg xs
    by (auto simp: invalidOptions_def newAggregate_None list_all_iff)
  show ?thesis
    by (cases "BwLimit c"; cases "Info c = []"; cases "Extras c = []")
      (simp_all add: AsRsyncCommandOptions_def filterRsyncInfoOptions_def filterRsyncExtraOptions_def newAggregate_None inv)
qed

text \<open>
  The default options make the rsync command copy recursively with links, permissions,
  devices, times, owner and group, and log its progress to standard output.
\<close>

theorem default_rsync_command:
  "AsRsyncCommandOptions agg (fst (applyOptions V agg ord GetRsyncCommandDefaultOptions zeroOptions)) =
     ([''--recursive'', ''--links'', ''--perms'', ''--devices'', ''--specials'', ''--times'', ''--owner'', ''--group'',
       ''--human-readable'', ''--log-file=/dev/stdout'',
       ''--info=COPY2,DEL2,REMOVE2,SKIP2,FLIST2,PROGRESS2,STATS2''], None)"
  by (simp add: GetRsyncCommandDefaultOptions_def applyOptions_def zeroOptions_def AsRsyncCommandOptions_def
      filterRsyncInfoOptions_def standardInfo_def infoOption_def is_upper_def is_digit_def invalidOptions_def
      trimSpace_def trimS_def trimRight_def white_def)

text \<open>
  A second mutation of the destination's pod or container is applied to the source's list:
  what was asked for the destination before is lost, and it gets the source's mutations.
\<close>

theorem destination_mutations_forget:
  "(case applyOptions V agg ord [SourcePodSpecMutation a, DestinationPodSpecMutation b, DestinationPodSpecMutation c,
        SourceContainerMutation x, DestinationContainerMutation y, DestinationContainerMutation z] zeroOptions of
      (t, err) \<Rightarrow> DestinationPodMutations t = map (\<lambda>s. NewPodSpecMutation s MutationTypeReplace) [a, c] \<and>
        DestContainerMutations t = map (\<lambda>s. NewContainerMutation s MutationTypeReplace) [x, z] \<and> err = None)"
  by (simp add: applyOptions_def zeroOptions_def)

text \<open>What makes an option valid; the others have an effect all the same.\<close>

definition optionValid :: "pod_validation \<Rightarrow> transferOption \<Rightarrow> bool" where
  "optionValid V x = (case x of
     WithSourcePodLabels w \<Rightarrow> (\<forall>k v. fmlookup w k = Some v \<longrightarrow> isQualifiedName V k = [] \<and> isValidLabelValue V v = [])
   | WithDestinationPodLabels w \<Rightarrow> (\<forall>k v. fmlookup w k = Some v \<longrightarrow> isQualifiedName V k = [] \<and> isValidLabelValue V v = [])
   | WithOwnerReferences refs \<Rightarrow> list_all (\<lambda>r. orKind r \<noteq> [] \<and> orName r \<noteq> [] \<and> orUID r \<noteq> []) refs
   | _ \<Rightarrow> True)"

lemma ApplyTo_valid:
  assumes "ranges_map ord"
  shows "snd (ApplyTo V agg ord x t) = None \<longleftrightarrow> optionValid V x"
proof -
  have v: "ValidateLabels V agg (ord w) w = None \<longleftrightarrow>
      (\<forall>k v. fmlookup w k = Some v \<longrightarrow> isQualifiedName V k = [] \<and> isValidLabelValue V v = [])" for w
    using assms by (simp add: ranges_map_def ValidateLabels_ok)
  show ?thesis
  proof (cases x)
    case (WithSourcePodLabels w)
    then show ?thesis using v[of w] by (cases "ValidateLabels V agg (ord w) w") (simp_all add: optionValid_def)
  next
    case (WithDestinationPodLabels w)
    then show ?thesis using v[of w] by (cases "ValidateLabels V agg (ord w) w") (simp_all add: optionValid_def)
  next
    case (WithOwnerReferences w)
    then show ?thesis by (auto simp: optionValid_def list_ex_iff list_all_iff)
  qed (simp_all add: optionValid_def)
qed

lemma applyOptions_valid:
  assumes "ranges_map ord"
  shows "snd (applyOptions V agg ord opts t) = None \<longleftrightarrow> list_all (optionValid V) opts"
proof -
  have "list_all (\<lambda>e. e = None) (snd (applyEach V agg ord opts t)) \<longleftrightarrow> list_all (optionValid V) opts"
  proof (induction opts arbitrary: t)
    case (Cons x opts)
    obtain t1 err where 1: "ApplyTo V agg ord x t = (t1, err)" by fastforce
    then have "err = None \<longleftrightarrow> optionValid V x" using ApplyTo_valid[OF assms, of V agg x t] by simp
    moreover obtain t2 es where "applyEach V agg ord opts t1 = (t2, es)" by fastforce
    ultimately show ?case using 1 Cons[of t1] by simp
  qed simp
  then show ?thesis by (auto simp: applyOptions_def newAggregate_None list_all_iff split: prod.splits)
qed

end
