(* ===== verification/ClaimProps.thy ===== *)
theory ClaimProps
  imports Claims
begin

text \<open>What the lists of claims promise: two disjoint kinds, and a partition by namespace.\<close>

section \<open>Block and file system\<close>

definition blockPair :: "pvc \<times> pvc \<Rightarrow> bool" where
  "blockPair sd \<longleftrightarrow> isBlockOrVMDisk (pClaim (fst sd))"

lemma newList_loop:
  assumes "concatR (\<lambda>p. bindR (managedPair p) (\<lambda>sd.
      if \<not> sameType sd then Inl e else Inr (if P sd then [pairOf sd] else []))) l = Inr fs"
  shows "\<exists>qs. length qs = length l \<and> (\<forall>i<length l. managedPair (l ! i) = Inr (qs ! i) \<and> sameType (qs ! i)) \<and>
    fs = map pairOf (filter P qs) \<and>
    (\<forall>Q. concatR (\<lambda>p. bindR (managedPair p) (\<lambda>sd. if \<not> sameType sd then Inl e else Inr (if Q sd then [pairOf sd] else []))) l
       = Inr (map pairOf (filter Q qs)))"
  using assms
proof (induction l arbitrary: fs)
  case (Cons p l)
  then obtain sd zs where sd: "managedPair p = Inr sd" "sameType sd"
    and zs: "concatR (\<lambda>p. bindR (managedPair p) (\<lambda>sd. if \<not> sameType sd then Inl e else Inr (if P sd then [pairOf sd] else []))) l = Inr zs"
    and fs: "fs = (if P sd then [pairOf sd] else []) @ zs"
    by (auto simp: result_simps split: if_splits)
  from Cons.IH[OF zs] obtain qs where qs: "length qs = length l" "\<forall>i<length l. managedPair (l ! i) = Inr (qs ! i) \<and> sameType (qs ! i)"
    "zs = map pairOf (filter P qs)"
    "\<forall>Q. concatR (\<lambda>p. bindR (managedPair p) (\<lambda>sd. if \<not> sameType sd then Inl e else Inr (if Q sd then [pairOf sd] else []))) l
       = Inr (map pairOf (filter Q qs))" by blast
  have "\<forall>i<length (p # l). managedPair ((p # l) ! i) = Inr ((sd # qs) ! i) \<and> sameType ((sd # qs) ! i)"
    using qs(2) sd by (simp add: nth_Cons split: nat.split)
  then show ?case using qs sd fs by (intro exI[of _ "sd # qs"]) auto
qed simp

lemma lists_as_loops:
  "NewFilesystemPVCPairList l = concatR (\<lambda>p. bindR (managedPair p) (\<lambda>sd.
     if \<not> sameType sd then Inl (Error (errorf ''source and destination must be the same type of volume''))
     else Inr (if \<not> blockPair sd then [pairOf sd] else []))) l"
  "NewBlockOrVMDiskPVCPairList l = concatR (\<lambda>p. bindR (managedPair p) (\<lambda>sd.
     if \<not> sameType sd then Inl (Error (errorf ''source and destination must be the same type of volume''))
     else Inr (if blockPair sd then [pairOf sd] else []))) l"
  unfolding NewFilesystemPVCPairList_def NewBlockOrVMDiskPVCPairList_def
  by (auto intro!: concatR_cong arg_cong2[where f = bindR] ext simp: blockPair_def sameType_def)


definition ex_claim :: "string \<Rightarrow> string \<Rightarrow> string option \<Rightarrow> claim" where
  "ex_claim ns n mode = \<lparr>pvcMeta = objectMetaOf ns n fmempty, pvcMode = mode\<rparr>"

definition ex_list :: pvcPairList where
  "ex_list = [Some (NewPVCPair id (Some (ex_claim ''app'' ''data'' None)) None),
     Some (NewPVCPair id (Some (ex_claim ''app'' ''disk'' (Some ''Block''))) (Some (ex_claim ''other'' ''disk'' (Some ''Block'')))),
     Some (NewPVCPair id (Some (ex_claim ''app'' ''logs'' (Some ''Filesystem''))) None)]"

lemmas ex_list_simps = ex_list_def NewPVCPair_def newPvc_def ex_claim_def objectMetaOf_def isBlockOrVMDisk_def
  claimNamespace_def claimName_def

lemma ex_list_files: "NewFilesystemPVCPairList ex_list = Inr [ex_list ! 0, ex_list ! 2]"
  by (simp add: NewFilesystemPVCPairList_def ex_list_simps managedPair_def sameType_def pairOf_def)


text \<open>
  A nil pointer inside a pair is not nil as an interface value: the check for a missing
  source never fires for what \<open>NewPVCPair\<close> makes.
\<close>

lemma nil_source_is_accepted:
  "NewFilesystemPVCPairList [Some (NewPVCPair md5 None None)] = Inr [Some (NewPVCPair md5 None None)]"
  by (simp add: NewFilesystemPVCPairList_def NewPVCPair_def newPvc_def managedPair_def sameType_def isBlockOrVMDisk_def pairOf_def)

section \<open>Namespaces\<close>

lemma mset_by_class:
  "distinct ns \<Longrightarrow> f ` set l \<subseteq> set ns \<Longrightarrow> mset (concat (map (\<lambda>n. filter (\<lambda>x. f x = n) l) ns)) = mset l"
proof (induction ns arbitrary: l)
  case (Cons n ns)
  let ?l = "filter (\<lambda>x. f x \<noteq> n) l"
  have "map (\<lambda>n. filter (\<lambda>x. f x = n) l) ns = map (\<lambda>n. filter (\<lambda>x. f x = n) ?l) ns"
    using Cons.prems(1) by (auto intro!: map_cong filter_cong)
  moreover have "mset (concat (map (\<lambda>n. filter (\<lambda>x. f x = n) ?l) ns)) = mset ?l"
  proof (rule Cons.IH)
    show "distinct ns" using Cons.prems(1) by simp
    show "f ` set ?l \<subseteq> set ns" using Cons.prems(2) by auto
  qed
  ultimately have "mset (concat (map (\<lambda>n. filter (\<lambda>x. f x = n) l) ns)) = mset ?l" by (rule trans[OF arg_cong])
  then show ?case using multiset_partition[of "mset l" "\<lambda>x. f x = n"] by simp
qed simp

text \<open>
  The source namespaces are listed once each, and the claims of the list are, up to order,
  the claims of each of them; likewise for the destination namespaces.
\<close>

theorem namespaces_partition:
  assumes "list_all bothClaims l"
  shows "\<exists>dns. GetDestinationNamespaces l = Inr dns \<and> distinct dns \<and> distinct (GetSourceNamespaces l) \<and>
    (\<exists>gs. map (\<lambda>ns. InSourceNamespace ns l) (GetSourceNamespaces l) = map Inr gs \<and> mset (concat gs) = mset l) \<and>
    (\<exists>gs. map (\<lambda>ns. InDestinationNamespace ns l) dns = map Inr gs \<and> mset (concat gs) = mset l)"
proof -
  let ?s = "\<lambda>p. claimNamespace (srcOf p)" and ?d = "\<lambda>p. claimNamespace (destOf p)"
  let ?sn = "addNamespaces [] (map ?s l)" and ?dn = "addNamespaces [] (map ?d l)"
  have "distinct ?sn" "distinct ?dn" by (simp_all add: addNamespaces_props(1))
  moreover have "mset (concat (map (\<lambda>n. filter (\<lambda>x. ?s x = n) l) ?sn)) = mset l"
    "mset (concat (map (\<lambda>n. filter (\<lambda>x. ?d x = n) l) ?dn)) = mset l"
    by (rule mset_by_class; simp add: addNamespaces_props)+
  ultimately show ?thesis
    unfolding GetSourceNamespaces_complete[OF assms] GetDestinationNamespaces_complete[OF assms]
      InSourceNamespace_complete[OF assms] InDestinationNamespace_complete[OF assms]
    by (intro exI[of _ ?dn] conjI exI[of _ "map (\<lambda>n. filter (\<lambda>x. ?s x = n) l) ?sn"]
        exI[of _ "map (\<lambda>n. filter (\<lambda>x. ?d x = n) l) ?dn"]) simp_all
qed

lemma ex_list_complete: "list_all bothClaims ex_list"
  by (simp add: ex_list_def complete_NewPVCPair)

lemma namespaces_partition_witness: "\<exists>dns. GetDestinationNamespaces ex_list = Inr dns \<and> distinct dns"
  using namespaces_partition[OF ex_list_complete] by blast

lemma groupLoop_complete:
  assumes "list_all bothClaims l"
  shows "\<exists>m'. groupClaims m l = Inr m' \<and> (\<forall>ns. fmlookup m' ns =
    (let ps = filter (\<lambda>p. claimNamespace (srcOf p) = ns) l in case fmlookup m ns of
       None \<Rightarrow> if ps = [] then None else Some (tl ps) | Some g \<Rightarrow> Some (g @ ps)))"
  using assms
proof (induction l arbitrary: m)
  case Nil
  then show ?case by (auto split: option.split)
next
  case (Cons p l)
  let ?n = "claimNamespace (srcOf p)"
  let ?m = "case fmlookup m ?n of None \<Rightarrow> fmupd ?n [] m | Some g \<Rightarrow> fmupd ?n (g @ [p]) m"
  have step: "groupClaimStep m p = Inr ?m" using Cons.prems by (simp add: groupClaimStep_def)
  have "list_all bothClaims l" using Cons.prems by simp
  from Cons.IH[OF this, of ?m] obtain m' where m': "groupClaims ?m l = Inr m'"
    and look: "\<And>ns. fmlookup m' ns = (let ps = filter (\<lambda>p. claimNamespace (srcOf p) = ns) l in case fmlookup ?m ns of
       None \<Rightarrow> if ps = [] then None else Some (tl ps) | Some g \<Rightarrow> Some (g @ ps))" by blast
  have "fmlookup m' ns = (let ps = filter (\<lambda>p. claimNamespace (srcOf p) = ns) (p # l) in case fmlookup m ns of
       None \<Rightarrow> if ps = [] then None else Some (tl ps) | Some g \<Rightarrow> Some (g @ ps))" for ns
    unfolding look[of ns] by (cases "?n = ns"; cases "fmlookup m ?n") (auto simp: Let_def split: option.split)
  then show ?case using step m' by (intro exI[of _ m']) simp
qed

text \<open>
  Grouping by namespace loses the first claim of every namespace: the group of a
  namespace is the list of its claims without the first, so a namespace with a single claim
  has an empty group.
\<close>

theorem GroupBySourceNamespaces_drops_first:
  assumes "list_all bothClaims l"
  shows "\<exists>m. GroupBySourceNamespaces l = Inr m \<and> (\<forall>ns. InSourceNamespace ns l =
      (case fmlookup m ns of None \<Rightarrow> Inr [] | Some g \<Rightarrow> bindR (InSourceNamespace ns l) (\<lambda>ps. Inr (hd ps # g))))"
proof -
  obtain m where m: "groupClaims fmempty l = Inr m" and look: "\<And>ns. fmlookup m ns =
    (let ps = filter (\<lambda>p. claimNamespace (srcOf p) = ns) l in if ps = [] then None else Some (tl ps))"
    using groupLoop_complete[OF assms, of fmempty] by auto
  show ?thesis
    unfolding GroupBySourceNamespaces_def InSourceNamespace_complete[OF assms]
    using m look by (intro exI[of _ m]) (auto simp: Let_def split: option.split)
qed

lemma GroupBySourceNamespaces_drops_first_witness:
  "\<exists>m. GroupBySourceNamespaces [ex_list ! 0] = Inr m \<and> fmlookup m ''app'' = Some []"
proof -
  have c: "list_all bothClaims [ex_list ! 0]" by (simp add: ex_list_def complete_NewPVCPair)
  have i: "InSourceNamespace ''app'' [ex_list ! 0] = Inr [ex_list ! 0]"
    by (simp add: InSourceNamespace_def sourceClaim_def claimR_def ex_list_simps)
  from GroupBySourceNamespaces_drops_first[OF c] obtain m where "GroupBySourceNamespaces [ex_list ! 0] = Inr m"
    "InSourceNamespace ''app'' [ex_list ! 0] = (case fmlookup m ''app'' of None \<Rightarrow> Inr []
      | Some g \<Rightarrow> bindR (InSourceNamespace ''app'' [ex_list ! 0]) (\<lambda>ps. Inr (hd ps # g)))" by blast
  with i show ?thesis by (cases "fmlookup m ''app''") auto
qed

end
