(* ===== verification/RsyncProps.thy ===== *)
theory RsyncProps
  imports Rsync RsyncOptionProps ClaimProps
begin

text \<open>What the rsync transfer promises: every claim is covered, and client and server meet.\<close>

section \<open>Validation\<close>

lemma addNamespaces_one:
  assumes "length (addNamespaces [] ns) \<le> 1" and "n \<in> set ns"
  shows "addNamespaces [] ns = [n]"
proof -
  have "n \<in> set (addNamespaces [] ns)" using assms(2) by (simp add: addNamespaces_props(2))
  then show ?thesis using assms(1) by (cases "addNamespaces [] ns") auto
qed

lemma addNamespaces_filter:
  assumes "addNamespaces [] (map f l) = [n]"
  shows "filter (\<lambda>q. f q = n) l = l"
proof -
  have "set (map f l) = {n}" using addNamespaces_props(2)[of "[]" "map f l"] assms by simp
  then show ?thesis by (auto intro!: filter_True)
qed

lemma validatePVCName_ok:
  assumes "bothClaims p" and "validatePVCName V agg p = Inr None"
  shows "isValidLabelValue V (srcName p) = [] \<and> isValidLabelValue V (destName p) = []"
  using assms by (auto simp: validatePVCName_def nameError_def bothClaims_def srcName_def destName_def newAggregate_None
      result_simps split: if_splits)

lemma pvcErrors_none:
  assumes "pvcErrors V agg l = Inr errs" and "\<forall>e\<in>set errs. e = None" and "p \<in> set l"
  shows "validatePVCName V agg p = Inr None"
proof -
  obtain zs where zs: "bindR (validatePVCName V agg p) (\<lambda>err. case err of
     None \<Rightarrow> Inr []
   | Some e \<Rightarrow> bindR (sourceClaim p) (\<lambda>c. Inr [newAggregate agg
       [Some (errorf (''pvc name validation failed for pvc '' @ claimName c @ '' with error'')), Some e]])) = Inr zs"
    "set zs \<subseteq> set errs" using concatR_Inr_each[OF assms(1)[unfolded pvcErrors_def] assms(3)] by blast
  show ?thesis
  proof (cases "validatePVCName V agg p")
    case (Inr r)
    then show ?thesis using zs assms(2)
      by (cases r) (auto simp: result_simps newAggregate_def List.map_filter_simps)
  qed (use zs in simp)
qed

lemma newAggregate_checks:
  "newAggregate agg ((if P then [Some a] else []) @ (if Q then [Some b] else []) @ es) = None \<longleftrightarrow>
     \<not> P \<and> \<not> Q \<and> (\<forall>e\<in>set es. e = None)"
  by (auto simp: newAggregate_None)

lemma validatePVCList_ok:
  assumes "list_all bothClaims l" and "validatePVCList V agg l = Inr None"
  shows "l \<noteq> []" "length (GetSourceNamespaces l) \<le> 1"
    "length (addNamespaces [] (map (\<lambda>p. claimNamespace (destOf p)) l)) \<le> 1"
    "\<And>p. p \<in> set l \<Longrightarrow> validatePVCName V agg p = Inr None"
proof -
  let ?dn = "addNamespaces [] (map (\<lambda>p. claimNamespace (destOf p)) l)"
  obtain errs where errs: "pvcErrors V agg l = Inr errs"
    using assms(2) unfolding validatePVCList_def GetDestinationNamespaces_complete[OF assms(1)]
    by (cases "pvcErrors V agg l") simp_all
  have none: "newAggregate agg ((if length (GetSourceNamespaces l) > 1 \<or> length ?dn > 1
         then [Some (errorf ''rsync transfer does not support migrating PVCs belonging to multiple source/destination namespaces'')]
         else []) @ (if length l = 0 then [Some (errorf ''at least one pvc must be provided'')] else []) @ errs) = None"
    using assms(2) unfolding validatePVCList_def GetDestinationNamespaces_complete[OF assms(1)] bindR.simps errs sum.inject .
  show "l \<noteq> []" "length (GetSourceNamespaces l) \<le> 1" "length ?dn \<le> 1"
    using none unfolding newAggregate_checks by simp_all
  show "validatePVCName V agg p = Inr None" if "p \<in> set l" for p
    using pvcErrors_none[OF errs _ that] none unfolding newAggregate_checks by blast
qed

lemma newRsyncTransfer_whole:
  assumes "newRsyncTransfer V agg ord t e l opts = Inr r" and "list_all bothClaims l"
  shows "rsPvcList r = l \<and> (\<exists>sn dn. GetSourceNamespaces l = [sn] \<and> GetDestinationNamespaces l = Inr [dn] \<and>
    InSourceNamespace sn l = Inr l \<and> InDestinationNamespace dn l = Inr l) \<and>
    list_all (\<lambda>p. isValidLabelValue V (srcName p) = [] \<and> isValidLabelValue V (destName p) = []) l"
proof -
  obtain err where err: "validatePVCList V agg l = Inr err"
    and rest: "(case err of Some err' \<Rightarrow> Inl (Error err')
     | None \<Rightarrow> (case applyOptions V agg ord opts zeroOptions of (options, err2) \<Rightarrow> (case err2 of
           Some err' \<Rightarrow> Inl (Error err')
         | None \<Rightarrow> Inr \<lparr>rsUsername = [], rsPassword = [], rsPvcList = l, rsTransport = t, rsEndpoint = e, rsPort = 0,
             rsOptions = options\<rparr>))) = Inr r"
    using assms(1) unfolding newRsyncTransfer_def bindR_eq_Inr by blast
  obtain options err2 where ap: "applyOptions V agg ord opts zeroOptions = (options, err2)" by fastforce
  have v: "validatePVCList V agg l = Inr None" and r: "rsPvcList r = l"
  proof -
    have "err = None" using rest by (cases err) simp_all
    moreover then have "err2 = None" using rest ap by (cases err2) simp_all
    ultimately have "r = \<lparr>rsUsername = [], rsPassword = [], rsPvcList = l, rsTransport = t, rsEndpoint = e, rsPort = 0,
             rsOptions = options\<rparr>" using rest ap by simp
    then show "validatePVCList V agg l = Inr None" "rsPvcList r = l" using err \<open>err = None\<close> by simp_all
  qed
  note ok = validatePVCList_ok[OF assms(2) v]
  obtain p ps where l: "l = p # ps" using ok(1) by (cases l) auto
  have s: "addNamespaces [] (map (\<lambda>p. claimNamespace (srcOf p)) l) = [claimNamespace (srcOf p)]"
    using ok(2) l unfolding GetSourceNamespaces_complete[OF assms(2)] by (intro addNamespaces_one) auto
  have d: "addNamespaces [] (map (\<lambda>p. claimNamespace (destOf p)) l) = [claimNamespace (destOf p)]"
    using ok(3) l by (intro addNamespaces_one) auto
  have "list_all (\<lambda>p. isValidLabelValue V (srcName p) = [] \<and> isValidLabelValue V (destName p) = []) l"
    using validatePVCName_ok[OF _ ok(4)] assms(2) unfolding list_all_iff by blast
  then show ?thesis using r s d addNamespaces_filter[OF s] addNamespaces_filter[OF d]
    by (simp add: GetSourceNamespaces_complete[OF assms(2)] InSourceNamespace_complete[OF assms(2)] InDestinationNamespace_complete[OF assms(2)]
        GetDestinationNamespaces_complete[OF assms(2)])
qed

text \<open>
  C22. A transfer that was accepted leaves no claim behind: the one source namespace and the one
  destination namespace its client and server work in hold all the claims of the list, and all label safe
  names are valid label values.
\<close>

theorem newRsyncTransfer_covers:
  assumes "newRsyncTransfer V agg ord t e l opts = Inr r" and "list_all bothClaims l"
  shows "rsPvcList r = l \<and> (\<exists>sn dn. GetSourceNamespaces l = [sn] \<and> GetDestinationNamespaces l = Inr [dn] \<and>
    InSourceNamespace sn l = Inr l \<and> InDestinationNamespace dn l = Inr l) \<and>
    list_all (\<lambda>p. isValidLabelValue V (srcName p) = [] \<and> isValidLabelValue V (destName p) = []) l"
  by (rule newRsyncTransfer_whole[OF assms])

definition ex_validation :: pod_validation where
  "ex_validation = \<lparr>isQualifiedName = (\<lambda>s. if s = [] then [''empty''] else []), isValidLabelValue = (\<lambda>s. if length s > 63 then [''too long''] else [])\<rparr>"

definition ex_endpoint :: endpoint_info where
  "ex_endpoint = \<lparr>epHostname = ''rsync.example.org'', epPort = 6443, epExposedPort = 443,
     epName = \<lparr>nnNamespace = ''app'', nnName = ''rsync''\<rparr>, epLabels = fmempty\<rparr>"

definition ex_pair :: nnPair where
  "ex_pair = \<lparr>pairSource = \<lparr>nnNamespace = ''app'', nnName = ''rsync''\<rparr>, pairDestination = \<lparr>nnNamespace = ''app'', nnName = ''rsync''\<rparr>\<rparr>"

definition ex_null :: transport_info where
  "ex_null = nullInfo (nullCreateServer ex_endpoint (newNullTransport ex_pair))"

definition ex_files :: pvcPairList where
  "ex_files = [ex_list ! 0, ex_list ! 2]"

definition ex_options :: "RsyncOptions.transferOptions" where
  "ex_options = fst (applyOptions ex_validation hd (\<lambda>_. []) [Username ''crane2'', Password ''secret''] zeroOptions)"

definition ex_transfer :: "transport_info \<Rightarrow> rsyncTransfer" where
  "ex_transfer t = \<lparr>rsUsername = [], rsPassword = [], rsPvcList = ex_files, rsTransport = t, rsEndpoint = ex_endpoint,
     rsPort = 0, rsOptions = ex_options\<rparr>"

lemma ex_files_complete: "list_all bothClaims ex_files"
  using ex_list_complete by (simp add: ex_files_def ex_list_def)

lemma ex_files_claims:
  "srcOf (ex_list ! 0) = ex_claim ''app'' ''data'' None" "srcOf (ex_list ! 2) = ex_claim ''app'' ''logs'' (Some ''Filesystem'')"
  "destOf (ex_list ! 0) = ex_claim ''app'' ''data'' None" "destOf (ex_list ! 2) = ex_claim ''app'' ''logs'' (Some ''Filesystem'')"
  "srcName (ex_list ! 0) = ''data''" "srcName (ex_list ! 2) = ''logs''"
  "destName (ex_list ! 0) = ''data''" "destName (ex_list ! 2) = ''logs''"
  by (simp_all add: ex_list_simps srcOf_def destOf_def srcName_def destName_def)

lemma ex_transfer_is_new:
  "newRsyncTransfer ex_validation hd (\<lambda>_. []) t ex_endpoint ex_files [Username ''crane2'', Password ''secret''] = Inr (ex_transfer t)"
proof -
  have c: "bothClaims (ex_list ! 0)" "bothClaims (ex_list ! 2)" using ex_files_complete by (simp_all add: ex_files_def)
  have n: "claimNamespace (ex_claim ns nm m) = ns" for ns nm m by (simp add: claimNamespace_def ex_claim_def objectMetaOf_def)
  have "GetSourceNamespaces ex_files = [''app'']" "GetDestinationNamespaces ex_files = Inr [''app'']"
    using ex_files_claims n
    unfolding GetSourceNamespaces_complete[OF ex_files_complete] GetDestinationNamespaces_complete[OF ex_files_complete]
    by (simp_all add: ex_files_def)
  moreover have "pvcErrors ex_validation hd ex_files = Inr []"
    by (simp add: pvcErrors_def validatePVCName_def nameError_def ex_files_def ex_list_simps ex_validation_def)
  ultimately have "validatePVCList ex_validation hd ex_files = Inr None"
    by (simp add: validatePVCList_def) (simp add: ex_files_def)
  then show ?thesis by (simp add: newRsyncTransfer_def ex_transfer_def ex_options_def applyOptions_def)
qed

lemma newRsyncTransfer_covers_witness:
  "\<exists>sn. GetSourceNamespaces ex_files = [sn] \<and> InSourceNamespace sn ex_files = Inr ex_files"
  using newRsyncTransfer_covers[OF ex_transfer_is_new ex_files_complete] by blast

section \<open>The client's pods\<close>

text \<open>The cluster makes a pod of every request: the names are generated.\<close>

definition logs_pods :: "('s, pod) kind_api \<Rightarrow> ('s \<Rightarrow> pod list) \<Rightarrow> bool" where
  "logs_pods api view \<longleftrightarrow> (\<forall>s x. \<exists>s'. k_create api x s = (Inr (), s') \<and> view s' = view s @ [x])"

definition log_client :: "pod list transfer_client" where
  "log_client = \<lparr>tfConfigMaps = ref_kind cmMeta (\<lambda>_. Map.empty) (\<lambda>_ s. s), tfSecrets = ref_kind secMeta (\<lambda>_. Map.empty) (\<lambda>_ s. s),
     tfPods = \<lparr>k_get = (\<lambda>_. failA (Error (GoError ''not found'' NotFound))), k_create = (\<lambda>x s. (Inr (), s @ [x])), k_update = (\<lambda>_. retA ())\<rparr>\<rparr>"

lemma log_client_logs: "logs_pods (tfPods log_client) id"
  by (simp add: logs_pods_def log_client_def)

definition podOf :: "rsyncTransfer \<Rightarrow> string list \<Rightarrow> transport_info \<Rightarrow> pvcPair option \<Rightarrow> pod" where
  "podOf r options t p = rsyncClientPod (r\<lparr>rsTransport := t\<rparr>) options (srcOf p) (srcName p) (destName p)"

text \<open>\<open>tr i\<close> is the transport after \<open>i\<close> rounds.\<close>

fun roundPods :: "rsyncTransfer \<Rightarrow> string list \<Rightarrow> (nat \<Rightarrow> transport_info) \<Rightarrow> nat \<Rightarrow> pvcPairList \<Rightarrow> pod list" where
  "roundPods r options tr n [] = []"
| "roundPods r options tr n (p # ps) =
     (if isFilesystem (srcOf p) then [podOf r options (tr (Suc n)) p] else []) @ roundPods r options tr (Suc n) ps"

lemma destination_label:
  assumes "bothClaims p"
  shows "\<exists>d. bindR (derefR p) (\<lambda>x. derefR (ppDestination x)) = Inr d \<and> pLabelSafeName d = destName p"
  using assms by (auto simp: bothClaims_def destName_def)

lemma rsyncClientLoop_pods:
  assumes "logs_pods (tfPods c) view" and "\<And>i. customizeTransportClientContainers (tr i) = Inr (tr (Suc i))"
    and "list_all bothClaims l"
  shows "\<exists>s' es. rsyncClientLoop c options l errs (r\<lparr>rsTransport := tr n\<rparr>) s =
      (Inr (r\<lparr>rsTransport := tr (n + length l)\<rparr>, errs @ es), s') \<and> (\<forall>e\<in>set es. e = None) \<and>
    view s' = view s @ roundPods r options tr n l"
  using assms(3)
proof (induction l arbitrary: n errs s)
  case Nil
  then show ?case by (simp add: retA_def)
next
  case (Cons p l)
  then have p: "bothClaims p" and l: "list_all bothClaims l" by simp_all
  obtain d where d: "bindR (derefR p) (\<lambda>x. derefR (ppDestination x)) = Inr d" "pLabelSafeName d = destName p"
    using destination_label[OF p] by blast
  let ?r = "r\<lparr>rsTransport := tr (Suc n)\<rparr>"
  obtain s1 es1 where s1: "rsyncClientStep c options p (r\<lparr>rsTransport := tr n\<rparr>) s = (Inr (?r, es1), s1)"
    "\<forall>e\<in>set es1. e = None" "view s1 = view s @ (if isFilesystem (srcOf p) then [podOf r options (tr (Suc n)) p] else [])"
  proof (cases "isFilesystem (srcOf p)")
    case True
    obtain s1 where "k_create (tfPods c) (podOf r options (tr (Suc n)) p) s = (Inr (), s1)"
      "view s1 = view s @ [podOf r options (tr (Suc n)) p]" using assms(1) unfolding logs_pods_def by blast
    then show ?thesis using that[of "[None]" s1] True p d assms(2)[of n]
      by (simp add: rsyncClientStep_def podOf_def Let_def bindA_def pureA_def errOfA_def tryA_def retA_def)
  next
    case False
    then show ?thesis using that[of "[]" s] p d assms(2)[of n]
      by (simp add: rsyncClientStep_def Let_def bindA_def pureA_def retA_def)
  qed
  from Cons.IH[OF l, where n = "Suc n" and errs = "errs @ es1" and s = s1] obtain s2 es2 where s2: "rsyncClientLoop c options l (errs @ es1) ?r s1 =
      (Inr (r\<lparr>rsTransport := tr (Suc n + length l)\<rparr>, (errs @ es1) @ es2), s2)" "\<forall>e\<in>set es2. e = None"
    "view s2 = view s1 @ roundPods r options tr (Suc n) l" by blast
  then show ?case using s1 by (intro exI[of _ s2] exI[of _ "es1 @ es2"]) (auto simp: bindA_def)
qed

lemma rsyncCreateClient_pods:
  assumes "newRsyncTransfer V agg ord t e l opts = Inr r" and "list_all bothClaims l" and "logs_pods (tfPods c) view"
    and "AsRsyncCommandOptions agg (rsOptions r) = (options, None)"
    and "\<And>i. customizeTransportClientContainers (tr i) = Inr (tr (Suc i))" and "tr 0 = rsTransport r"
  shows "\<exists>s'. rsyncCreateClient agg c r s = (Inr (r\<lparr>rsTransport := tr (length l)\<rparr>, None), s') \<and>
    view s' = view s @ roundPods r options tr 0 l"
proof -
  obtain sn where sn: "rsPvcList r = l" "GetSourceNamespaces l = [sn]" "InSourceNamespace sn l = Inr l"
    using newRsyncTransfer_whole[OF assms(1,2)] by blast
  have r: "r\<lparr>rsTransport := tr 0\<rparr> = r" using assms(6) by simp
  obtain s1 es where s1: "rsyncClientLoop c options l [] r s = (Inr (r\<lparr>rsTransport := tr (length l)\<rparr>, es), s1)"
    "\<forall>e\<in>set es. e = None" "view s1 = view s @ roundPods r options tr 0 l"
    using rsyncClientLoop_pods[OF assms(3) _ assms(2), where tr = tr and options = options and errs = "[]" and r = r and n = 0 and s = s] assms(5) unfolding r by auto
  have "newAggregate agg es = None" using s1(2) by (simp add: newAggregate_None)
  then show ?thesis using s1 sn assms(4)
    by (simp add: rsyncCreateClient_def createRsyncClient_def createRsyncClientResources_def firstR_def bindA_def pureA_def
        errOfA_def tryA_def retA_def)
qed

text \<open>
  C23. With a transport that needs no customizing, the client of an accepted transfer creates
  one pod for each file system claim, in the order of the list, and no other.
\<close>

theorem rsync_client_pods:
  assumes "newRsyncTransfer V agg ord t e l opts = Inr r" and "list_all bothClaims l" and "logs_pods (tfPods c) view"
    and "AsRsyncCommandOptions agg (rsOptions r) = (options, None)" and "tiType (rsTransport r) = TransportTypeNull"
  shows "\<exists>s'. rsyncCreateClient agg c r s = (Inr (r, None), s') \<and>
    view s' = view s @ map (\<lambda>p. rsyncClientPod r options (srcOf p) (srcName p) (destName p)) (filter (\<lambda>p. isFilesystem (srcOf p)) l)"
proof -
  have c: "customizeTransportClientContainers (rsTransport r) = Inr (rsTransport r)"
    using assms(5) by (simp add: customizeTransportClientContainers_def TransportTypeNull_def TransportTypeStunnel_def)
  have p: "roundPods r options (\<lambda>_. rsTransport r) n l =
      map (\<lambda>p. rsyncClientPod r options (srcOf p) (srcName p) (destName p)) (filter (\<lambda>p. isFilesystem (srcOf p)) l)" for n l
    by (induction l arbitrary: n) (simp_all add: podOf_def)
  show ?thesis using rsyncCreateClient_pods[OF assms(1-4), of "\<lambda>_. rsTransport r", OF c] unfolding p by simp
qed

lemma ex_options_valid: "\<exists>options. AsRsyncCommandOptions hd (rsOptions (ex_transfer t)) = (options, None)"
  by (simp add: ex_transfer_def ex_options_def applyOptions_def zeroOptions_def AsRsyncCommandOptions_def)

lemma rsync_client_pods_witness:
  "\<exists>s'. rsyncCreateClient hd log_client (ex_transfer ex_null) [] = (Inr (ex_transfer ex_null, None), s') \<and> length s' = 2"
proof -
  obtain options where o: "AsRsyncCommandOptions hd (rsOptions (ex_transfer ex_null)) = (options, None)" using ex_options_valid by blast
  have "tiType (rsTransport (ex_transfer ex_null)) = TransportTypeNull" by (simp add: ex_transfer_def ex_null_def nullInfo_def)
  from rsync_client_pods[OF ex_transfer_is_new ex_files_complete log_client_logs o this, of "[]"] show ?thesis
    by (auto simp: ex_files_def ex_files_claims isFilesystem_def ex_claim_def)
qed

section \<open>The stunnel container\<close>

definition sharedMount :: volumeMount where
  "sharedMount = mountOf ''rsync-communication'' ''/usr/share/rsync'' []"

definition stunnelRound :: "container \<Rightarrow> container" where
  "stunnelRound k = k\<lparr>ctCommand := [''/bin/bash'', ''-c'', waitScript ''/usr/share/rsync/rsync-client-container-done''],
     ctMounts := ctMounts k @ [sharedMount]\<rparr>"

lemma stunnelRound_iterated:
  "ctName ((stunnelRound ^^ n) k) = ctName k" "ctMounts ((stunnelRound ^^ n) k) = ctMounts k @ replicate n sharedMount"
  by (induction n) (simp_all add: stunnelRound_def replicate_append_same)

lemma customize_stunnel_round:
  assumes "tiType t = TransportTypeStunnel" and "ctName k = StunnelContainer"
  shows "customizeTransportClientContainers (t\<lparr>tiClientContainers := [k]\<rparr>) = Inr (t\<lparr>tiClientContainers := [stunnelRound k]\<rparr>)"
  using assms by (simp add: customizeTransportClientContainers_def customizeStunnel_def updateLast_single stunnelRound_def sharedMount_def)

lemma roundPods_stunnel:
  assumes "list_all (\<lambda>p. isFilesystem (srcOf p)) l" and "\<And>i. tiClientContainers (tr i) = [(stunnelRound ^^ i) k]"
  shows "length (roundPods r options tr n l) = length l" and "i < length l \<Longrightarrow>
    map ctMounts (tl (psContainers (poSpec (roundPods r options tr n l ! i)))) = [ctMounts k @ replicate (Suc (n + i)) sharedMount]"
proof -
  show "length (roundPods r options tr n l) = length l" using assms(1) by (induction l arbitrary: n) auto
  have pod: "map ctMounts (tl (psContainers (poSpec (podOf r options (tr m) p)))) = [ctMounts k @ replicate m sharedMount]" for m p
    unfolding podOf_def rsyncClientPod_def by (simp add: assms(2) stunnelRound_iterated(2))
  show "i < length l \<Longrightarrow>
    map ctMounts (tl (psContainers (poSpec (roundPods r options tr n l ! i)))) = [ctMounts k @ replicate (Suc (n + i)) sharedMount]"
    using assms(1)
  proof (induction l arbitrary: n i)
    case (Cons p l)
    then show ?case
    proof (cases i)
      case 0
      then show ?thesis using Cons.prems pod[of "Suc n" p] by simp
    next
      case (Suc j)
      then show ?thesis using Cons.prems Cons.IH[of j "Suc n"] by simp
    qed
  qed simp
qed

text \<open>
  With stunnel, the transport's own container is customized again for every claim, so the
  container of the i-th pod mounts the shared directory i times: from the second pod on it has several
  mounts of the same path, which a cluster refuses.
\<close>

theorem rsync_stunnel_mounts_grow:
  assumes "newRsyncTransfer V agg ord t e l opts = Inr r" and "list_all bothClaims l" and "logs_pods (tfPods c) view"
    and "AsRsyncCommandOptions agg (rsOptions r) = (options, None)" and "list_all (\<lambda>p. isFilesystem (srcOf p)) l"
    and "tiType (rsTransport r) = TransportTypeStunnel" and "tiClientContainers (rsTransport r) = [k]" and "ctName k = StunnelContainer"
  shows "\<exists>s' r' pods. rsyncCreateClient agg c r s = (Inr (r', None), s') \<and> view s' = view s @ pods \<and> length pods = length l \<and>
    (\<forall>i<length l. map ctMounts (tl (psContainers (poSpec (pods ! i)))) = [ctMounts k @ replicate (Suc i) sharedMount])"
proof -
  let ?tr = "\<lambda>i. (rsTransport r)\<lparr>tiClientContainers := [(stunnelRound ^^ i) k]\<rparr>"
  have tr: "customizeTransportClientContainers (?tr i) = Inr (?tr (Suc i))" for i
    using customize_stunnel_round[OF assms(6), of "(stunnelRound ^^ i) k"] assms(8) by (simp add: stunnelRound_iterated(1))
  have "?tr 0 = rsTransport r" using assms(7) by simp
  from rsyncCreateClient_pods[OF assms(1-4), where tr = ?tr, OF tr this]
  obtain s' where "rsyncCreateClient agg c r s = (Inr (r\<lparr>rsTransport := ?tr (length l)\<rparr>, None), s')"
    "view s' = view s @ roundPods r options ?tr 0 l" by blast
  then show ?thesis using roundPods_stunnel[OF assms(5), where tr = ?tr and k = k and r = r and options = options and n = 0]
    by (intro exI[of _ s'] exI[of _ "r\<lparr>rsTransport := ?tr (length l)\<rparr>"] exI[of _ "roundPods r options ?tr 0 l"]) simp
qed

definition ex_stunnel :: transport_info where
  "ex_stunnel = stunnelInfo (setClientContainers ex_endpoint (newStunnelTransport ex_pair None))"

lemma rsync_stunnel_mounts_grow_witness:
  "\<exists>s' r' pods. rsyncCreateClient hd log_client (ex_transfer ex_stunnel) [] = (Inr (r', None), s') \<and>
    map vmPath (ctMounts (psContainers (poSpec (s' ! 1)) ! 1)) =
      [''/etc/stunnel/stunnel.conf'', ''/etc/stunnel/certs'', ''/usr/share/rsync'', ''/usr/share/rsync'']"
proof -
  obtain options where o: "AsRsyncCommandOptions hd (rsOptions (ex_transfer ex_stunnel)) = (options, None)" using ex_options_valid by blast
  let ?k = "stunnelContainerOf DefaultRsyncTransferImage defaultStunnelClientConfig defaultStunnelClientSecret ex_endpoint"
  have t: "tiType (rsTransport (ex_transfer ex_stunnel)) = TransportTypeStunnel"
    "tiClientContainers (rsTransport (ex_transfer ex_stunnel)) = [?k]" "ctName ?k = StunnelContainer"
    by (simp_all add: ex_transfer_def ex_stunnel_def stunnelInfo_def setClientContainers_def newStunnelTransport_def
        getStunnelClientImage_def stunnelContainerOf_def containerOf_def)
  have f: "list_all (\<lambda>p. isFilesystem (srcOf p)) ex_files" "length ex_files = 2"
    by (simp_all add: ex_files_def ex_files_claims isFilesystem_def ex_claim_def)
  from rsync_stunnel_mounts_grow[OF ex_transfer_is_new ex_files_complete log_client_logs o f(1) t, of "[]"] f(2)
  obtain s' r' where s': "rsyncCreateClient hd log_client (ex_transfer ex_stunnel) [] = (Inr (r', None), s')"
    "map ctMounts (tl (psContainers (poSpec (s' ! 1)))) = [ctMounts ?k @ replicate (Suc 1) sharedMount]" by auto
  then have "ctMounts (psContainers (poSpec (s' ! 1)) ! 1) = ctMounts ?k @ replicate (Suc 1) sharedMount"
    by (cases "psContainers (poSpec (s' ! 1))") auto
  then show ?thesis using s'(1) by (auto simp: stunnelContainerOf_def mountOf_def sharedMount_def numeral_2_eq_2)
qed

text \<open>A stunnel transport whose client was not created has no container to customize.\<close>

lemma rsync_without_transport_client_panics:
  assumes "tiType t = TransportTypeStunnel" and "tiClientContainers t = []"
  shows "customizeTransportClientContainers t = Inl (Panic ''nil pointer dereference'')"
  using assms by (simp add: customizeTransportClientContainers_def customizeStunnel_def updateLast_def derefR_def)

end
