(* ===== verification/RsyncServerProps.thy ===== *)
theory RsyncServerProps
  imports RsyncProps
begin

text \<open>The server of the rsync transfer, and how the client's pods reach it.\<close>

section \<open>Client and server\<close>

lemma filesystemClaims_bothClaims:
  assumes "list_all bothClaims l"
  shows "filesystemClaims l = Inr (filter (\<lambda>p. isFilesystem (srcOf p)) l)"
  using assms by (induction l) (auto simp: filesystemClaims_def)



section \<open>What creating the server leaves\<close>

record server_view =
  svConfigMaps :: "configMap store"
  svSecrets :: "secret store"
  svPods :: "pod store"

definition serves_transfers :: "'s transfer_client \<Rightarrow> ('s \<Rightarrow> server_view) \<Rightarrow> bool" where
  "serves_transfers c view \<longleftrightarrow>
     stores (tfConfigMaps c) cmMeta svConfigMaps (\<lambda>x. svConfigMaps_update (\<lambda>_. x)) view \<and>
     stores (tfSecrets c) secMeta svSecrets (\<lambda>x. svSecrets_update (\<lambda>_. x)) view \<and>
     stores (tfPods c) poMeta svPods (\<lambda>x. svPods_update (\<lambda>_. x)) view"

text \<open>\<open>rand.Intn(n)\<close> answers a number below a positive \<open>n\<close> and leaves the cluster alone.\<close>

definition draws_below :: "(nat \<Rightarrow> ('s, nat) act) \<Rightarrow> ('s \<Rightarrow> 'c) \<Rightarrow> bool" where
  "draws_below draw view \<longleftrightarrow> (\<forall>n s. 0 < n \<longrightarrow> (\<exists>i s'. draw n s = (Inr i, s') \<and> i < n \<and> view s' = view s))"

lemma drawLetters_ok:
  assumes "draws_below draw view"
  shows "\<exists>w s'. drawLetters draw n s = (Inr w, s') \<and> length w = n \<and> set w \<subseteq> set letters \<and> view s' = view s"
proof (induction n arbitrary: s)
  case (Suc n)
  have "0 < length letters" by (simp add: letters_def)
  then obtain i s1 where 1: "draw (length letters) s = (Inr i, s1)" "i < length letters" "view s1 = view s"
    using assms unfolding draws_below_def by blast
  obtain w s2 where "drawLetters draw n s1 = (Inr w, s2)" "length w = n" "set w \<subseteq> set letters" "view s2 = view s1"
    using Suc.IH by blast
  then show ?case using 1 by (intro exI[of _ "letters ! i # w"] exI[of _ s2]) (simp add: bindA_def retA_def)
qed (simp add: retA_def)

text \<open>
  C21. Creating the server of an accepted transfer in an empty namespace: the daemon's
  configuration, a secret with the user and password of the options, and, when there is a
  file system among the claims, the server's pod. The user name and the password the transfer reports afterwards are
  others: a constant, and 24 random letters that are stored nowhere.
\<close>

theorem rsync_server_created:
  assumes "newRsyncTransfer V agg ord t e l opts = Inr r" and "list_all bothClaims l"
    and "serves_transfers c view" and "draws_below draw view"
    and "asRootOrPrivileged (DestContainerMutations (rsOptions r)) False False = Inr (asRoot, priv)"
    and "GetDestinationNamespaces l = Inr [dn]" and "view s = \<lparr>svConfigMaps = Map.empty, svSecrets = Map.empty, svPods = Map.empty\<rparr>"
  shows "\<exists>s' r' cm sec. rsyncCreateServer agg draw c r s = (Inr (r', None), s') \<and>
    rsUsername r' = ''crane2'' \<and> length (rsPassword r') = 24 \<and> set (rsPassword r') \<subseteq> set letters \<and>
    svConfigMaps (view s') = [\<lparr>nnNamespace = dn, nnName = defaultRsyncServerConfig\<rparr> \<mapsto> cm] \<and>
    fmlookup (cmData cm) ''rsyncd.conf'' = Some (rsyncServerConf (optUsername (rsOptions r)) l (asRoot \<or> priv) priv (optMungeSymlinks (rsOptions r))) \<and>
    svSecrets (view s') = [\<lparr>nnNamespace = dn, nnName = defaultRsyncServerSecret\<rparr> \<mapsto> sec] \<and>
    fmlookup (secData sec) ''credentials'' = Some (optUsername (rsOptions r) @ '':'' @ optPassword (rsOptions r)) \<and>
    svPods (view s') = (let fs = filter (\<lambda>p. isFilesystem (srcOf p)) l in
      if fs = [] then Map.empty else [\<lparr>nnNamespace = dn, nnName = ''rsync-server''\<rparr> \<mapsto> rsyncServerPod r' dn fs])"
proof -
  note st = assms(3)[unfolded serves_transfers_def]
  have l: "rsPvcList r = l" "InDestinationNamespace dn l = Inr l" using newRsyncTransfer_whole[OF assms(1,2)] assms(6) by auto
  let ?r = "r\<lparr>rsUsername := defaultRsyncUser, rsPort := rsyncPort\<rparr>" and ?ls = "rmdLabels (DestinationPodMeta (rsOptions r))"
  let ?cm = "\<lparr>cmMeta = objectMetaOf dn defaultRsyncServerConfig ?ls, cmData = fmupd ''rsyncd.conf''
    (rsyncServerConf (optUsername (rsOptions r)) l (asRoot \<or> priv) priv (optMungeSymlinks (rsOptions r))) fmempty\<rparr>"
  let ?sec = "\<lparr>secMeta = objectMetaOf dn defaultRsyncServerSecret ?ls,
    secData = fmupd ''credentials'' (optUsername (rsOptions r) @ '':'' @ optPassword (rsOptions r)) fmempty\<rparr>"
  let ?fs = "filter (\<lambda>p. isFilesystem (srcOf p)) l"
  have nn: "nnOf (objectMetaOf a b x) = \<lparr>nnNamespace = a, nnName = b\<rparr>" for a b x by (simp add: nnOf_def objectMetaOf_def)
  obtain s1 where s1: "createIfAbsent (tfConfigMaps c) ?cm s = (Inr (), s1)"
    "view s1 = (view s)\<lparr>svConfigMaps := [\<lparr>nnNamespace = dn, nnName = defaultRsyncServerConfig\<rparr> \<mapsto> ?cm]\<rparr>"
    using createIfAbsent_effect[OF conjunct1[OF st], of s ?cm] assms(7) by (auto simp: nn)
  obtain w s2 where s2: "drawLetters draw 24 s1 = (Inr w, s2)" "length w = 24" "set w \<subseteq> set letters" "view s2 = view s1"
    using drawLetters_ok[OF assms(4)] by blast
  obtain s3 where s3: "createIfAbsent (tfSecrets c) ?sec s2 = (Inr (), s3)"
    "view s3 = (view s2)\<lparr>svSecrets := [\<lparr>nnNamespace = dn, nnName = defaultRsyncServerSecret\<rparr> \<mapsto> ?sec]\<rparr>"
    using createIfAbsent_effect[OF conjunct1[OF conjunct2[OF st]], of s2 ?sec] s2(4) s1(2) assms(7) by (auto simp: nn)
  let ?r' = "?r\<lparr>rsPassword := w\<rparr>"
  have res: "createRsyncServerResources draw c r dn s = (Inr (?r', None), s3)"
    using s1(1) s2(1) s3(1) assms(5) l
    by (simp add: createRsyncServerResources_def createRsyncServerConfig_def createRsyncServerSecret_def Let_def bindA_def pureA_def
        errOfA_def tryA_def retA_def)
  have pn: "nnOf (poMeta (rsyncServerPod ?r' dn ?fs)) = \<lparr>nnNamespace = dn, nnName = ''rsync-server''\<rparr>"
    unfolding rsyncServerPod_def by (simp add: nn)
  have empty: "svPods (view s3) = Map.empty" using s1 s2 s3 assms(7) by simp
  obtain s4 where s4: "createRsyncServer c ?r' dn s3 = (Inr (), s4)"
    "view s4 = (view s3)\<lparr>svPods := (if ?fs = [] then Map.empty
      else [\<lparr>nnNamespace = dn, nnName = ''rsync-server''\<rparr> \<mapsto> rsyncServerPod ?r' dn ?fs])\<rparr>"
  proof (cases "?fs = []")
    case True
    have "view s3 = (view s3)\<lparr>svPods := Map.empty\<rparr>" using empty by (metis server_view.surjective server_view.update_convs(3) server_view.select_convs(3))
    then show ?thesis using that[of s3] True l filesystemClaims_bothClaims[OF assms(2)]
      by (simp add: createRsyncServer_def bindA_def pureA_def retA_def)
  next
    case False
    obtain s4 where "k_create (tfPods c) (rsyncServerPod ?r' dn ?fs) s3 = (Inr (), s4)"
      "view s4 = (view s3)\<lparr>svPods := (svPods (view s3))(nnOf (poMeta (rsyncServerPod ?r' dn ?fs)) \<mapsto> rsyncServerPod ?r' dn ?fs)\<rparr>"
      using stores_create(1)[OF conjunct2[OF conjunct2[OF st]]] empty by force
    then show ?thesis using that[of s4] False l filesystemClaims_bothClaims[OF assms(2)] empty pn
      by (simp add: createRsyncServer_def bindA_def pureA_def)
  qed
  have "rsyncCreateServer agg draw c r s = (Inr (?r', None), s4)"
    using res s4(1) l assms(6) by (simp add: rsyncCreateServer_def firstR_def bindA_def pureA_def errOfA_def tryA_def retA_def)
  moreover have "svConfigMaps (view s4) = [\<lparr>nnNamespace = dn, nnName = defaultRsyncServerConfig\<rparr> \<mapsto> ?cm]"
    "svSecrets (view s4) = [\<lparr>nnNamespace = dn, nnName = defaultRsyncServerSecret\<rparr> \<mapsto> ?sec]"
    "svPods (view s4) = (if ?fs = [] then Map.empty else [\<lparr>nnNamespace = dn, nnName = ''rsync-server''\<rparr> \<mapsto> rsyncServerPod ?r' dn ?fs])"
    using s1(2) s2(4) s3(2) s4(2) assms(7) by simp_all
  ultimately show ?thesis using s2(2,3)
    by (intro exI[of _ s4] exI[of _ ?r'] exI[of _ ?cm] exI[of _ ?sec]) (simp add: defaultRsyncUser_def Let_def)
qed

definition ref_transfer_client :: "server_view transfer_client" where
  "ref_transfer_client = \<lparr>
     tfConfigMaps = ref_kind cmMeta svConfigMaps (\<lambda>x. svConfigMaps_update (\<lambda>_. x)),
     tfSecrets = ref_kind secMeta svSecrets (\<lambda>x. svSecrets_update (\<lambda>_. x)),
     tfPods = ref_kind poMeta svPods (\<lambda>x. svPods_update (\<lambda>_. x))\<rparr>"

lemma serves_ref_transfers: "serves_transfers ref_transfer_client id"
  unfolding serves_transfers_def ref_transfer_client_def transfer_client.simps by (intro conjI stores_ref_kind)

lemma draws_ref: "draws_below (\<lambda>n. retA (n - 1)) id"
  by (simp add: draws_below_def retA_def)

lemma rsync_server_created_witness:
  "\<exists>s' r' cm. rsyncCreateServer hd (\<lambda>n. retA (n - 1)) ref_transfer_client (ex_transfer ex_null)
      \<lparr>svConfigMaps = Map.empty, svSecrets = Map.empty, svPods = Map.empty\<rparr> = (Inr (r', None), s') \<and>
    svConfigMaps s' = [\<lparr>nnNamespace = ''app'', nnName = defaultRsyncServerConfig\<rparr> \<mapsto> cm] \<and> svPods s' \<noteq> Map.empty"
proof -
  have d: "GetDestinationNamespaces ex_files = Inr [''app'']"
    unfolding GetDestinationNamespaces_complete[OF ex_files_complete]
    by (simp add: ex_files_def ex_files_claims claimNamespace_def ex_claim_def objectMetaOf_def)
  have m: "asRootOrPrivileged (DestContainerMutations (rsOptions (ex_transfer ex_null))) False False = Inr (False, False)"
    by (simp add: ex_transfer_def ex_options_def applyOptions_def zeroOptions_def)
  have f: "filter (\<lambda>p. isFilesystem (srcOf p)) ex_files \<noteq> []"
    by (simp add: ex_files_def ex_files_claims isFilesystem_def ex_claim_def)
  from rsync_server_created[OF ex_transfer_is_new ex_files_complete serves_ref_transfers draws_ref m d,
      of "\<lparr>svConfigMaps = Map.empty, svSecrets = Map.empty, svPods = Map.empty\<rparr>"] f
  show ?thesis unfolding Let_def by fastforce
qed

text \<open>A server that exists already is an error, though its configuration and secret are not.\<close>

lemma rsync_server_exists:
  assumes "serves_transfers c view" and "InDestinationNamespace dn (rsPvcList r) = Inr l" and "filesystemClaims l = Inr (f # fs)"
    and "svPods (view s) \<lparr>nnNamespace = dn, nnName = ''rsync-server''\<rparr> \<noteq> None"
  shows "\<exists>e. createRsyncServer c r dn s = (Inl (Error e), s) \<and> errorCause e = AlreadyExists"
proof -
  have "nnOf (poMeta (rsyncServerPod r dn (f # fs))) = \<lparr>nnNamespace = dn, nnName = ''rsync-server''\<rparr>"
    unfolding rsyncServerPod_def by (simp add: nnOf_def objectMetaOf_def)
  then obtain e where "k_create (tfPods c) (rsyncServerPod r dn (f # fs)) s = (Inl (Error e), s)" "errorCause e = AlreadyExists"
    using stores_create(2)[OF conjunct2[OF conjunct2[OF assms(1)[unfolded serves_transfers_def]]]] assms(4) by metis
  then show ?thesis using assms(2,3) by (simp add: createRsyncServer_def bindA_def pureA_def)
qed

end
