(* ===== verification/BlockrsyncProps.thy ===== *)
theory BlockrsyncProps
  imports Blockrsync RsyncProps
begin

text \<open>What the block transfer promises: its client reads, and its server writes, the right volumes.\<close>

lemma addVolumes_env:
  "ctEnv (foldl (\<lambda>k p. addVolumeToContainer (destOf p) (srcName p) (destName p) k) k l) =
     ctEnv k @ map (\<lambda>p. (''id-'' @ srcName p, volumePath (destOf p) (destName p))) l"
  by (induction l arbitrary: k) (simp_all add: addVolumeToContainer_def Let_def)

lemma addVolumes_devices:
  "ctDevices (foldl (\<lambda>k p. addVolumeToContainer (destOf p) (srcName p) (destName p) k) k l) =
     ctDevices k @ map (\<lambda>p. (destName p, ''/dev/'' @ destName p)) (filter (\<lambda>p. pvcMode (destOf p) = Some ''Block'') l)"
  by (induction l arbitrary: k) (simp_all add: addVolumeToContainer_def Let_def)

lemma addVolumes_mounts:
  "ctMounts (foldl (\<lambda>k p. addVolumeToContainer (destOf p) (srcName p) (destName p) k) k l) =
     ctMounts k @ map (\<lambda>p. mountOf (destName p) (''/mnt/'' @ destName p) []) (filter (\<lambda>p. pvcMode (destOf p) \<noteq> Some ''Block'') l)"
  by (induction l arbitrary: k) (simp_all add: addVolumeToContainer_def Let_def)

text \<open>Where a container finds a volume: a device, or the image inside a mount.\<close>

definition hasVolume :: "container \<Rightarrow> claim \<Rightarrow> string \<Rightarrow> bool" where
  "hasVolume k c label \<longleftrightarrow> (if pvcMode c = Some ''Block''
     then (label, volumePath c label) \<in> set (ctDevices k)
     else \<exists>path. mountOf label path [] \<in> set (ctMounts k) \<and> volumePath c label = path @ ''/disk.img'')"


definition ex_block :: "labels option \<Rightarrow> blockTransfer" where
  "ex_block ls = \<lparr>btPvcList = [ex_list ! 1], btTransport = ex_null, btEndpoint = ex_endpoint, btEndpointLabels = None,
     btOptions = \<lparr>boSourceLabels = ls, boDestinationLabels = None, boServerImage = [], boClientImage = [], boNodeName = []\<rparr>\<rparr>"

lemma ex_block_complete: "list_all bothClaims (btPvcList (ex_block ls))"
  using ex_list_complete by (simp add: ex_block_def ex_list_def)


text \<open>
  A block transfer whose options have no source labels panics when its client is created:
  the label of the claim is written into a nil map.
\<close>

theorem block_client_without_labels_panics:
  assumes "list_all bothClaims (btPvcList r)" and "btPvcList r \<noteq> []" and "boSourceLabels (btOptions r) = None"
    and "transportCreateClient M ''block'' (endpointNow r) (btTransport r) s = (Inr (t, None), s')"
  shows "blockCreateClient M c r s = (Inl (Panic ''assignment to entry in nil map''), s')"
proof -
  obtain p l where l: "btPvcList r = p # l" "bothClaims p" using assms(1,2) by (cases "btPvcList r") auto
  then obtain src where "bindR (derefR p) (\<lambda>x. derefR (ppSource x)) = Inr src" by (auto simp: bothClaims_def)
  then show ?thesis using l assms(3,4)
    by (simp add: blockCreateClient_def createBlockrsyncClient_def assignR_def Let_def bindA_def pureA_def)
qed

definition ex_methods :: "'s remote_methods" where
  "ex_methods = \<lparr>transportCreateClient = (\<lambda>_ _ t. retA (t, None)), endpointCreateMethod = (\<lambda>e. retA (e, None))\<rparr>"

lemma block_client_without_labels_panics_witness:
  "blockCreateClient ex_methods log_client (ex_block None) [] = (Inl (Panic ''assignment to entry in nil map''), [])"
  by (rule block_client_without_labels_panics[OF ex_block_complete, where t = ex_null])
    (simp_all add: ex_block_def ex_methods_def retA_def)

text \<open>A list of several claims is accepted on the strength of the first, and only that one gets a client.\<close>

lemma block_list_is_not_checked:
  assumes "validateBlockName V agg p = Inr None" and "bothClaims p"
  shows "validateBlockList V agg [p, p] = Inr None"
  using assms by (simp add: validateBlockList_def GetDestinationNamespaces_complete GetSourceNamespaces_complete)

end
