(* ===== verification/RcloneProps.thy ===== *)
theory RcloneProps
  imports Rclone RsyncServerProps BlockrsyncProps
begin

text \<open>What the rclone transfer promises: the client logs in with the password the server was started with.\<close>

definition rclone_cluster :: "'s rclone_client \<Rightarrow> 's remote_methods \<Rightarrow> ('s \<Rightarrow> deployment list) \<Rightarrow> ('s \<Rightarrow> configMap list) \<Rightarrow> bool" where
  "rclone_cluster c M dview cview \<longleftrightarrow>
     (\<forall>s x. \<exists>s'. k_create (rcDeployments c) x s = (Inr (), s') \<and> dview s' = dview s @ [x] \<and> cview s' = cview s) \<and>
     (\<forall>s x. \<exists>s'. k_create (rcConfigMaps c) x s = (Inr (), s') \<and> dview s' = dview s \<and> cview s' = cview s @ [x]) \<and>
     (\<forall>s e. \<exists>s' e'. endpointCreateMethod M e s = (Inr (e', None), s') \<and> dview s' = dview s \<and> cview s' = cview s)"

lemma pair_labels [simp]:
  assumes "bothClaims p"
  shows "destinationLabel p = Inr (destName p)" "sourceLabel p = Inr (srcName p)"
  using assms by (auto simp: bothClaims_def destinationLabel_def sourceLabel_def labelR_def destName_def srcName_def)

text \<open>
  C26. The server of a claim and the configuration of its client, made afterwards by the same
  transfer, share their credentials: the deployment serves with a user and 24 random letters as password, and the
  client's configuration has a URL with just these.
\<close>

theorem rclone_client_authenticates:
  assumes "rclone_cluster c M dview cview" and "draws_below draw (\<lambda>s. (dview s, cview s))"
    and "rcPvcList r = [p]" and "bothClaims p" and "rcLabels r = Some ls"
  shows "\<exists>s1 r1 d w s2 cm. rcloneCreateServer M draw c r s = (Inr (r1, None), s1) \<and> dview s1 = dview s @ [d] \<and>
    length w = 24 \<and> set w \<subseteq> set letters \<and>
    (\<exists>us vs. ctCommand (hd (psContainers (dpSpec d))) = us @ [''--user'', ''crane2'', ''--pass'', w] @ vs) \<and>
    createRcloneClientResources c r1 p s1 = (Inr (), s2) \<and> cview s2 = cview s1 @ [cm] \<and>
    (\<exists>before. fmlookup (cmData cm) ''rclone.conf'' = Some (before @ nl (''url = http://crane2:'' @ w @ ''@'' @
      ConnectionHostname (rcTransport r1) (rcEndpointNow r1) @ '':'' @ portText (ConnectionPort (rcTransport r1) (rcEndpointNow r1)))))"
proof -
  note cl = assms(1)[unfolded rclone_cluster_def]
  obtain w sa where w: "drawLetters draw 24 s = (Inr w, sa)" "length w = 24" "set w \<subseteq> set letters"
    "dview sa = dview s" using drawLetters_ok[OF assms(2), of 24 s] by auto
  let ?r = "r\<lparr>rcPassword := w, rcPort := rclonePort, rcUsername := rcloneUser\<rparr>"
  let ?cm = "rcloneConfigMap (labelsOf (rcLabels ?r)) (destOf p) (destName p) rcloneServerConf"
  obtain sb where sb: "k_create (rcConfigMaps c) ?cm sa = (Inr (), sb)" "dview sb = dview sa" using cl by metis
  let ?ls = "fmupd ''pvc'' (destName p) ls" and ?r2 = "?r\<lparr>rcLabels := Some (fmupd ''pvc'' (destName p) ls)\<rparr>"
  let ?d = "rcloneDeployment ?r ?ls (destOf p) (destName p)"
  obtain sc where sc: "k_create (rcDeployments c) ?d sb = (Inr (), sc)" "dview sc = dview sb @ [?d]" using cl by metis
  obtain sd e where sd: "endpointCreateMethod M (rcEndpointNow ?r2) sc = (Inr (e, None), sd)" "dview sd = dview sc" using cl by metis
  let ?r3 = "?r2\<lparr>rcEndpoint := e\<rparr>"
  have res: "createRcloneServerResources draw c p r s = (Inr (?r, None), sb)"
    using w(1) sb(1) assms(4) by (simp add: createRcloneServerResources_def createRcloneServerConfig_def Let_def bindA_def pureA_def
        errOfA_def tryA_def retA_def)
  have srv: "createRcloneServer c p ?r sb = (Inr (?r2, None), sc)"
    using sc(1) assms(4,5) by (simp add: createRcloneServer_def assignR_def bindA_def pureA_def errOfA_def tryA_def retA_def)
  have create: "rcloneCreateServer M draw c r s = (Inr (?r3, None), sd)"
    using res srv sd(1) assms(3) by (simp add: rcloneCreateServer_def firstPair_def bindA_def pureA_def retA_def)
  let ?conf = "rcloneClientConf (rcUsername ?r3) (rcPassword ?r3) (ConnectionHostname (rcTransport ?r3) (rcEndpointNow ?r3))
    (portText (ConnectionPort (rcTransport ?r3) (rcEndpointNow ?r3)))"
  let ?ccm = "rcloneConfigMap (labelsOf (rcLabels ?r3)) (srcOf p) (srcName p) ?conf"
  obtain se where se: "k_create (rcConfigMaps c) ?ccm sd = (Inr (), se)" "cview se = cview sd @ [?ccm]" using cl by metis
  have client: "createRcloneClientResources c ?r3 p sd = (Inr (), se)"
    using se(1) assms(4) by (simp add: createRcloneClientResources_def createRcloneClientConfig_def bindA_def pureA_def)
  have cmd: "ctCommand (hd (psContainers (dpSpec ?d))) =
      [''/usr/bin/rclone'', ''serve'', ''http'', ''mnt''] @ [''--user'', ''crane2'', ''--pass'', w] @ [''--config'', ''/etc/rclone.conf'', ''--addr'', '':8080'']"
    by (simp add: rcloneDeployment_def podSpecOf_def rcloneServerContainer_def containerOf_def rcloneUser_def)
  have conf: "fmlookup (cmData ?ccm) ''rclone.conf'' = Some ((nl ''[remote]'' @ nl ''type = http'') @ nl (''url = http://crane2:'' @ w @ ''@'' @
      ConnectionHostname (rcTransport ?r3) (rcEndpointNow ?r3) @ '':'' @ portText (ConnectionPort (rcTransport ?r3) (rcEndpointNow ?r3))))"
    by (simp add: rcloneConfigMap_def rcloneClientConf_def rcloneUser_def)
  have "dview sd = dview s @ [?d]" using w(4) sb(2) sc(2) sd(2) by simp
  then show ?thesis using create w(2,3) cmd client se(2) conf by blast
qed

definition ex_rclone :: rcloneTransfer where
  "ex_rclone = \<lparr>rcUsername = [], rcPassword = [], rcPvcList = [ex_list ! 0], rcTransport = ex_null, rcEndpoint = ex_endpoint,
     rcLabels = Some fmempty, rcPort = 0\<rparr>"

definition ref_rclone_client :: "(deployment list \<times> configMap list) rclone_client" where
  "ref_rclone_client = \<lparr>
     rcConfigMaps = \<lparr>k_get = (\<lambda>_. failA (Error (GoError ''not found'' NotFound))), k_create = (\<lambda>x (a, b). (Inr (), (a, b @ [x]))), k_update = (\<lambda>_. retA ())\<rparr>,
     rcPods = \<lparr>k_get = (\<lambda>_. failA (Error (GoError ''not found'' NotFound))), k_create = (\<lambda>_. retA ()), k_update = (\<lambda>_. retA ())\<rparr>,
     rcDeployments = \<lparr>k_get = (\<lambda>_. failA (Error (GoError ''not found'' NotFound))), k_create = (\<lambda>x (a, b). (Inr (), (a @ [x], b))), k_update = (\<lambda>_. retA ())\<rparr>\<rparr>"

lemma rclone_client_authenticates_witness:
  "\<exists>s1 r1 d w. rcloneCreateServer ex_methods (\<lambda>n. retA (n - 1)) ref_rclone_client ex_rclone ([], []) = (Inr (r1, None), s1) \<and>
    fst s1 = [d] \<and> length w = 24 \<and> (\<exists>us vs. ctCommand (hd (psContainers (dpSpec d))) = us @ [''--user'', ''crane2'', ''--pass'', w] @ vs)"
proof -
  have 1: "rclone_cluster ref_rclone_client ex_methods fst snd"
    by (simp add: rclone_cluster_def ref_rclone_client_def ex_methods_def retA_def)
  have 2: "draws_below (\<lambda>n. retA (n - 1)) (\<lambda>s. (fst s, snd s))" by (simp add: draws_below_def retA_def)
  have 3: "rcPvcList ex_rclone = [ex_list ! 0]" "bothClaims (ex_list ! 0)" "rcLabels ex_rclone = Some fmempty"
    using ex_files_complete by (simp_all add: ex_rclone_def ex_files_def)
  show ?thesis using rclone_client_authenticates[OF 1 2 3, of "([], [])"] by (metis append_Nil fst_conv)
qed

end
