(* ===== verification/Indirect.thy ===== *)
theory Indirect
  imports Transfers GoConv
begin

text \<open>
  \<open>state_transfer/transfer/indirect\<close>: the transfer of a claim through cloud storage. One pod
  uploads the source claim, another downloads it into the destination, a third deletes the
  data in between; \<open>Cleanup\<close> removes the pods and secrets of a claim, found by their labels.
\<close>

record indirectOptions =
  ioImage :: string
  ioCloudStorage :: string
  ioConfigSecret :: string
  ioEncrypt :: bool
  ioKeepCloudData :: bool
  ioLabels :: labels
  ioUploadSecurity :: podSecurityContext
  ioDownloadSecurity :: podSecurityContext

definition configMountPath :: string where "configMountPath = ''/etc/rclone''"
definition dataMountPath :: string where "dataMountPath = ''/data''"
definition configVolumeName :: string where "configVolumeName = ''rclone-config''"
definition dataVolumeName :: string where "dataVolumeName = ''data''"
definition maxPodNameLen :: nat where "maxPodNameLen = 63"
definition CryptRemoteName :: string where "CryptRemoteName = ''encrypted''"
definition CryptRemoteSection :: string where "CryptRemoteSection = ''[encrypted]''"
definition createdForPvc :: string where "createdForPvc = ''app.konveyor.io/created-for-pvc''"

definition ValidateOptions :: "indirectOptions \<Rightarrow> goerror option" where
  "ValidateOptions o' = (if ioCloudStorage o' = [] then Some (errorf ''cloud storage path is required'')
     else if ioConfigSecret o' = [] then Some (errorf ''rclone config secret name is required'') else None)"

definition newIndirect :: "indirectOptions \<Rightarrow> indirectOptions" where
  "newIndirect opts =
     (let o1 = (if ioImage opts = [] then opts\<lparr>ioImage := DefaultRsyncTransferImage\<rparr> else opts) in
      if ioLabels o1 = fmempty
      then o1\<lparr>ioLabels := fmupd ''app.kubernetes.io/component'' ''indirect-transfer'' (fmupd ''app.kubernetes.io/name'' ''crane'' fmempty)\<rparr>
      else o1)"

text \<open>The verdict and the error; a failed pod is complete and an error at once.\<close>

definition isPodComplete :: "('s, pod) kind_api \<Rightarrow> string \<Rightarrow> string \<Rightarrow> ('s, bool \<times> goerror option) act" where
  "isPodComplete c podName namespace =
     bindA (tryA (k_get c \<lparr>nnNamespace = namespace, nnName = podName\<rparr>)) (\<lambda>r. retA (case r of
       Inl err \<Rightarrow> (False, Some err)
     | Inr p \<Rightarrow> if poPhase p = ''Succeeded'' then (True, None)
         else if poPhase p = ''Failed'' then (True, Some (errorf (''pod '' @ namespace @ ''/'' @ podName @ '' failed'')))
         else (False, None)))"

definition truncatePodName :: "string \<Rightarrow> string" where
  "truncatePodName name = (if length name \<le> maxPodNameLen then name else trimRight ''-.'' (take maxPodNameLen name))"

definition cleanupLabels :: "indirectOptions \<Rightarrow> string \<Rightarrow> labels" where
  "cleanupLabels o' pvcName = fmupd createdForPvc pvcName (ioLabels o')"

definition rclonePodContainer :: "indirectOptions \<Rightarrow> string list \<Rightarrow> volumeMount list \<Rightarrow> container" where
  "rclonePodContainer o' command mounts = (containerOf ''rclone'' (ioImage o') command)\<lparr>ctMounts := mounts\<rparr>"

definition configMount :: volumeMount where
  "configMount = (mountOf configVolumeName configMountPath [])\<lparr>vmReadOnly := True\<rparr>"

definition configVolume :: "indirectOptions \<Rightarrow> volume" where
  "configVolume o' = \<lparr>volName = configVolumeName, volSource = FromSecret (ioConfigSecret o') [] None\<rparr>"

definition indirectPod :: "indirectOptions \<Rightarrow> string \<Rightarrow> string \<Rightarrow> string \<Rightarrow> container \<Rightarrow> volume list \<Rightarrow> podSecurityContext option \<Rightarrow> pod" where
  "indirectPod o' name namespace pvcName k vs sec =
     \<lparr>poMeta = objectMetaOf namespace (truncatePodName name) (cleanupLabels o' pvcName), poGenerateName = [],
      poSpec = \<lparr>psContainers = [k], psVolumes = vs, psRestartPolicy = ''Never'', psNodeSelector = fmempty, psNodeName = [],
        psSecurity = sec\<rparr>,
      poStatuses = [], poPhase = []\<rparr>"

definition buildPod :: "indirectOptions \<Rightarrow> string \<Rightarrow> string \<Rightarrow> string \<Rightarrow> string list \<Rightarrow> podSecurityContext \<Rightarrow> pod" where
  "buildPod o' name namespace pvcName command secCtx =
     indirectPod o' name namespace pvcName
       (rclonePodContainer o' command [mountOf dataVolumeName dataMountPath [], configMount])
       [\<lparr>volName = dataVolumeName, volSource = FromClaim pvcName\<rparr>, configVolume o'] (Some secCtx)"

definition buildRcloneCommand :: "string \<Rightarrow> string \<Rightarrow> string \<Rightarrow> string list \<Rightarrow> string list" where
  "buildRcloneCommand subcommand src dst extraArgs =
     [''rclone'', subcommand, src, dst, ''--config'', configMountPath @ ''/rclone.conf'', ''--progress'', ''--links'', ''--metadata'', ''-v''] @
     extraArgs"

definition metadataSetArgs :: "podSecurityContext \<Rightarrow> string list" where
  "metadataSetArgs sec =
     (let uid = (case podRunAsUser sec of Some u \<Rightarrow> u | None \<Rightarrow> 65534);
          gid = (case podRunAsGroup sec of Some g \<Rightarrow> g | None \<Rightarrow> (case podFSGroup sec of Some g \<Rightarrow> g | None \<Rightarrow> uid))
      in [''--metadata-set'', ''uid='' @ itoa uid, ''--metadata-set'', ''gid='' @ itoa gid])"

definition BuildCryptSection :: "string \<Rightarrow> string \<Rightarrow> string ret" where
  "BuildCryptSection cloudStoragePath obscuredPassword =
     (if cloudStoragePath = [] then Inl (errorf ''cloud storage path is required for encryption config'')
      else if obscuredPassword = [] then Inl (errorf ''obscured password is required for encryption config'')
      else Inr (nl [] @ nl CryptRemoteSection @ nl ''type = crypt'' @ nl (''remote = '' @ cloudStoragePath) @
        nl (''password = '' @ obscuredPassword)))"

text \<open>\<open>fmt.Errorf("..: %w", err)\<close> keeps the cause.\<close>

definition wrapError :: "string \<Rightarrow> goerror \<Rightarrow> goerror" where
  "wrapError msg e = GoError (msg @ '': '' @ errorText e) (errorCause e)"

definition wrapA :: "string \<Rightarrow> ('s, 'a) act \<Rightarrow> ('s, 'a) act" where
  "wrapA msg m = bindA (tryA m) (\<lambda>r. case r of Inl e \<Rightarrow> failA (Error (wrapError msg e)) | Inr x \<Rightarrow> retA x)"

definition remotePath :: "indirectOptions \<Rightarrow> string \<Rightarrow> string \<Rightarrow> string" where
  "remotePath o' namespace pvcName = ioCloudStorage o' @ ''/'' @ namespace @ ''/'' @ pvcName"

definition transferPath :: "indirectOptions \<Rightarrow> string \<Rightarrow> string \<Rightarrow> string" where
  "transferPath o' namespace pvcName = (if ioEncrypt o' then CryptRemoteName @ '':'' else remotePath o' namespace pvcName)"

definition createPod :: "('s, pod) kind_api \<Rightarrow> string \<Rightarrow> pod \<Rightarrow> ('s, pod) act" where
  "createPod c what p = bindA (wrapA (''failed to create '' @ what @ '' pod'') (k_create c p)) (\<lambda>_. retA p)"

definition uploadPod :: "indirectOptions \<Rightarrow> claim \<Rightarrow> pod" where
  "uploadPod o' c = buildPod o' (''rclone-upload-'' @ claimName c) (claimNamespace c) (claimName c)
     (buildRcloneCommand ''sync'' dataMountPath (transferPath o' (claimNamespace c) (claimName c)) []) (ioUploadSecurity o')"

definition Upload :: "('s, pod) kind_api \<Rightarrow> indirectOptions \<Rightarrow> claim \<Rightarrow> ('s, pod) act" where
  "Upload c o' cl = (case ValidateOptions o' of
     Some err \<Rightarrow> failA (Error (wrapError ''invalid options for upload'' err))
   | None \<Rightarrow> createPod c ''upload'' (uploadPod o' cl))"

definition downloadPod :: "indirectOptions \<Rightarrow> claim \<Rightarrow> string \<Rightarrow> string \<Rightarrow> pod" where
  "downloadPod o' c srcNs remotePVCName = buildPod o' (''rclone-download-'' @ claimName c) (claimNamespace c) (claimName c)
     (buildRcloneCommand ''sync'' (transferPath o' srcNs remotePVCName) dataMountPath
       (metadataSetArgs (ioDownloadSecurity o'))) (ioDownloadSecurity o')"

definition Download :: "('s, pod) kind_api \<Rightarrow> indirectOptions \<Rightarrow> claim \<Rightarrow> string \<Rightarrow> string \<Rightarrow> ('s, pod) act" where
  "Download c o' cl srcNs remotePVCName = (case ValidateOptions o' of
     Some err \<Rightarrow> failA (Error (wrapError ''invalid options for download'' err))
   | None \<Rightarrow> createPod c ''download'' (downloadPod o' cl srcNs remotePVCName))"

definition IsUploadComplete :: "('s, pod) kind_api \<Rightarrow> string \<Rightarrow> string \<Rightarrow> ('s, bool \<times> goerror option) act" where
  "IsUploadComplete = isPodComplete"

definition IsDownloadComplete :: "('s, pod) kind_api \<Rightarrow> string \<Rightarrow> string \<Rightarrow> ('s, bool \<times> goerror option) act" where
  "IsDownloadComplete = isPodComplete"

section \<open>Cleaning up\<close>

definition cloudCleanupCommand :: "indirectOptions \<Rightarrow> string \<Rightarrow> string \<Rightarrow> string list" where
  "cloudCleanupCommand o' srcNs sourcePVCName =
     [''sh'', ''-c'', ''mkdir -p /tmp/empty && exec rclone sync /tmp/empty \"$1\" --config '' @ configMountPath @ ''/rclone.conf -v'',
      ''--'', remotePath o' srcNs sourcePVCName]"

definition CleanupCloudData :: "('s, pod) kind_api \<Rightarrow> indirectOptions \<Rightarrow> string \<Rightarrow> string \<Rightarrow> string \<Rightarrow> string \<Rightarrow> ('s, pod) act" where
  "CleanupCloudData c o' namespace pvcName srcNs sourcePVCName = (case ValidateOptions o' of
     Some err \<Rightarrow> failA (Error (wrapError ''invalid options for cloud cleanup'' err))
   | None \<Rightarrow> createPod c ''cloud cleanup'' (indirectPod o' (''rclone-cleanup-'' @ pvcName) namespace pvcName
       (rclonePodContainer o' (cloudCleanupCommand o' srcNs sourcePVCName) [configMount]) [configVolume o'] None))"

text \<open>An object that is gone already is no error.\<close>

definition deleteOne :: "string \<Rightarrow> ('s, 'o) list_api \<Rightarrow> 'o \<Rightarrow> ('s, unit) act" where
  "deleteOne what c x = bindA (tryA (deleteObject c x)) (\<lambda>r. case r of
     Inr _ \<Rightarrow> retA ()
   | Inl err \<Rightarrow> if errorCause err = NotFound then retA () else failA (Error (wrapError (''failed to delete '' @ what) err)))"

definition deleteEach :: "string \<Rightarrow> ('s, 'o) list_api \<Rightarrow> 'o list \<Rightarrow> ('s, unit) act" where
  "deleteEach what c = forA (deleteOne what c)"

definition Cleanup :: "('s, pod) list_api \<Rightarrow> ('s, secret) list_api \<Rightarrow> indirectOptions \<Rightarrow> string \<Rightarrow> string \<Rightarrow> ('s, unit) act" where
  "Cleanup pods secrets o' namespace pvcName =
     (if ioLabels o' = fmempty
      then failA (Error (errorf (''refusing to cleanup with empty labels: would match all resources in namespace '' @ namespace)))
      else bindA (wrapA ''failed to list indirect transfer pods'' (listByLabels pods namespace (cleanupLabels o' pvcName))) (\<lambda>ps.
        bindA (deleteEach ''pod'' pods ps) (\<lambda>_.
        bindA (wrapA ''failed to list indirect transfer secrets'' (listByLabels secrets namespace (cleanupLabels o' pvcName))) (\<lambda>ss.
        deleteEach ''secret'' secrets ss))))"

end
