(* ===== verification/IndirectProps.thy ===== *)
theory IndirectProps
  imports Indirect
begin

text \<open>What the transfer through cloud storage promises: names in bounds, paths that agree, a scoped cleanup.\<close>

section \<open>Names\<close>

lemma trimRight_prefix: "\<exists>rest. s = trimRight cs s @ rest"
proof -
  have "rev s = takeWhile (\<lambda>c. c \<in> set cs) (rev s) @ dropWhile (\<lambda>c. c \<in> set cs) (rev s)" by simp
  then have "s = rev (dropWhile (\<lambda>c. c \<in> set cs) (rev s)) @ rev (takeWhile (\<lambda>c. c \<in> set cs) (rev s))"
    by (metis rev_append rev_rev_ident)
  then show ?thesis unfolding trimRight_def by blast
qed

lemma trimRight_idem: "trimRight cs (trimRight cs s) = trimRight cs s"
  by (simp add: trimRight_def dropWhile_idem)

text \<open>
  A pod's name never exceeds 63 bytes and is a prefix of the name asked for: all of it
  when it fits, otherwise one that does not end in a dash or a dot. Names that agree in their first 63 bytes
  get the same pod name.
\<close>

theorem truncatePodName_bounds:
  "length (truncatePodName s) \<le> 63 \<and> (\<exists>rest. s = truncatePodName s @ rest) \<and>
   (if length s \<le> 63 then truncatePodName s = s
    else trimRight ''-.'' (truncatePodName s) = truncatePodName s \<and> truncatePodName s = truncatePodName (take 63 s @ ''x''))"
proof -
  obtain rest where rest: "take 63 s = trimRight ''-.'' (take 63 s) @ rest" using trimRight_prefix by blast
  then have "length (trimRight ''-.'' (take 63 s)) + length rest = length (take 63 s)" by (metis length_append)
  then have "length (trimRight ''-.'' (take 63 s)) \<le> 63" by simp
  moreover have "s = trimRight ''-.'' (take 63 s) @ (rest @ drop 63 s)"
    using rest append_take_drop_id[of 63 s] by (metis append.assoc)
  ultimately show ?thesis
    by (auto simp: truncatePodName_def maxPodNameLen_def trimRight_idem)
qed

section \<open>Paths\<close>

definition rcloneCommandOf :: "pod \<Rightarrow> string list" where
  "rcloneCommandOf p = ctCommand (hd (psContainers (poSpec p)))"

lemma pod_commands:
  "rcloneCommandOf (buildPod o' n ns pvcName cmd sec) = cmd"
  "rcloneCommandOf (indirectPod o' n ns pvcName (rclonePodContainer o' cmd ms) vs sec') = cmd"
  by (simp_all add: rcloneCommandOf_def buildPod_def indirectPod_def rclonePodContainer_def containerOf_def)

text \<open>
  A download of a claim reads from the path its upload wrote to, and both move the data of
  the mounted claim. The deletion of the data in between names that path only when the data is
  not encrypted: with encryption every claim is written to the same remote, and the path that is deleted is another.
\<close>

theorem indirect_paths_agree:
  "\<exists>path. take 4 (rcloneCommandOf (uploadPod opts src)) = [''rclone'', ''sync'', dataMountPath, path] \<and>
    take 4 (rcloneCommandOf (downloadPod opts dst (claimNamespace src) (claimName src))) = [''rclone'', ''sync'', path, dataMountPath] \<and>
    (last (cloudCleanupCommand opts (claimNamespace src) (claimName src)) = path \<longleftrightarrow> \<not> ioEncrypt opts) \<and>
    (ioEncrypt opts \<longleftrightarrow> path = ''encrypted:'')"
proof -
  have "remotePath opts ns n \<noteq> ''encrypted:''" for ns n
  proof
    assume "remotePath opts ns n = ''encrypted:''"
    moreover have "CHR ''/'' \<in> set (remotePath opts ns n)" by (simp add: remotePath_def)
    ultimately show False by simp
  qed
  then show ?thesis
    by (intro exI[of _ "transferPath opts (claimNamespace src) (claimName src)"])
      (simp add: uploadPod_def downloadPod_def pod_commands buildRcloneCommand_def cloudCleanupCommand_def transferPath_def CryptRemoteName_def)
qed

section \<open>Cleaning up\<close>

definition carries :: "labels \<Rightarrow> labels \<Rightarrow> bool" where
  "carries have want \<longleftrightarrow> fmpred (\<lambda>k v. fmlookup have k = Some v) want"

definition selected :: "('o \<Rightarrow> resourceMeta) \<Rightarrow> string \<Rightarrow> labels \<Rightarrow> 'o \<Rightarrow> bool" where
  "selected meta ns ls x \<longleftrightarrow> rmNamespace (meta x) = ns \<and> carries (rmLabels (meta x)) ls"

text \<open>
  Listing answers each object of the namespace with the labels once; deleting removes an
  object, or says it is not found. Objects are stored under their names.
\<close>

definition lists :: "('s, 'o) list_api \<Rightarrow> ('o \<Rightarrow> resourceMeta) \<Rightarrow> ('c \<Rightarrow> 'o store) \<Rightarrow> ('o store \<Rightarrow> 'c \<Rightarrow> 'c) \<Rightarrow> ('s \<Rightarrow> 'c) \<Rightarrow> bool" where
  "lists api meta get put view \<longleftrightarrow>
     (\<forall>s n x. get (view s) n = Some x \<longrightarrow> nnOf (meta x) = n) \<and>
     (\<forall>s ns ls. \<exists>xs. listByLabels api ns ls s = (Inr xs, s) \<and> distinct xs \<and>
        set xs = {x. selected meta ns ls x \<and> get (view s) (nnOf (meta x)) = Some x}) \<and>
     (\<forall>s x. if get (view s) (nnOf (meta x)) = None
        then \<exists>e. deleteObject api x s = (Inl (Error e), s) \<and> errorCause e = NotFound
        else \<exists>s'. deleteObject api x s = (Inr (), s') \<and> view s' = put ((get (view s))(nnOf (meta x) := None)) (view s))"

definition without :: "('o \<Rightarrow> resourceMeta) \<Rightarrow> string \<Rightarrow> labels \<Rightarrow> 'o store \<Rightarrow> 'o store" where
  "without meta ns ls st = (\<lambda>n. case st n of None \<Rightarrow> None | Some x \<Rightarrow> if selected meta ns ls x then None else Some x)"

lemma deleteEach_removes:
  assumes "lists api meta get put view"
    and put: "\<And>a b c. get (put a c) = a" "\<And>a b c. put a (put b c) = put a c" "\<And>c. put (get c) c = c"
  shows "\<exists>s'. deleteEach what api xs s = (Inr (), s') \<and>
    view s' = put (\<lambda>n. if n \<in> (nnOf \<circ> meta) ` set xs then None else get (view s) n) (view s)"
proof (induction xs arbitrary: s)
  case Nil
  then show ?case by (simp add: deleteEach_def put)
next
  case (Cons x xs)
  let ?st = "(get (view s))(nnOf (meta x) := None)"
  have "if get (view s) (nnOf (meta x)) = None
        then \<exists>e. deleteObject api x s = (Inl (Error e), s) \<and> errorCause e = NotFound
        else \<exists>s'. deleteObject api x s = (Inr (), s') \<and> view s' = put ?st (view s)"
    using assms(1) unfolding lists_def by blast
  note del = this
  obtain s1 where s1: "deleteOne what api x s = (Inr (), s1)" "view s1 = put ?st (view s)"
  proof (cases "get (view s) (nnOf (meta x)) = None")
    case True
    then have "?st = get (view s)" by auto
    then have "put ?st (view s) = view s" by (simp add: put)
    then show ?thesis using that[of s] True del by (auto simp: deleteOne_def bindA_def tryA_def retA_def)
  next
    case False
    then show ?thesis using that del by (auto simp: deleteOne_def bindA_def tryA_def retA_def)
  qed
  obtain s2 where s2: "deleteEach what api xs s1 = (Inr (), s2)"
    "view s2 = put (\<lambda>n. if n \<in> (nnOf \<circ> meta) ` set xs then None else get (view s1) n) (view s1)" using Cons.IH by blast
  have "deleteEach what api (x # xs) s = (Inr (), s2)" using s1(1) s2(1) by (simp add: deleteEach_def)
  moreover have "(\<lambda>n. if n \<in> (nnOf \<circ> meta) ` set xs then None else ?st n) =
      (\<lambda>n. if n \<in> (nnOf \<circ> meta) ` set (x # xs) then None else get (view s) n)" by auto
  then have "view s2 = put (\<lambda>n. if n \<in> (nnOf \<circ> meta) ` set (x # xs) then None else get (view s) n) (view s)"
    unfolding s2(2) s1(2) put(1,2) by metis
  ultimately show ?case by blast
qed

lemma list_and_delete:
  assumes "lists api meta get put view"
    and put: "\<And>a c. get (put a c) = a" "\<And>a b c. put a (put b c) = put a c" "\<And>c. put (get c) c = c"
  shows "\<exists>xs s'. wrapA msg (listByLabels api ns ls) s = (Inr xs, s) \<and> deleteEach what api xs s = (Inr (), s') \<and>
    view s' = put (without meta ns ls (get (view s))) (view s)"
proof -
  obtain xs where xs: "listByLabels api ns ls s = (Inr xs, s)"
    "set xs = {x. selected meta ns ls x \<and> get (view s) (nnOf (meta x)) = Some x}"
    using assms(1) unfolding lists_def by blast
  have names: "get (view s) n = Some x \<Longrightarrow> nnOf (meta x) = n" for n x using assms(1) unfolding lists_def by blast
  have "(\<lambda>n. if n \<in> (nnOf \<circ> meta) ` set xs then None else get (view s) n) = without meta ns ls (get (view s))"
  proof
    fix n
    show "(if n \<in> (nnOf \<circ> meta) ` set xs then None else get (view s) n) = without meta ns ls (get (view s)) n"
    proof (cases "get (view s) n")
      case None
      then show ?thesis by (simp add: without_def)
    next
      case (Some x)
      then have x: "nnOf (meta x) = n" by (rule names)
      have "n \<in> (nnOf \<circ> meta) ` set xs \<longleftrightarrow> selected meta ns ls x"
      proof
        assume "n \<in> (nnOf \<circ> meta) ` set xs"
        then obtain y where "y \<in> set xs" "nnOf (meta y) = n" by auto
        then show "selected meta ns ls x" using Some unfolding xs(2) by simp
      next
        assume "selected meta ns ls x"
        then have "x \<in> set xs" using Some x unfolding xs(2) by simp
        then show "n \<in> (nnOf \<circ> meta) ` set xs" using x by (metis comp_apply image_eqI)
      qed
      then show ?thesis using Some by (simp add: without_def)
    qed
  qed
  moreover obtain s' where "deleteEach what api xs s = (Inr (), s')"
    "view s' = put (\<lambda>n. if n \<in> (nnOf \<circ> meta) ` set xs then None else get (view s) n) (view s)"
    using deleteEach_removes[OF assms(1) put, where what = what and xs = xs and s = s] by blast
  moreover have "wrapA msg (listByLabels api ns ls) s = (Inr xs, s)" using xs(1) by (simp add: wrapA_def bindA_def tryA_def retA_def)
  ultimately show ?thesis by metis
qed

record cleanup_view =
  cvPods :: "pod store"
  cvSecrets :: "secret store"

text \<open>
  C14. Cleaning up removes exactly the pods and the secrets of the namespace that carry all the
  labels of the transfer and the label of the claim; everything else stays. Options made by
  \<open>New\<close> always have labels, so it is never refused for them.
\<close>

theorem Cleanup_removes_exactly:
  assumes "lists pods poMeta cvPods (\<lambda>x. cvPods_update (\<lambda>_. x)) view"
    and "lists secrets secMeta cvSecrets (\<lambda>x. cvSecrets_update (\<lambda>_. x)) view"
  shows "\<exists>s' ls. Cleanup pods secrets (newIndirect opts) ns pvcName s = (Inr (), s') \<and>
    ls = fmupd ''app.konveyor.io/created-for-pvc'' pvcName (ioLabels (newIndirect opts)) \<and>
    view s' = \<lparr>cvPods = without poMeta ns ls (cvPods (view s)), cvSecrets = without secMeta ns ls (cvSecrets (view s))\<rparr>"
proof -
  let ?o = "newIndirect opts" and ?ls = "cleanupLabels (newIndirect opts) pvcName"
  have labels: "ioLabels ?o \<noteq> fmempty" by (simp add: newIndirect_def Let_def)
  obtain ps s1 where 1: "wrapA ''failed to list indirect transfer pods'' (listByLabels pods ns ?ls) s = (Inr ps, s)"
    "deleteEach ''pod'' pods ps s = (Inr (), s1)" "view s1 = (view s)\<lparr>cvPods := without poMeta ns ?ls (cvPods (view s))\<rparr>"
    using list_and_delete[OF assms(1)] by fastforce
  obtain ss s2 where 2: "wrapA ''failed to list indirect transfer secrets'' (listByLabels secrets ns ?ls) s1 = (Inr ss, s1)"
    "deleteEach ''secret'' secrets ss s1 = (Inr (), s2)" "view s2 = (view s1)\<lparr>cvSecrets := without secMeta ns ?ls (cvSecrets (view s1))\<rparr>"
    using list_and_delete[OF assms(2)] by fastforce
  have "Cleanup pods secrets ?o ns pvcName s = (Inr (), s2)"
    unfolding Cleanup_def if_not_P[OF labels] using 1 2 by (simp add: bindA_def)
  moreover have "view s2 = \<lparr>cvPods = without poMeta ns ?ls (cvPods (view s)), cvSecrets = without secMeta ns ?ls (cvSecrets (view s))\<rparr>"
    using 1(3) 2(3) by simp
  ultimately show ?thesis by (intro exI[of _ s2] exI[of _ ?ls]) (simp add: cleanupLabels_def createdForPvc_def)
qed

text \<open>A cluster as two lists, the first object of a name being the one that is there.\<close>

definition store_of :: "('o \<Rightarrow> resourceMeta) \<Rightarrow> 'o list \<Rightarrow> 'o store" where
  "store_of meta xs = map_of (map (\<lambda>x. (nnOf (meta x), x)) xs)"

definition ref_lists :: "('o \<Rightarrow> resourceMeta) \<Rightarrow> ('s \<Rightarrow> 'o list) \<Rightarrow> ('o list \<Rightarrow> 's \<Rightarrow> 's) \<Rightarrow> ('s, 'o) list_api" where
  "ref_lists meta get put =
     (let find = (\<lambda>ns ls s. (Inr (filter (\<lambda>x. selected meta ns ls x \<and> store_of meta (get s) (nnOf (meta x)) = Some x) (remdups (get s))), s)) in
      \<lparr>listByLabels = find, listByFields = find,
       deleteObject = (\<lambda>x s. if store_of meta (get s) (nnOf (meta x)) = None then (Inl (Error (GoError ''not found'' NotFound)), s)
         else (Inr (), put (filter (\<lambda>y. nnOf (meta y) \<noteq> nnOf (meta x)) (get s)) s))\<rparr>)"

lemma store_of_props:
  "store_of meta xs n = Some x \<Longrightarrow> nnOf (meta x) = n \<and> x \<in> set xs"
  "store_of meta (filter (\<lambda>y. nnOf (meta y) \<noteq> m) xs) = (store_of meta xs)(m := None)"
proof -
  show "store_of meta xs n = Some x \<Longrightarrow> nnOf (meta x) = n \<and> x \<in> set xs"
    by (auto simp: store_of_def dest!: map_of_SomeD)
  show "store_of meta (filter (\<lambda>y. nnOf (meta y) \<noteq> m) xs) = (store_of meta xs)(m := None)"
    by (induction xs) (auto simp: store_of_def)
qed

definition lists_view :: "pod list \<times> secret list \<Rightarrow> cleanup_view" where
  "lists_view s = \<lparr>cvPods = store_of poMeta (fst s), cvSecrets = store_of secMeta (snd s)\<rparr>"

lemma ref_lists_lists:
  "lists (ref_lists poMeta fst (\<lambda>x (_, b). (x, b))) poMeta cvPods (\<lambda>x. cvPods_update (\<lambda>_. x)) lists_view"
  "lists (ref_lists secMeta snd (\<lambda>x (a, _). (a, x))) secMeta cvSecrets (\<lambda>x. cvSecrets_update (\<lambda>_. x)) lists_view"
  by (auto simp: lists_def ref_lists_def lists_view_def Let_def store_of_props(2) dest: store_of_props(1))

lemma Cleanup_removes_exactly_witness:
  "\<exists>s' ls. Cleanup (ref_lists poMeta fst (\<lambda>x (_, b). (x, b))) (ref_lists secMeta snd (\<lambda>x (a, _). (a, x)))
      (newIndirect \<lparr>ioImage = [], ioCloudStorage = ''s3:bucket'', ioConfigSecret = ''rclone'', ioEncrypt = False, ioKeepCloudData = False,
        ioLabels = fmempty, ioUploadSecurity = \<lparr>podRunAsUser = None, podRunAsGroup = None, podFSGroup = None\<rparr>,
        ioDownloadSecurity = \<lparr>podRunAsUser = None, podRunAsGroup = None, podFSGroup = None\<rparr>\<rparr>) ''app'' ''data'' ([], []) = (Inr (), s') \<and>
    lists_view s' = \<lparr>cvPods = without poMeta ''app'' ls Map.empty, cvSecrets = without secMeta ''app'' ls Map.empty\<rparr>"
proof -
  have "lists_view ([], []) = \<lparr>cvPods = Map.empty, cvSecrets = Map.empty\<rparr>" by (simp add: lists_view_def store_of_def)
  then show ?thesis using Cleanup_removes_exactly[OF ref_lists_lists, where s = "([], [])"] by (metis cleanup_view.select_convs)
qed

end
