(* ===== verification/Spec2Isabelle.thy ===== *)
theory Spec2Isabelle
  imports Pipeline BuildFaults TunnelRuns NewResource Grouping Kustomize QuiesceHistory EndpointContract TransportProps RcloneProps IndirectProps
begin

text \<open>
  \<^bold>\<open>A verification library of crane-lib\<close>, the Go library behind the migration tool crane: it
  transforms exported Kubernetes resources by plugins, converts OpenShift build configurations,
  and moves the data of persistent volume claims from one cluster to another.

  This theory only joins the others. The sections below say which theory models which file under
  \<open>src/\<close>, what the lemmas show, and what is left out.

  \<^bold>\<open>The program and its parts\<close>

  \<^item> \<^bold>\<open>Transforming.\<close> The runner (\<open>transform/runner.go\<close>) sends an object through every plugin, collects
    their JSON patches and white-outs, resolves conflicts by the priority of the plugins, and
    answers with one transform file. The built-in plugin (\<open>transform/kubernetes\<close>) decides which
    objects are left out of a migration and removes from the others what belongs to the old
    cluster. Other plugins are processes that talk JSON (\<open>transform/cli\<close>, \<open>transform/binary-plugin\<close>).
    The applier (\<open>apply/applier.go\<close>) applies a transform file to the object it was made for;
    \<open>transform/grouping.go\<close> and \<open>transform/kustomize\<close> write resources and patches as files.
  \<^item> \<^bold>\<open>Converting.\<close> \<open>convert/buildconfigs.go\<close> turns each \<open>BuildConfig\<close> of a namespace into a \<open>Build\<close>
    of Shipwright, with a service account for its pull secret, and writes both as files.
  \<^item> \<^bold>\<open>Moving data.\<close> \<open>state_transfer/quiesce.go\<close> scales a namespace down and up. A transfer
    (\<open>transfer/rsync\<close>, \<open>rclone\<close>, \<open>blockrsync\<close>) starts a server in the destination cluster and
    clients in the source cluster; the clients reach the server through a transport
    (\<open>transport/stunnel\<close> or \<open>null\<close>) and an endpoint (\<open>endpoint/service\<close>, \<open>ingress\<close>, \<open>route\<close>).
    \<open>transfer/indirect\<close> goes through cloud storage in place of a server.
  \<^item> \<^bold>\<open>Connecting.\<close> \<open>connect/tunnel_api\<close> sets up an OpenVPN tunnel between two clusters.

  The parts meet in the theories \<open>Pipeline\<close> (runner, built-in plugin and applier),
  \<open>RsyncServerProps\<close>, \<open>BlockrsyncProps\<close> and \<open>RcloneProps\<close> (client and server of a transfer),
  \<open>EndpointContract\<close> (a transfer on any kind of endpoint) and \<open>TunnelRuns\<close> (both ends of a tunnel).

  \<^bold>\<open>How the program is modelled\<close>

  \<^bold>\<open>Values.\<close> A struct is a \<open>record\<close> of the fields the program reads or writes, under a prefix where
  two structs share a field name; a pointer that may be nil is an \<open>option\<close>; \<open>int32\<close> is a
  \<open>32 word\<close>; a string is the list of its bytes; a map is an \<open>fmap\<close>, and a loop over a map takes the
  order of iteration as an argument, of which nothing is known but that it enumerates the map.
  Maps and slices that are nil are the empty ones where the program cannot tell.

  \<^bold>\<open>Errors.\<close> A call returns \<open>goerror + 'a\<close> (\<open>'a ret\<close>). Code that can also panic returns
  \<open>fault + 'a\<close> (\<open>'a result\<close>), where a fault is an error or a panic: nil pointers, indices out of
  range and failed type assertions are branches of the model. Texts of errors are kept where the
  program or a caller looks at them and shortened elsewhere.

  \<^bold>\<open>Effects.\<close> Code that talks to a cluster or a disk is an action (\<open>Effects\<close>): a function from the
  outside state \<open>'s\<close> to a result and the state it leaves, so what was done before an error stays
  done. The state belongs to the parameters: the program never looks at it.

  \<^bold>\<open>Parameters.\<close> Third-party code is an argument of the definitions that use it. Theorems name
  the documented behaviour they rely on as laws, and each law is shown to hold of a concrete
  instance:
  \<^item> \<open>kube_lib\<close> (\<open>KubeLib\<close>): the accessors of \<open>unstructured\<close>, decoding into typed structs, the decoding
    and the application of JSON patches; instance \<open>ref_lib\<close> in \<open>RefLib\<close>. Its patches mean what
    RFC 6901 and RFC 6902 say, written down in \<open>Json\<close>.
  \<^item> The clients of the clusters: records of list, get, create, update and delete actions. What is
    assumed of them is that a store keeps what is put into it (\<open>serves_cluster\<close>, \<open>tunnel_store\<close>,
    and the laws of each transfer), or, where errors matter, only that they do nothing else
    (\<open>faulty_cluster\<close>); instances are stores in memory.
  \<^item> YAML and JSON printing and reading, the file system, clocks, random strings, MD5, RSA keys,
    certificates, PEM and Diffie-Hellman parameters, the validation of names and labels.

  \<^bold>\<open>Loops and bounds.\<close> A loop over a slice is a structural recursion or a fold. The splitter of YAML
  documents, the walk over the runes of a string and the forty polls of the tunnel
  (\<open>awaitIngress\<close>, measure \<open>40 - i\<close>) are \<open>function\<close>s with a termination proof. The JSON readers of
  \<open>JsonText\<close> and \<open>StringMaps\<close>, which stand for third-party code, take twice the number of tokens as fuel:
  every text the theorems print is shown to be read back within it. The loop that waits for pods (\<open>awaitPods\<close>) has no bound in the code: it is a \<open>partial_function\<close>, not
  returning is \<open>None\<close>, and it is proved to return as soon as a pause leaves no pod that blocks.
  A history of interrupted runs (\<open>QuiesceHistory\<close>) is an \<open>inductive\<close> relation with an invariant.

  \<^bold>\<open>The theories\<close>

  \<^bold>\<open>Foundations.\<close>
  \<^item> \<open>Prelude\<close>, \<open>Effects\<close>: errors, panics, map iteration, actions, and the collections \<open>result_simps\<close>,
    \<open>str_simps\<close> and \<open>act_simps\<close>.
  \<^item> \<open>GoStrings\<close>, \<open>GoConv\<close>, \<open>GoPaths\<close>: the parts of \<open>strings\<close>, \<open>bytes\<close>, \<open>strconv\<close> and
    \<open>path/filepath\<close> the program calls; cleaned paths are read back as their parts.
  \<^item> \<open>Json\<close>, \<open>JsonText\<close>, \<open>JsonEdit\<close>, \<open>PatchText\<close>, \<open>StringMaps\<close>: JSON values, pointers and patches,
    patches as text, batches of replacements, maps of strings as JSON.
  \<^item> \<open>KubeLib\<close>, \<open>RefLib\<close>, \<open>KubeObjects\<close>: third-party data, functions and laws.
  \<^item> \<open>Ranking\<close>: the choice of a best candidate by a loop (locale \<open>ranking\<close>).

  \<^bold>\<open>Transforming.\<close>
  \<^item> \<open>JsonPatchCompare\<close>: \<open>transform/internal/jsonpatch\<close>; the comparison of patches is a matching
    of operations (locale \<open>partial_equiv\<close>).
  \<^item> \<open>PluginApi\<close>, \<open>PluginProcess\<close>: \<open>transform/plugin.go\<close>, \<open>errors\<close>, \<open>cli\<close>, \<open>binary-plugin\<close>; a plugin run
    as a process answers as the plugin does.
  \<^item> \<open>Runner\<close>: \<open>transform/runner.go\<close>; a white-out wins, of conflicting operations the one of the
    best plugin stays, errors of plugins are returned (locale \<open>whiteout_plugin\<close>, interpreted on the
    built-in plugin and the example plugins).
  \<^item> \<open>TransformUtil\<close>: \<open>transform/util\<close>; renaming claims and images renames exactly those.
  \<^item> \<open>Whiteout\<close>, \<open>KubeTransform\<close>, \<open>KubeProps\<close>, \<open>KubeWorkloads\<close>: \<open>transform/kubernetes\<close>; what is left
    out, and what each patch does to the object, measured with the meaning of JSON patches.
  \<^item> \<open>ResourceTypes\<close>, \<open>NewResource\<close>, \<open>Grouping\<close>, \<open>Kustomize\<close>: \<open>transform/types.go\<close>, \<open>types\<close>,
    \<open>apigroups\<close>, \<open>new_resource.go\<close>, \<open>grouping.go\<close>, \<open>kustomize\<close>; splitting and writing loses nothing.
  \<^item> \<open>Applier\<close>, \<open>Pipeline\<close>: \<open>apply/applier.go\<close>, the example plugins, and the way of one object through
    all of it.

  \<^bold>\<open>Converting.\<close>
  \<^item> \<open>Builds\<close>, \<open>BuildConvert\<close>: the data and every step of \<open>convert\<close>.
  \<^item> \<open>BuildSpec\<close>, \<open>BuildSteps\<close>: what a build must be, field by field, and the refinement proof that the
    steps arrive there.
  \<^item> \<open>BuildProps\<close>, \<open>BuildFaults\<close>: the run over a namespace, its files and its first error; that every
    build is well typed; what the conversion loses.

  \<^bold>\<open>Moving data.\<close>
  \<^item> \<open>Quiesce\<close>, \<open>QuiesceProps\<close>, \<open>QuiesceHistory\<close>: \<open>quiesce.go\<close>; down and up again restores a namespace
    (locale \<open>quiescing\<close>, interpreted on the loop bodies of all kinds), also after interrupted runs
    (locales \<open>reentrant\<close> and \<open>requiescing\<close>); the wait ends.
  \<^item> \<open>Claims\<close>, \<open>ClaimProps\<close>: \<open>transfer/pvc.go\<close> and \<open>pvc_list.go\<close>, lists of claims and their partitions.
  \<^item> \<open>Mutations\<close>: \<open>state_transfer/meta\<close>, and the application of mutations.
  \<^item> \<open>Endpoints\<close>, \<open>EndpointProps\<close>, \<open>EndpointContract\<close>: the three endpoints, the bounds of their names,
    and the contract they share (locale \<open>endpoint_kind\<close>): what was created is found again.
  \<^item> \<open>Transports\<close>, \<open>TransportProps\<close>: the stunnel and null transports.
  \<^item> \<open>Transfers\<close>, \<open>RsyncOptions\<close>, \<open>RsyncOptionProps\<close>, \<open>Rsync\<close>, \<open>RsyncProps\<close>, \<open>RsyncServerProps\<close>: what
    transfers share, and the rsync transfer; every claim has its pod, and client and server agree
    on port, user, password and module.
  \<^item> \<open>Blockrsync\<close>, \<open>BlockrsyncProps\<close>, \<open>Rclone\<close>, \<open>RcloneProps\<close>: the same for block volumes and rclone.
  \<^item> \<open>Indirect\<close>, \<open>IndirectProps\<close>: upload, download and cleanup; the cleanup removes exactly what was
    created for the claim.

  \<^bold>\<open>Connecting.\<close>
  \<^item> \<open>Tunnel\<close>, \<open>TunnelProps\<close>, \<open>TunnelRuns\<close>: the run that sets up both ends; they meet at one address and
    port, share an authority, and every volume they mount exists.

  \<^bold>\<open>Not modelled\<close>

  \<^item> Log messages, messages on standard output and the links to feature requests of \<open>convert\<close>
    (\<open>rfe.go\<close>): they have no effect on a result.
  \<^item> \<open>PluginError.Error\<close> (the JSON print of an error), the declarations of Go interfaces, and accessors
    that return a field: the record field is the accessor.
  \<^item> Registering schemes and building clients: one parameter, or a list of answers.
  \<^item> The parsing of constant templates: the text they render is the definition.
  \<^item> The resources of containers and other parts of objects the program passes on unread.
  \<^item> Concurrent writers: a cluster changes by the program's calls and, in a wait, by the parameter
    that stands for the pause.
  \<^item> Third-party packages and vendored code, tests, and the generated parts of the repository.
\<close>

end
